(* ===== verification/Prelude.thy ===== *)
theory Prelude
  imports Main "HOL-Library.Word" "HOL-Library.Char_ord" "HOL-Library.List_Lexorder"
begin

text \<open>
  Shared vocabulary of the development: the collections of facts the component proofs use,
  the error values of the program and the way Go joins and tests them, result types, and the
  generic lemmas on lists and options that more than one component needs.
\<close>

named_theorems go_str \<open>equations of the string functions\<close>
named_theorems go_err \<open>equations of the error functions\<close>

section \<open>Error values\<close>

text \<open>
  A Go error of this program is a tree of joined errors, of which the code only ever asks
  \<open>errors.Is\<close>. It is modelled by the list of its leaves: the sentinel variables the packages
  declare, and \<open>ErrForeign\<close> for an error that comes from outside (the operating system, a
  third-party package, the standard library), with its message.
\<close>

datatype (plugins only: code size) sentinel =
    ErrPlayerNotFound | ErrRegistration | ErrUnregistration   \<comment> \<open>state/server.go\<close>
  | errNoServersFound                                         \<comment> \<open>state/manager.go\<close>
  | errBlackBox                                               \<comment> \<open>state/blackbox.go\<close>
  | ErrNoMatch | ErrParseTimestamp | ErrDuration              \<comment> \<open>tf/events/parser.go\<close>
  | ErrDumpQuery                                              \<comment> \<open>tf/rcon/fetcher.go\<close>
  | errRCON                                                   \<comment> \<open>tf/rcon/rcon.go\<close>
  | ErrOpen | ErrSetup | ErrClose | ErrConfig                 \<comment> \<open>tf/console/console.go\<close>
  | ErrCacheMiss | errCacheSet | errCacheDir                  \<comment> \<open>cache/cache.go\<close>
  | errConfigWrite | errConfigRead | errLoggerInit            \<comment> \<open>config/config.go\<close>
  | ErrFetchMetaProfile                                       \<comment> \<open>meta/meta_profiles.go\<close>
  | ErrDecodeJSON                                             \<comment> \<open>network/encoding/json.go\<close>
  | ErrInvalidIP | ErrLookup                                  \<comment> \<open>network/geoip/geoip.go\<close>
  | errAddressInvalid | errFilePath | errSteamIDInvalid
  | errInvalidURL | errConfigValue                            \<comment> \<open>ui/text_input.go\<close>
  | ErrDBConnect | ErrMigrate                                 \<comment> \<open>store/store.go\<close>
  | ErrSyntax | ErrRange                                      \<comment> \<open>package strconv\<close>
  | ErrForeign string

type_synonym go_error = "sentinel list"
type_synonym 'a result = "go_error + 'a"

definition errors_Join :: "go_error \<Rightarrow> go_error \<Rightarrow> go_error" where
  "errors_Join a b = a @ b"

definition errors_Is :: "go_error \<Rightarrow> sentinel \<Rightarrow> bool" where
  "errors_Is e s \<longleftrightarrow> s \<in> set e"

lemma errors_Is_Join [simp, go_err]:
  "errors_Is (errors_Join a b) s \<longleftrightarrow> errors_Is a s \<or> errors_Is b s"
  by (simp add: errors_Is_def errors_Join_def)

lemma errors_Is_single [simp, go_err]: "errors_Is [t] s \<longleftrightarrow> s = t"
  by (auto simp: errors_Is_def)

text \<open>Go's \<open>panic\<close> (a slice bound, an index, a nil map) ends the goroutine: a computation that
  may panic returns \<open>Panic\<close> or \<open>Ok\<close> with its value.\<close>

datatype 'a outcome = Panic | Ok 'a

fun outcome_bind :: "'a outcome \<Rightarrow> ('a \<Rightarrow> 'b outcome) \<Rightarrow> 'b outcome" where
  "outcome_bind Panic f = Panic"
| "outcome_bind (Ok a) f = f a"

lemma outcome_bind_Ok_iff:
  "outcome_bind m f = Ok b \<longleftrightarrow> (\<exists>a. m = Ok a \<and> f a = Ok b)"
  by (cases m) auto

lemma outcome_bind_assoc:
  "outcome_bind (outcome_bind m f) g = outcome_bind m (\<lambda>x. outcome_bind (f x) g)"
  by (cases m) auto

lemma guarded_Panic: "(if c then Panic else Ok x) = Panic \<longleftrightarrow> c"
  by simp

lemma guarded_Ok: "(if c then Panic else Ok x) = Ok y \<longleftrightarrow> \<not> c \<and> x = y"
  by simp

text \<open>An index expression: out of range, below or above, it panics.\<close>

definition index_at :: "'a list \<Rightarrow> int \<Rightarrow> 'a outcome" where
  "index_at xs i = (if 0 \<le> i \<and> i < int (length xs) then Ok (xs ! nat i) else Panic)"

lemma index_at_Ok: "0 \<le> i \<Longrightarrow> i < int (length xs) \<Longrightarrow> index_at xs i = Ok (xs ! nat i)"
  by (simp add: index_at_def)

section \<open>Invariants of step relations\<close>

text \<open>What the steps of a component keep holds in all the states its runs reach.\<close>

locale step_invariant =
  fixes step :: "'s \<Rightarrow> 's \<Rightarrow> bool" and inv :: "'s \<Rightarrow> bool"
  assumes step_inv: "step s s' \<Longrightarrow> inv s \<Longrightarrow> inv s'"
begin

lemma runs_inv: "step\<^sup>*\<^sup>* s s' \<Longrightarrow> inv s \<Longrightarrow> inv s'"
  by (induction rule: rtranclp_induct) (auto intro: step_inv)

end

section \<open>Lists\<close>

text \<open>The first element that satisfies a test, as a \<open>for\<close> loop with an early return finds it.\<close>

primrec first_such :: "('a \<Rightarrow> bool) \<Rightarrow> 'a list \<Rightarrow> 'a option" where
  "first_such P [] = None"
| "first_such P (x # xs) = (if P x then Some x else first_such P xs)"

lemma first_such_None_iff: "first_such P xs = None \<longleftrightarrow> (\<forall>x \<in> set xs. \<not> P x)"
  by (induction xs) auto

lemma first_such_SomeD: "first_such P xs = Some x \<Longrightarrow> x \<in> set xs \<and> P x"
  by (induction xs) (auto split: if_splits)

lemma first_such_append:
  "first_such P (xs @ ys) = (case first_such P xs of None \<Rightarrow> first_such P ys | Some x \<Rightarrow> Some x)"
  by (induction xs) auto

lemma first_such_cong:
  "xs = ys \<Longrightarrow> (\<And>x. x \<in> set ys \<Longrightarrow> P x = Q x) \<Longrightarrow> first_such P xs = first_such Q ys"
  by (induction ys arbitrary: xs) auto

lemma first_such_filter: "first_such P xs = (case filter P xs of [] \<Rightarrow> None | x # _ \<Rightarrow> Some x)"
  by (induction xs) auto

text \<open>The index at which such a loop stops.\<close>

primrec first_index :: "('a \<Rightarrow> bool) \<Rightarrow> 'a list \<Rightarrow> nat option" where
  "first_index P [] = None"
| "first_index P (x # xs) = (if P x then Some 0 else map_option Suc (first_index P xs))"

lemma first_index_SomeD:
  "first_index P xs = Some i \<Longrightarrow> i < length xs \<and> P (xs ! i) \<and> (\<forall>j < i. \<not> P (xs ! j))"
proof (induction xs arbitrary: i)
  case (Cons x xs)
  then show ?case by (cases i) (auto split: if_splits simp: less_Suc_eq_0_disj)
qed simp

lemma first_index_None_iff: "first_index P xs = None \<longleftrightarrow> (\<forall>x \<in> set xs. \<not> P x)"
  by (induction xs) auto

lemma upt_split_at: "a \<le> k \<Longrightarrow> k < m \<Longrightarrow> [a..<m] = [a..<k] @ k # [Suc k..<m]"
  using upt_add_eq_append [of a k "m - k"] by (simp add: upt_conv_Cons)

lemma pairwise_distinct_filter:
  "distinct (map f xs) \<Longrightarrow> distinct (map f (filter P xs))"
  by (induction xs) auto

end
