(* ===== verification/Go_Strings.thy ===== *)
theory Go_Strings
  imports Prelude
begin

text \<open>
  The functions of Go's package strings that the program calls. A Go string is a sequence of
  bytes, so it is a \<open>string\<close> here (a \<open>char\<close> is a byte); functions that work on runes are
  written on the UTF-8 encoding.
\<close>

section \<open>Prefixes and substrings\<close>

definition HasPrefix :: "string \<Rightarrow> string \<Rightarrow> bool" where
  "HasPrefix s p \<longleftrightarrow> take (length p) s = p"

definition CutPrefix :: "string \<Rightarrow> string \<Rightarrow> string \<times> bool" where
  "CutPrefix s p = (if HasPrefix s p then (drop (length p) s, True) else (s, False))"

definition TrimPrefix :: "string \<Rightarrow> string \<Rightarrow> string" where
  "TrimPrefix s p = fst (CutPrefix s p)"

lemma HasPrefix_iff: "HasPrefix s p \<longleftrightarrow> (\<exists>t. s = p @ t)"
  by (metis HasPrefix_def append_eq_conv_conj append_take_drop_id)

lemma HasPrefix_append [simp]: "HasPrefix (p @ t) p"
  by (simp add: HasPrefix_def)

lemma HasPrefix_Nil [simp]: "HasPrefix s []"
  by (simp add: HasPrefix_def)

lemma HasPrefix_Cons [simp]:
  "HasPrefix s (c # p) \<longleftrightarrow> (case s of [] \<Rightarrow> False | d # t \<Rightarrow> d = c \<and> HasPrefix t p)"
  by (cases s) (auto simp: HasPrefix_def)

lemma CutPrefix_append [simp]: "CutPrefix (p @ t) p = (t, True)"
  by (simp add: CutPrefix_def)

lemma CutPrefix_miss: "\<not> HasPrefix s p \<Longrightarrow> CutPrefix s p = (s, False)"
  by (simp add: CutPrefix_def)

text \<open>\<open>strings.Index\<close>: the offset of the first occurrence, here \<open>None\<close> for \<open>-1\<close>.\<close>

fun Index :: "string \<Rightarrow> string \<Rightarrow> nat option" where
  "Index s sub =
     (if HasPrefix s sub then Some 0
      else (case s of [] \<Rightarrow> None | _ # t \<Rightarrow> map_option Suc (Index t sub)))"

declare Index.simps [simp del]

definition Contains :: "string \<Rightarrow> string \<Rightarrow> bool" where
  "Contains s sub \<longleftrightarrow> Index s sub \<noteq> None"

lemma Index_SomeD:
  "Index s sub = Some i \<Longrightarrow>
     i + length sub \<le> length s \<and> take (length sub) (drop i s) = sub \<and>
     (\<forall>j < i. \<not> HasPrefix (drop j s) sub)"
proof (induction s arbitrary: i)
  case Nil
  then show ?case by (auto simp: Index.simps [of "[]"] HasPrefix_def split: if_splits)
next
  case (Cons c s)
  show ?case
  proof (cases "HasPrefix (c # s) sub")
    case True
    with Cons.prems have "i = 0" by (simp add: Index.simps [of "c # s"])
    moreover from True obtain t where "c # s = sub @ t" by (auto simp: HasPrefix_iff)
    then have "length (c # s) = length (sub @ t)" by (rule arg_cong)
    ultimately show ?thesis using True by (simp add: HasPrefix_def)
  next
    case False
    with Cons.prems obtain k where k: "Index s sub = Some k" "i = Suc k"
      by (auto simp: Index.simps [of "c # s"])
    with Cons.IH [OF k(1)] False show ?thesis
      by (auto simp: less_Suc_eq_0_disj)
  qed
qed

lemma Index_None_iff: "Index s sub = None \<longleftrightarrow> (\<forall>j < Suc (length s). \<not> HasPrefix (drop j s) sub)"
proof (induction s)
  case Nil
  then show ?case by (simp add: Index.simps [of "[]"])
next
  case (Cons c s)
  then show ?case by (simp add: Index.simps [of "c # s"] All_less_Suc2 del: HasPrefix_Cons)
qed

lemma Contains_iff: "Contains s sub \<longleftrightarrow> (\<exists>a b. s = a @ sub @ b)"
proof
  assume "Contains s sub"
  then obtain i where "Index s sub = Some i" by (auto simp: Contains_def)
  then have "take (length sub) (drop i s) = sub" by (auto dest: Index_SomeD)
  then have "s = take i s @ sub @ drop (length sub) (drop i s)"
    by (metis append_take_drop_id)
  then show "\<exists>a b. s = a @ sub @ b" by blast
next
  assume "\<exists>a b. s = a @ sub @ b"
  then obtain a b where "s = a @ sub @ b" by blast
  then have "HasPrefix (drop (length a) s) sub" "length a < Suc (length s)" by auto
  then show "Contains s sub" unfolding Contains_def Index_None_iff by auto
qed

section \<open>Splitting and joining\<close>

text \<open>\<open>strings.Split\<close> with a one-byte separator.\<close>

primrec Split :: "char \<Rightarrow> string \<Rightarrow> string list" where
  "Split c [] = [[]]"
| "Split c (x # xs) =
     (if x = c then [] # Split c xs
      else (case Split c xs of [] \<Rightarrow> [[x]] | p # ps \<Rightarrow> (x # p) # ps))"

text \<open>\<open>strings.Join\<close>.\<close>

fun Join :: "string \<Rightarrow> string list \<Rightarrow> string" where
  "Join sep [] = []"
| "Join sep [p] = p"
| "Join sep (p # q # ps) = p @ sep @ Join sep (q # ps)"

text \<open>\<open>strings.SplitN(s, sep, 2)\<close>.\<close>

definition SplitN2 :: "string \<Rightarrow> string \<Rightarrow> string list" where
  "SplitN2 s sep =
     (case Index s sep of
        None \<Rightarrow> [s]
      | Some i \<Rightarrow> [take i s, drop (i + length sep) s])"

lemma Split_not_Nil [simp]: "Split c s \<noteq> []"
  by (induction s) (auto split: list.splits)

lemma Split_no_sep: "p \<in> set (Split c s) \<Longrightarrow> c \<notin> set p"
proof (induction s arbitrary: p)
  case (Cons x s)
  then show ?case by (cases "Split c s") (auto split: if_splits)
qed simp

lemma Split_single: "c \<notin> set s \<Longrightarrow> Split c s = [s]"
  by (induction s) auto

lemma Split_append_sep: "c \<notin> set p \<Longrightarrow> Split c (p @ c # s) = p # Split c s"
  by (induction p) auto

lemma Join_Split: "Join [c] (Split c s) = s"
proof (induction s)
  case (Cons x xs)
  obtain p ps where ps: "Split c xs = p # ps" by (cases "Split c xs") auto
  show ?case
  proof (cases "x = c")
    case True
    with Cons ps show ?thesis by simp
  next
    case False
    with Cons ps show ?thesis by (cases ps) auto
  qed
qed simp

lemma Split_Join:
  "ps \<noteq> [] \<Longrightarrow> (\<And>p. p \<in> set ps \<Longrightarrow> c \<notin> set p) \<Longrightarrow> Split c (Join [c] ps) = ps"
  by (induction "[c]" ps rule: Join.induct) (simp_all add: Split_single Split_append_sep)

lemma length_Split: "length (Split c s) = Suc (count_list s c)"
  by (induction s) (auto split: list.splits)

section \<open>Lines\<close>

text \<open>\<open>strings.Lines\<close>: every line with its newline; the last one without when the text does
  not end in one; nothing for the empty text.\<close>

definition nl :: char where
  "nl = CHR 0x0A"

fun Lines :: "string \<Rightarrow> string list" where
  "Lines [] = []"
| "Lines (c # s) =
     (if c = nl then [c] # Lines s
      else (case Lines s of
              [] \<Rightarrow> [[c]]
            | l # ls \<Rightarrow> (c # l) # ls))"

lemma concat_Lines [simp]: "concat (Lines s) = s"
  by (induction s) (auto split: list.splits)

lemma Lines_not_empty: "l \<in> set (Lines s) \<Longrightarrow> l \<noteq> []"
  by (induction s arbitrary: l) (auto split: list.splits if_splits)

lemma Lines_append_line: "nl \<notin> set l \<Longrightarrow> Lines (l @ nl # s) = (l @ [nl]) # Lines s"
  by (induction l) auto

lemma Lines_last_line: "nl \<notin> set l \<Longrightarrow> l \<noteq> [] \<Longrightarrow> Lines l = [l]"
proof (induction l)
  case (Cons c l)
  then show ?case by (cases l) auto
qed simp

section \<open>Trimming\<close>

text \<open>The UTF-8 encodings of the runes for which \<open>unicode.IsSpace\<close> holds.\<close>

definition space_seqs :: "string list" where
  "space_seqs =
     [[CHR 0x09], [CHR 0x0A], [CHR 0x0B], [CHR 0x0C], [CHR 0x0D], [CHR 0x20],
      [CHR 0xC2, CHR 0x85], [CHR 0xC2, CHR 0xA0], [CHR 0xE1, CHR 0x9A, CHR 0x80],
      [CHR 0xE2, CHR 0x80, CHR 0x80], [CHR 0xE2, CHR 0x80, CHR 0x81],
      [CHR 0xE2, CHR 0x80, CHR 0x82], [CHR 0xE2, CHR 0x80, CHR 0x83],
      [CHR 0xE2, CHR 0x80, CHR 0x84], [CHR 0xE2, CHR 0x80, CHR 0x85],
      [CHR 0xE2, CHR 0x80, CHR 0x86], [CHR 0xE2, CHR 0x80, CHR 0x87],
      [CHR 0xE2, CHR 0x80, CHR 0x88], [CHR 0xE2, CHR 0x80, CHR 0x89],
      [CHR 0xE2, CHR 0x80, CHR 0x8A], [CHR 0xE2, CHR 0x80, CHR 0xA8],
      [CHR 0xE2, CHR 0x80, CHR 0xA9], [CHR 0xE2, CHR 0x80, CHR 0xAF],
      [CHR 0xE2, CHR 0x81, CHR 0x9F], [CHR 0xE3, CHR 0x80, CHR 0x80]]"

text \<open>Remove sequences of the list from the front as long as one of them is there.\<close>

function trim_lead :: "string list \<Rightarrow> string \<Rightarrow> string" where
  "trim_lead ps s =
     (case first_such (\<lambda>p. p \<noteq> [] \<and> HasPrefix s p) ps of
        None \<Rightarrow> s
      | Some p \<Rightarrow> trim_lead ps (drop (length p) s))"
  by pat_completeness auto
termination
  by (relation "measure (\<lambda>(ps, s). length s)")
     (auto dest!: first_such_SomeD simp: HasPrefix_iff)

declare trim_lead.simps [simp del]

definition TrimSpace :: "string \<Rightarrow> string" where
  "TrimSpace s = rev (trim_lead (map rev space_seqs) (rev (trim_lead space_seqs s)))"

text \<open>\<open>strings.TrimRight\<close> and \<open>strings.Trim\<close> with a one-byte cutset.\<close>

definition TrimRight :: "string \<Rightarrow> char \<Rightarrow> string" where
  "TrimRight s c = rev (dropWhile (\<lambda>x. x = c) (rev s))"

definition Trim :: "string \<Rightarrow> char \<Rightarrow> string" where
  "Trim s c = TrimRight (dropWhile (\<lambda>x. x = c) s) c"

text \<open>\<open>strings.ReplaceAll(s, c, "")\<close> for one byte.\<close>

definition RemoveAll :: "char \<Rightarrow> string \<Rightarrow> string" where
  "RemoveAll c s = filter (\<lambda>x. x \<noteq> c) s"

lemma trim_lead_suffix: "\<exists>a. s = a @ trim_lead ps s"
proof (induction ps s rule: trim_lead.induct)
  case (1 ps s)
  show ?case
  proof (cases "first_such (\<lambda>p. p \<noteq> [] \<and> HasPrefix s p) ps")
    case None
    then show ?thesis by (simp add: trim_lead.simps [of ps s])
  next
    case (Some p)
    with 1 obtain a where a: "drop (length p) s = a @ trim_lead ps (drop (length p) s)"
      by blast
    have "s = take (length p) s @ a @ trim_lead ps (drop (length p) s)"
      using a by (metis append_take_drop_id)
    with Some show ?thesis by (subst trim_lead.simps) (auto intro: exI [of _ "take (length p) s @ a"])
  qed
qed

lemma trim_lead_idem: "trim_lead ps (trim_lead ps s) = trim_lead ps s"
proof (induction ps s rule: trim_lead.induct)
  case (1 ps s)
  then show ?case
    by (cases "first_such (\<lambda>p. p \<noteq> [] \<and> HasPrefix s p) ps") (auto simp: trim_lead.simps [of ps s])
qed

lemma trim_lead_Nil [simp]: "trim_lead ps [] = []"
  using trim_lead_suffix [of "[]" ps] by simp

lemma trim_lead_fix:
  "(\<And>p. p \<in> set ps \<Longrightarrow> p = [] \<or> \<not> HasPrefix s p) \<Longrightarrow> trim_lead ps s = s"
proof -
  assume "\<And>p. p \<in> set ps \<Longrightarrow> p = [] \<or> \<not> HasPrefix s p"
  then have "first_such (\<lambda>p. p \<noteq> [] \<and> HasPrefix s p) ps = None"
    by (auto simp: first_such_None_iff)
  then show ?thesis by (simp add: trim_lead.simps [of ps s])
qed

text \<open>A trimmed string is a substring of the original.\<close>

lemma TrimSpace_substring: "\<exists>a b. s = a @ TrimSpace s @ b"
proof -
  obtain a where a: "s = a @ trim_lead space_seqs s" using trim_lead_suffix by blast
  obtain b where "rev (trim_lead space_seqs s) = b @ rev (TrimSpace s)"
    using trim_lead_suffix [of "rev (trim_lead space_seqs s)"] by (auto simp: TrimSpace_def)
  then have "trim_lead space_seqs s = TrimSpace s @ rev b"
    by (metis rev_append rev_rev_ident)
  with a show ?thesis by metis
qed

text \<open>Bytes below \<open>0x80\<close> other than the six blanks begin and end no white-space rune.\<close>

definition graph_ascii :: "char \<Rightarrow> bool" where
  "graph_ascii c \<longleftrightarrow> 0x20 < (of_char c :: nat) \<and> (of_char c :: nat) < 0x80"

lemma TrimSpace_id:
  assumes "s = [] \<or> graph_ascii (hd s) \<and> graph_ascii (last s)"
  shows "TrimSpace s = s"
proof (cases "s = []")
  case True
  then show ?thesis by (simp add: TrimSpace_def)
next
  case False
  with assms have h: "graph_ascii (hd s)" "graph_ascii (last s)" by auto
  have "trim_lead space_seqs s = s"
    using False h by (intro trim_lead_fix) (cases s; auto simp: space_seqs_def graph_ascii_def)
  moreover have "trim_lead (map rev space_seqs) (rev s) = rev s"
    using False h by (intro trim_lead_fix)
      (cases s rule: rev_cases; auto simp: space_seqs_def graph_ascii_def)
  ultimately show ?thesis by (simp add: TrimSpace_def)
qed

lemma TrimRight_id: "s = [] \<or> last s \<noteq> c \<Longrightarrow> TrimRight s c = s"
  by (cases s rule: rev_cases) (auto simp: TrimRight_def)

lemma TrimRight_snoc [simp]: "TrimRight (s @ [c]) c = TrimRight s c"
  by (simp add: TrimRight_def)

text \<open>Padding around a text whose first and last bytes are visible ASCII is trimmed off.\<close>

definition blank :: "char \<Rightarrow> bool" where
  "blank c \<longleftrightarrow> c = CHR '' '' \<or> c = nl"

lemma trim_lead_hit:
  "first_such (\<lambda>p. p \<noteq> [] \<and> HasPrefix s p) ps = Some p \<Longrightarrow>
     trim_lead ps s = trim_lead ps (drop (length p) s)"
  by (simp add: trim_lead.simps [of ps s])

lemma trim_lead_blank:
  assumes "blank c"
  shows "trim_lead space_seqs (c # s) = trim_lead space_seqs s"
    and "trim_lead (map rev space_seqs) (c # s) = trim_lead (map rev space_seqs) s"
proof -
  have "first_such (\<lambda>p. p \<noteq> [] \<and> HasPrefix (c # s) p) space_seqs = Some [c]"
    "first_such (\<lambda>p. p \<noteq> [] \<and> HasPrefix (c # s) p) (map rev space_seqs) = Some [c]"
    using assms unfolding blank_def nl_def by (elim disjE; simp add: space_seqs_def)+
  then show "trim_lead space_seqs (c # s) = trim_lead space_seqs s"
    "trim_lead (map rev space_seqs) (c # s) = trim_lead (map rev space_seqs) s"
    by (simp_all add: trim_lead_hit)
qed

lemma RemoveAll_absent: "c \<notin> set s \<Longrightarrow> RemoveAll c s = s"
  by (auto simp: RemoveAll_def filter_id_conv)

lemma RemoveAll_append [simp]: "RemoveAll c (s @ t) = RemoveAll c s @ RemoveAll c t"
  by (simp add: RemoveAll_def)

lemma RemoveAll_Cons [simp]: "RemoveAll c (x # s) = (if x = c then RemoveAll c s else x # RemoveAll c s)"
  by (simp add: RemoveAll_def)

lemma RemoveAll_Nil [simp]: "RemoveAll c [] = []"
  by (simp add: RemoveAll_def)

lemma Split4:
  "c \<notin> set a \<Longrightarrow> c \<notin> set b \<Longrightarrow> c \<notin> set d \<Longrightarrow> c \<notin> set e \<Longrightarrow>
     Split c (a @ c # b @ c # d @ c # e) = [a, b, d, e]"
  by (simp add: Split_append_sep Split_single)

lemma trim_lead_blanks:
  "list_all blank a \<Longrightarrow> trim_lead space_seqs (a @ s) = trim_lead space_seqs s"
  "list_all blank a \<Longrightarrow> trim_lead (map rev space_seqs) (a @ s) = trim_lead (map rev space_seqs) s"
  by (induction a) (auto simp: trim_lead_blank)

lemma trim_lead_graph:
  "graph_ascii c \<Longrightarrow> trim_lead space_seqs (c # s) = c # s"
  "graph_ascii c \<Longrightarrow> trim_lead (map rev space_seqs) (c # s) = c # s"
  by (rule trim_lead_fix, auto simp: space_seqs_def graph_ascii_def)+

definition clean :: "string \<Rightarrow> bool" where
  "clean s \<longleftrightarrow> s = [] \<or> graph_ascii (hd s) \<and> graph_ascii (last s)"

lemma TrimSpace_pad:
  assumes "clean s" "list_all blank a" "list_all blank b"
  shows "TrimSpace (a @ s @ b) = s"
proof (cases "s = []")
  case True
  have "trim_lead space_seqs (a @ b) = []"
    using assms trim_lead_blanks(1) [of "a @ b" "[]"] by simp
  with True show ?thesis by (simp add: TrimSpace_def)
next
  case False
  with assms(1) have g: "graph_ascii (hd s)" "graph_ascii (last s)" by (auto simp: clean_def)
  have "trim_lead space_seqs (a @ s @ b) = s @ b"
    using False g(1) by (cases s) (auto simp: trim_lead_blanks assms trim_lead_graph)
  moreover have "trim_lead (map rev space_seqs) (rev b @ rev s) = rev s"
    using False g(2) assms(3)
    by (cases s rule: rev_cases) (auto simp: trim_lead_blanks trim_lead_graph)
  ultimately show ?thesis by (simp add: TrimSpace_def)
qed

lemma TrimSpace_pad1: "clean s \<Longrightarrow> blank c \<Longrightarrow> TrimSpace (c # s) = s"
  using TrimSpace_pad [of s "[c]" "[]"] by simp

lemma TrimSpace_between:
  "clean s \<Longrightarrow> blank a \<Longrightarrow> blank b \<Longrightarrow> TrimSpace (a # s @ [b]) = s"
  "clean s \<Longrightarrow> blank b \<Longrightarrow> TrimSpace (s @ [b]) = s"
  using TrimSpace_pad [of s "[a]" "[b]"] TrimSpace_pad [of s "[]" "[b]"] by simp_all

lemma TrimSpace_clean: "clean s \<Longrightarrow> TrimSpace s = s"
  using TrimSpace_pad [of s "[]" "[]"] by simp

lemma HasPrefix_word:
  assumes "HasPrefix (f @ c # s) k" "c \<notin> set k"
  shows "HasPrefix f k"
proof -
  from assms(1) obtain r where r: "f @ c # s = k @ r" by (auto simp: HasPrefix_iff)
  then consider v where "f = k @ v" | v where "k = f @ c # v"
    by (auto simp: append_eq_append_conv2 Cons_eq_append_conv)
  then show ?thesis using assms(2) by cases (auto simp: HasPrefix_iff)
qed

end
