(* ===== verification/Go_Strconv.thy ===== *)
theory Go_Strconv
  imports Go_Strings
begin

text \<open>
  The functions of Go's package strconv that the program calls, in base 10. A parse error is
  \<open>None\<close>: no caller looks at more than whether the error is nil. The values are integers with
  the bounds of the bit size written out.
\<close>

definition is_digit :: "char \<Rightarrow> bool" where
  "is_digit c \<longleftrightarrow> 48 \<le> (of_char c :: int) \<and> (of_char c :: int) \<le> 57"

definition digit_val :: "char \<Rightarrow> int" where
  "digit_val c = of_char c - 48"

definition digits_val :: "string \<Rightarrow> int" where
  "digits_val s = foldl (\<lambda>n c. n * 10 + digit_val c) 0 s"

definition ParseUint :: "nat \<Rightarrow> string \<Rightarrow> int option" where
  "ParseUint bits s =
     (if s \<noteq> [] \<and> list_all is_digit s \<and> digits_val s < 2 ^ bits then Some (digits_val s) else None)"

definition ParseInt :: "nat \<Rightarrow> string \<Rightarrow> int option" where
  "ParseInt bits s =
     (let neg = HasPrefix s ''-'';
          ds = (if neg \<or> HasPrefix s ''+'' then drop 1 s else s)
      in case ParseUint bits ds of
           None \<Rightarrow> None
         | Some un \<Rightarrow>
             if \<not> neg \<and> un \<ge> 2 ^ (bits - 1) then None
             else if neg \<and> un > 2 ^ (bits - 1) then None
             else Some (if neg then - un else un))"

definition ParseBool :: "string \<Rightarrow> bool option" where
  "ParseBool s =
     (if s \<in> {''1'', ''t'', ''T'', ''TRUE'', ''true'', ''True''} then Some True
      else if s \<in> {''0'', ''f'', ''F'', ''FALSE'', ''false'', ''False''} then Some False
      else None)"

text \<open>The decimal digits of a number, read as 0 when negative.\<close>

function show_pos :: "int \<Rightarrow> string" where
  "show_pos n =
     (if n < 10 then [char_of (48 + max 0 n)] else show_pos (n div 10) @ [char_of (48 + n mod 10)])"
  by pat_completeness auto
termination
  by (relation "measure nat") auto

declare show_pos.simps [simp del]

definition Itoa :: "int \<Rightarrow> string" where
  "Itoa z = (if z < 0 then ''-'' @ show_pos (- z) else show_pos z)"

section \<open>Bounds\<close>

lemma digit_val_bounds: "is_digit c \<Longrightarrow> 0 \<le> digit_val c \<and> digit_val c \<le> 9"
  by (auto simp: is_digit_def digit_val_def)

lemma digits_val_snoc: "digits_val (s @ [c]) = digits_val s * 10 + digit_val c"
  by (simp add: digits_val_def)

lemma digits_val_bound:
  "list_all is_digit s \<Longrightarrow> 0 \<le> digits_val s \<and> digits_val s < 10 ^ length s"
proof (induction s rule: rev_induct)
  case Nil
  then show ?case by (simp add: digits_val_def)
next
  case (snoc c s)
  then have "0 \<le> digits_val s" "digits_val s < 10 ^ length s" "0 \<le> digit_val c" "digit_val c \<le> 9"
    by (auto dest: digit_val_bounds)
  then show ?case by (simp add: digits_val_snoc)
qed

lemma ParseUint_bounds: "ParseUint bits s = Some n \<Longrightarrow> 0 \<le> n \<and> n < 2 ^ bits"
  using digits_val_bound [of s] by (auto simp: ParseUint_def split: if_splits)

lemma ParseInt_bounds:
  assumes "ParseInt bits s = Some z"
  shows "- (2 ^ (bits - 1)) \<le> z \<and> z < 2 ^ (bits - 1)"
proof -
  have p: "(0::int) < 2 ^ (bits - 1)" by simp
  from assms obtain ds un where un: "ParseUint bits ds = Some un"
      "un < 2 ^ (bits - 1) \<and> z = un \<or> un \<le> 2 ^ (bits - 1) \<and> z = - un"
    by (auto simp: ParseInt_def Let_def split: option.splits if_splits)
  from ParseUint_bounds [OF un(1)] have "0 \<le> un" by simp
  with un(2) p show ?thesis by linarith
qed

lemma digit_not_sign: "is_digit c \<Longrightarrow> c \<noteq> CHR ''-'' \<and> c \<noteq> CHR ''+''"
  by (auto simp: is_digit_def)

lemma digits_no_sign:
  assumes "list_all is_digit s" "s \<noteq> []"
  shows "\<not> HasPrefix s ''-''" "\<not> HasPrefix s ''+''"
  using assms by (cases s; auto dest: digit_not_sign)+

text \<open>A run of digits below the bound parses; in particular the error branches after a bounded
  \<open>\d{1,k}\<close> are dead.\<close>

lemma ParseInt_digits:
  assumes "s \<noteq> []" "list_all is_digit s" "digits_val s < 2 ^ (bits - 1)"
  shows "ParseInt bits s = Some (digits_val s)"
proof -
  have "(2::int) ^ (bits - 1) \<le> 2 ^ bits" by (simp add: power_increasing)
  with assms(3) have "digits_val s < 2 ^ bits" by linarith
  with assms digits_no_sign [OF assms(2,1)] show ?thesis
    by (simp add: ParseInt_def ParseUint_def Let_def del: HasPrefix_Cons)
qed

lemma ParseInt_short_digits:
  assumes "s \<noteq> []" "list_all is_digit s" "length s \<le> k" "(10::int) ^ k \<le> 2 ^ (bits - 1)"
  shows "ParseInt bits s = Some (digits_val s)"
proof (rule ParseInt_digits [OF assms(1,2)])
  have "(10::int) ^ length s \<le> 10 ^ k" using assms(3) by (simp add: power_increasing)
  with digits_val_bound [OF assms(2)] assms(4) show "digits_val s < 2 ^ (bits - 1)" by linarith
qed

section \<open>Printing and parsing back\<close>

lemma digit_char:
  "0 \<le> d \<Longrightarrow> d < 10 \<Longrightarrow> is_digit (char_of (48 + d)) \<and> digit_val (char_of (48 + d)) = d"
  by (simp add: is_digit_def digit_val_def)

lemma show_pos_not_Nil [simp]: "show_pos n \<noteq> []"
  by (subst show_pos.simps) simp

lemma show_pos_digits: "list_all is_digit (show_pos n)"
proof (induction n rule: show_pos.induct)
  case (1 n)
  show ?case
  proof (cases "n < 10")
    case True
    then show ?thesis using digit_char [of "max 0 n"] by (subst show_pos.simps) simp
  next
    case False
    with 1 digit_char [of "n mod 10"] show ?thesis by (subst show_pos.simps) simp
  qed
qed

lemma digits_val_show_pos: "0 \<le> n \<Longrightarrow> digits_val (show_pos n) = n"
proof (induction n rule: show_pos.induct)
  case (1 n)
  show ?case
  proof (cases "n < 10")
    case True
    with 1 show ?thesis
      using digit_char [of n] by (subst show_pos.simps) (simp add: digits_val_def)
  next
    case False
    with 1 digit_char [of "n mod 10"] show ?thesis
      by (subst show_pos.simps) (simp add: digits_val_snoc)
  qed
qed

lemma ParseInt_Itoa:
  assumes "0 < bits" "- (2 ^ (bits - 1)) \<le> z" "z < 2 ^ (bits - 1)"
  shows "ParseInt bits (Itoa z) = Some z"
proof (cases "z < 0")
  case True
  have "(0::int) < 2 ^ (bits - 1)" "(2::int) ^ bits = 2 * 2 ^ (bits - 1)"
    using assms(1) by (simp, cases bits, auto)
  with True assms(2) have "- z < 2 ^ bits" by linarith
  with True assms(2) show ?thesis
    by (simp add: ParseInt_def ParseUint_def Itoa_def Let_def show_pos_digits digits_val_show_pos)
next
  case False
  with assms(3) show ?thesis
    by (simp add: Itoa_def ParseInt_digits show_pos_digits digits_val_show_pos)
qed

lemma Itoa_chars: "c \<in> set (Itoa z) \<Longrightarrow> is_digit c \<or> c = CHR ''-''"
  using show_pos_digits by (auto simp: Itoa_def list_all_iff split: if_splits)

lemma Itoa_not_Nil [simp]: "Itoa z \<noteq> []"
  by (simp add: Itoa_def)

lemma Itoa_inject [simp]: "Itoa y = Itoa z \<longleftrightarrow> y = z"
proof
  have nm: "show_pos n \<noteq> CHR ''-'' # t" for n t
    using digits_no_sign(1) [OF show_pos_digits [of n]] by (cases "show_pos n") auto
  have inj: "0 \<le> m \<Longrightarrow> 0 \<le> n \<Longrightarrow> show_pos m = show_pos n \<Longrightarrow> m = n" for m n
    by (metis digits_val_show_pos)
  assume "Itoa y = Itoa z"
  then show "y = z"
    using nm inj [of "- y" "- z"] inj [of y z] by (auto simp: Itoa_def nm [symmetric] split: if_splits)
qed simp

lemma length_show_pos: "n < 10 ^ Suc k \<Longrightarrow> length (show_pos n) \<le> Suc k"
proof (induction k arbitrary: n)
  case 0
  then show ?case by (subst show_pos.simps) simp
next
  case (Suc k)
  then have "n div 10 < 10 ^ Suc k" by (simp add: div_less_iff_less_mult)
  with Suc.IH show ?case by (subst show_pos.simps) simp
qed

end
