(* ===== verification/Go_Regexp.thy ===== *)
theory Go_Regexp
  imports Go_Strconv
begin

text \<open>
  The part of Go's package regexp that the program uses. Every pattern of the program is built
  from literals, bounded or unbounded repetitions of one character class (greedy or lazy),
  sequences, alternatives, optional parts, numbered groups and the anchors \<open>^\<close> and \<open>$\<close>
  (begin and end of the text, since no pattern sets the multi-line flag).

  \<open>FindStringSubmatch\<close> returns the leftmost match and, among the matches that start there, the
  one a backtracking engine finds first. The matcher below lists the results of a pattern in
  that order of preference. It works on bytes; \<open>.\<close> occurs in the patterns only under a
  repetition, so cutting a text between bytes or between runes gives the same captures around
  the ASCII literals of the patterns. The one exception is the single \<open>.\<close> after
  \<open>Differing lobby received\<close>, which takes one byte here and one rune in Go: a line that ends with
  one multi-byte rune right after these words matches here and not there.
\<close>

section \<open>Patterns and the matcher\<close>

datatype (plugins only: code size) char_class = Any | Digit | Space | OneOf string

fun class_matches :: "char_class \<Rightarrow> char \<Rightarrow> bool" where
  "class_matches Any c \<longleftrightarrow> c \<noteq> nl"
| "class_matches Digit c \<longleftrightarrow> is_digit c"
| "class_matches Space c \<longleftrightarrow> c \<in> {CHR 0x09, CHR 0x0A, CHR 0x0C, CHR 0x0D, CHR 0x20}"
| "class_matches (OneOf cs) c \<longleftrightarrow> c \<in> set cs"

datatype (plugins only: code size) regexp =
    REmpty
  | RStr string
  | RRep bool nat "nat option" char_class   \<comment> \<open>greedy?, least and greatest number, class\<close>
  | RSeq regexp regexp
  | RAlt regexp regexp
  | RGrp nat regexp
  | RBol
  | REol

text \<open>A state of the matcher: bytes consumed, the remaining text, the captures (last first).\<close>

type_synonym captures = "(nat \<times> string) list"
type_synonym rx_state = "nat \<times> string \<times> captures"

definition run_length :: "char_class \<Rightarrow> string \<Rightarrow> nat" where
  "run_length c s = length (takeWhile (class_matches c) s)"

definition rep_counts :: "bool \<Rightarrow> nat \<Rightarrow> nat option \<Rightarrow> nat \<Rightarrow> nat list" where
  "rep_counts greedy lo hi k =
     (let m = (case hi of None \<Rightarrow> k | Some h \<Rightarrow> min h k)
      in if greedy then rev [lo..<Suc m] else [lo..<Suc m])"

primrec rx_run :: "regexp \<Rightarrow> rx_state \<Rightarrow> rx_state list" where
  "rx_run REmpty st = [st]"
| "rx_run (RStr l) st =
     (case st of (n, s, cs) \<Rightarrow>
        if HasPrefix s l then [(n + length l, drop (length l) s, cs)] else [])"
| "rx_run (RRep greedy lo hi c) st =
     (case st of (n, s, cs) \<Rightarrow>
        map (\<lambda>i. (n + i, drop i s, cs)) (rep_counts greedy lo hi (run_length c s)))"
| "rx_run (RSeq a b) st = concat (map (rx_run b) (rx_run a st))"
| "rx_run (RAlt a b) st = rx_run a st @ rx_run b st"
| "rx_run (RGrp i r) st =
     (case st of (n, s, cs) \<Rightarrow>
        map (\<lambda>(n', s', cs'). (n', s', (i, take (n' - n) s) # cs')) (rx_run r (n, s, cs)))"
| "rx_run RBol st = (if fst st = 0 then [st] else [])"
| "rx_run REol st = (if fst (snd st) = [] then [st] else [])"

text \<open>The leftmost match: the text from where it starts, and the final state.\<close>

fun rx_search :: "regexp \<Rightarrow> nat \<Rightarrow> string \<Rightarrow> (nat \<times> string \<times> rx_state) option" where
  "rx_search r n s =
     (case rx_run r (n, s, []) of
        st # _ \<Rightarrow> Some (n, s, st)
      | [] \<Rightarrow> (case s of [] \<Rightarrow> None | _ # t \<Rightarrow> rx_search r (Suc n) t))"

declare rx_search.simps [simp del]

primrec rx_groups :: "regexp \<Rightarrow> nat" where
  "rx_groups REmpty = 0"
| "rx_groups (RStr l) = 0"
| "rx_groups (RRep g lo hi c) = 0"
| "rx_groups (RSeq a b) = max (rx_groups a) (rx_groups b)"
| "rx_groups (RAlt a b) = max (rx_groups a) (rx_groups b)"
| "rx_groups (RGrp i r) = max i (rx_groups r)"
| "rx_groups RBol = 0"
| "rx_groups REol = 0"

definition capture :: "captures \<Rightarrow> nat \<Rightarrow> string" where
  "capture cs i = (case map_of cs i of None \<Rightarrow> [] | Some t \<Rightarrow> t)"

text \<open>\<open>None\<close> is Go's nil slice (no match); otherwise the whole match and the groups in order,
  a group that took no part being the empty string.\<close>

definition FindStringSubmatch :: "regexp \<Rightarrow> string \<Rightarrow> string list option" where
  "FindStringSubmatch r s =
     (case rx_search r 0 s of
        None \<Rightarrow> None
      | Some (n, t, (n', t', cs)) \<Rightarrow>
          Some (take (n' - n) t # map (capture cs) [1..<Suc (rx_groups r)]))"

text \<open>Abbreviations for the pieces of the patterns.\<close>

abbreviation "lazy1 \<equiv> RRep False 1 None Any"      \<comment> \<open>\<open>.+?\<close>\<close>
abbreviation "greedy1 \<equiv> RRep True 1 None Any"      \<comment> \<open>\<open>.+\<close>\<close>
abbreviation "spaces1 \<equiv> RRep True 1 None Space"    \<comment> \<open>\<open>\s+\<close>\<close>
abbreviation "space1 \<equiv> RRep True 1 (Some 1) Space" \<comment> \<open>\<open>\s\<close>\<close>
abbreviation "spaces_n n \<equiv> RRep True n (Some n) Space"
abbreviation "digits1 \<equiv> RRep True 1 None Digit"    \<comment> \<open>\<open>\d+\<close>\<close>
abbreviation "digits_n n \<equiv> RRep True n (Some n) Digit"
abbreviation "digits_mn m n \<equiv> RRep True m (Some n) Digit"
abbreviation "one_of cs \<equiv> RRep True 1 (Some 1) (OneOf cs)"
abbreviation "ropt r \<equiv> RAlt r REmpty"              \<comment> \<open>\<open>(?:r)?\<close>\<close>

primrec rseq :: "regexp list \<Rightarrow> regexp" where
  "rseq [] = REmpty"
| "rseq (r # rs) = RSeq r (rseq rs)"

section \<open>What a match has consumed\<close>

definition rep_lang :: "nat \<Rightarrow> nat option \<Rightarrow> char_class \<Rightarrow> string set" where
  "rep_lang lo hi c =
     {u. lo \<le> length u \<and> (\<forall>h. hi = Some h \<longrightarrow> length u \<le> h) \<and> list_all (class_matches c) u}"

primrec rx_lang :: "regexp \<Rightarrow> string set" where
  "rx_lang REmpty = {[]}"
| "rx_lang (RStr l) = {l}"
| "rx_lang (RRep g lo hi c) = rep_lang lo hi c"
| "rx_lang (RSeq a b) = {u @ v |u v. u \<in> rx_lang a \<and> v \<in> rx_lang b}"
| "rx_lang (RAlt a b) = rx_lang a \<union> rx_lang b"
| "rx_lang (RGrp i r) = rx_lang r"
| "rx_lang RBol = {[]}"
| "rx_lang REol = {[]}"

lemma rep_counts_set:
  "i \<in> set (rep_counts g lo hi k) \<longleftrightarrow> lo \<le> i \<and> i \<le> k \<and> (\<forall>h. hi = Some h \<longrightarrow> i \<le> h)"
  by (auto simp: rep_counts_def Let_def split: option.splits)

lemma run_length_le: "run_length c s \<le> length s"
  by (simp add: run_length_def length_takeWhile_le)

lemma run_length_take:
  "i \<le> run_length c s \<Longrightarrow> list_all (class_matches c) (take i s) \<and> length (take i s) = i"
  using run_length_le [of c s] takeWhile_eq_take [of "class_matches c" s]
  by (auto simp: run_length_def list_all_iff dest: set_takeWhileD)
     (metis in_set_takeD min.absorb1 set_takeWhileD take_take)

lemma rx_run_sound:
  "(n', s', cs') \<in> set (rx_run r (n, s, cs)) \<Longrightarrow>
     \<exists>u. s = u @ s' \<and> n' = n + length u \<and> u \<in> rx_lang r"
proof (induction r arbitrary: n s cs n' s' cs')
  case (RStr l)
  then show ?case by (auto split: if_splits simp: HasPrefix_iff)
next
  case (RRep g lo hi c)
  then obtain i where i: "lo \<le> i" "i \<le> run_length c s" "\<forall>h. hi = Some h \<longrightarrow> i \<le> h"
    "n' = n + i" "s' = drop i s" by (auto simp: rep_counts_set)
  with run_length_take [OF i(2)] show ?case
    by (intro exI [of _ "take i s"]) (auto simp: rep_lang_def)
next
  case (RSeq a b)
  from RSeq.prems obtain n1 s1 cs1 where
    1: "(n1, s1, cs1) \<in> set (rx_run a (n, s, cs))" "(n', s', cs') \<in> set (rx_run b (n1, s1, cs1))"
    by auto
  from RSeq.IH(1) [OF 1(1)] RSeq.IH(2) [OF 1(2)] show ?case
    by (force intro: exI [of _ "_ @ _"])
next
  case (RAlt a b)
  then show ?case by fastforce
next
  case (RGrp i r)
  then show ?case by fastforce
qed (auto split: if_splits)

lemma rx_search_SomeD:
  "rx_search r n s = Some (m, t, st) \<Longrightarrow>
     st \<in> set (rx_run r (m, t, [])) \<and> (\<exists>a. s = a @ t \<and> m = n + length a)"
proof (induction s arbitrary: n)
  case Nil
  then show ?case by (auto simp: rx_search.simps [of r n "[]"] split: list.splits)
next
  case (Cons c s)
  show ?case
  proof (cases "rx_run r (n, c # s, [])")
    case Nil
    with Cons.prems have "rx_search r (Suc n) s = Some (m, t, st)"
      by (simp add: rx_search.simps [of r n "c # s"])
    from Cons.IH [OF this] show ?thesis by (auto intro: exI [of _ "c # _"])
  next
    case (Cons st' sts)
    with Cons.prems show ?thesis by (auto simp: rx_search.simps [of r n "c # s"])
  qed
qed

lemma rx_search_None_iff:
  "rx_search r n s = None \<longleftrightarrow> (\<forall>j < Suc (length s). rx_run r (n + j, drop j s, []) = [])"
proof (induction s arbitrary: n)
  case Nil
  then show ?case by (auto simp: rx_search.simps [of r n "[]"] split: list.splits)
next
  case (Cons c s)
  then show ?case
    by (auto simp: rx_search.simps [of r n "c # s"] All_less_Suc2 split: list.splits)
qed

section \<open>What a group has captured\<close>

text \<open>The texts group \<open>i\<close> of a pattern can capture, and whether every match captures one.\<close>

primrec grp_lang :: "regexp \<Rightarrow> nat \<Rightarrow> string set" where
  "grp_lang REmpty i = {}"
| "grp_lang (RStr l) i = {}"
| "grp_lang (RRep g lo hi c) i = {}"
| "grp_lang (RSeq a b) i = grp_lang a i \<union> grp_lang b i"
| "grp_lang (RAlt a b) i = grp_lang a i \<union> grp_lang b i"
| "grp_lang (RGrp j r) i = (if i = j then rx_lang r else {}) \<union> grp_lang r i"
| "grp_lang RBol i = {}"
| "grp_lang REol i = {}"

primrec grp_must :: "regexp \<Rightarrow> nat \<Rightarrow> bool" where
  "grp_must REmpty i \<longleftrightarrow> False"
| "grp_must (RStr l) i \<longleftrightarrow> False"
| "grp_must (RRep g lo hi c) i \<longleftrightarrow> False"
| "grp_must (RSeq a b) i \<longleftrightarrow> grp_must a i \<or> grp_must b i"
| "grp_must (RAlt a b) i \<longleftrightarrow> grp_must a i \<and> grp_must b i"
| "grp_must (RGrp j r) i \<longleftrightarrow> i = j \<or> grp_must r i"
| "grp_must RBol i \<longleftrightarrow> False"
| "grp_must REol i \<longleftrightarrow> False"

lemma rx_run_capture:
  "(n', s', cs') \<in> set (rx_run r (n, s, cs)) \<Longrightarrow> map_of cs' i = Some t \<Longrightarrow>
     t \<in> grp_lang r i \<or> map_of cs i = Some t"
proof (induction r arbitrary: n s cs n' s' cs')
  case (RSeq a b)
  then show ?case by fastforce
next
  case (RAlt a b)
  then show ?case by fastforce
next
  case (RGrp j r)
  from RGrp.prems obtain cs1 where
    1: "(n', s', cs1) \<in> set (rx_run r (n, s, cs))" "cs' = (j, take (n' - n) s) # cs1" by auto
  from rx_run_sound [OF 1(1)] have "take (n' - n) s \<in> rx_lang r" by auto
  with RGrp.IH [OF 1(1)] RGrp.prems(2) 1(2) show ?case by (auto split: if_splits)
qed (auto split: if_splits)

lemma rx_run_captures_mono:
  "(n', s', cs') \<in> set (rx_run r (n, s, cs)) \<Longrightarrow> map_of cs i \<noteq> None \<Longrightarrow> map_of cs' i \<noteq> None"
  by (induction r arbitrary: n s cs n' s' cs') (fastforce split: if_splits)+

lemma rx_run_captured:
  "(n', s', cs') \<in> set (rx_run r (n, s, cs)) \<Longrightarrow> grp_must r i \<Longrightarrow> map_of cs' i \<noteq> None"
proof (induction r arbitrary: n s cs n' s' cs')
  case (RSeq a b)
  then show ?case by (fastforce dest: rx_run_captures_mono)
qed fastforce+

theorem FindStringSubmatch_group:
  assumes "FindStringSubmatch r s = Some ms" "grp_must r i" "1 \<le> i" "i \<le> rx_groups r"
  shows "ms ! i \<in> grp_lang r i"
proof -
  from assms(1) obtain n t n' t' cs where
    m: "rx_search r 0 s = Some (n, t, (n', t', cs))"
       "ms = take (n' - n) t # map (capture cs) [1..<Suc (rx_groups r)]"
    by (auto simp: FindStringSubmatch_def split: option.splits)
  from rx_search_SomeD [OF m(1)] have st: "(n', t', cs) \<in> set (rx_run r (n, t, []))" by blast
  from rx_run_captured [OF st assms(2)] obtain u where u: "map_of cs i = Some u" by auto
  with rx_run_capture [OF st u] have "capture cs i \<in> grp_lang r i" by (simp add: capture_def)
  moreover have "ms ! i = capture cs i"
    using assms(3,4) m(2) by (cases i) (auto simp del: upt_Suc)
  ultimately show ?thesis by simp
qed

lemma FindStringSubmatch_length:
  "FindStringSubmatch r s = Some ms \<Longrightarrow> length ms = Suc (rx_groups r)"
  by (auto simp: FindStringSubmatch_def split: option.splits)

section \<open>Literals a match must contain\<close>

primrec rx_needs :: "regexp \<Rightarrow> string \<Rightarrow> bool" where
  "rx_needs REmpty l \<longleftrightarrow> False"
| "rx_needs (RStr l') l \<longleftrightarrow> Contains l' l"
| "rx_needs (RRep g lo hi c) l \<longleftrightarrow> False"
| "rx_needs (RSeq a b) l \<longleftrightarrow> rx_needs a l \<or> rx_needs b l"
| "rx_needs (RAlt a b) l \<longleftrightarrow> rx_needs a l \<and> rx_needs b l"
| "rx_needs (RGrp i r) l \<longleftrightarrow> rx_needs r l"
| "rx_needs RBol l \<longleftrightarrow> False"
| "rx_needs REol l \<longleftrightarrow> False"

lemma Contains_append: "Contains u l \<Longrightarrow> Contains (a @ u @ b) l"
  unfolding Contains_iff by (metis append.assoc)

lemma rx_lang_needs: "u \<in> rx_lang r \<Longrightarrow> rx_needs r l \<Longrightarrow> Contains u l"
proof (induction r arbitrary: u)
  case (RSeq a b)
  then obtain v w where u: "u = v @ w" "v \<in> rx_lang a" "w \<in> rx_lang b" by auto
  from RSeq.prems(2) have "Contains v l \<or> Contains w l"
    using RSeq.IH u by auto
  with u(1) show ?case
    using Contains_append [of v l "[]" w] Contains_append [of w l v "[]"] by auto
qed auto

lemma FindStringSubmatch_needs:
  assumes "FindStringSubmatch r s = Some ms" "rx_needs r l"
  shows "Contains s l"
proof -
  from assms(1) obtain n t n' t' cs where
    m: "rx_search r 0 s = Some (n, t, (n', t', cs))"
    by (auto simp: FindStringSubmatch_def split: option.splits)
  from rx_search_SomeD [OF m] obtain a where
    st: "(n', t', cs) \<in> set (rx_run r (n, t, []))" "s = a @ t" by blast
  from rx_run_sound [OF st(1)] obtain u where "t = u @ t'" "u \<in> rx_lang r" by blast
  with rx_lang_needs [OF _ assms(2)] st(2) show ?thesis by (auto intro: Contains_append)
qed

lemma FindStringSubmatch_lacks:
  "rx_needs r l \<Longrightarrow> \<not> Contains s l \<Longrightarrow> FindStringSubmatch r s = None"
  using FindStringSubmatch_needs by (cases "FindStringSubmatch r s") auto

section \<open>The preferred match\<close>

text \<open>\<open>rx_yields r st st'\<close>: the first result of \<open>r\<close> from \<open>st\<close> is \<open>st'\<close>. The rules below follow a
  match piece by piece: a piece that commits to its first choice, and a lazy group that grows
  until what follows it matches.\<close>

definition rx_yields :: "regexp \<Rightarrow> rx_state \<Rightarrow> rx_state \<Rightarrow> bool" where
  "rx_yields r st st' \<longleftrightarrow> (\<exists>sts. rx_run r st = st' # sts)"

lemma yields_empty: "rx_yields REmpty st st"
  by (simp add: rx_yields_def)

lemma yields_seq: "rx_yields a st st1 \<Longrightarrow> rx_yields b st1 st2 \<Longrightarrow> rx_yields (RSeq a b) st st2"
  by (auto simp: rx_yields_def)

lemma yields_str: "rx_yields (RStr l) (n, l @ s, cs) (n + length l, s, cs)"
  by (simp add: rx_yields_def)

lemma yields_bol: "rx_yields RBol (0, s, cs) (0, s, cs)"
  by (simp add: rx_yields_def)

lemma yields_eol: "rx_yields REol (n, [], cs) (n, [], cs)"
  by (simp add: rx_yields_def)

lemma yields_alt1: "rx_yields a st st' \<Longrightarrow> rx_yields (RAlt a b) st st'"
  by (auto simp: rx_yields_def)

lemma yields_alt2: "rx_run a st = [] \<Longrightarrow> rx_yields b st st' \<Longrightarrow> rx_yields (RAlt a b) st st'"
  by (auto simp: rx_yields_def)

lemma yields_grp:
  "rx_yields r (n, s, cs) (n', s', cs') \<Longrightarrow>
     rx_yields (RGrp i r) (n, s, cs) (n', s', (i, take (n' - n) s) # cs')"
  by (auto simp: rx_yields_def)

lemma run_length_append:
  "list_all (class_matches c) u \<Longrightarrow> run_length c (u @ s) = length u + run_length c s"
  by (simp add: run_length_def list_all_iff)

lemma run_length_stop: "s = [] \<or> \<not> class_matches c (hd s) \<Longrightarrow> run_length c s = 0"
  by (cases s) (auto simp: run_length_def)

text \<open>A greedy repetition takes the whole run of its class when the bounds allow it.\<close>

lemma yields_greedy_run:
  assumes "list_all (class_matches c) u" "s = [] \<or> \<not> class_matches c (hd s)"
    "lo \<le> length u" "\<forall>h. hi = Some h \<longrightarrow> length u \<le> h"
  shows "rx_yields (RRep True lo hi c) (n, u @ s, cs) (n + length u, s, cs)"
  using assms
  by (auto simp: rx_yields_def run_length_append run_length_stop rep_counts_def Let_def min_def
      split: option.splits)

lemma yields_group_run:
  assumes "list_all (class_matches c) u" "s = [] \<or> \<not> class_matches c (hd s)"
    "lo \<le> length u" "\<forall>h. hi = Some h \<longrightarrow> length u \<le> h"
  shows "rx_yields (RGrp i (RRep True lo hi c)) (n, u @ s, cs) (n + length u, s, (i, u) # cs)"
  using yields_grp [OF yields_greedy_run [OF assms], of i n cs] by simp

text \<open>A repetition of exactly \<open>k\<close> characters takes \<open>k\<close> characters.\<close>

lemma yields_exact:
  assumes "list_all (class_matches c) u"
  shows "rx_yields (RRep g (length u) (Some (length u)) c) (n, u @ s, cs) (n + length u, s, cs)"
  using assms by (auto simp: rx_yields_def run_length_append rep_counts_def Let_def min_def)

lemma yields_one:
  "class_matches c x \<Longrightarrow> rx_yields (RRep g 1 (Some 1) c) (n, x # s, cs) (Suc n, s, cs)"
  using yields_exact [of c "[x]" g n s cs] by simp

lemma concat_map_skip:
  "(\<And>y. y \<in> set ys \<Longrightarrow> f y = []) \<Longrightarrow> concat (map f (ys @ x # zs)) = f x @ concat (map f zs)"
  by (induction ys) auto

text \<open>A lazy group in front of \<open>b\<close> takes the shortest text after which \<open>b\<close> matches.\<close>

lemma yields_lazy_group:
  assumes "u \<noteq> []" "list_all (class_matches Any) u"
    and skip: "\<And>i. 1 \<le> i \<Longrightarrow> i < length u \<Longrightarrow>
      rx_run b (n + i, drop i (u @ s), (g, take i u) # cs) = []"
    and "rx_yields b (n + length u, s, (g, u) # cs) st'"
  shows "rx_yields (RSeq (RGrp g lazy1) b) (n, u @ s, cs) st'"
proof -
  let ?k = "length u" and ?K = "run_length Any (u @ s)"
  let ?st = "\<lambda>i. (n + i, drop i (u @ s), (g, take i (u @ s)) # cs)"
  have K: "?k \<le> ?K" using assms(2) by (simp add: run_length_append)
  have "[1..<Suc ?K] = [1..<?k] @ ?k # [Suc ?k..<Suc ?K]"
    using K assms(1) by (intro upt_split_at) (auto simp: Suc_le_eq)
  then have "rx_run (RSeq (RGrp g lazy1) b) (n, u @ s, cs) =
      concat (map (\<lambda>i. rx_run b (?st i)) ([1..<?k] @ ?k # [Suc ?k..<Suc ?K]))"
    by (simp add: rep_counts_def Let_def o_def del: upt_Suc)
  also have "\<dots> = rx_run b (?st ?k) @ concat (map (\<lambda>i. rx_run b (?st i)) [Suc ?k..<Suc ?K])"
    by (rule concat_map_skip) (use skip in auto)
  finally show ?thesis using assms(4) by (auto simp: rx_yields_def)
qed

text \<open>The same steps for the head of a sequence, with the match of the rest as first premise, so
  that a chain of these rules runs a pattern over a text written as a sum of its parts.\<close>

lemma yields_bol_seq: "rx_yields b (0, s, cs) st' \<Longrightarrow> rx_yields (RSeq RBol b) (0, s, cs) st'"
  by (rule yields_seq [OF yields_bol])

lemma yields_str_seq:
  "rx_yields b (n + length l, s, cs) st' \<Longrightarrow> rx_yields (RSeq (RStr l) b) (n, l @ s, cs) st'"
  by (rule yields_seq [OF yields_str])

lemma yields_one_seq:
  "rx_yields b (Suc n, s, cs) st' \<Longrightarrow> class_matches c x \<Longrightarrow>
     rx_yields (RSeq (RRep g 1 (Some 1) c) b) (n, [x] @ s, cs) st'"
  using yields_seq [OF yields_one] by simp

lemma yields_space_seq:
  "rx_yields b (Suc n, s, cs) st' \<Longrightarrow> rx_yields (RSeq space1 b) (n, CHR '' '' # s, cs) st'"
  using yields_one_seq [of b n s cs st' Space "CHR '' ''" True] by simp

lemma yields_exact_seq:
  "rx_yields b (n + length u, s, cs) st' \<Longrightarrow> k = length u \<Longrightarrow> list_all (class_matches c) u \<Longrightarrow>
     rx_yields (RSeq (RRep g k (Some k) c) b) (n, u @ s, cs) st'"
  using yields_seq [OF yields_exact] by simp

lemma yields_run_seq:
  "rx_yields b (n + length u, s, cs) st' \<Longrightarrow> list_all (class_matches c) u \<Longrightarrow>
     s = [] \<or> \<not> class_matches c (hd s) \<Longrightarrow> lo \<le> length u \<Longrightarrow> \<forall>h. hi = Some h \<longrightarrow> length u \<le> h \<Longrightarrow>
     rx_yields (RSeq (RRep True lo hi c) b) (n, u @ s, cs) st'"
  by (rule yields_seq [OF yields_greedy_run])

lemma yields_group_seq:
  "rx_yields b (n + length u, s, (i, u) # cs) st' \<Longrightarrow> list_all (class_matches c) u \<Longrightarrow>
     s = [] \<or> \<not> class_matches c (hd s) \<Longrightarrow> lo \<le> length u \<Longrightarrow> \<forall>h. hi = Some h \<longrightarrow> length u \<le> h \<Longrightarrow>
     rx_yields (RSeq (RGrp i (RRep True lo hi c)) b) (n, u @ s, cs) st'"
  by (rule yields_seq [OF yields_group_run])

lemma yields_opt_seq:
  "rx_yields (RSeq a b) st st' \<Longrightarrow> rx_yields (RSeq (ropt a) b) st st'"
  by (auto simp: rx_yields_def)

lemma yields_skip_seq:
  "rx_yields b st st' \<Longrightarrow> rx_run a st = [] \<Longrightarrow> rx_yields (RSeq (ropt a) b) st st'"
  by (auto simp: rx_yields_def)

text \<open>A lazy group in front of a literal stops at the first byte of the literal when that byte
  does not occur in it, and in front of \<open>$\<close> at the end of the text.\<close>

lemma yields_lazy_str_seq:
  assumes "rx_yields (RSeq (RStr (c # l)) b) (n + length u, s, (g, u) # cs) st'"
    "u \<noteq> []" "nl \<notin> set u" "c \<notin> set u"
  shows "rx_yields (RSeq (RGrp g lazy1) (RSeq (RStr (c # l)) b)) (n, u @ s, cs) st'"
proof (rule yields_lazy_group [OF assms(2) _ _ assms(1)])
  show "list_all (class_matches Any) u" using assms(3) by (auto simp: list_all_iff)
  fix i assume "1 \<le> i" "i < length u"
  then have "drop i (u @ s) = u ! i # drop (Suc i) (u @ s)" "u ! i \<in> set u"
    by (auto simp: Cons_nth_drop_Suc [symmetric])
  with assms(4) have "\<not> HasPrefix (drop i (u @ s)) (c # l)" by auto
  then show "rx_run (RSeq (RStr (c # l)) b) (n + i, drop i (u @ s), (g, take i u) # cs) = []"
    by simp
qed

lemma yields_lazy_end:
  assumes "u \<noteq> []" "nl \<notin> set u"
  shows "rx_yields (RSeq (RGrp g lazy1) (RSeq REol REmpty)) (n, u, cs) (n + length u, [], (g, u) # cs)"
proof -
  have "list_all (class_matches Any) u" using assms(2) by (auto simp: list_all_iff)
  then show ?thesis
    using yields_lazy_group [of u "RSeq REol REmpty" n "[]" g cs] assms(1)
    by (simp add: rx_yields_def)
qed

lemma yields_FindStringSubmatch:
  assumes "rx_yields r (0, s, []) (n', s', cs)"
  shows "FindStringSubmatch r s = Some (take n' s # map (capture cs) [1..<Suc (rx_groups r)])"
  using assms by (auto simp: FindStringSubmatch_def rx_yields_def rx_search.simps [of r 0 s])

text \<open>Where a piece fails.\<close>

lemma run_str_seq_Nil [simp]:
  "rx_run (RSeq (RStr l) b) (n, s, cs) = (if HasPrefix s l then rx_run b (n + length l, drop (length l) s, cs) else [])"
  by simp

lemma class_any_no_nl: "nl \<notin> set u \<Longrightarrow> list_all (class_matches Any) u"
  by (auto simp: list_all_iff)

lemma run_eol_Nil: "s \<noteq> [] \<Longrightarrow> rx_run REol (n, s, cs) = []"
  by simp

lemma run_seq_fail: "rx_run a st = [] \<Longrightarrow> rx_run (RSeq a b) st = []"
  by simp

lemma run_one_fail:
  "s = [] \<or> \<not> class_matches c (hd s) \<Longrightarrow> rx_run (RRep g 1 hi c) (n, s, cs) = []"
  by (cases hi) (auto simp: run_length_stop rep_counts_def Let_def)

text \<open>A lazy group in front of a word between spaces stops at the first such word, and a greedy group
  at the end of a line at the last place where the rest still matches.\<close>

lemma yields_lazy_word_seq:
  assumes "rx_yields (RSeq (RRep h 1 (Some 1) Space) (RSeq (RStr w) b)) (n + length u, CHR '' '' # s, (g, u) # cs) st'"
    "u \<noteq> []" "nl \<notin> set u" "w \<noteq> []" "CHR '' '' \<notin> set w" "\<not> Contains u w"
  shows "rx_yields (RSeq (RGrp g lazy1) (RSeq (RRep h 1 (Some 1) Space) (RSeq (RStr w) b)))
     (n, u @ CHR '' '' # s, cs) st'"
proof (rule yields_lazy_group [OF assms(2) class_any_no_nl [OF assms(3)] _ assms(1)])
  fix i assume i: "1 \<le> i" "i < length u"
  let ?t = "drop (Suc i) u"
  have "\<not> HasPrefix (?t @ CHR '' '' # s) w"
  proof
    assume "HasPrefix (?t @ CHR '' '' # s) w"
    then obtain r where r: "?t @ CHR '' '' # s = w @ r" by (auto simp: HasPrefix_iff)
    then consider v where "?t = w @ v" | v where "w = ?t @ CHR '' '' # v"
      by (auto simp: append_eq_append_conv2 Cons_eq_append_conv)
    then show False
    proof cases
      case 1
      then have "u = take (Suc i) u @ w @ v" by (metis append_take_drop_id)
      with assms(6) show False by (auto simp: Contains_iff)
    next
      case 2
      with assms(5) show False by auto
    qed
  qed
  with i show "rx_run (RSeq (RRep h 1 (Some 1) Space) (RSeq (RStr w) b))
      (n + i, drop i (u @ CHR '' '' # s), (g, take i u) # cs) = []"
    by (auto simp: rep_counts_def Let_def min_def)
qed

lemma yields_greedy_group:
  assumes "rx_yields b (n + length u, s, (g, u) # cs) st'"
    and skip: "\<And>i. length u < i \<Longrightarrow> i \<le> length (u @ s) \<Longrightarrow>
      rx_run b (n + i, drop i (u @ s), (g, take i (u @ s)) # cs) = []"
    and "u \<noteq> []" "nl \<notin> set (u @ s)"
  shows "rx_yields (RSeq (RGrp g greedy1) b) (n, u @ s, cs) st'"
proof -
  let ?k = "length u" and ?K = "length (u @ s)"
  let ?st = "\<lambda>i. (n + i, drop i (u @ s), (g, take i (u @ s)) # cs)"
  have K: "run_length Any (u @ s) = ?K"
    using run_length_append [OF class_any_no_nl [OF assms(4)], of "[]"] by (simp add: run_length_stop)
  have "[1..<Suc ?K] = [1..<?k] @ ?k # [Suc ?k..<Suc ?K]"
    using assms(3) by (intro upt_split_at) (auto simp: Suc_le_eq)
  then have "rev [1..<Suc ?K] = rev [Suc ?k..<Suc ?K] @ ?k # rev [1..<?k]" by simp
  then have "rx_run (RSeq (RGrp g greedy1) b) (n, u @ s, cs) =
      concat (map (\<lambda>i. rx_run b (?st i)) (rev [Suc ?k..<Suc ?K] @ ?k # rev [1..<?k]))"
    by (simp add: K rep_counts_def Let_def o_def del: upt_Suc length_append)
  also have "\<dots> = rx_run b (?st ?k) @ concat (map (\<lambda>i. rx_run b (?st i)) (rev [1..<?k]))"
  proof (rule concat_map_skip)
    fix y assume "y \<in> set (rev [Suc ?k..<Suc ?K])"
    then have "?k < y" "y \<le> ?K" by auto
    then show "rx_run b (?st y) = []" by (rule skip)
  qed
  finally show ?thesis using assms(1) by (auto simp: rx_yields_def)
qed

end
