(* ===== verification/Go_Slices.thy ===== *)
theory Go_Slices
  imports Prelude "HOL-Library.Multiset"
begin

text \<open>
  Go's \<open>slices.SortStableFunc\<close> with its comparison function, and \<open>cmp.Compare\<close>. The sort is
  the insertion step of Go's implementation: an element moves left while it compares less than
  its left neighbour. For a comparison function that is a total preorder every stable sort gives
  the same list (shown below: it is \<open>sort_key\<close>), so the merging Go adds for blocks of more than
  twenty elements does not show. For a comparison function that is none, the model is exact up to
  twenty elements.
\<close>

text \<open>The sorted part of the slice is kept in reverse, its last element first.\<close>

primrec sort_insert :: "('a \<Rightarrow> 'a \<Rightarrow> int) \<Rightarrow> 'a \<Rightarrow> 'a list \<Rightarrow> 'a list" where
  "sort_insert cmp x [] = [x]"
| "sort_insert cmp x (y # ys) = (if cmp x y < 0 then y # sort_insert cmp x ys else x # y # ys)"

definition SortStableFunc :: "('a \<Rightarrow> 'a \<Rightarrow> int) \<Rightarrow> 'a list \<Rightarrow> 'a list" where
  "SortStableFunc cmp xs = rev (fold (sort_insert cmp) xs [])"

definition cmp_Compare :: "'k::linorder \<Rightarrow> 'k \<Rightarrow> int" where
  "cmp_Compare a b = (if a < b then -1 else if a = b then 0 else 1)"

lemma mset_sort_insert: "mset (sort_insert cmp x ys) = add_mset x (mset ys)"
  by (induction ys) auto

lemma mset_SortStableFunc [simp]: "mset (SortStableFunc cmp xs) = mset xs"
proof -
  have "mset (fold (sort_insert cmp) xs ys) = mset xs + mset ys" for ys
    by (induction xs arbitrary: ys) (auto simp: mset_sort_insert)
  then show ?thesis by (simp add: SortStableFunc_def)
qed

lemma set_SortStableFunc [simp]: "set (SortStableFunc cmp xs) = set xs"
  by (metis mset_SortStableFunc set_mset_mset)

lemma length_SortStableFunc [simp]: "length (SortStableFunc cmp xs) = length xs"
  by (metis mset_SortStableFunc size_mset)

section \<open>The contract of a comparison function\<close>

locale comparison =
  fixes cmp :: "'a \<Rightarrow> 'a \<Rightarrow> int"
  assumes cmp_swap: "cmp x y < 0 \<longleftrightarrow> 0 < cmp y x"
    and cmp_trans: "cmp x y \<le> 0 \<Longrightarrow> cmp y z \<le> 0 \<Longrightarrow> cmp x z \<le> 0"
begin

lemma cmp_refl: "cmp x x = 0"
  using cmp_swap [of x x] by linarith

lemma cmp_total: "0 \<le> cmp x y \<longleftrightarrow> cmp y x \<le> 0"
  using cmp_swap [of x y] by linarith

lemma cmp_equiv_trans: "cmp x y = 0 \<Longrightarrow> cmp y z = 0 \<Longrightarrow> cmp x z = 0"
  using cmp_trans [of x y z] cmp_trans [of z y x] cmp_total by (metis order_antisym order_refl)

lemma set_sort_insert: "set (sort_insert cmp x ys) = insert x (set ys)"
  by (metis mset_sort_insert set_mset_add_mset_insert set_mset_mset)

lemma sort_insert_desc:
  "sorted_wrt (\<lambda>a b. cmp b a \<le> 0) ys \<Longrightarrow> sorted_wrt (\<lambda>a b. cmp b a \<le> 0) (sort_insert cmp x ys)"
proof (induction ys)
  case (Cons y ys)
  show ?case
  proof (cases "cmp x y < 0")
    case True
    with Cons show ?thesis by (auto simp: set_sort_insert)
  next
    case False
    then have "cmp y x \<le> 0" using cmp_total [of x y] by linarith
    with Cons.prems False show ?thesis by (auto intro: cmp_trans)
  qed
qed simp

theorem SortStableFunc_sorted: "sorted_wrt (\<lambda>a b. cmp a b \<le> 0) (SortStableFunc cmp xs)"
proof -
  have "sorted_wrt (\<lambda>a b. cmp b a \<le> 0) (fold (sort_insert cmp) xs ys)"
    if "sorted_wrt (\<lambda>a b. cmp b a \<le> 0) ys" for ys
    using that by (induction xs arbitrary: ys) (auto simp: sort_insert_desc)
  then show ?thesis by (simp add: SortStableFunc_def sorted_wrt_rev)
qed

lemma sort_insert_filter:
  "filter (\<lambda>a. cmp k a = 0) (sort_insert cmp x ys) =
     (if cmp k x = 0 then x # filter (\<lambda>a. cmp k a = 0) ys else filter (\<lambda>a. cmp k a = 0) ys)"
proof (induction ys)
  case (Cons y ys)
  have "cmp x y = 0" if "cmp k x = 0" "cmp k y = 0"
    using that cmp_equiv_trans [of x k y] cmp_total by (metis order_antisym order_refl)
  with Cons show ?case by auto
qed simp

theorem SortStableFunc_stable:
  "filter (\<lambda>a. cmp k a = 0) (SortStableFunc cmp xs) = filter (\<lambda>a. cmp k a = 0) xs"
proof -
  have "filter (\<lambda>a. cmp k a = 0) (fold (sort_insert cmp) xs ys) =
      rev (filter (\<lambda>a. cmp k a = 0) xs) @ filter (\<lambda>a. cmp k a = 0) ys" for ys
    by (induction xs arbitrary: ys) (auto simp: sort_insert_filter)
  then show ?thesis by (simp add: SortStableFunc_def rev_filter [symmetric])
qed

end

text \<open>Comparing two elements by a key in a linear order is such a comparison function, and the
  sort by it is the library's \<open>sort_key\<close>.\<close>

interpretation by_key: comparison "\<lambda>a b. cmp_Compare (f a) (f b)" for f :: "'a \<Rightarrow> 'k::linorder"
  by unfold_locales (auto simp: cmp_Compare_def split: if_splits)

lemma cmp_Compare_eq_0 [simp]: "cmp_Compare a b = 0 \<longleftrightarrow> a = b"
  by (auto simp: cmp_Compare_def)

lemma cmp_Compare_le_0 [simp]: "cmp_Compare a b \<le> 0 \<longleftrightarrow> a \<le> b"
  by (auto simp: cmp_Compare_def)

theorem SortStableFunc_sort_key:
  "SortStableFunc (\<lambda>a b. cmp_Compare (f a) (f b)) xs = sort_key f xs"
proof (rule properties_for_sort_key [symmetric])
  show "sorted (map f (SortStableFunc (\<lambda>a b. cmp_Compare (f a) (f b)) xs))"
    using by_key.SortStableFunc_sorted [of f xs] by (simp add: sorted_map)
  show "filter (\<lambda>a. f k = f a) (SortStableFunc (\<lambda>a b. cmp_Compare (f a) (f b)) xs) =
      filter (\<lambda>a. f k = f a) xs" for k
    using by_key.SortStableFunc_stable [of f k xs] by simp
qed simp

text \<open>Comparing with the arguments exchanged sorts in descending order.\<close>

interpretation by_key_desc: comparison "\<lambda>a b. cmp_Compare (f b) (f a)" for f :: "'a \<Rightarrow> 'k::linorder"
  by unfold_locales (auto simp: cmp_Compare_def split: if_splits)

end
