(* ===== verification/Steamid.thy ===== *)
theory Steamid
  imports Go_Strconv
begin

text \<open>
  The package github.com/leighmacdonald/steamid is not part of the repository. Its type of ids is
  the type variable \<open>'sid\<close> and its operations are the fields of a record that every definition
  using them takes as its first argument. What the program relies on is that \<open>Equal\<close> is an
  equivalence relation (\<open>steamid_laws\<close>), a hypothesis of the theorems that need it.
\<close>

record 'sid steamid_pkg =
  sid_zero :: 'sid                     \<comment> \<open>the zero value \<open>steamid.SteamID{}\<close>\<close>
  sid_New_string :: "string \<Rightarrow> 'sid"   \<comment> \<open>\<open>steamid.New\<close> on a string\<close>
  sid_New_int :: "int \<Rightarrow> 'sid"         \<comment> \<open>\<open>steamid.New\<close> on an integer\<close>
  sid_New_any :: "string \<Rightarrow> 'sid"      \<comment> \<open>\<open>steamid.New\<close> on any other dynamic value, given by its JSON text\<close>
  sid_Valid :: "'sid \<Rightarrow> bool"
  sid_Equal :: "'sid \<Rightarrow> 'sid \<Rightarrow> bool"
  sid_String :: "'sid \<Rightarrow> string"
  sid_Int64 :: "'sid \<Rightarrow> int"
  sid_Steam :: "'sid \<Rightarrow> string"         \<comment> \<open>\<open>Steam(false)\<close>\<close>
  sid_Steam3 :: "'sid \<Rightarrow> string"

definition steamid_laws :: "'sid steamid_pkg \<Rightarrow> bool" where
  "steamid_laws L \<longleftrightarrow> equivp (sid_Equal L)"

lemma sid_Equal_refl: "steamid_laws L \<Longrightarrow> sid_Equal L a a"
  by (simp add: steamid_laws_def equivp_reflp)

lemma sid_Equal_sym: "steamid_laws L \<Longrightarrow> sid_Equal L a b \<Longrightarrow> sid_Equal L b a"
  by (simp add: steamid_laws_def equivp_symp)

lemma sid_Equal_trans:
  "steamid_laws L \<Longrightarrow> sid_Equal L a b \<Longrightarrow> sid_Equal L b c \<Longrightarrow> sid_Equal L a c"
  unfolding steamid_laws_def by (rule equivp_transp)

lemma sid_Equal_cong:
  "steamid_laws L \<Longrightarrow> sid_Equal L a b \<Longrightarrow> sid_Equal L a c = sid_Equal L b c"
  by (meson sid_Equal_sym sid_Equal_trans)

lemma sid_Equal_commute: "steamid_laws L \<Longrightarrow> sid_Equal L a b = sid_Equal L b a"
  by (meson sid_Equal_sym)

text \<open>An instance on which the witnesses evaluate: an id is its 64-bit number.\<close>

definition num_sid :: "int steamid_pkg" where
  "num_sid =
     \<lparr>sid_zero = 0,
      sid_New_string = (\<lambda>s. case ParseInt 64 s of None \<Rightarrow> 0 | Some z \<Rightarrow> z),
      sid_New_int = id,
      sid_New_any = (\<lambda>s. 0),
      sid_Valid = (\<lambda>a. 0 < a), sid_Equal = (=), sid_String = Itoa,
      sid_Int64 = id, sid_Steam = (\<lambda>a. []), sid_Steam3 = (\<lambda>a. [])\<rparr>"

lemma num_sid_laws: "steamid_laws num_sid"
  by (simp add: steamid_laws_def num_sid_def identity_equivp)

end
