(* ===== verification/Tf.thy ===== *)
theory Tf
  imports Go_Regexp Go_Slices Steamid
begin

text \<open>
  internal/tf/tf.go: the constants and data types shared by the game-facing packages, and the
  parsers of the plugin lists (\<open>sm plugins list\<close>, \<open>meta list\<close>) and of the \<open>cvarlist\<close> output.
\<close>

section \<open>Constants and data\<close>

definition MaxPlayerCount :: nat where
  "MaxPlayerCount = 102"

text \<open>\<open>type Team int\<close>: any integer, four of them named.\<close>

type_synonym Team = int

definition UNASSIGNED :: Team where "UNASSIGNED = 0"
definition SPEC :: Team where "SPEC = 1"
definition BLU :: Team where "BLU = 2"
definition RED :: Team where "RED = 3"

lemmas team_defs = UNASSIGNED_def SPEC_def BLU_def RED_def

text \<open>The arrays \<open>[MaxPlayerCount]T\<close> are lists of that length; the zero value fills them.\<close>

record 'sid DumpPlayer =
  dp_Names :: "string list"
  dp_Ping :: "int list"
  dp_Score :: "int list"
  dp_Deaths :: "int list"
  dp_Connected :: "bool list"
  dp_Team :: "Team list"
  dp_Alive :: "bool list"
  dp_Health :: "int list"
  dp_SteamID :: "'sid list"
  dp_Valid :: "bool list"
  dp_UserID :: "int list"
  dp_Loss :: "int list"
  dp_State :: "string list"
  dp_Address :: "string list"
  dp_Time :: "int list"

definition zero_DumpPlayer :: "'sid steamid_pkg \<Rightarrow> 'sid DumpPlayer" where
  "zero_DumpPlayer L =
     \<lparr>dp_Names = replicate MaxPlayerCount [], dp_Ping = replicate MaxPlayerCount 0,
      dp_Score = replicate MaxPlayerCount 0, dp_Deaths = replicate MaxPlayerCount 0,
      dp_Connected = replicate MaxPlayerCount False, dp_Team = replicate MaxPlayerCount 0,
      dp_Alive = replicate MaxPlayerCount False, dp_Health = replicate MaxPlayerCount 0,
      dp_SteamID = replicate MaxPlayerCount (sid_zero L),
      dp_Valid = replicate MaxPlayerCount False, dp_UserID = replicate MaxPlayerCount 0,
      dp_Loss = replicate MaxPlayerCount 0, dp_State = replicate MaxPlayerCount [],
      dp_Address = replicate MaxPlayerCount [], dp_Time = replicate MaxPlayerCount 0\<rparr>"

definition wf_DumpPlayer :: "'sid DumpPlayer \<Rightarrow> bool" where
  "wf_DumpPlayer d \<longleftrightarrow>
     length (dp_Names d) = MaxPlayerCount \<and> length (dp_Ping d) = MaxPlayerCount \<and>
     length (dp_Score d) = MaxPlayerCount \<and> length (dp_Deaths d) = MaxPlayerCount \<and>
     length (dp_Connected d) = MaxPlayerCount \<and> length (dp_Team d) = MaxPlayerCount \<and>
     length (dp_Alive d) = MaxPlayerCount \<and> length (dp_Health d) = MaxPlayerCount \<and>
     length (dp_SteamID d) = MaxPlayerCount \<and> length (dp_Valid d) = MaxPlayerCount \<and>
     length (dp_UserID d) = MaxPlayerCount \<and> length (dp_Loss d) = MaxPlayerCount \<and>
     length (dp_State d) = MaxPlayerCount \<and> length (dp_Address d) = MaxPlayerCount \<and>
     length (dp_Time d) = MaxPlayerCount"

lemma wf_zero_DumpPlayer [simp]: "wf_DumpPlayer (zero_DumpPlayer L)"
  by (simp add: wf_DumpPlayer_def zero_DumpPlayer_def)

text \<open>The results of \<open>stats\<close>. Floating point values are a type parameter \<open>'f\<close>: the program
  only parses, stores, compares and prints them.\<close>

record 'f Stats =
  st_CPU :: 'f
  st_InKBs :: 'f
  st_OutKBs :: 'f
  st_FPS :: 'f
  st_Uptime :: int
  st_MapChanges :: int
  st_Players :: int
  st_Connects :: int

text \<open>The fields of \<open>extra.Player\<close> and \<open>extra.Status\<close> (package steamid/extra) that the program
  reads. \<open>IP.String()\<close> and \<open>ConnectedTime.Seconds()\<close> are the values it takes from them.\<close>

record 'sid extra_Player =
  xp_UserID :: int
  xp_Name :: string
  xp_SID :: 'sid
  xp_ConnectedTime :: int
  xp_Ping :: int
  xp_Loss :: int
  xp_State :: string
  xp_IP :: string
  xp_Port :: int

record 'sid extra_Status =
  xs_ServerName :: string
  xs_Map :: string
  xs_Tags :: "string list"
  xs_Edicts :: "int list"
  xs_PlayersCount :: int
  xs_PlayersMax :: int
  xs_Players :: "'sid extra_Player list"

record ('sid, 'f) Status =
  ss_Status :: "'sid extra_Status"
  ss_Stats :: "'f Stats"
  ss_Region :: string

definition zero_Stats :: "'f \<Rightarrow> 'f Stats" where
  "zero_Stats z = \<lparr>st_CPU = z, st_InKBs = z, st_OutKBs = z, st_FPS = z,
     st_Uptime = 0, st_MapChanges = 0, st_Players = 0, st_Connects = 0\<rparr>"

definition zero_extra_Status :: "'sid extra_Status" where
  "zero_extra_Status = \<lparr>xs_ServerName = [], xs_Map = [], xs_Tags = [], xs_Edicts = [],
     xs_PlayersCount = 0, xs_PlayersMax = 0, xs_Players = []\<rparr>"

definition zero_Status :: "'f \<Rightarrow> ('sid, 'f) Status" where
  "zero_Status z = \<lparr>ss_Status = zero_extra_Status, ss_Stats = zero_Stats z, ss_Region = []\<rparr>"

section \<open>Plugin lists\<close>

record GamePlugin =
  gp_Index :: int
  gp_Name :: string
  gp_Version :: string
  gp_Author :: string

text \<open>\<^verbatim>\<open>^\s+\[?(\d+)\]?\s?(.+?)\((.+?)\)\sby\s(.+?)$\<close>\<close>

definition lineMatcher :: regexp where
  "lineMatcher = rseq
     [RBol, spaces1, ropt (RStr ''[''), RGrp 1 digits1, ropt (RStr '']''), ropt space1,
      RGrp 2 lazy1, RStr ''('', RGrp 3 lazy1, RStr '')'', space1, RStr ''by'', space1,
      RGrp 4 lazy1, REol]"

text \<open>Go's conversion \<open>int(u)\<close> of a \<open>uint64\<close>.\<close>

definition int_of_uint64 :: "int \<Rightarrow> int" where
  "int_of_uint64 n = (n + 2 ^ 63) mod 2 ^ 64 - 2 ^ 63"

definition parse_plugin_line :: "string \<Rightarrow> GamePlugin option" where
  "parse_plugin_line line =
     (if line = [] then None
      else case FindStringSubmatch lineMatcher (TrimRight line nl) of
             None \<Rightarrow> None
           | Some m \<Rightarrow>
               if length m \<noteq> 5 then None
               else case ParseUint 64 (m ! 1) of
                      None \<Rightarrow> None
                    | Some index \<Rightarrow>
                        Some \<lparr>gp_Index = int_of_uint64 index,
                              gp_Name = TrimSpace (RemoveAll (CHR 0x22) (m ! 2)),
                              gp_Version = m ! 3,
                              gp_Author = m ! 4\<rparr>)"

definition ParseGamePlugins :: "string \<Rightarrow> bool \<Rightarrow> GamePlugin list" where
  "ParseGamePlugins body sortName =
     (let plugins = List.map_filter parse_plugin_line (Lines body)
      in if sortName
         then SortStableFunc (\<lambda>a b. cmp_Compare (gp_Name a) (gp_Name b)) plugins
         else plugins)"

section \<open>Console variables\<close>

record CVar =
  cv_Name :: string
  cv_Cmd :: bool
  cv_Value :: string
  cv_Flags :: "string list"
  cv_Description :: string

type_synonym CVarList = "CVar list"

definition zero_CVar :: CVar where
  "zero_CVar = \<lparr>cv_Name = [], cv_Cmd = False, cv_Value = [], cv_Flags = [], cv_Description = []\<rparr>"

text \<open>\<open>strings.ToLower\<close> depends on the Unicode tables and is the first argument.\<close>

definition CVarList_Filter :: "(string \<Rightarrow> string) \<Rightarrow> CVarList \<Rightarrow> string \<Rightarrow> CVarList" where
  "CVarList_Filter ToLower c prefix0 =
     (let prefix = ToLower prefix0
      in filter (\<lambda>cmd. prefix = [] \<or> HasPrefix (cv_Name cmd) prefix) c)"

definition CVarList_Names :: "CVarList \<Rightarrow> string list" where
  "CVarList_Names c = map cv_Name c"

text \<open>The third column: flags between commas, quotes removed.\<close>

definition cvar_flags :: "string \<Rightarrow> string list" where
  "cvar_flags piece =
     filter (\<lambda>tag. tag \<noteq> []) (map TrimSpace (Split (CHR '','') (RemoveAll (CHR 0x22) piece)))"

text \<open>One turn of the loop over the columns.\<close>

definition cvar_column :: "nat \<times> string \<Rightarrow> CVar \<Rightarrow> CVar" where
  "cvar_column = (\<lambda>(idx, raw) cvar.
     let piece = TrimSpace raw
     in if idx = 0 then cvar\<lparr>cv_Name := piece\<rparr>
        else if idx = 1 then
          (if piece = ''cmd'' then cvar\<lparr>cv_Cmd := True\<rparr> else cvar\<lparr>cv_Value := piece\<rparr>)
        else if idx = 2 then cvar\<lparr>cv_Flags := cv_Flags cvar @ cvar_flags piece\<rparr>
        else if idx = 3 then cvar\<lparr>cv_Description := piece\<rparr>
        else cvar)"

definition parse_cvar_line :: "string \<Rightarrow> CVar option" where
  "parse_cvar_line line =
     (let columns = Split (CHR '':'') line
      in if length columns \<noteq> 4 then None
         else Some (fold cvar_column (enumerate 0 columns) zero_CVar))"

definition ParseCVars :: "string \<Rightarrow> CVarList" where
  "ParseCVars lines = List.map_filter parse_cvar_line (Lines lines)"

section \<open>Reading back what the server prints\<close>

text \<open>The line srcds prints for a console variable, and the variables it can print unambiguously:
  no separator inside a field, no white space around it.\<close>

definition flag_text :: "string list \<Rightarrow> string" where
  "flag_text fs = concat (map (\<lambda>f. '', '' @ [CHR 0x22] @ f @ [CHR 0x22]) fs)"

definition cvar_text :: "CVar \<Rightarrow> string" where
  "cvar_text c =
     cv_Name c @ '' : '' @ (if cv_Cmd c then ''cmd'' else cv_Value c) @ '' : '' @
     flag_text (cv_Flags c) @ '' : '' @ cv_Description c @ [nl]"

definition plain_text :: "string \<Rightarrow> bool" where
  "plain_text s \<longleftrightarrow> clean s \<and> CHR '':'' \<notin> set s \<and> nl \<notin> set s"

definition plain_flag :: "string \<Rightarrow> bool" where
  "plain_flag s \<longleftrightarrow> plain_text s \<and> s \<noteq> [] \<and> CHR '','' \<notin> set s \<and> CHR 0x22 \<notin> set s"

definition printable_cvar :: "CVar \<Rightarrow> bool" where
  "printable_cvar c \<longleftrightarrow>
     plain_text (cv_Name c) \<and> plain_text (cv_Value c) \<and> plain_text (cv_Description c) \<and>
     list_all plain_flag (cv_Flags c) \<and>
     (if cv_Cmd c then cv_Value c = [] else cv_Value c \<noteq> ''cmd'')"

lemma flag_text_split:
  "list_all plain_flag fs \<Longrightarrow> a = [] \<or> CHR '','' \<notin> set a \<Longrightarrow>
   Split (CHR '','') (a @ RemoveAll (CHR 0x22) (flag_text fs)) = a # map (\<lambda>f. '' '' @ f) fs"
proof (induction fs arbitrary: a)
  case Nil
  then show ?case by (auto simp: flag_text_def Split_single)
next
  case (Cons f fs)
  have "RemoveAll (CHR 0x22) (flag_text (f # fs)) = CHR '','' # ('' '' @ f) @ RemoveAll (CHR 0x22) (flag_text fs)"
    using Cons.prems(1) by (auto simp: flag_text_def plain_flag_def RemoveAll_absent)
  moreover have "Split (CHR '','') (('' '' @ f) @ RemoveAll (CHR 0x22) (flag_text fs)) =
      ('' '' @ f) # map (\<lambda>f. '' '' @ f) fs"
    using Cons.prems(1) by (intro Cons.IH) (auto simp: plain_flag_def)
  ultimately show ?case using Cons.prems(2) by (auto simp: Split_append_sep)
qed

lemma cvar_flags_text: "list_all plain_flag fs \<Longrightarrow> cvar_flags (flag_text fs) = fs"
proof -
  assume a: "list_all plain_flag fs"
  have "map (TrimSpace \<circ> (\<lambda>f. '' '' @ f)) fs = fs"
    using a by (intro map_idI) (auto simp: list_all_iff plain_flag_def plain_text_def blank_def TrimSpace_pad1)
  moreover have "filter (\<lambda>t. t \<noteq> []) fs = fs"
    using a by (auto simp: list_all_iff plain_flag_def filter_id_conv)
  ultimately show ?thesis
    using flag_text_split [OF a, of "[]"] by (simp add: cvar_flags_def TrimSpace_clean clean_def o_def)
qed

lemma clean_flag_text: "clean (flag_text fs)"
proof (cases fs)
  case (Cons f gs)
  then have "hd (flag_text fs) = CHR '',''" by (simp add: flag_text_def)
  moreover from Cons have "fs = butlast fs @ [last fs]" by simp
  then obtain hs h where "fs = hs @ [h]" by blast
  then have "last (flag_text fs) = CHR 0x22" by (simp add: flag_text_def)
  ultimately show ?thesis by (simp add: clean_def graph_ascii_def)
qed (simp add: flag_text_def clean_def)

lemma flag_text_chars: "list_all plain_flag fs \<Longrightarrow> CHR '':'' \<notin> set (flag_text fs) \<and> nl \<notin> set (flag_text fs)"
  by (auto simp: flag_text_def plain_flag_def plain_text_def list_all_iff nl_def)

lemma parse_cvar_line_text:
  assumes "printable_cvar c"
  shows "parse_cvar_line (cvar_text c) = Some c"
proof -
  define v where "v = (if cv_Cmd c then ''cmd'' else cv_Value c)"
  have p: "plain_text (cv_Name c)" "plain_text v" "plain_text (cv_Description c)"
      "list_all plain_flag (cv_Flags c)"
    using assms by (auto simp: printable_cvar_def plain_text_def clean_def graph_ascii_def nl_def v_def)
  have body: "cvar_text c = (cv_Name c @ '' '') @ CHR '':'' # ('' '' @ v @ '' '') @ CHR '':'' #
      ('' '' @ flag_text (cv_Flags c) @ '' '') @ CHR '':'' # ('' '' @ cv_Description c @ [nl])"
    by (simp add: cvar_text_def v_def)
  have "Split (CHR '':'') (cvar_text c) =
      [cv_Name c @ '' '', '' '' @ v @ '' '', '' '' @ flag_text (cv_Flags c) @ '' '',
       '' '' @ cv_Description c @ [nl]]"
    unfolding body using p flag_text_chars [OF p(4)]
    by (intro Split4) (auto simp: plain_text_def nl_def)
  moreover have "TrimSpace (cv_Name c @ '' '') = cv_Name c" "TrimSpace ('' '' @ v @ '' '') = v"
    "TrimSpace ('' '' @ flag_text (cv_Flags c) @ '' '') = flag_text (cv_Flags c)"
    "TrimSpace ('' '' @ cv_Description c @ [nl]) = cv_Description c"
    using p by (simp_all add: TrimSpace_between plain_text_def blank_def clean_flag_text)
  ultimately show ?thesis
    using assms p(4)
    by (auto simp: parse_cvar_line_def cvar_column_def zero_CVar_def cvar_flags_text
        printable_cvar_def v_def split: if_splits)
qed

lemma cvar_text_Lines:
  assumes "list_all printable_cvar cs"
  shows "Lines (concat (map cvar_text cs)) = map cvar_text cs"
  using assms
proof (induction cs)
  case (Cons c cs)
  let ?l = "cv_Name c @ '' : '' @ (if cv_Cmd c then ''cmd'' else cv_Value c) @ '' : '' @
     flag_text (cv_Flags c) @ '' : '' @ cv_Description c"
  have t: "cvar_text c = ?l @ [nl]" by (simp add: cvar_text_def)
  have "nl \<notin> set ?l"
    using Cons.prems flag_text_chars [of "cv_Flags c"]
    by (auto simp: printable_cvar_def plain_text_def nl_def)
  then have "Lines (?l @ nl # concat (map cvar_text cs)) = (?l @ [nl]) # map cvar_text cs"
    using Lines_append_line [of ?l] Cons by simp
  then show ?case by (simp add: t)
qed simp

text \<open>C21: parsing the text of any list of printable console variables gives the list back.\<close>

theorem ParseCVars_roundtrip:
  assumes "list_all printable_cvar cs"
  shows "ParseCVars (concat (map cvar_text cs)) = cs"
proof -
  have "List.map_filter parse_cvar_line (map cvar_text cs) = cs"
    using assms by (induction cs) (auto simp: parse_cvar_line_text)
  then show ?thesis by (simp add: ParseCVars_def cvar_text_Lines [OF assms])
qed

theorem ParseCVars_roundtrip_witness:
  "ParseCVars (concat (map cvar_text
     [\<lparr>cv_Name = ''sv_cheats'', cv_Cmd = False, cv_Value = ''0'', cv_Flags = [''nf'', ''rep''],
       cv_Description = ''Allow cheats''\<rparr>])) =
   [\<lparr>cv_Name = ''sv_cheats'', cv_Cmd = False, cv_Value = ''0'', cv_Flags = [''nf'', ''rep''],
       cv_Description = ''Allow cheats''\<rparr>]"
  by (rule ParseCVars_roundtrip) code_simp

text \<open>The line of one plugin, as \<open>sm plugins list\<close> prints it.\<close>

definition plugin_text :: "string \<Rightarrow> string \<Rightarrow> string \<Rightarrow> string \<Rightarrow> string" where
  "plugin_text idx name version author =
     ''  '' @ idx @ '' '' @ ([CHR 0x22] @ name @ [CHR 0x22] @ '' '') @ ''('' @ version @ '')'' @
     '' '' @ ''by'' @ '' '' @ author"

lemma plugin_match:
  assumes idx: "idx \<noteq> []" "list_all is_digit idx"
    and name: "CHR ''('' \<notin> set name" "nl \<notin> set name"
    and version: "version \<noteq> []" "CHR '')'' \<notin> set version" "nl \<notin> set version"
    and author: "author \<noteq> []" "nl \<notin> set author"
  shows "\<exists>w. FindStringSubmatch lineMatcher (plugin_text idx name version author) =
     Some [w, idx, [CHR 0x22] @ name @ [CHR 0x22] @ '' '', version, author]"
proof -
  let ?q = "[CHR 0x22] @ name @ [CHR 0x22] @ '' ''"
  have d: "list_all (class_matches Digit) idx" using idx(2) by (simp add: list_all_iff)
  obtain x xs where x: "idx = x # xs" "is_digit x" using idx by (cases idx) auto
  have "\<exists>n. rx_yields lineMatcher (0, plugin_text idx name version author, [])
     (n, [], [(4, author), (3, version), (2, ?q), (1, idx)])"
    unfolding lineMatcher_def rseq.simps plugin_text_def
    apply (rule exI, rule yields_bol_seq, rule yields_run_seq, rule yields_skip_seq,
        rule yields_group_seq, rule yields_skip_seq, rule yields_opt_seq, rule yields_one_seq,
        rule yields_lazy_str_seq, rule yields_str_seq, rule yields_lazy_str_seq,
        rule yields_str_seq, rule yields_one_seq, rule yields_str_seq, rule yields_one_seq,
        rule yields_lazy_end)
    using assms d x by (auto simp: nl_def is_digit_def Suc_le_eq)
  then show ?thesis
    by (auto dest!: yields_FindStringSubmatch simp: lineMatcher_def capture_def upt_rec numeral_eq_Suc)
qed

text \<open>The line of a plugin is read back as its index, name, version and author, the quotes and the
  blanks around the name removed.\<close>

theorem ParseGamePlugins_line:
  assumes "idx \<noteq> []" "list_all is_digit idx" "digits_val idx < 2 ^ 63"
    and "plain_text name" "CHR ''('' \<notin> set name" "CHR 0x22 \<notin> set name"
    and "version \<noteq> []" "CHR '')'' \<notin> set version" "nl \<notin> set version"
    and "author \<noteq> []" "nl \<notin> set author"
  shows "parse_plugin_line (plugin_text idx name version author) =
     Some \<lparr>gp_Index = digits_val idx, gp_Name = name, gp_Version = version, gp_Author = author\<rparr>"
proof -
  let ?t = "plugin_text idx name version author"
  have "last author \<noteq> nl" using assms(10,11) by (metis last_in_set)
  then have t: "TrimRight ?t nl = ?t" "?t \<noteq> []"
    using assms(10) by (auto simp: plugin_text_def intro!: TrimRight_id)
  obtain w where w: "FindStringSubmatch lineMatcher ?t =
      Some [w, idx, [CHR 0x22] @ name @ [CHR 0x22] @ '' '', version, author]"
    using plugin_match [of idx name version author] assms by (auto simp: plain_text_def)
  have "int_of_uint64 (digits_val idx) = digits_val idx"
    using assms(3) digits_val_bound [OF assms(2)] by (simp add: int_of_uint64_def)
  moreover have "TrimSpace (RemoveAll (CHR 0x22) ([CHR 0x22] @ name @ [CHR 0x22] @ '' '')) = name"
    using assms(4,6) by (simp add: RemoveAll_absent plain_text_def TrimSpace_between blank_def)
  ultimately show ?thesis
    using t w assms(1-3) by (simp add: parse_plugin_line_def ParseUint_def)
qed

theorem ParseGamePlugins_line_witness:
  "parse_plugin_line (plugin_text ''03'' ''TF2 Tools'' ''1.13'' ''AlliedModders LLC'') =
     Some \<lparr>gp_Index = 3, gp_Name = ''TF2 Tools'', gp_Version = ''1.13'', gp_Author = ''AlliedModders LLC''\<rparr>"
proof -
  have d: "list_all is_digit ''03''" "digits_val ''03'' = 3" "plain_text ''TF2 Tools''" by code_simp+
  show ?thesis by (subst ParseGamePlugins_line) (use d in \<open>auto simp: nl_def\<close>)
qed

text \<open>Asking for the list sorted by name is sorting the list stably by name.\<close>

theorem ParseGamePlugins_sorted:
  "ParseGamePlugins body True = sort_key gp_Name (ParseGamePlugins body False)"
  by (simp add: ParseGamePlugins_def Let_def SortStableFunc_sort_key)

text \<open>The empty prefix and the prefix test agree, so the loop of \<open>Filter\<close> is a plain filter. The
  prefix is lowered and the names are not.\<close>

lemma CVarList_Filter_prefix:
  "CVarList_Filter lower c p = filter (\<lambda>v. HasPrefix (cv_Name v) (lower p)) c"
  by (auto simp: CVarList_Filter_def Let_def intro!: filter_cong)

end
