(* ===== verification/Events_Parser.thy ===== *)
theory Events_Parser
  imports Tf
begin

text \<open>
  internal/tf/events/parser.go: the events read from console log lines. \<open>NewParser\<close> is the list of
  patterns in the order they are tried, \<open>Parse\<close> the loop over it. The current time
  (\<open>time.Now()\<close>) is an argument, in nanoseconds since the Unix epoch.
\<close>

section \<open>Event data\<close>

type_synonym time = int

text \<open>The zero \<open>time.Time\<close>: the first of January of the year 1.\<close>

definition zero_time :: time where
  "zero_time = -62135596800000000000"

datatype (plugins only: code size) EventType =
    EvAny | EvKill | EvMsg | EvConnect | EvDisconnect | EvStatusID | EvHostname | EvMap
  | EvTags | EvAddress | EvStats | EvVersion

record 'sid StatusIDEvent =
  si_UserID :: int
  si_Player :: string
  si_PlayerSID :: 'sid
  si_Connected :: int
  si_Ping :: int
  si_Loss :: int
  si_State :: string
  si_Address :: string

record 'sid MsgEvent =
  me_Player :: string
  me_PlayerSID :: 'sid
  me_Dead :: bool
  me_TeamOnly :: bool
  me_Message :: string

text \<open>\<open>KillEvent\<close> embeds an \<open>Event\<close>, of which only the timestamp is ever read.\<close>

record 'sid KillEvent =
  ke_Timestamp :: time
  ke_Player :: string
  ke_PlayerSID :: 'sid
  ke_Victim :: string
  ke_VictimSID :: 'sid
  ke_Weapon :: string
  ke_Crit :: bool

text \<open>The dynamic types of \<open>Event.Data\<close>; \<open>NoData\<close> is nil. An IPv4 address is its four octets.\<close>

datatype (plugins only: code size) 'sid EventData =
    NoData
  | AnyEvent string
  | ConnectEvent string
  | DisconnectEvent string
  | StatusIDData "'sid StatusIDEvent"
  | HostnameEvent string
  | MapEvent string
  | VersionEvent int bool
  | TagsEvent "string list"
  | AddressEvent "int list"
  | LobbyEvent string
  | MsgData "'sid MsgEvent"
  | RawEvent string
  | KillData "'sid KillEvent"

record 'sid Event =
  ev_HostPort :: string
  ev_Type :: EventType
  ev_Timestamp :: time
  ev_Raw :: string
  ev_Data :: "'sid EventData"

text \<open>\<open>var outEvent Event\<close>: the zero value of the type is \<open>Kill\<close>, whose number is 0.\<close>

definition zero_Event :: "'sid Event" where
  "zero_Event = \<lparr>ev_HostPort = [], ev_Type = EvKill, ev_Timestamp = zero_time, ev_Raw = [],
     ev_Data = NoData\<rparr>"

section \<open>The patterns\<close>

text \<open>The comments give the pattern as the source has it.\<close>

definition timestamp_rx :: regexp where
  \<comment> \<open>\<^verbatim>\<open>[01]\d/[0123]\d/20\d{2}\s-\s\d{2}:\d{2}:\d{2}:\s+\<close>\<close>
  "timestamp_rx = rseq
     [one_of ''01'', digits_n 1, RStr ''/'', one_of ''0123'', digits_n 1, RStr ''/20'', digits_n 2,
      space1, RStr ''-'', space1, digits_n 2, RStr '':'', digits_n 2, RStr '':'', digits_n 2,
      RStr '':'', spaces1]"

definition kill_rx :: regexp where
  \<comment> \<open>\<^verbatim>\<open>^(?:<timestamp>)?(.+?)\skilled\s(.+?)\swith\s(.+)(\.|\. \(crit\))$\<close>\<close>
  "kill_rx = rseq
     [RBol, ropt timestamp_rx, RGrp 1 lazy1, space1, RStr ''killed'', space1, RGrp 2 lazy1, space1,
      RStr ''with'', space1, RGrp 3 greedy1, RGrp 4 (RAlt (RStr ''.'') (RStr ''. (crit)'')), REol]"

definition msg_rx :: regexp where
  \<comment> \<open>\<^verbatim>\<open>(?P<name>.+?)\s:\s{2}(?P<message>.+?)$\<close>\<close>
  "msg_rx = rseq [RGrp 1 lazy1, space1, RStr '':'', spaces_n 2, RGrp 2 lazy1, REol]"

definition connect_rx :: regexp where
  \<comment> \<open>\<^verbatim>\<open>(.+?)\sconnected$\<close>\<close>
  "connect_rx = rseq [RGrp 1 lazy1, space1, RStr ''connected'', REol]"

definition disconnect_rx :: regexp where
  \<comment> \<open>\<^verbatim>\<open>(Connecting to|Differing lobby received.).+?$\<close>\<close>
  "disconnect_rx = rseq
     [RGrp 1 (RAlt (RStr ''Connecting to'')
        (rseq [RStr ''Differing lobby received'', RRep True 1 (Some 1) Any])), lazy1, REol]"

definition clock_rx :: regexp where
  \<comment> \<open>\<^verbatim>\<open>\d{1,3}:\d{2}(?::\d{2})?\<close>\<close>
  "clock_rx = rseq [digits_mn 1 3, RStr '':'', digits_n 2, ropt (rseq [RStr '':'', digits_n 2])]"

definition statusid_rx :: regexp where
  \<comment> \<open>\<^verbatim>\<open>#\s+(?P<id>\d{1,6})\s"(?P<name>.+?)"\s+(?P<sid>\[U:\d:\d{1,10}])\s{1,8}(?P<time>...)\s+\<close>
     \<^verbatim>\<open>(?P<ping>\d{1,4})\s{1,8}(?P<loss>\d{1,3})\s(spawning|active)(?P<ip>\s+.+?)?$\<close>\<close>
  "statusid_rx = rseq
     [RStr ''#'', spaces1, RGrp 1 (digits_mn 1 6), space1, RStr [CHR 0x22], RGrp 2 lazy1,
      RStr [CHR 0x22], spaces1,
      RGrp 3 (rseq [RStr ''[U:'', digits_n 1, RStr '':'', digits_mn 1 10, RStr '']'']),
      RRep True 1 (Some 8) Space, RGrp 4 clock_rx, spaces1, RGrp 5 (digits_mn 1 4),
      RRep True 1 (Some 8) Space, RGrp 6 (digits_mn 1 3), space1,
      RGrp 7 (RAlt (RStr ''spawning'') (RStr ''active'')),
      ropt (RGrp 8 (rseq [spaces1, lazy1])), REol]"

definition hostname_rx :: regexp where
  \<comment> \<open>\<^verbatim>\<open>hostname:\s(.+?)$\<close>\<close>
  "hostname_rx = rseq [RStr ''hostname:'', space1, RGrp 1 lazy1, REol]"

definition map_rx :: regexp where
  \<comment> \<open>\<^verbatim>\<open>map\s{5}:\s(.+?)\sat.+?$\<close>\<close>
  "map_rx = rseq
     [RStr ''map'', spaces_n 5, RStr '':'', space1, RGrp 1 lazy1, space1, RStr ''at'', lazy1, REol]"

definition tags_rx :: regexp where
  \<comment> \<open>\<^verbatim>\<open>tags\s{4}:\s(.+?)$\<close>\<close>
  "tags_rx = rseq [RStr ''tags'', spaces_n 4, RStr '':'', space1, RGrp 1 lazy1, REol]"

definition dotted_rx :: regexp where
  \<comment> \<open>\<^verbatim>\<open>\d+\.\d+\.\d+\.\d+\<close>\<close>
  "dotted_rx = rseq [digits1, RStr ''.'', digits1, RStr ''.'', digits1, RStr ''.'', digits1]"

definition address_rx :: regexp where
  \<comment> \<open>\<^verbatim>\<open>udp/ip.+?public IP from Steam: (\d+\.\d+\.\d+\.\d+)\<close>\<close>
  "address_rx = rseq
     [RStr ''udp/ip'', lazy1, RStr ''public IP from Steam: '', RGrp 1 dotted_rx]"

definition version_rx :: regexp where
  \<comment> \<open>\<^verbatim>\<open>version\s+:.+?\d+\d+\s+(\d+)\s+(secure)?\<close>\<close>
  "version_rx = rseq
     [RStr ''version'', spaces1, RStr '':'', lazy1, digits1, digits1, spaces1, RGrp 1 digits1,
      spaces1, ropt (RGrp 2 (RStr ''secure''))]"

definition NewParser :: "(EventType \<times> regexp) list" where
  "NewParser =
     [(EvKill, kill_rx), (EvMsg, msg_rx), (EvConnect, connect_rx), (EvDisconnect, disconnect_rx),
      (EvStatusID, statusid_rx), (EvHostname, hostname_rx), (EvMap, map_rx), (EvTags, tags_rx),
      (EvAddress, address_rx), (EvVersion, version_rx)]"

section \<open>Parsing the captures\<close>

text \<open>\<open>time.ParseDuration\<close> on a sequence of whole numbers with units, the only form
  \<open>parseConnected\<close> builds from a captured time (its pieces are digits). The overflow checks are
  Go's; the result is in nanoseconds.\<close>

definition duration_unit :: "string \<Rightarrow> int option" where
  "duration_unit u =
     (if u = ''s'' then Some 1000000000
      else if u = ''m'' then Some 60000000000
      else if u = ''h'' then Some 3600000000000
      else None)"

function duration_from :: "int \<Rightarrow> string \<Rightarrow> int option" where
  "duration_from d s =
     (if s = [] then (if d > 2 ^ 63 - 1 then None else Some d)
      else
        let ds = takeWhile is_digit s;
            rest = dropWhile is_digit s;
            u = takeWhile (\<lambda>c. \<not> is_digit c \<and> c \<noteq> CHR ''.'') rest;
            rest' = dropWhile (\<lambda>c. \<not> is_digit c \<and> c \<noteq> CHR ''.'') rest;
            v = digits_val ds
        in if ds = [] \<or> v > 2 ^ 63 then None
           else case duration_unit u of
                  None \<Rightarrow> None
                | Some unit \<Rightarrow>
                    if v > 2 ^ 63 div unit \<or> d + v * unit > 2 ^ 63 then None
                    else duration_from (d + v * unit) rest')"
  by pat_completeness auto
termination
proof (relation "measure (\<lambda>(d, s). length s)")
  fix s :: string and ds rest u rest' v
  assume h: "ds = takeWhile is_digit s" "rest = dropWhile is_digit s"
    "rest' = dropWhile (\<lambda>c. \<not> is_digit c \<and> c \<noteq> CHR ''.'') rest" "\<not> (ds = [] \<or> v > (2::int) ^ 63)"
  have "length rest' \<le> length rest" using h(3) by (simp add: length_dropWhile_le)
  also have "length ds + length rest = length s"
    using h(1,2) by (metis length_append takeWhile_dropWhile_id)
  then have "length rest < length s" using h(4) by (cases ds) auto
  finally show "((d + v * unit, rest'), d, s) \<in> measure (\<lambda>(d, s). length s)" for d unit by simp
qed simp

declare duration_from.simps [simp del]

definition ParseDuration :: "string \<Rightarrow> int option" where
  "ParseDuration s = (if s = [] then None else if s = ''0'' then Some 0 else duration_from 0 s)"

definition parseConnected :: "string \<Rightarrow> int result" where
  "parseConnected d =
     (let r = (case Split (CHR '':'') d of
                 [h, m, s] \<Rightarrow> ParseDuration (h @ ''h'' @ m @ ''m'' @ s @ ''s'')
               | [m, s] \<Rightarrow> ParseDuration (m @ ''m'' @ s @ ''s'')
               | [s] \<Rightarrow> ParseDuration (s @ ''s'')
               | _ \<Rightarrow> Some 0)
      in case r of
           None \<Rightarrow> Inl (errors_Join [ErrForeign ''time: invalid duration''] [ErrDuration])
         | Some dur \<Rightarrow> Inr dur)"

text \<open>\<open>int(dur.Seconds())\<close> of a duration built from whole seconds.\<close>

definition duration_seconds :: "int \<Rightarrow> int" where
  "duration_seconds d = d div 1000000000"

text \<open>\<open>netip.ParseAddr\<close> on a dotted text: four octets, no leading zero, at most 255.\<close>

definition parse_octet :: "string \<Rightarrow> int option" where
  "parse_octet s =
     (if s = [] \<or> \<not> list_all is_digit s \<or> (length s > 1 \<and> hd s = CHR ''0'') \<or> digits_val s > 255
      then None else Some (digits_val s))"

definition ParseAddr :: "string \<Rightarrow> int list option" where
  "ParseAddr s =
     (case map parse_octet (Split (CHR ''.'') s) of
        [Some a, Some b, Some c, Some d] \<Rightarrow> Some [a, b, c, d]
      | _ \<Rightarrow> None)"

definition Addr_String :: "int list \<Rightarrow> string" where
  "Addr_String os = Join ''.'' (map Itoa os)"

definition teamPrefix :: string where "teamPrefix = ''(TEAM) ''"
definition deadPrefix :: string where "deadPrefix = ''*DEAD* ''"
definition deadTeamPrefix :: string where "deadTeamPrefix = ''*DEAD*(TEAM) ''"

definition parseMsg :: "'sid steamid_pkg \<Rightarrow> string list \<Rightarrow> 'sid MsgEvent" where
  "parseMsg L match =
     (let name = match ! 2;
          dead = False;
          team = False;
          (name, team) = (case CutPrefix name teamPrefix of
                            (after, True) \<Rightarrow> (after, True)
                          | (_, False) \<Rightarrow> (name, team));
          (name, dead, team) =
            (case CutPrefix name deadTeamPrefix of
               (after, True) \<Rightarrow> (after, True, True)
             | (_, False) \<Rightarrow>
                 if HasPrefix name deadPrefix then (TrimPrefix name deadPrefix, True, team)
                 else (name, dead, team))
      in \<lparr>me_Player = name, me_PlayerSID = sid_zero L, me_Dead = dead, me_TeamOnly = team,
          me_Message = match ! 2\<rparr>)"

section \<open>Parse\<close>

text \<open>The body of the \<open>switch\<close> on the event type: \<open>None\<close> is the \<open>continue\<close> after a failed
  conversion. A type without a case leaves the data as it was.\<close>

definition parse_StatusID ::
  "'sid steamid_pkg \<Rightarrow> string list \<Rightarrow> 'sid EventData option" where
  "parse_StatusID L match =
     (case ParseInt 32 (match ! 1) of
        None \<Rightarrow> None
      | Some userID \<Rightarrow>
     (case ParseInt 32 (match ! 5) of
        None \<Rightarrow> None
      | Some ping \<Rightarrow>
     (case ParseInt 32 (match ! 6) of
        None \<Rightarrow> None
      | Some loss \<Rightarrow>
     (case parseConnected (match ! 4) of
        Inl _ \<Rightarrow> None
      | Inr dur \<Rightarrow>
          Some (StatusIDData
            \<lparr>si_UserID = userID, si_Player = match ! 2,
             si_PlayerSID = sid_New_string L (match ! 3),
             si_Connected = duration_seconds dur, si_Ping = ping, si_Loss = loss,
             si_State = match ! 7,
             si_Address = (if length match = 9 then TrimSpace (match ! 8) else [])\<rparr>)))))"

fun parse_data ::
  "'sid steamid_pkg \<Rightarrow> EventType \<Rightarrow> string \<Rightarrow> string list \<Rightarrow> 'sid EventData \<Rightarrow> 'sid EventData option"
where
  "parse_data L EvConnect msg match d = Some (ConnectEvent (match ! 1))"
| "parse_data L EvDisconnect msg match d =
     Some (if length match > 3 then DisconnectEvent (match ! 3) else d)"
| "parse_data L EvMsg msg match d = Some (MsgData (parseMsg L match))"
| "parse_data L EvStatusID msg match d = parse_StatusID L match"
| "parse_data L EvVersion msg match d =
     (case ParseInt 64 (match ! 1) of
        None \<Rightarrow> None
      | Some version \<Rightarrow>
          Some (VersionEvent version (length match > 2 \<and> match ! 2 = ''secure'')))"
| "parse_data L EvKill msg match d =
     Some (KillData \<lparr>ke_Timestamp = zero_time, ke_Player = match ! 1, ke_PlayerSID = sid_zero L,
        ke_Victim = match ! 2, ke_VictimSID = sid_zero L, ke_Weapon = match ! 3,
        ke_Crit = Contains (match ! 4) ''crit''\<rparr>)"
| "parse_data L EvHostname msg match d = Some (HostnameEvent (match ! 1))"
| "parse_data L EvMap msg match d = Some (MapEvent (match ! 1))"
| "parse_data L EvTags msg match d = Some (TagsEvent (Split (CHR '','') (match ! 1)))"
| "parse_data L EvAddress msg match d =
     (case ParseAddr (match ! 1) of None \<Rightarrow> None | Some addr \<Rightarrow> Some (AddressEvent addr))"
| "parse_data L EvAny msg match d = Some (AnyEvent msg)"
| "parse_data L EvStats msg match d = Some d"

text \<open>The loop of \<open>Parse\<close> over the patterns, with the event it fills in.\<close>

fun parse_loop ::
  "'sid steamid_pkg \<Rightarrow> time \<Rightarrow> string \<Rightarrow> (EventType \<times> regexp) list \<Rightarrow> 'sid Event \<Rightarrow>
     'sid Event \<times> go_error option"
where
  "parse_loop L now msg [] outEvent = (outEvent, Some [ErrNoMatch])"
| "parse_loop L now msg ((ty, rx) # rxs) outEvent =
     (case FindStringSubmatch rx msg of
        None \<Rightarrow> parse_loop L now msg rxs outEvent
      | Some match \<Rightarrow>
          let outEvent = outEvent\<lparr>ev_Raw := msg, ev_Type := ty, ev_Timestamp := now\<rparr>
          in case parse_data L ty msg match (ev_Data outEvent) of
               None \<Rightarrow> parse_loop L now msg rxs outEvent
             | Some d \<Rightarrow> (outEvent\<lparr>ev_Data := d\<rparr>, None))"

definition Parse :: "'sid steamid_pkg \<Rightarrow> time \<Rightarrow> string \<Rightarrow> 'sid Event \<times> go_error option" where
  "Parse L now msg = parse_loop L now msg NewParser zero_Event"

section \<open>The texts of log lines\<close>

text \<open>The lines the game prints for a kill and for a chat message, with an optional timestamp.\<close>

definition kill_tail :: "bool \<Rightarrow> string" where
  "kill_tail crit = (if crit then ''. (crit)'' else ''.'')"

definition kill_text :: "string \<Rightarrow> string \<Rightarrow> string \<Rightarrow> bool \<Rightarrow> string" where
  "kill_text p v w crit = p @ '' killed '' @ v @ '' with '' @ w @ kill_tail crit"

definition timestamp_text :: "string \<Rightarrow> string \<Rightarrow> string \<Rightarrow> string \<Rightarrow> string \<Rightarrow> string \<Rightarrow> string" where
  "timestamp_text mo dd yy hh mi ss =
     mo @ ''/'' @ dd @ ''/20'' @ yy @ '' - '' @ hh @ '':'' @ mi @ '':'' @ ss @ '': ''"

definition two_digits :: "string \<Rightarrow> bool" where
  "two_digits s \<longleftrightarrow> length s = 2 \<and> list_all is_digit s"

definition timestamped :: "string \<Rightarrow> bool" where
  "timestamped ts \<longleftrightarrow> (\<exists>mo dd yy hh mi ss. ts = timestamp_text mo dd yy hh mi ss \<and>
     two_digits mo \<and> hd mo \<in> set ''01'' \<and> two_digits dd \<and> hd dd \<in> set ''0123'' \<and>
     two_digits yy \<and> two_digits hh \<and> two_digits mi \<and> two_digits ss)"

definition chat_text :: "string \<Rightarrow> string \<Rightarrow> string" where
  "chat_text n m = n @ '' :  '' @ m"

text \<open>A name the kill pattern can tell from the words around it.\<close>

definition plain_name :: "string \<Rightarrow> string \<Rightarrow> bool" where
  "plain_name word p \<longleftrightarrow> p \<noteq> [] \<and> nl \<notin> set p \<and> \<not> Contains p word"

text \<open>The dynamic type of the data that goes with each event type.\<close>

definition data_of :: "EventType \<Rightarrow> 'sid EventData \<Rightarrow> bool" where
  "data_of ty d \<longleftrightarrow>
     (case d of
        NoData \<Rightarrow> ty = EvDisconnect
      | KillData _ \<Rightarrow> ty = EvKill
      | MsgData _ \<Rightarrow> ty = EvMsg
      | ConnectEvent _ \<Rightarrow> ty = EvConnect
      | StatusIDData _ \<Rightarrow> ty = EvStatusID
      | HostnameEvent _ \<Rightarrow> ty = EvHostname
      | MapEvent _ \<Rightarrow> ty = EvMap
      | TagsEvent _ \<Rightarrow> ty = EvTags
      | AddressEvent _ \<Rightarrow> ty = EvAddress
      | VersionEvent _ _ \<Rightarrow> ty = EvVersion
      | _ \<Rightarrow> False)"

section \<open>Kill lines\<close>

lemma yields_weapon:
  assumes "w \<noteq> []" "nl \<notin> set w"
  shows "rx_yields (RSeq (RGrp 3 greedy1)
      (RSeq (RGrp 4 (RAlt (RStr ''.'') (RStr ''. (crit)''))) (RSeq REol REmpty)))
     (n, w @ kill_tail crit, cs)
     (n + length w + length (kill_tail crit), [], (4, kill_tail crit) # (3, w) # cs)"
proof (rule yields_greedy_group)
  show "rx_yields (RSeq (RGrp 4 (RAlt (RStr ''.'') (RStr ''. (crit)''))) (RSeq REol REmpty))
     (n + length w, kill_tail crit, (3, w) # cs)
     (n + length w + length (kill_tail crit), [], (4, kill_tail crit) # (3, w) # cs)"
    by (auto simp: rx_yields_def kill_tail_def)
next
  fix i assume i: "length w < i" "i \<le> length (w @ kill_tail crit)"
  then obtain j where j: "i = length w + j" "0 < j" "j \<le> length (kill_tail crit)"
    by (metis add_le_cancel_left length_append less_imp_add_positive)
  have "\<not> HasPrefix (drop j (kill_tail crit)) ''.''"
    using j(2,3) by (cases crit) (auto simp: kill_tail_def less_Suc_eq le_Suc_eq numeral_eq_Suc)
  moreover from this have "\<not> HasPrefix (drop j (kill_tail crit)) ''. (crit)''"
    by (auto split: list.splits)
  ultimately show "rx_run (RSeq (RGrp 4 (RAlt (RStr ''.'') (RStr ''. (crit)''))) (RSeq REol REmpty))
     (n + i, drop i (w @ kill_tail crit), (3, take i (w @ kill_tail crit)) # cs) = []"
    by (simp add: j(1) del: HasPrefix_Cons)
qed (use assms in \<open>auto simp: kill_tail_def nl_def\<close>)

lemma yields_kill_text:
  assumes "p \<noteq> []" "nl \<notin> set p" "\<not> Contains p ''killed''"
    "v \<noteq> []" "nl \<notin> set v" "\<not> Contains v ''with''" "w \<noteq> []" "nl \<notin> set w"
  shows "\<exists>m. rx_yields (rseq
     [RGrp 1 lazy1, space1, RStr ''killed'', space1, RGrp 2 lazy1, space1,
      RStr ''with'', space1, RGrp 3 greedy1, RGrp 4 (RAlt (RStr ''.'') (RStr ''. (crit)'')), REol])
     (n, kill_text p v w crit, cs)
     (m, [], (4, kill_tail crit) # (3, w) # (2, v) # (1, p) # cs)"
proof -
  have t: "kill_text p v w crit = p @ CHR '' '' # ''killed'' @ '' '' @ v @ CHR '' '' # ''with'' @ '' '' @ w @ kill_tail crit"
    by (simp add: kill_text_def)
  show ?thesis
    unfolding t rseq.simps
    by (rule exI, rule yields_lazy_word_seq, rule yields_space_seq, rule yields_str_seq, rule yields_one_seq,
        rule yields_lazy_word_seq, rule yields_space_seq, rule yields_str_seq, rule yields_one_seq,
        rule yields_weapon) (use assms in \<open>auto simp: nl_def\<close>)
qed

lemma yields_empty_iff: "rx_yields REmpty st st' \<longleftrightarrow> st = st'"
  by (auto simp: rx_yields_def)

lemma parse_data_Kill:
  "FindStringSubmatch kill_rx msg = Some match \<Longrightarrow>
   Parse L now msg =
     (\<lparr>ev_HostPort = [], ev_Type = EvKill, ev_Timestamp = now, ev_Raw = msg,
       ev_Data = KillData \<lparr>ke_Timestamp = zero_time, ke_Player = match ! 1, ke_PlayerSID = sid_zero L,
         ke_Victim = match ! 2, ke_VictimSID = sid_zero L, ke_Weapon = match ! 3,
         ke_Crit = Contains (match ! 4) ''crit''\<rparr>\<rparr>, None)"
  by (simp add: Parse_def NewParser_def zero_Event_def)

lemma yields_timestamp:
  assumes "two_digits mo" "hd mo \<in> set ''01''" "two_digits dd" "hd dd \<in> set ''0123''"
    "two_digits yy" "two_digits hh" "two_digits mi" "two_digits ss"
    "s \<noteq> []" "\<not> class_matches Space (hd s)"
    "rx_yields b (n + 23, s, cs) st'"
  shows "rx_yields (RSeq timestamp_rx b) (n, timestamp_text mo dd yy hh mi ss @ s, cs) st'"
proof (rule yields_seq)
  obtain m1 m2 where mo: "mo = [m1, m2]" "is_digit m2"
    using assms(1) by (auto simp: two_digits_def numeral_2_eq_2 length_Suc_conv)
  obtain d1 d2 where dd: "dd = [d1, d2]" "is_digit d2"
    using assms(3) by (auto simp: two_digits_def numeral_2_eq_2 length_Suc_conv)
  have t: "timestamp_text mo dd yy hh mi ss @ s =
     [m1] @ [m2] @ ''/'' @ [d1] @ [d2] @ ''/20'' @ yy @ '' '' @ ''-'' @ '' '' @ hh @ '':'' @ mi @ '':'' @ ss @
       '':'' @ '' '' @ s"
    by (simp add: timestamp_text_def mo dd)
  show "rx_yields timestamp_rx (n, timestamp_text mo dd yy hh mi ss @ s, cs) (n + 23, s, cs)"
    unfolding t timestamp_rx_def rseq.simps
    by (rule yields_one_seq, rule yields_one_seq, rule yields_str_seq, rule yields_one_seq,
        rule yields_one_seq, rule yields_str_seq, rule yields_exact_seq, rule yields_one_seq,
        rule yields_str_seq, rule yields_one_seq, rule yields_exact_seq, rule yields_str_seq,
        rule yields_exact_seq, rule yields_str_seq, rule yields_exact_seq, rule yields_str_seq,
        rule yields_run_seq, subst yields_empty_iff)
       (use assms mo dd in \<open>auto simp: two_digits_def list_all_iff\<close>)
qed (fact assms)

lemma no_timestamp: "p \<noteq> [] \<Longrightarrow> hd p \<notin> set ''01'' \<Longrightarrow> rx_run timestamp_rx (n, p @ s, cs) = []"
  unfolding timestamp_rx_def rseq.simps by (rule run_seq_fail, rule run_one_fail) (cases p; auto)

lemma kill_match:
  assumes "plain_name ''killed'' p" "plain_name ''with'' v" "w \<noteq> []" "nl \<notin> set w"
    "ts = [] \<and> hd p \<notin> set ''01'' \<or> timestamped ts \<and> \<not> class_matches Space (hd p)"
  shows "FindStringSubmatch kill_rx (ts @ kill_text p v w crit) =
    Some [ts @ kill_text p v w crit, p, v, w, kill_tail crit]"
proof -
  let ?rest = "rseq [RGrp 1 lazy1, space1, RStr ''killed'', space1, RGrp 2 lazy1, space1,
      RStr ''with'', space1, RGrp 3 greedy1, RGrp 4 (RAlt (RStr ''.'') (RStr ''. (crit)'')), REol]"
  let ?cs = "[(4, kill_tail crit), (3, w), (2, v), (1, p)]"
  have p: "p \<noteq> []" "kill_text p v w crit = p @ drop (length p) (kill_text p v w crit)"
    using assms(1) by (auto simp: plain_name_def kill_text_def)
  have y: "\<exists>m. rx_yields ?rest (n, kill_text p v w crit, []) (m, [], ?cs)" for n
    using assms(1-4) by (intro yields_kill_text) (auto simp: plain_name_def)
  have "\<exists>m. rx_yields kill_rx (0, ts @ kill_text p v w crit, []) (m, [], ?cs)"
    using assms(5)
  proof (elim disjE conjE)
    assume "ts = []" "hd p \<notin> set ''01''"
    with y [of 0] p show ?thesis
      unfolding kill_rx_def rseq.simps
      by (metis append.left_neutral no_timestamp yields_bol_seq yields_skip_seq)
  next
    assume ts: "timestamped ts" "\<not> class_matches Space (hd p)"
    with p have "kill_text p v w crit \<noteq> []" "\<not> class_matches Space (hd (kill_text p v w crit))"
      by (metis append_is_Nil_conv) (metis p hd_append2 ts(2))
    moreover from y [of "0 + 23"] obtain m where "rx_yields ?rest (0 + 23, kill_text p v w crit, []) (m, [], ?cs)" by blast
    ultimately have "rx_yields kill_rx (0, ts @ kill_text p v w crit, []) (m, [], ?cs)"
      using ts(1) unfolding timestamped_def kill_rx_def rseq.simps
      by (elim exE conjE, hypsubst) (rule yields_bol_seq, rule yields_opt_seq, rule yields_timestamp, assumption+)
    then show ?thesis ..
  qed
  then obtain m where m: "rx_yields kill_rx (0, ts @ kill_text p v w crit, []) (m, [], ?cs)" ..
  have "m = length (ts @ kill_text p v w crit)" 
    using m rx_run_sound [of m "[]" ?cs kill_rx 0 "ts @ kill_text p v w crit" "[]"]
    by (auto simp: rx_yields_def)
  with yields_FindStringSubmatch [OF m] show ?thesis
    by (simp add: kill_rx_def timestamp_rx_def capture_def upt_rec)
qed

text \<open>C4: a kill line, with or without the leading timestamp, is read back as the kill it was printed
  from: player, victim, weapon and the critical-hit flag, at the time of the call.\<close>

theorem Parse_kill_line:
  assumes "plain_name ''killed'' p" "plain_name ''with'' v" "w \<noteq> []" "nl \<notin> set w"
    "ts = [] \<and> hd p \<notin> set ''01'' \<or> timestamped ts \<and> \<not> class_matches Space (hd p)"
  shows "Parse L now (ts @ kill_text p v w crit) =
     (\<lparr>ev_HostPort = [], ev_Type = EvKill, ev_Timestamp = now, ev_Raw = ts @ kill_text p v w crit,
       ev_Data = KillData \<lparr>ke_Timestamp = zero_time, ke_Player = p, ke_PlayerSID = sid_zero L,
         ke_Victim = v, ke_VictimSID = sid_zero L, ke_Weapon = w, ke_Crit = crit\<rparr>\<rparr>, None)"
proof -
  have "Contains (kill_tail crit) ''crit'' = crit" by (cases crit; simp only: kill_tail_def; code_simp)
  with parse_data_Kill [OF kill_match [OF assms], of L now crit] show ?thesis by simp
qed

theorem Parse_kill_line_witness:
  "fst (Parse num_sid 5 (timestamp_text ''08'' ''16'' ''25'' ''22'' ''25'' ''05'' @
      kill_text ''a player'' ''other'' ''sniperrifle'' True)) =
    \<lparr>ev_HostPort = [], ev_Type = EvKill, ev_Timestamp = 5,
       ev_Raw = ''08/16/2025 - 22:25:05: a player killed other with sniperrifle. (crit)'',
       ev_Data = KillData \<lparr>ke_Timestamp = zero_time, ke_Player = ''a player'', ke_PlayerSID = sid_zero num_sid,
         ke_Victim = ''other'', ke_VictimSID = sid_zero num_sid, ke_Weapon = ''sniperrifle'', ke_Crit = True\<rparr>\<rparr>"
proof -
  have ts: "timestamped (timestamp_text ''08'' ''16'' ''25'' ''22'' ''25'' ''05'')"
    unfolding timestamped_def
    by (rule exI [of _ "''08''"], rule exI [of _ "''16''"], rule exI [of _ "''25''"], rule exI [of _ "''22''"],
        rule exI [of _ "''25''"], rule exI [of _ "''05''"]) (simp add: two_digits_def is_digit_def)
  have n: "plain_name ''killed'' ''a player''" "plain_name ''with'' ''other''" by code_simp+
  show ?thesis
    by (subst Parse_kill_line)
      (use ts n in \<open>simp_all add: nl_def kill_text_def kill_tail_def timestamp_text_def\<close>)
qed

lemma parse_data_typed:
  "(ty, rx) \<in> set NewParser \<Longrightarrow> FindStringSubmatch rx msg = Some match \<Longrightarrow>
     parse_data L ty msg match NoData = Some d \<Longrightarrow> data_of ty d"
  by (auto simp: NewParser_def data_of_def disconnect_rx_def parse_StatusID_def dest!: FindStringSubmatch_length
      split: option.splits sum.splits)

lemma parse_loop_ok:
  assumes "parse_loop L now msg rxs out = (ev, None)" "set rxs \<subseteq> set NewParser" "ev_Data out = NoData"
  shows "data_of (ev_Type ev) (ev_Data ev) \<and> ev_Raw ev = msg \<and> ev_Timestamp ev = now"
  using assms
proof (induction rxs arbitrary: out)
  case (Cons a rxs)
  obtain ty rx where [simp]: "a = (ty, rx)" by force
  show ?case
    using Cons.prems Cons.IH parse_data_typed [of ty rx msg _ L]
    by (auto split: option.splits simp: Let_def)
qed simp

text \<open>C20: an event that \<open>Parse\<close> returns without an error carries the line, the time of the call and data of
  the dynamic type its event type announces. In particular a \<open>RawEvent\<close> is never produced, and a
  disconnect event has no data, since its pattern has only one group.\<close>

theorem Parse_typed:
  assumes "Parse L now msg = (ev, None)"
  shows "data_of (ev_Type ev) (ev_Data ev) \<and> ev_Raw ev = msg \<and> ev_Timestamp ev = now"
  using assms unfolding Parse_def by (rule parse_loop_ok) (auto simp: zero_Event_def)

lemma parse_loop_err:
  "parse_loop L now msg rxs out = (ev, Some e) \<Longrightarrow> e = [ErrNoMatch] \<and>  ev_Data ev = ev_Data out"
  by (induction rxs arbitrary: out) (auto split: option.splits simp: Let_def)

theorem Parse_typed_witness:
  "data_of EvConnect (ev_Data (fst (Parse num_sid 7 ''bob connected''))) \<and>
   ev_Raw (fst (Parse num_sid 7 ''bob connected'')) = ''bob connected''"
proof -
  have "Parse num_sid 7 ''bob connected'' = 
     (\<lparr>ev_HostPort = [], ev_Type = EvConnect, ev_Timestamp = 7, ev_Raw = ''bob connected'', ev_Data = ConnectEvent ''bob''\<rparr>, None)"
    by code_simp
  from Parse_typed [OF this] this show ?thesis by simp
qed

section \<open>Status lines\<close>

lemma duration_step:
  assumes "ds \<noteq> []" "list_all is_digit ds" "length ds \<le> 3" "rest = [] \<or> is_digit (hd rest)"
    "duration_unit [u] = Some k" "0 \<le> d" "d \<le> 10000000000000000"
  shows "duration_from d (ds @ u # rest) = duration_from (d + digits_val ds * k) rest"
proof -
  have u: "u = CHR ''s'' \<and> k = 1000000000 \<or> u = CHR ''m'' \<and> k = 60000000000 \<or>
      u = CHR ''h'' \<and> k = 3600000000000"
    using assms(5) by (auto simp: duration_unit_def split: if_splits)
  then have nd: "\<not> is_digit u" "u \<noteq> CHR ''.''" by (auto simp: is_digit_def)
  have tw: "takeWhile is_digit (ds @ u # rest) = ds" "dropWhile is_digit (ds @ u # rest) = u # rest"
    using assms(2) nd by (auto simp: list_all_iff takeWhile_append dropWhile_append)
  have ru: "takeWhile (\<lambda>c. \<not> is_digit c \<and> c \<noteq> CHR ''.'') (u # rest) = [u]"
    "dropWhile (\<lambda>c. \<not> is_digit c \<and> c \<noteq> CHR ''.'') (u # rest) = rest"
    using nd assms(4) by (cases rest; auto)+
  have "(10::int) ^ length ds \<le> 10 ^ 3" using assms(3) by (intro power_increasing) auto
  with digits_val_bound [OF assms(2)] have v: "0 \<le> digits_val ds" "digits_val ds < 1000" by auto
  have "\<not> (digits_val ds > 2 ^ 63 div k \<or> d + digits_val ds * k > 2 ^ 63)" "\<not> digits_val ds > 2 ^ 63"
    using u v assms(6,7) by (elim disjE conjE; simp)+
  then show ?thesis
    by (subst duration_from.simps, simp only: tw ru Let_def) (simp add: assms(1,5))
qed

lemma duration_end: "0 \<le> d \<Longrightarrow> d < 2 ^ 63 \<Longrightarrow> duration_from d [] = Some d"
  by (subst duration_from.simps) simp

text \<open>The clock texts the pattern lets through, and their number of seconds.\<close>

lemma small_digits: "list_all is_digit ds \<Longrightarrow> length ds \<le> 3 \<Longrightarrow> 0 \<le> digits_val ds \<and> digits_val ds < 1000"
  using digits_val_bound [of ds] power_increasing [of "length ds" 3 "10::int"] by auto

lemma digits_no_colon: "list_all is_digit ds \<Longrightarrow> CHR '':'' \<notin> set ds"
  by (auto simp: list_all_iff is_digit_def)

lemma parseConnected_hms:
  assumes "list_all is_digit h" "list_all is_digit m" "list_all is_digit s"
    "h \<noteq> []" "m \<noteq> []" "s \<noteq> []" "length h \<le> 3" "length m \<le> 3" "length s \<le> 3"
  shows "parseConnected (h @ '':'' @ m @ '':'' @ s) =
    Inr ((digits_val h * 3600 + digits_val m * 60 + digits_val s) * 1000000000)"
proof -
  have hd: "is_digit (hd (m @ x))" "is_digit (hd (s @ x))" for x using assms by (cases m; cases s; simp)+
  note b = small_digits [OF assms(1,7)] small_digits [OF assms(2,8)] small_digits [OF assms(3,9)]
  have n0: "h @ CHR ''h'' # m @ CHR ''m'' # s @ ''s'' \<noteq> ''0''" using assms by (cases h; cases m) auto
  have "duration_from 0 (h @ CHR ''h'' # m @ CHR ''m'' # s @ ''s'') =
      Some (digits_val h * 3600000000000 + digits_val m * 60000000000 + digits_val s * 1000000000)"
    using b assms hd
    by (simp add: duration_step duration_unit_def duration_end)
  then show ?thesis using n0 assms
    by (simp add: parseConnected_def Split_append_sep Split_single digits_no_colon ParseDuration_def)
qed

lemma parseConnected_ms:
  assumes "list_all is_digit m" "list_all is_digit s"
    "m \<noteq> []" "s \<noteq> []" "length m \<le> 3" "length s \<le> 3"
  shows "parseConnected (m @ '':'' @ s) =
    Inr ((digits_val m * 60 + digits_val s) * 1000000000)"
proof -
  have hd: "is_digit (hd (s @ x))" for x using assms by (cases s) simp_all
  note b = small_digits [OF assms(1,5)] small_digits [OF assms(2,6)]
  have n0: "m @ CHR ''m'' # s @ ''s'' \<noteq> ''0''" using assms by (cases m) auto
  have "duration_from 0 (m @ CHR ''m'' # s @ ''s'') =
      Some (digits_val m * 60000000000 + digits_val s * 1000000000)"
    using b assms hd
    by (simp add: duration_step duration_unit_def duration_end)
  then show ?thesis using n0 assms
    by (simp add: parseConnected_def Split_append_sep Split_single digits_no_colon ParseDuration_def)
qed

lemma clock_connected:
  assumes "t \<in> rx_lang clock_rx"
  shows "\<exists>secs. parseConnected t = Inr (secs * 1000000000) \<and> 0 \<le> secs \<and> secs \<le> 3602439"
proof -
  have D: "class_matches Digit = is_digit" by auto
  from assms consider (hms) h m s where "t = h @ '':'' @ m @ '':'' @ s" "list_all is_digit h" "list_all is_digit m"
      "list_all is_digit s" "1 \<le> length h" "length h \<le> 3" "length m = 2" "length s = 2"
    | (ms) m s where "t = m @ '':'' @ s" "list_all is_digit m"
      "list_all is_digit s" "1 \<le> length m" "length m \<le> 3" "length s = 2"
    unfolding clock_rx_def by (auto simp: rep_lang_def D)
  then show ?thesis
  proof cases
    case hms
    then have "parseConnected t = Inr ((digits_val h * 3600 + digits_val m * 60 + digits_val s) * 1000000000)"
      using parseConnected_hms [of h m s] by force
    moreover have "digits_val h < 1000" "0 \<le> digits_val h" using small_digits [of h] hms by auto
    moreover have "0 \<le> digits_val m" "digits_val m < 100" "0 \<le> digits_val s" "digits_val s < 100"
      using digits_val_bound [of m] digits_val_bound [of s] hms by auto
    ultimately show ?thesis
      by (intro exI [of _ "digits_val h * 3600 + digits_val m * 60 + digits_val s"] conjI) simp_all
  next
    case ms
    then have "parseConnected t = Inr ((digits_val m * 60 + digits_val s) * 1000000000)"
      using parseConnected_ms [of m s] by force
    moreover have "0 \<le> digits_val m" "digits_val m < 1000" "0 \<le> digits_val s" "digits_val s < 100"
      using digits_val_bound [of s] small_digits [of m] ms by auto
    ultimately show ?thesis
      by (intro exI [of _ "digits_val m * 60 + digits_val s"] conjI) simp_all
  qed
qed

lemma digits_group:
  assumes "t \<in> rep_lang 1 (Some k) Digit" "(10::int) ^ k \<le> 2 ^ 31"
  shows "\<exists>z. ParseInt 32 t = Some z \<and> 0 \<le> z \<and> z < 10 ^ k"
proof -
  have t: "t \<noteq> []" "list_all is_digit t" "length t \<le> k"
    using assms(1) by (auto simp: rep_lang_def list_all_iff)
  from t(3) have "(10::int) ^ length t \<le> 10 ^ k" by (simp add: power_increasing)
  with digits_val_bound [OF t(2)] have "0 \<le> digits_val t" "digits_val t < 10 ^ k" by linarith+
  with ParseInt_short_digits [OF t, of 32] assms(2) show ?thesis by auto
qed

text \<open>C19: the conversions behind the status line pattern never fail, so that a line it matches is never
  skipped, and the numbers are within the bounds of the pattern: user id, ping, loss and the seconds
  connected.\<close>

theorem parse_StatusID_total:
  assumes "FindStringSubmatch statusid_rx msg = Some match"
  shows "\<exists>d. parse_StatusID L match = Some (StatusIDData d) \<and>
     0 \<le> si_UserID d \<and> si_UserID d < 1000000 \<and> 0 \<le> si_Ping d \<and> si_Ping d < 10000 \<and>
     0 \<le> si_Loss d \<and> si_Loss d < 1000 \<and> 0 \<le> si_Connected d \<and> si_Connected d \<le> 3602439 \<and>
     si_State d \<in> {''spawning'', ''active''}"
proof -
  have g: "match ! i \<in> grp_lang statusid_rx i" if "i \<in> {1, 4, 5, 6, 7}" for i
    using that by (intro FindStringSubmatch_group [OF assms]) (auto simp: statusid_rx_def clock_rx_def)
  have "match ! 1 \<in> rep_lang 1 (Some 6) Digit" "match ! 5 \<in> rep_lang 1 (Some 4) Digit"
    "match ! 6 \<in> rep_lang 1 (Some 3) Digit" "match ! 7 \<in> {''spawning'', ''active''}"
    "match ! 4 \<in> rx_lang clock_rx"
    using g [of 1] g [of 5] g [of 6] g [of 7] g [of 4] by (auto simp: statusid_rx_def clock_rx_def)
  with digits_group [of "match ! 1" 6] digits_group [of "match ! 5" 4] digits_group [of "match ! 6" 3]
    clock_connected [of "match ! 4"]
  show ?thesis by (auto simp: parse_StatusID_def duration_seconds_def)
qed

theorem parse_StatusID_total_witness:
  "\<exists>d. parse_StatusID num_sid
     [''# 1 '' @ [CHR 0x22] @ ''x'' @ [CHR 0x22] @ '' [U:1:5] 01:02 63 0 active'', ''1'', ''x'', ''[U:1:5]'',
      ''01:02'', ''63'', ''0'', ''active'', []] =
       Some (StatusIDData d) \<and> si_Ping d < 10000"
proof -
  have "FindStringSubmatch statusid_rx (''# 1 '' @ [CHR 0x22] @ ''x'' @ [CHR 0x22] @ '' [U:1:5] 01:02 63 0 active'') =
    Some [''# 1 '' @ [CHR 0x22] @ ''x'' @ [CHR 0x22] @ '' [U:1:5] 01:02 63 0 active'', ''1'', ''x'', ''[U:1:5]'',
      ''01:02'', ''63'', ''0'', ''active'', []]"
    by code_simp
  from parse_StatusID_total [OF this, of num_sid] show ?thesis by blast
qed

section \<open>Chat lines\<close>

lemma chat_match:
  assumes "plain_name '':'' n" "m \<noteq> []" "nl \<notin> set m"
  shows "FindStringSubmatch msg_rx (chat_text n m) = Some [chat_text n m, n, m]"
proof -
  have t: "chat_text n m = n @ CHR '' '' # '':'' @ ''  '' @ m" by (simp add: chat_text_def)
  have "\<exists>k. rx_yields msg_rx (0, chat_text n m, []) (k, [], [(2, m), (1, n)])"
    unfolding t msg_rx_def rseq.simps
    by (rule exI, rule yields_lazy_word_seq, rule yields_space_seq, rule yields_str_seq, rule yields_exact_seq,
        rule yields_lazy_end) (use assms in \<open>auto simp: plain_name_def nl_def\<close>)
  then obtain k where k: "rx_yields msg_rx (0, chat_text n m, []) (k, [], [(2, m), (1, n)])" ..
  have "k = length (chat_text n m)"
    using k rx_run_sound [of k "[]" "[(2, m), (1, n)]" msg_rx 0 "chat_text n m" "[]"]
    by (auto simp: rx_yields_def)
  with yields_FindStringSubmatch [OF k] show ?thesis
    by (simp add: msg_rx_def capture_def upt_rec)
qed

lemma parseMsg_plain:
  "\<not> HasPrefix m teamPrefix \<Longrightarrow> \<not> HasPrefix m deadTeamPrefix \<Longrightarrow> \<not> HasPrefix m deadPrefix \<Longrightarrow>
   parseMsg L [a, n, m] = \<lparr>me_Player = m, me_PlayerSID = sid_zero L, me_Dead = False, me_TeamOnly = False, me_Message = m\<rparr>"
  by (simp add: parseMsg_def CutPrefix_def Let_def)

text \<open>Of a chat line the name in front of the colon is not kept: the event has the message as its
  player too, and neither the dead nor the team flag, whatever prefix the name has.\<close>

lemma Parse_chat_line:
  assumes "plain_name '':'' n" "plain_name ''killed'' (chat_text n m)" "m \<noteq> []"
    "\<not> HasPrefix m teamPrefix" "\<not> HasPrefix m deadTeamPrefix" "\<not> HasPrefix m deadPrefix"
  shows "Parse L now (chat_text n m) =
     (\<lparr>ev_HostPort = [], ev_Type = EvMsg, ev_Timestamp = now, ev_Raw = chat_text n m,
       ev_Data = MsgData \<lparr>me_Player = m, me_PlayerSID = sid_zero L, me_Dead = False,
         me_TeamOnly = False, me_Message = m\<rparr>\<rparr>, None)"
proof -
  have "FindStringSubmatch kill_rx (chat_text n m) = None"
    using assms(2) by (intro FindStringSubmatch_lacks [of _ "''killed''"])
      (auto simp: kill_rx_def plain_name_def Contains_iff intro: exI [of _ "[]"])
  moreover have "FindStringSubmatch msg_rx (chat_text n m) = Some [chat_text n m, n, m]"
    using assms(1-3) by (intro chat_match) (auto simp: plain_name_def chat_text_def)
  ultimately show ?thesis
    using parseMsg_plain [OF assms(4-6)] by (simp add: Parse_def NewParser_def zero_Event_def)
qed

lemma Parse_chat_example:
  "ev_Data (fst (Parse num_sid 0 (chat_text ''*DEAD* bob'' ''hello''))) =
     MsgData \<lparr>me_Player = ''hello'', me_PlayerSID = sid_zero num_sid, me_Dead = False,
         me_TeamOnly = False, me_Message = ''hello''\<rparr>"
proof -
  have "plain_name '':'' ''*DEAD* bob''" "plain_name ''killed'' (chat_text ''*DEAD* bob'' ''hello'')"
    by code_simp+
  then show ?thesis
    by (subst Parse_chat_line) (simp_all add: teamPrefix_def deadTeamPrefix_def deadPrefix_def)
qed

end
