(* ===== verification/Timestamps.thy ===== *)
theory Timestamps
  imports Events_Parser "HOL-Library.Monad_Syntax"
begin

text \<open>
  The timestamps of the game's log, \<open>parseTimestamp\<close> and \<open>ApplyTimestamp\<close> of internal/tf/events/parser.go, with
  what they use of \<open>time.Parse\<close>: the layout \<open>01/02/2006 - 15:04:05\<close> read from left to right, with Go's
  leniency about an hour of one digit, repeated blanks and a fraction of the seconds.
\<close>

section \<open>Calendar\<close>

definition is_leap :: "int \<Rightarrow> bool" where
  "is_leap y \<longleftrightarrow> 4 dvd y \<and> (\<not> 100 dvd y \<or> 400 dvd y)"

definition daysIn :: "int \<Rightarrow> int \<Rightarrow> int" where
  "daysIn m y = (if m = 2 then (if is_leap y then 29 else 28) else if m \<in> {4, 6, 9, 11} then 30 else 31)"

text \<open>Days before a year since the first of January of year 1, and before a month of a year.\<close>

definition days_before_year :: "int \<Rightarrow> int" where
  "days_before_year y = 365 * (y - 1) + (y - 1) div 4 - (y - 1) div 100 + (y - 1) div 400"

definition days_before_month :: "int \<Rightarrow> int \<Rightarrow> int" where
  "days_before_month m y = sum_list (map (\<lambda>k. daysIn (int k) y) [1..<nat m])"

text \<open>\<open>time.Date\<close> in UTC, in nanoseconds since 1970, 719162 days after the first day of year 1.\<close>

definition Date :: "int \<Rightarrow> int \<Rightarrow> int \<Rightarrow> int \<Rightarrow> int \<Rightarrow> int \<Rightarrow> int \<Rightarrow> time" where
  "Date year month day hour minute sec nsec =
     ((days_before_year year + days_before_month month year + day - 1 - 719162) * 86400 + hour * 3600 + minute * 60 + sec) *
       1000000000 + nsec"

section \<open>Reading a timestamp\<close>

definition getnum :: "bool \<Rightarrow> string \<Rightarrow> (int \<times> string) option" where
  "getnum fixed s =
     (case s of
        a # s1 \<Rightarrow>
          if \<not> is_digit a then None
          else (case s1 of
                  b # s2 \<Rightarrow> if is_digit b then Some (digit_val a * 10 + digit_val b, s2)
                           else if fixed then None else Some (digit_val a, s1)
                | [] \<Rightarrow> if fixed then None else Some (digit_val a, s1))
      | [] \<Rightarrow> None)"

function (sequential) skip :: "string \<Rightarrow> string \<Rightarrow> string option" where
  "skip value [] = Some value"
| "skip value (p # prefix) =
     (if p = CHR '' '' then
        (if value \<noteq> [] \<and> hd value \<noteq> CHR '' '' then None
         else skip (dropWhile (\<lambda>c. c = CHR '' '') value) (dropWhile (\<lambda>c. c = CHR '' '') prefix))
      else case value of
             [] \<Rightarrow> None
           | v # value \<Rightarrow> if v = p then skip value prefix else None)"
  by pat_completeness auto

termination
  by (relation "measure (\<lambda>(value, prefix). length prefix)") (auto simp: le_imp_less_Suc length_dropWhile_le)

definition getyear :: "string \<Rightarrow> (int \<times> string) option" where
  "getyear s = (if 4 \<le> length s \<and> list_all is_digit (take 4 s) then Some (digits_val (take 4 s), drop 4 s) else None)"

text \<open>A fraction after the seconds, of which nine digits count.\<close>

definition getfraction :: "string \<Rightarrow> int \<times> string" where
  "getfraction s =
     (case s of
        c # s1 \<Rightarrow>
          let ds = takeWhile is_digit s1
          in if (c = CHR ''.'' \<or> c = CHR '','') \<and> ds \<noteq> []
             then (digits_val (take 9 ds) * 10 ^ (9 - length (take 9 ds)), dropWhile is_digit s1) else (0, s)
      | [] \<Rightarrow> (0, s))"

definition in_range :: "int \<Rightarrow> int \<Rightarrow> (int \<times> string) option \<Rightarrow> (int \<times> string) option" where
  "in_range lo hi r = (case r of Some (n, s) \<Rightarrow> if lo \<le> n \<and> n \<le> hi then Some (n, s) else None | None \<Rightarrow> None)"

definition time_Parse :: "string \<Rightarrow> time option" where
  "time_Parse s =
     in_range 1 12 (getnum True s) \<bind> (\<lambda>(month, s). skip s ''/'' \<bind> (\<lambda>s.
     getnum True s \<bind> (\<lambda>(day, s). skip s ''/'' \<bind> (\<lambda>s.
     getyear s \<bind> (\<lambda>(year, s). skip s '' - '' \<bind> (\<lambda>s.
     in_range 0 23 (getnum False s) \<bind> (\<lambda>(hour, s). skip s '':'' \<bind> (\<lambda>s.
     in_range 0 59 (getnum True s) \<bind> (\<lambda>(minute, s). skip s '':'' \<bind> (\<lambda>s.
     in_range 0 59 (getnum True s) \<bind> (\<lambda>(sec, s).
       let (nsec, s) = getfraction s
       in if s = [] \<and> 1 \<le> day \<and> day \<le> daysIn month year
          then Some (Date year month day hour minute sec nsec) else None)))))))))))"

definition parseTimestamp :: "string \<Rightarrow> time result" where
  "parseTimestamp timestamp =
     (case time_Parse timestamp of
        None \<Rightarrow> Inl (errors_Join [ErrForeign ''time.Parse''] [ErrParseTimestamp])
      | Some t \<Rightarrow> Inr t)"

definition ApplyTimestamp :: "string \<Rightarrow> 'sid Event \<Rightarrow> go_error option \<times> 'sid Event" where
  "ApplyTimestamp tsString e =
     (case parseTimestamp tsString of Inl err \<Rightarrow> (Some err, e) | Inr ts \<Rightarrow> (None, e\<lparr>ev_Timestamp := ts\<rparr>))"

section \<open>Round trip\<close>

text \<open>The text of a timestamp.\<close>

definition two_dig :: "int \<Rightarrow> string" where
  "two_dig n = [char_of (48 + n div 10), char_of (48 + n mod 10)]"

definition log_timestamp :: "int \<Rightarrow> int \<Rightarrow> int \<Rightarrow> int \<Rightarrow> int \<Rightarrow> int \<Rightarrow> string" where
  "log_timestamp year month day hour minute sec =
     two_dig month @ ''/'' @ two_dig day @ ''/'' @ two_dig (year div 100) @ two_dig (year mod 100) @ '' - '' @
     two_dig hour @ '':'' @ two_dig minute @ '':'' @ two_dig sec"

lemma two_dig_chars:
  assumes "0 \<le> n" "n < 100"
  obtains a b where "two_dig n = [a, b]" "is_digit a" "is_digit b" "digit_val a * 10 + digit_val b = n"
  using digit_char [of "n div 10"] digit_char [of "n mod 10"] assms
  by (auto simp: two_dig_def)

lemma getnum_two_dig: "0 \<le> n \<Longrightarrow> n < 100 \<Longrightarrow> getnum fixed (two_dig n @ s) = Some (n, s)"
  by (rule two_dig_chars [of n]) (auto simp: getnum_def)

lemma skip_char: "skip (CHR ''/'' # s) ''/'' = Some s" "skip (CHR '':'' # s) '':'' = Some s"
  by simp_all

lemma digit_no_space: "is_digit c \<Longrightarrow> c \<noteq> CHR '' ''"
  by (auto simp: is_digit_def)

lemma skip_dash:
  assumes "0 \<le> n" "n < 100"
  shows "skip (CHR '' '' # CHR ''-'' # CHR '' '' # two_dig n @ s) '' - '' = Some (two_dig n @ s)"
  by (rule two_dig_chars [OF assms]) (simp add: digit_no_space)

lemma getyear_two_dig:
  assumes "0 \<le> y" "y < 10000"
  shows "getyear (two_dig (y div 100) @ two_dig (y mod 100) @ s) = Some (y, s)"
proof -
  obtain a b where 1: "two_dig (y div 100) = [a, b]" "is_digit a" "is_digit b" "digit_val a * 10 + digit_val b = y div 100"
    by (rule two_dig_chars [of "y div 100"]) (use assms in auto)
  obtain c d where 2: "two_dig (y mod 100) = [c, d]" "is_digit c" "is_digit d" "digit_val c * 10 + digit_val d = y mod 100"
    by (rule two_dig_chars [of "y mod 100"]) auto
  have "digits_val [a, b, c, d] = (digit_val a * 10 + digit_val b) * 100 + (digit_val c * 10 + digit_val d)"
    by (simp add: digits_val_def)
  also have "\<dots> = y" unfolding 1(4) 2(4) by simp
  finally show ?thesis using 1 2 by (simp add: getyear_def)
qed

lemma in_range_Some: "lo \<le> n \<Longrightarrow> n \<le> hi \<Longrightarrow> in_range lo hi (Some (n, s)) = Some (n, s)"
  by (simp add: in_range_def)

text \<open>C23: every timestamp the game can print is read back as the instant it names.\<close>

theorem parseTimestamp_roundtrip:
  assumes "0 \<le> year" "year < 10000" "1 \<le> month" "month \<le> 12" "1 \<le> day" "day \<le> daysIn month year"
    and "0 \<le> hour" "hour < 24" "0 \<le> minute" "minute < 60" "0 \<le> sec" "sec < 60"
  shows "parseTimestamp (log_timestamp year month day hour minute sec) = Inr (Date year month day hour minute sec 0)"
proof -
  have d: "day < 100" using assms(6) by (auto simp: daysIn_def split: if_splits)
  have last: "getnum True (two_dig sec) = Some (sec, [])" using getnum_two_dig [of sec True "[]"] assms by simp
  have "time_Parse (log_timestamp year month day hour minute sec) = Some (Date year month day hour minute sec 0)"
    unfolding time_Parse_def log_timestamp_def
    using assms d
    by (simp add: getnum_two_dig getyear_two_dig in_range_Some skip_dash skip_char last getfraction_def del: skip.simps)
  then show ?thesis by (simp add: parseTimestamp_def)
qed

text \<open>The last second of a leap day.\<close>

theorem parseTimestamp_roundtrip_witness:
  "parseTimestamp (log_timestamp 2024 2 29 23 59 59) = Inr (Date 2024 2 29 23 59 59 0)"
  by (rule parseTimestamp_roundtrip) (simp_all add: daysIn_def is_leap_def)

lemma ApplyTimestamp_error: "fst (ApplyTimestamp ts e) = Some err \<Longrightarrow> errors_Is err ErrParseTimestamp \<and> snd (ApplyTimestamp ts e) = e"
  by (auto simp: ApplyTimestamp_def parseTimestamp_def split: option.splits)

lemma parseTimestamp_example: "parseTimestamp ''05/14/2025 - 13:07:09'' = Inr 1747228029000000000"
  by code_simp

end
