(* ===== verification/Rcon.thy ===== *)
theory Rcon
  imports Tf "HOL-Library.Monad_Syntax"
begin

text \<open>
  internal/tf/rcon/rcon.go: one request to a game server. The rcon protocol itself is the package
  github.com/leighmacdonald/rcon, which is not part of the repository: dialling, writing a command,
  reading one response packet and closing are the fields of \<open>rcon_lib\<close>, on a world \<open>'w\<close> (everything
  outside the program) and connections \<open>'c\<close>.
\<close>

record ('c, 'w) rcon_lib =
  rl_Dial :: "string \<Rightarrow> string \<Rightarrow> int \<Rightarrow> 'w \<Rightarrow> 'c result \<times> 'w"
  rl_Write :: "'c \<Rightarrow> string \<Rightarrow> 'w \<Rightarrow> int result \<times> 'w"
  rl_Read :: "'c \<Rightarrow> 'w \<Rightarrow> (string \<times> int) result \<times> 'w"
  rl_Close :: "'c \<Rightarrow> 'w \<Rightarrow> 'w"

record Connection =
  co_addr :: string
  co_password :: string
  co_timeout :: int

definition New :: "string \<Rightarrow> string \<Rightarrow> Connection" where
  "New addr password = \<lparr>co_addr = addr, co_password = password, co_timeout = 1000000000\<rparr>"

text \<open>A packet with another id than the command's is only logged.\<close>

definition rcon :: "('c, 'w) rcon_lib \<Rightarrow> 'c \<Rightarrow> string \<Rightarrow> 'w \<Rightarrow> string result \<times> 'w" where
  "rcon R conn cmd w =
     (case rl_Write R conn cmd w of
        (Inl e, w) \<Rightarrow> (Inl (errors_Join e [errRCON]), w)
      | (Inr cmdID, w) \<Rightarrow>
          (case rl_Read R conn w of
             (Inl e, w) \<Rightarrow> (Inl (errors_Join e [errRCON]), w)
           | (Inr (resp, respID), w) \<Rightarrow> (Inr resp, w)))"

text \<open>The size of a full packet body, and the loop of \<open>rconLarge\<close>: nothing bounds the number of
  packets, so the loop may run forever and is \<open>None\<close> then.\<close>

definition packet_size :: nat where
  "packet_size = 4096"

partial_function (option) rconLarge_loop ::
  "('c, 'w) rcon_lib \<Rightarrow> 'c \<Rightarrow> int \<Rightarrow> string \<Rightarrow> 'w \<Rightarrow> (string result \<times> 'w) option"
where
  "rconLarge_loop R conn cmdID response w =
     (case rl_Read R conn w of
        (Inl e, w') \<Rightarrow> Some (Inl (errors_Join e [errRCON]), w')
      | (Inr (resp, respID), w') \<Rightarrow>
          if cmdID = respID then
            (if length resp < packet_size then Some (Inr (response @ resp), w')
             else rconLarge_loop R conn cmdID (response @ resp) w')
          else rconLarge_loop R conn cmdID response w')"

declare rconLarge_loop.simps [code]

definition rconLarge ::
  "('c, 'w) rcon_lib \<Rightarrow> 'c \<Rightarrow> string \<Rightarrow> 'w \<Rightarrow> (string result \<times> 'w) option" where
  "rconLarge R conn cmd w =
     (case rl_Write R conn cmd w of
        (Inl e, w) \<Rightarrow> Some (Inl (errors_Join e [errRCON]), w)
      | (Inr cmdID, w) \<Rightarrow> rconLarge_loop R conn cmdID [] w)"

text \<open>\<open>Exec\<close>; the deferred \<open>Close\<close> runs on every path after a successful dial.\<close>

definition Exec ::
  "('c, 'w) rcon_lib \<Rightarrow> Connection \<Rightarrow> string \<Rightarrow> bool \<Rightarrow> 'w \<Rightarrow> (string result \<times> 'w) option" where
  "Exec R r cmd large w =
     (case rl_Dial R (co_addr r) (co_password r) (co_timeout r) w of
        (Inl e, w) \<Rightarrow> Some (Inl (errors_Join e [errRCON]), w)
      | (Inr conn, w) \<Rightarrow>
          (if large then rconLarge R conn cmd w else Some (rcon R conn cmd w)) \<bind>
          (\<lambda>(res, w). Some (res, rl_Close R conn w)))"

section \<open>What a large response is\<close>

text \<open>The packets a connection delivers one after the other, and the world after them.\<close>

fun delivers :: "('c, 'w) rcon_lib \<Rightarrow> 'c \<Rightarrow> 'w \<Rightarrow> (string \<times> int) list \<Rightarrow> 'w \<Rightarrow> bool" where
  "delivers R c w [] w' \<longleftrightarrow> w' = w"
| "delivers R c w (p # ps) w' \<longleftrightarrow> (\<exists>w1. rl_Read R c w = (Inr p, w1) \<and> delivers R c w1 ps w')"

text \<open>The body of a response: the packets with the id of the command.\<close>

definition response_of :: "int \<Rightarrow> (string \<times> int) list \<Rightarrow> string" where
  "response_of cid ps = concat (map fst (filter (\<lambda>p. snd p = cid) ps))"

text \<open>A response is complete with its first packet that is not full.\<close>

definition unfinished :: "int \<Rightarrow> (string \<times> int) list \<Rightarrow> bool" where
  "unfinished cid ps \<longleftrightarrow> (\<forall>p \<in> set ps. snd p = cid \<longrightarrow> packet_size \<le> length (fst p))"

lemma rconLarge_loop_delivers:
  assumes "delivers R c w ps w'" "unfinished cid ps"
  shows "rconLarge_loop R c cid acc w = rconLarge_loop R c cid (acc @ response_of cid ps) w'"
  using assms
proof (induction ps arbitrary: w acc)
  case (Cons p ps)
  obtain w1 where r: "rl_Read R c w = (Inr p, w1)" "delivers R c w1 ps w'" using Cons.prems(1) by auto
  have "rconLarge_loop R c cid acc w =
      rconLarge_loop R c cid (if snd p = cid then acc @ fst p else acc) w1"
    using Cons.prems(2) r(1)
    by (subst rconLarge_loop.simps) (auto simp: unfinished_def split: prod.splits)
  also have "\<dots> = rconLarge_loop R c cid ((if snd p = cid then acc @ fst p else acc) @ response_of cid ps) w'"
    using Cons.prems(2) r(2) by (intro Cons.IH) (auto simp: unfinished_def)
  finally show ?case by (simp add: response_of_def)
qed (simp add: response_of_def)

lemma rconLarge_loop_finish:
  assumes "delivers R c w ps w1" "unfinished cid ps"
    "rl_Read R c w1 = (Inr (resp, cid), w2)" "length resp < packet_size"
  shows "rconLarge_loop R c cid acc w = Some (Inr (acc @ response_of cid ps @ resp), w2)"
  using assms(3,4) unfolding rconLarge_loop_delivers [OF assms(1,2)]
  by (subst rconLarge_loop.simps) simp

lemma rconLarge_loop_error:
  assumes "delivers R c w ps w1" "unfinished cid ps" "rl_Read R c w1 = (Inl e, w2)"
  shows "rconLarge_loop R c cid acc w = Some (Inl (errors_Join e [errRCON]), w2)"
  using assms(3) unfolding rconLarge_loop_delivers [OF assms(1,2)]
  by (subst rconLarge_loop.simps) simp

text \<open>C7: a large request returns, and returns the concatenation of the packets that carry its id, up
  to and including the first that is not full; packets with other ids in between are left out.\<close>

theorem Exec_large_response:
  assumes "rl_Dial R (co_addr r) (co_password r) (co_timeout r) w0 = (Inr c, w1)"
    and "rl_Write R c cmd w1 = (Inr cid, w2)"
    and "delivers R c w2 ps w3" "unfinished cid ps"
    and "rl_Read R c w3 = (Inr (resp, cid), w4)" "length resp < packet_size"
  shows "Exec R r cmd True w0 = Some (Inr (response_of cid ps @ resp), rl_Close R c w4)"
  using assms(1,2) rconLarge_loop_finish [OF assms(3-6), of "[]"]
  by (simp add: Exec_def rconLarge_def)

text \<open>When the connection fails before a packet that is not full has arrived, the whole request
  fails with \<open>errRCON\<close>, however much of the response was read. A response whose last packet is
  exactly full is such a case: the loop waits for another packet.\<close>

theorem Exec_large_needs_short_packet:
  assumes "rl_Dial R (co_addr r) (co_password r) (co_timeout r) w0 = (Inr c, w1)"
    and "rl_Write R c cmd w1 = (Inr cid, w2)"
    and "delivers R c w2 ps w3" "unfinished cid ps"
    and "rl_Read R c w3 = (Inl e, w4)"
  shows "Exec R r cmd True w0 = Some (Inl (errors_Join e [errRCON]), rl_Close R c w4)"
  using assms(1,2) rconLarge_loop_error [OF assms(3-5), of "[]"]
  by (simp add: Exec_def rconLarge_def)

section \<open>A scripted server\<close>

text \<open>An instance on which the witnesses evaluate: the world is the list of packets still to be read.
  Reading past the end fails.\<close>

definition script_rcon :: "(unit, (string \<times> int) list) rcon_lib" where
  "script_rcon =
     \<lparr>rl_Dial = (\<lambda>addr pw t w. (Inr (), w)),
      rl_Write = (\<lambda>c cmd w. (Inr 1, w)),
      rl_Read = (\<lambda>c w. case w of [] \<Rightarrow> (Inl [ErrForeign ''EOF''], []) | p # ps \<Rightarrow> (Inr p, ps)),
      rl_Close = (\<lambda>c w. w)\<rparr>"

lemma script_delivers: "delivers script_rcon () (ps @ w) ps w"
  by (induction ps) (auto simp: script_rcon_def)

theorem Exec_large_response_witness:
  "Exec script_rcon (New ''h:1'' ''pw'') ''status'' True
     [(replicate 4096 (CHR ''a''), 1), (''other'', 7), (''b'', 1), (''next'', 1)] =
   Some (Inr (replicate 4096 (CHR ''a'') @ ''b''), [(''next'', 1)])"
proof -
  let ?ps = "[(replicate 4096 (CHR ''a''), 1), (''other'', 7 :: int)]"
  have d: "delivers script_rcon () (?ps @ [(''b'', 1), (''next'', 1)]) ?ps [(''b'', 1), (''next'', 1)]"
    by (rule script_delivers)
  have r: "response_of 1 ?ps = replicate 4096 (CHR ''a'')" by (simp add: response_of_def)
  have "Exec script_rcon (New ''h:1'' ''pw'') ''status'' True (?ps @ [(''b'', 1), (''next'', 1)]) =
      Some (Inr (response_of 1 ?ps @ ''b''), rl_Close script_rcon () [(''next'', 1)])"
    by (rule Exec_large_response [OF _ _ d])
      (simp_all add: script_rcon_def New_def unfinished_def packet_size_def)
  then show ?thesis by (simp add: script_rcon_def r)
qed

theorem Exec_large_needs_short_packet_witness:
  "Exec script_rcon (New ''h:1'' ''pw'') ''status'' True [(replicate 4096 (CHR ''a''), 1)] =
     Some (Inl [ErrForeign ''EOF'', errRCON], [])"
proof -
  let ?ps = "[(replicate 4096 (CHR ''a''), 1 :: int)]"
  have d: "delivers script_rcon () (?ps @ []) ?ps []" by (rule script_delivers)
  have "Exec script_rcon (New ''h:1'' ''pw'') ''status'' True (?ps @ []) =
      Some (Inl (errors_Join [ErrForeign ''EOF''] [errRCON]), rl_Close script_rcon () [])"
    by (rule Exec_large_needs_short_packet [OF _ _ d])
      (simp_all add: script_rcon_def New_def unfinished_def packet_size_def)
  then show ?thesis by (simp add: script_rcon_def errors_Join_def)
qed

text \<open>Every failure of a request carries \<open>errRCON\<close>.\<close>

lemma rconLarge_loop_errRCON:
  assumes "rconLarge_loop R c cid acc w = Some (Inl e, w')"
  shows "errors_Is e errRCON"
proof -
  have "fst (Inl e :: string result, w') = Inl e \<longrightarrow> errors_Is e errRCON"
    by (rule rconLarge_loop.raw_induct [where P = "\<lambda>R c cid acc w r. fst r = Inl e \<longrightarrow> errors_Is e errRCON", OF _ assms])
      (auto split: prod.splits sum.splits if_splits simp: errors_Is_def errors_Join_def)
  then show ?thesis by simp
qed

lemma Exec_errRCON:
  "Exec R r cmd large w = Some (Inl e, w') \<Longrightarrow> errors_Is e errRCON"
  by (auto simp: Exec_def rconLarge_def rcon_def Let_def dest: rconLarge_loop_errRCON
      split: prod.splits sum.splits if_splits option.splits bind_splits)

end
