(* ===== verification/Fetcher.thy ===== *)
theory Fetcher
  imports Rcon
begin

text \<open>
  internal/tf/rcon/fetcher.go: the periodic query of a server. In client mode the answer is the
  output of \<open>g15_dumpplayer\<close>, in server mode that of \<open>status\<close> and \<open>stats\<close>. The parser of the
  status output belongs to the package steamid/extra and is a parameter (\<open>fl_ParseStatus\<close>), as is
  the conversion of a decimal text to a floating point value (\<open>fl_ParseFloat\<close>).
\<close>

record ('sid, 'f) fetch_lib =
  fl_ParseStatus :: "string \<Rightarrow> bool \<Rightarrow> 'sid extra_Status result"
  fl_ParseFloat :: "string \<Rightarrow> 'f result"
  fl_zero :: 'f

section \<open>The fetcher\<close>

definition alternatives :: "string list \<Rightarrow> regexp" where
  "alternatives ls = foldr (\<lambda>l r. RAlt (RStr l) r) (butlast ls) (RStr (last ls))"

definition g15_fields :: "string list" where
  "g15_fields = [''m_szName'', ''m_iPing'', ''m_iScore'', ''m_iDeaths'', ''m_bConnected'', ''m_iTeam'',
     ''m_bAlive'', ''m_iHealth'', ''m_iAccountID'', ''m_bValid'', ''m_iUserID'']"

definition g15re :: regexp where
  \<comment> \<open>\<^verbatim>\<open>^(m_szName|...|m_iUserID)\[(\d+)]\s(integer|bool|string)\s\((.+?)?\)$\<close>\<close>
  "g15re = rseq
     [RBol, RGrp 1 (alternatives g15_fields), RStr ''['', RGrp 2 digits1, RStr '']'', space1,
      RGrp 3 (alternatives [''integer'', ''bool'', ''string'']), space1, RStr ''('',
      ropt (RGrp 4 lazy1), RStr '')'', REol]"

definition decimal_rx :: "nat \<Rightarrow> regexp" where
  \<comment> \<open>\<^verbatim>\<open>(\d+\.\d{1,2})\<close>\<close>
  "decimal_rx i = RGrp i (rseq [digits1, RStr ''.'', digits_mn 1 2])"

definition statsRe :: regexp where
  \<comment> \<open>\<^verbatim>\<open>(\d+\.\d{1,2})\s+(\d+\.\d{1,2})\s+(\d+\.\d{1,2})\s+(\d+)\s+(\d+)\s+(\d+\.\d{1,2})\s+(\d+)\s+(\d+)\<close>\<close>
  "statsRe = rseq
     [decimal_rx 1, spaces1, decimal_rx 2, spaces1, decimal_rx 3, spaces1, RGrp 4 digits1, spaces1,
      RGrp 5 digits1, spaces1, decimal_rx 6, spaces1, RGrp 7 digits1, spaces1, RGrp 8 digits1]"

record ('sid, 'f) Fetcher =
  fe_Address :: string
  fe_Password :: string
  fe_lastUpdate :: "'sid DumpPlayer"
  fe_lastStatus :: "('sid, 'f) Status"
  fe_serverMode :: bool

definition NewFetcher ::
  "'sid steamid_pkg \<Rightarrow> 'f \<Rightarrow> string \<Rightarrow> string \<Rightarrow> bool \<Rightarrow> ('sid, 'f) Fetcher" where
  "NewFetcher L z address password serverMode =
     \<lparr>fe_Address = address, fe_Password = password, fe_lastUpdate = zero_DumpPlayer L,
      fe_lastStatus = zero_Status z, fe_serverMode = serverMode\<rparr>"

section \<open>Parsing the g15 output\<close>

definition parseInt :: "string \<Rightarrow> int \<Rightarrow> int" where
  "parseInt s def = (case ParseInt 32 s of None \<Rightarrow> def | Some i \<Rightarrow> i)"

definition parseBool :: "string \<Rightarrow> bool" where
  "parseBool s = (case ParseBool s of None \<Rightarrow> False | Some b \<Rightarrow> b)"

text \<open>\<open>bufio.Scanner\<close> with its default split function: the lines without their newline and one
  carriage return. A line that does not fit into the buffer of 64 KiB ends the scan with an error,
  which the caller only logs.\<close>

definition MaxScanTokenSize :: nat where
  "MaxScanTokenSize = 65536"

definition drop_nl :: "string \<Rightarrow> string" where
  "drop_nl l = (if l \<noteq> [] \<and> last l = nl then butlast l else l)"

definition dropCR :: "string \<Rightarrow> string" where
  "dropCR l = (if l \<noteq> [] \<and> last l = CHR 0x0D then butlast l else l)"

definition scan_lines :: "string \<Rightarrow> string list" where
  "scan_lines s = map dropCR (takeWhile (\<lambda>l. length l < MaxScanTokenSize) (map drop_nl (Lines s)))"

text \<open>The \<open>switch\<close> on the field name. An index at or above the length of the arrays panics.\<close>

definition g15_assign ::
  "'sid steamid_pkg \<Rightarrow> string \<Rightarrow> nat \<Rightarrow> string \<Rightarrow> 'sid DumpPlayer \<Rightarrow> 'sid DumpPlayer outcome" where
  "g15_assign L field i value data =
     (if field \<in> set g15_fields \<and> MaxPlayerCount \<le> i then Panic
      else Ok
       (if field = ''m_szName'' then data\<lparr>dp_Names := (dp_Names data)[i := value]\<rparr>
        else if field = ''m_iPing'' then data\<lparr>dp_Ping := (dp_Ping data)[i := parseInt value 0]\<rparr>
        else if field = ''m_iScore'' then data\<lparr>dp_Score := (dp_Score data)[i := parseInt value 0]\<rparr>
        else if field = ''m_iDeaths'' then data\<lparr>dp_Deaths := (dp_Deaths data)[i := parseInt value 0]\<rparr>
        else if field = ''m_bConnected'' then data\<lparr>dp_Connected := (dp_Connected data)[i := parseBool value]\<rparr>
        else if field = ''m_iTeam'' then data\<lparr>dp_Team := (dp_Team data)[i := parseInt value 0]\<rparr>
        else if field = ''m_bAlive'' then data\<lparr>dp_Alive := (dp_Alive data)[i := parseBool value]\<rparr>
        else if field = ''m_iHealth'' then data\<lparr>dp_Health := (dp_Health data)[i := parseInt value 0]\<rparr>
        else if field = ''m_iAccountID'' then
          data\<lparr>dp_SteamID := (dp_SteamID data)[i := sid_New_int L (parseInt value 0)]\<rparr>
        else if field = ''m_bValid'' then data\<lparr>dp_Valid := (dp_Valid data)[i := parseBool value]\<rparr>
        else if field = ''m_iUserID'' then data\<lparr>dp_UserID := (dp_UserID data)[i := parseInt value (-1)]\<rparr>
        else data))"

definition g15_line ::
  "'sid steamid_pkg \<Rightarrow> string \<Rightarrow> 'sid DumpPlayer \<Rightarrow> 'sid DumpPlayer outcome" where
  "g15_line L line data =
     (case FindStringSubmatch g15re (Trim line (CHR 0x0D)) of
        None \<Rightarrow> Ok data
      | Some matches \<Rightarrow>
          let index = parseInt (matches ! 2) (-1);
              value = (if length matches = 5 then matches ! 4 else [])
          in if index < 0 then Ok data
             else g15_assign L (matches ! 1) (nat index) value data)"

fun g15_lines ::
  "'sid steamid_pkg \<Rightarrow> string list \<Rightarrow> 'sid DumpPlayer \<Rightarrow> 'sid DumpPlayer outcome" where
  "g15_lines L [] data = Ok data"
| "g15_lines L (l # ls) data = outcome_bind (g15_line L l data) (g15_lines L ls)"

definition parsePlayerState :: "'sid steamid_pkg \<Rightarrow> string \<Rightarrow> 'sid DumpPlayer outcome" where
  "parsePlayerState L s = g15_lines L (scan_lines s) (zero_DumpPlayer L)"

section \<open>Parsing the stats output\<close>

text \<open>The conversions are made in this order and the first error is returned.\<close>

definition go_ParseInt :: "nat \<Rightarrow> string \<Rightarrow> int result" where
  "go_ParseInt bits s =
     (case ParseInt bits s of None \<Rightarrow> Inl [ErrForeign ''strconv.ParseInt''] | Some z \<Rightarrow> Inr z)"

definition result_bind :: "'a result \<Rightarrow> ('a \<Rightarrow> 'b result) \<Rightarrow> 'b result" where
  "result_bind r f = (case r of Inl e \<Rightarrow> Inl e | Inr a \<Rightarrow> f a)"

definition parseStats :: "('sid, 'f) fetch_lib \<Rightarrow> string list \<Rightarrow> 'f Stats result" where
  "parseStats F match =
     result_bind (fl_ParseFloat F (match ! 1)) (\<lambda>cpu.
     result_bind (fl_ParseFloat F (match ! 2)) (\<lambda>inKBs.
     result_bind (fl_ParseFloat F (match ! 3)) (\<lambda>outKBs.
     result_bind (go_ParseInt 64 (match ! 4)) (\<lambda>uptime.
     result_bind (go_ParseInt 64 (match ! 5)) (\<lambda>mapChanges.
     result_bind (fl_ParseFloat F (match ! 6)) (\<lambda>fps.
     result_bind (go_ParseInt 64 (match ! 7)) (\<lambda>players.
     result_bind (go_ParseInt 64 (match ! 8)) (\<lambda>connects.
       Inr \<lparr>st_CPU = cpu, st_InKBs = inKBs, st_OutKBs = outKBs, st_FPS = fps, st_Uptime = uptime,
            st_MapChanges = mapChanges, st_Players = players, st_Connects = connects\<rparr>))))))))"

section \<open>Fetch\<close>

text \<open>The players of a status are copied into the arrays in the order of their user ids; the
  103rd panics.\<close>

definition cmp_UserID :: "'sid extra_Player \<Rightarrow> 'sid extra_Player \<Rightarrow> int" where
  "cmp_UserID a b =
     (if xp_UserID a > xp_UserID b then 1 else if xp_UserID a < xp_UserID b then -1 else 0)"

definition dump_player ::
  "nat \<times> 'sid extra_Player \<Rightarrow> 'sid DumpPlayer \<Rightarrow> 'sid DumpPlayer outcome" where
  "dump_player = (\<lambda>(idx, player) dump.
     if MaxPlayerCount \<le> idx then Panic
     else Ok
       (dump\<lparr>dp_Connected := (dp_Connected dump)[idx := (xp_State player = ''active'')],
             dp_Names := (dp_Names dump)[idx := xp_Name player],
             dp_Ping := (dp_Ping dump)[idx := xp_Ping player],
             dp_SteamID := (dp_SteamID dump)[idx := xp_SID player],
             dp_Address := (dp_Address dump)[idx := xp_IP player @ '':'' @ Itoa (xp_Port player)],
             dp_Loss := (dp_Loss dump)[idx := xp_Loss player],
             dp_State := (dp_State dump)[idx := xp_State player],
             dp_Time := (dp_Time dump)[idx := xp_ConnectedTime player],
             dp_UserID := (dp_UserID dump)[idx := xp_UserID player],
             dp_Team := (dp_Team dump)[idx := (if idx mod 2 = 0 then BLU else RED)]\<rparr>))"

fun dump_players ::
  "(nat \<times> 'sid extra_Player) list \<Rightarrow> 'sid DumpPlayer \<Rightarrow> 'sid DumpPlayer outcome" where
  "dump_players [] dump = Ok dump"
| "dump_players (p # ps) dump = outcome_bind (dump_player p dump) (dump_players ps)"

definition server_status ::
  "('sid, 'f) fetch_lib \<Rightarrow> string \<Rightarrow> ('sid, 'f) Status \<Rightarrow> ('sid, 'f) Status" where
  "server_status F response st =
     (let st = (case fl_ParseStatus F response True of
                    Inl _ \<Rightarrow> st
                  | Inr status \<Rightarrow> st\<lparr>ss_Status := status\<rparr>);
          st = (case FindStringSubmatch statsRe response of
                    None \<Rightarrow> st
                  | Some match \<Rightarrow>
                      (case parseStats F match of
                         Inl _ \<Rightarrow> st
                       | Inr stats \<Rightarrow> st\<lparr>ss_Stats := stats\<rparr>))
      in st\<lparr>ss_Status := (ss_Status st)
                \<lparr>xs_Players := SortStableFunc cmp_UserID (xs_Players (ss_Status st))\<rparr>\<rparr>)"

text \<open>The generated players of the \<open>DEBUG\<close> environment variable.\<close>

definition debug_player :: "'sid steamid_pkg \<Rightarrow> nat \<Rightarrow> 'sid DumpPlayer \<Rightarrow> 'sid DumpPlayer" where
  "debug_player L i data =
     data\<lparr>dp_SteamID := (dp_SteamID data)
            [i := sid_New_int L
               (if i = 0 then 76561197960265730
                else if i = 5 then 76561197970669109
                else if i = 6 then 76561198044497183
                else if i = 1 then 76561198084134025
                else 76561197960265730 + int i)],
          dp_UserID := (dp_UserID data)[i := int i + 1],
          dp_Score := (dp_Score data)[i := int i],
          dp_Ping := (dp_Ping data)[i := int i],
          dp_Deaths := (dp_Deaths data)[i := int i],
          dp_Team := (dp_Team data)[i := (if i mod 2 = 0 then BLU else RED)]\<rparr>"

definition debug_dump :: "'sid steamid_pkg \<Rightarrow> 'sid DumpPlayer" where
  "debug_dump L = fold (debug_player L) [0..<24] (zero_DumpPlayer L)"

definition fetch_command :: "bool \<Rightarrow> string" where
  "fetch_command serverMode = ''status'' @ (if serverMode then '';stats'' else '';g15_dumpplayer'')"

text \<open>What \<open>Fetch\<close> makes of a response. The receiver is a value, so the assignments to
  \<open>lastUpdate\<close> and \<open>lastStatus\<close> are gone when it returns: only the results matter.\<close>

type_synonym ('sid, 'f) fetched = "'sid DumpPlayer \<times> ('sid, 'f) Status \<times> go_error option"

definition fetch_failed ::
  "'sid steamid_pkg \<Rightarrow> ('sid, 'f) fetch_lib \<Rightarrow> string \<Rightarrow> ('sid, 'f) Fetcher \<Rightarrow> go_error \<Rightarrow>
     ('sid, 'f) fetched" where
  "fetch_failed L F debug f errExec =
     (if sid_Valid L (dp_SteamID (fe_lastUpdate f) ! 0) then (fe_lastUpdate f, fe_lastStatus f, None)
      else if debug = [] then
        (zero_DumpPlayer L, zero_Status (fl_zero F), Some (errors_Join errExec [ErrDumpQuery]))
      else (debug_dump L, zero_Status (fl_zero F), None))"

definition fetch_response ::
  "'sid steamid_pkg \<Rightarrow> ('sid, 'f) fetch_lib \<Rightarrow> ('sid, 'f) Fetcher \<Rightarrow> string \<Rightarrow>
     ('sid, 'f) fetched outcome" where
  "fetch_response L F f response =
     (if fe_serverMode f then
        (let status = server_status F response (fe_lastStatus f)
         in outcome_bind
              (dump_players (enumerate 0 (xs_Players (ss_Status status))) (zero_DumpPlayer L))
              (\<lambda>dump. Ok (dump, status, None)))
      else outcome_bind (parsePlayerState L response) (\<lambda>dump. Ok (dump, fe_lastStatus f, None)))"

definition Fetch ::
  "'sid steamid_pkg \<Rightarrow> ('sid, 'f) fetch_lib \<Rightarrow> ('c, 'w) rcon_lib \<Rightarrow> string \<Rightarrow> ('sid, 'f) Fetcher \<Rightarrow>
     'w \<Rightarrow> (('sid, 'f) fetched outcome \<times> 'w) option" where
  "Fetch L F R debug f w =
     Exec R (New (fe_Address f) (fe_Password f)) (fetch_command (fe_serverMode f)) True w \<bind>
     (\<lambda>(res, w). case res of
        Inl errExec \<Rightarrow> Some (Ok (fetch_failed L F debug f errExec), w)
      | Inr response \<Rightarrow> Some (fetch_response L F f response, w))"

section \<open>Reading back a g15 dump\<close>

text \<open>The line the game prints for one field of one player.\<close>

definition g15_text :: "string \<Rightarrow> nat \<Rightarrow> string \<Rightarrow> string \<Rightarrow> string" where
  "g15_text field i ty value = field @ ''['' @ Itoa (int i) @ ''] '' @ ty @ '' ('' @ value @ '')''"

lemma run_alternatives:
  assumes "ls \<noteq> []"
  shows "rx_run (alternatives ls) (n, s, cs) =
    concat (map (\<lambda>l. if HasPrefix s l then [(n + length l, drop (length l) s, cs)] else []) ls)"
proof -
  have "rx_run (foldr (\<lambda>l r. RAlt (RStr l) r) xs (RStr x)) (n, s, cs) =
    concat (map (\<lambda>l. if HasPrefix s l then [(n + length l, drop (length l) s, cs)] else []) (xs @ [x]))" for xs x
    by (induction xs) auto
  from this [of "butlast ls" "last ls"] assms show ?thesis by (simp add: alternatives_def)
qed

text \<open>No word of the alternatives is a prefix of another, so the only one that fits is taken.\<close>

lemma run_alternatives_word:
  assumes "l \<in> set ls" "distinct ls" "\<And>k. k \<in> set ls \<Longrightarrow> HasPrefix (l @ s) k \<Longrightarrow> k = l"
  shows "rx_run (alternatives ls) (n, l @ s, cs) = [(n + length l, s, cs)]"
proof -
  obtain xs ys where ls: "ls = xs @ l # ys" using assms(1) by (meson split_list)
  have nx: "\<not> HasPrefix (l @ s) k" if "k \<in> set xs \<union> set ys" for k
    using that assms(2,3) ls by auto
  have e: "concat (map (\<lambda>k. if HasPrefix (l @ s) k then [(n + length k, drop (length k) (l @ s), cs)] else []) zs) = []"
    if "set zs \<subseteq> set xs \<union> set ys" for zs using that nx by (induction zs) auto
  have hp: "HasPrefix (l @ s) l" by (auto simp: HasPrefix_iff)
  have "ls \<noteq> []" using ls by simp
  then show ?thesis unfolding run_alternatives [OF \<open>ls \<noteq> []\<close>] unfolding ls map_append concat_append list.map concat.simps
    by (simp only: e [of xs] e [of ys] Un_upper1 Un_upper2 hp if_True append_Nil append_Nil2) simp
qed

lemma g15_fields_words: 
  "list_all (\<lambda>f. CHR ''['' \<notin> set f \<and> nl \<notin> set f \<and> list_all (\<lambda>k. HasPrefix f k \<longrightarrow> k = f) g15_fields) g15_fields"
  by code_simp

lemma g15_field_word: "f \<in> set g15_fields \<Longrightarrow> k \<in> set g15_fields \<Longrightarrow> HasPrefix (f @ ''['' @ s) k \<Longrightarrow> k = f"
  using g15_fields_words HasPrefix_word [of f "CHR ''[''" s k] unfolding list_all_iff by simp

lemma yields_value:
  assumes "nl \<notin> set v"
  shows "rx_yields (RSeq (ropt (RGrp 4 lazy1)) (RSeq (RStr '')'') (RSeq REol REmpty))) (n, v @ '')'', cs)
     (n + length v + 1, [], (if v = [] then cs else (4, v) # cs))"
proof (cases "v = []")
  case True
  then show ?thesis by (simp add: rx_yields_def rep_counts_def run_length_def Let_def)
next
  case False
  have "rx_yields (RSeq (RGrp 4 lazy1) (RSeq (RStr '')'') (RSeq REol REmpty))) (n, v @ '')'', cs)
     (n + length v + 1, [], (4, v) # cs)"
  proof (rule yields_lazy_group [OF False class_any_no_nl [OF assms]])
    fix i assume "1 \<le> i" "i < length v"
    then show "rx_run (RSeq (RStr '')'') (RSeq REol REmpty)) (n + i, drop i (v @ '')''), (4, take i v) # cs) = []"
      by (cases "drop i v") auto
  qed (simp add: rx_yields_def)
  with False show ?thesis by (simp add: yields_opt_seq)
qed

definition g15_types :: "string list" where
  "g15_types = [''integer'', ''bool'', ''string'']"

lemma g15_types_words:
  "list_all (\<lambda>f. CHR '' '' \<notin> set f \<and> nl \<notin> set f \<and> list_all (\<lambda>k. HasPrefix f k \<longrightarrow> k = f) g15_types) g15_types"
  by code_simp

lemma words_distinct: "distinct g15_types" "distinct g15_fields"
  by code_simp+

lemma yields_word_seq:
  assumes "rx_yields b (n + length l, s, (g, l) # cs) st'"
    "l \<in> set ls" "distinct ls" "\<And>k. k \<in> set ls \<Longrightarrow> HasPrefix (l @ s) k \<Longrightarrow> k = l"
  shows "rx_yields (RSeq (RGrp g (alternatives ls)) b) (n, l @ s, cs) st'"
  using assms(1) run_alternatives_word [OF assms(2-4), where n = n and cs = cs] by (auto simp: rx_yields_def)

text \<open>The lines the pattern accepts: any digits as index, any of the five spaces in the two places.\<close>

definition g15_entry_line :: "string \<Rightarrow> string \<Rightarrow> char \<Rightarrow> string \<Rightarrow> char \<Rightarrow> string \<Rightarrow> string" where
  "g15_entry_line f ds x ty y v = f @ ''['' @ ds @ '']'' @ [x] @ ty @ [y] @ ''('' @ v @ '')''"

definition g15_entry_ok :: "string \<Rightarrow> string \<Rightarrow> char \<Rightarrow> string \<Rightarrow> char \<Rightarrow> string \<Rightarrow> bool" where
  "g15_entry_ok f ds x ty y v \<longleftrightarrow>
     f \<in> set g15_fields \<and> ds \<noteq> [] \<and> list_all is_digit ds \<and> class_matches Space x \<and> ty \<in> set g15_types \<and>
     class_matches Space y \<and> nl \<notin> set v"

lemma g15re_types: "g15re = rseq
   [RBol, RGrp 1 (alternatives g15_fields), RStr ''['', RGrp 2 digits1, RStr '']'', space1,
    RGrp 3 (alternatives g15_types), space1, RStr ''('', ropt (RGrp 4 lazy1), RStr '')'', REol]"
  by (simp add: g15re_def g15_types_def)

lemma g15_types_spaces: "list_all (\<lambda>f. list_all (\<lambda>c. \<not> class_matches Space c) f) g15_types"
  by code_simp

lemma g15_match_line:
  assumes "g15_entry_ok f ds x ty y v"
  shows "FindStringSubmatch g15re (g15_entry_line f ds x ty y v) = Some [g15_entry_line f ds x ty y v, f, ds, ty, v]"
proof -
  let ?l = "g15_entry_line f ds x ty y v"
  let ?cs = "(if v = [] then [] else [(4, v)]) @ [(3, ty), (2, ds), (1, f)]"
  have ok: "f \<in> set g15_fields" "ds \<noteq> []" "list_all (class_matches Digit) ds" "class_matches Space x" "ty \<in> set g15_types"
    "class_matches Space y" "nl \<notin> set v"
    using assms by (auto simp: g15_entry_ok_def list_all_iff)
  have no_y: "y \<notin> set k" if "k \<in> set g15_types" for k
    using that ok(6) g15_types_spaces unfolding list_all_iff by blast
  have ty: "k = ty" if "k \<in> set g15_types" "HasPrefix (ty @ [y] @ s) k" for k s
    using that ok(5) no_y g15_types_words HasPrefix_word [of ty y s k] unfolding list_all_iff by simp
  have "\<exists>k. rx_yields g15re (0, ?l, []) (k, [], ?cs)"
    unfolding g15_entry_line_def g15re_types rseq.simps
    apply (rule exI, rule yields_bol_seq, rule yields_word_seq, rule yields_str_seq, rule yields_group_seq, 
        rule yields_str_seq, rule yields_one_seq, rule yields_word_seq, rule yields_one_seq, rule yields_str_seq)
              apply (subst if_distrib [of "\<lambda>x. x @ _"], simp only: append.simps, rule yields_value)
    using ok ty by (simp_all add: Suc_le_eq words_distinct is_digit_def g15_field_word del: class_matches.simps(3))
  then obtain k where k: "rx_yields g15re (0, ?l, []) (k, [], ?cs)" ..
  have "k = length ?l"
    using k rx_run_sound [of k "[]" ?cs g15re 0 ?l "[]"] by (auto simp: rx_yields_def)
  with yields_FindStringSubmatch [OF k] show ?thesis
    by (auto simp: g15re_def alternatives_def g15_fields_def capture_def upt_rec)
qed

lemma g15_match:
  assumes "f \<in> set g15_fields" "ty \<in> set g15_types" "nl \<notin> set v"
  shows "FindStringSubmatch g15re (g15_text f i ty v) = Some [g15_text f i ty v, f, Itoa (int i), ty, v]"
proof -
  have "Itoa (int i) \<noteq> []" "list_all is_digit (Itoa (int i))"
    using show_pos_digits by (auto simp: Itoa_def list_all_iff)
  with assms have "g15_entry_ok f (Itoa (int i)) (CHR '' '') ty (CHR '' '') v" by (simp add: g15_entry_ok_def)
  from g15_match_line [OF this] show ?thesis by (simp add: g15_entry_line_def g15_text_def)
qed

text \<open>Only such lines match: the pattern is anchored at both ends.\<close>

lemma lang_alternatives: "ls \<noteq> [] \<Longrightarrow> rx_lang (alternatives ls) = set ls"
proof -
  have "rx_lang (foldr (\<lambda>l r. RAlt (RStr l) r) xs (RStr x)) = insert x (set xs)" for xs x
    by (induction xs) auto
  moreover assume "ls \<noteq> []"
  then have "set ls = insert (last ls) (set (butlast ls))" by (metis append_butlast_last_id set_append Un_insert_right list.simps(15) sup_bot_right list.set(1))
  ultimately show ?thesis by (simp add: alternatives_def)
qed

lemma g15_lang:
  assumes "l \<in> rx_lang g15re"
  shows "\<exists>f ds x ty y v. g15_entry_ok f ds x ty y v \<and> l = g15_entry_line f ds x ty y v"
proof -
  have one: "u \<in> rep_lang 1 (Some 1) c \<longleftrightarrow> (\<exists>x. u = [x] \<and> class_matches c x)" for u c
    by (cases u) (auto simp: rep_lang_def)
  have opt: "v = [] \<or> v \<in> rep_lang 1 None Any \<Longrightarrow> nl \<notin> set v" for v
    by (auto simp: rep_lang_def list_all_iff)
  have digits: "ds \<in> rep_lang 1 None Digit \<longleftrightarrow> ds \<noteq> [] \<and> list_all is_digit ds" for ds
    by (auto simp: rep_lang_def list_all_iff Suc_le_eq)
  have ne: "g15_fields \<noteq> []" "g15_types \<noteq> []" by (simp_all add: g15_fields_def g15_types_def)
  from assms obtain b f lb ds rb sx ty sy lp v rp e m where
    l: "l = b @ f @ lb @ ds @ rb @ sx @ ty @ sy @ lp @ v @ rp @ e @ m" and
    "b \<in> rx_lang RBol" "f \<in> rx_lang (RGrp 1 (alternatives g15_fields))" "lb \<in> rx_lang (RStr ''['')"
    "ds \<in> rx_lang (RGrp 2 digits1)" "rb \<in> rx_lang (RStr '']'')" "sx \<in> rx_lang space1"
    "ty \<in> rx_lang (RGrp 3 (alternatives g15_types))" "sy \<in> rx_lang space1" "lp \<in> rx_lang (RStr ''('')"
    "v \<in> rx_lang (ropt (RGrp 4 lazy1))" "rp \<in> rx_lang (RStr '')'')" "e \<in> rx_lang REol" "m \<in> rx_lang REmpty"
    unfolding g15re_types rseq.simps rx_lang.simps(4) mem_Collect_eq
    by (elim exE conjE, hypsubst) (rule that, assumption+)
  then have "f \<in> set g15_fields" "ds \<in> rep_lang 1 None Digit" "sx \<in> rep_lang 1 (Some 1) Space"
    "ty \<in> set g15_types" "sy \<in> rep_lang 1 (Some 1) Space" "v = [] \<or> v \<in> rep_lang 1 None Any"
    "l = f @ ''['' @ ds @ '']'' @ sx @ ty @ sy @ ''('' @ v @ '')''"
    by (auto simp: lang_alternatives [OF ne(1)] lang_alternatives [OF ne(2)])
  with opt [of v] show ?thesis unfolding one digits g15_entry_ok_def g15_entry_line_def by blast
qed

lemma anchored_match:
  assumes "FindStringSubmatch (RSeq RBol (rseq (rs @ [REol]))) l = Some ms"
  shows "l \<in> rx_lang (RSeq RBol (rseq (rs @ [REol])))"
proof -
  obtain n t n' t' cs where m: "rx_search (RSeq RBol (rseq (rs @ [REol]))) 0 l = Some (n, t, (n', t', cs))"
    using assms by (auto simp: FindStringSubmatch_def split: option.splits)
  from rx_search_SomeD [OF m] obtain a where
    run: "(n', t', cs) \<in> set (rx_run (RSeq RBol (rseq (rs @ [REol]))) (n, t, []))" "l = a @ t" "n = length a" by auto
  have end_run: "(k, u, cs) \<in> set (rx_run (rseq (rs @ [REol])) st) \<Longrightarrow> u = []" for k u cs rs st
    by (induction rs arbitrary: st) (auto split: if_splits)
  from run(1) have "n = 0" by (auto split: if_splits)
  moreover have "t' = []" using run(1) end_run by (auto split: if_splits)
  ultimately show ?thesis using rx_run_sound [OF run(1)] run(2,3) by auto
qed

lemma g15_match_only:
  assumes "FindStringSubmatch g15re l = Some ms"
  shows "\<exists>f ds x ty y v. g15_entry_ok f ds x ty y v \<and> l = g15_entry_line f ds x ty y v"
proof -
  have "g15re = RSeq RBol (rseq ([RGrp 1 (alternatives g15_fields), RStr ''['', RGrp 2 digits1, RStr '']'', space1,
    RGrp 3 (alternatives g15_types), space1, RStr ''('', ropt (RGrp 4 lazy1), RStr '')''] @ [REol]))"
    by (simp add: g15re_types)
  with assms have "l \<in> rx_lang g15re" using anchored_match by metis
  then show ?thesis by (rule g15_lang)
qed

type_synonym g15_entry = "string \<times> nat \<times> string \<times> string"

definition entry_text :: "g15_entry \<Rightarrow> string" where
  "entry_text e = (case e of (f, i, ty, v) \<Rightarrow> g15_text f i ty v)"

lemma entry_text_simp [simp]: "entry_text (f, i, ty, v) = g15_text f i ty v"
  by (simp add: entry_text_def)

definition g15_dump :: "g15_entry list \<Rightarrow> string" where
  "g15_dump es = concat (map (\<lambda>e. entry_text e @ [nl]) es)"

text \<open>Entries as the game prints them: a known field and type, an index that fits 32 bits, no newline in
  the value and a line that fits the scanner.\<close>

definition printable_entry :: "g15_entry \<Rightarrow> bool" where
  "printable_entry e \<longleftrightarrow> (case e of (f, i, ty, v) \<Rightarrow>
     f \<in> set g15_fields \<and> ty \<in> set g15_types \<and> nl \<notin> set v \<and> int i < 2 ^ 31 \<and>
     length (g15_text f i ty v) < MaxScanTokenSize)"

fun g15_assigns :: "'sid steamid_pkg \<Rightarrow> g15_entry list \<Rightarrow> 'sid DumpPlayer \<Rightarrow> 'sid DumpPlayer outcome" where
  "g15_assigns L [] d = Ok d"
| "g15_assigns L ((f, i, ty, v) # es) d = outcome_bind (g15_assign L f i v d) (g15_assigns L es)"

lemma g15_text_ends: "last (g15_text f i ty v) = CHR '')''" "g15_text f i ty v \<noteq> []"
  by (simp_all add: g15_text_def)

lemma g15_text_Trim: "f \<in> set g15_fields \<Longrightarrow> Trim (g15_text f i ty v) (CHR 0x0D) = g15_text f i ty v"
proof -
  assume f: "f \<in> set g15_fields"
  have "list_all (\<lambda>f. f \<noteq> [] \<and> hd f \<noteq> CHR 0x0D) g15_fields" by code_simp
  with f have "f \<noteq> []" "hd f \<noteq> CHR 0x0D" by (auto simp: list_all_iff)
  then have "dropWhile (\<lambda>x. x = CHR 0x0D) (g15_text f i ty v) = g15_text f i ty v"
    by (cases f) (auto simp: g15_text_def)
  then show ?thesis by (simp add: Trim_def g15_text_ends TrimRight_id)
qed

lemma g15_line_text:
  assumes "printable_entry (f, i, ty, v)"
  shows "g15_line L (g15_text f i ty v) d = g15_assign L f i v d"
proof -
  have "ParseInt 32 (Itoa (int i)) = Some (int i)" using assms by (intro ParseInt_Itoa) (auto simp: printable_entry_def)
  then show ?thesis
    using assms by (simp add: g15_line_def printable_entry_def g15_text_Trim g15_match parseInt_def Let_def)
qed

lemma entry_text_no_nl: "printable_entry e \<Longrightarrow> nl \<notin> set (entry_text e)"
proof -
  assume a: "printable_entry e"
  obtain f i ty v where e: "e = (f, i, ty, v)" by (cases e)
  have "list_all (\<lambda>f. nl \<notin> set f) (g15_fields @ g15_types)" by code_simp
  then have "nl \<notin> set f" "nl \<notin> set ty" using a by (auto simp: e printable_entry_def list_all_iff)
  moreover have "nl \<notin> set (Itoa (int i))" using Itoa_chars [of nl "int i"] by (auto simp: nl_def is_digit_def)
  ultimately show ?thesis using a by (auto simp: e entry_text_def g15_text_def printable_entry_def nl_def)
qed

lemma scan_g15_dump: "list_all printable_entry es \<Longrightarrow> scan_lines (g15_dump es) = map entry_text es"
proof (induction es)
  case (Cons e es)
  have "Lines (entry_text e @ nl # g15_dump es) = (entry_text e @ [nl]) # Lines (g15_dump es)"
    using Cons.prems by (intro Lines_append_line) (auto dest: entry_text_no_nl)
  moreover have "entry_text e \<noteq> []" "last (entry_text e) \<noteq> CHR 0x0D" "length (entry_text e) < MaxScanTokenSize"
    using Cons.prems by (cases e; simp add: entry_text_def g15_text_ends printable_entry_def)+
  ultimately show ?case using Cons
    by (simp add: scan_lines_def g15_dump_def drop_nl_def dropCR_def)
qed (simp add: scan_lines_def g15_dump_def)

lemma parsePlayerState_dump:
  assumes "list_all printable_entry es"
  shows "parsePlayerState L (g15_dump es) = g15_assigns L es (zero_DumpPlayer L)"
proof -
  have "g15_lines L (map entry_text es) d = g15_assigns L es d" for d
    using assms
  proof (induction es arbitrary: d)
    case (Cons e es)
    obtain f i ty v where e: "e = (f, i, ty, v)" by (cases e)
    have "g15_lines L (map entry_text es) = g15_assigns L es" using Cons by auto
    with Cons.prems show ?case by (simp add: e g15_line_text)
  qed simp
  then show ?thesis by (simp add: parsePlayerState_def scan_g15_dump [OF assms])
qed

definition int32 :: "int \<Rightarrow> bool" where
  "int32 z \<longleftrightarrow> - (2 ^ 31) \<le> z \<and> z < 2 ^ 31"

lemma length_Itoa: "int32 z \<Longrightarrow> length (Itoa z) \<le> 12"
  using length_show_pos [of "\<bar>z\<bar>" 10] by (auto simp: int32_def Itoa_def)

lemma printable_short:
  assumes "f \<in> set g15_fields" "ty \<in> set g15_types" "i < MaxPlayerCount" "nl \<notin> set v" "length v < 65000"
  shows "printable_entry (f, i, ty, v)"
proof -
  have "list_all (\<lambda>f. length f \<le> 12) (g15_fields @ g15_types)" by code_simp
  with assms(1,2) have "length f \<le> 12" "length ty \<le> 12" by (auto simp: list_all_iff)
  moreover have "length (Itoa (int i)) \<le> 12"
    using assms(3) by (intro length_Itoa) (simp add: int32_def MaxPlayerCount_def)
  ultimately show ?thesis
    using assms by (simp add: printable_entry_def g15_text_def MaxScanTokenSize_def MaxPlayerCount_def)
qed

lemma g15_words:
  "''m_szName'' \<in> set g15_fields" "''m_iPing'' \<in> set g15_fields" "''m_iScore'' \<in> set g15_fields"
  "''m_iDeaths'' \<in> set g15_fields" "''m_bConnected'' \<in> set g15_fields" "''m_iTeam'' \<in> set g15_fields"
  "''m_bAlive'' \<in> set g15_fields" "''m_iHealth'' \<in> set g15_fields" "''m_iAccountID'' \<in> set g15_fields"
  "''m_bValid'' \<in> set g15_fields" "''m_iUserID'' \<in> set g15_fields"
  "''integer'' \<in> set g15_types" "''bool'' \<in> set g15_types" "''string'' \<in> set g15_types"
  by (simp_all add: g15_fields_def g15_types_def)

lemma g15_assign_panic: "f \<in> set g15_fields \<Longrightarrow> g15_assign L f i v d = Panic \<longleftrightarrow> MaxPlayerCount \<le> i"
  unfolding g15_assign_def guarded_Panic by simp

text \<open>A line that names the player index \<open>n\<close>: an entry whose digits are a number of 32 bits.\<close>

definition g15_names :: "string \<Rightarrow> int \<Rightarrow> bool" where
  "g15_names l n \<longleftrightarrow>
     (\<exists>f ds x ty y v. g15_entry_ok f ds x ty y v \<and> l = g15_entry_line f ds x ty y v \<and> ParseInt 32 ds = Some n)"

lemma ParseInt_nonneg: "ds \<noteq> [] \<Longrightarrow> list_all is_digit ds \<Longrightarrow> ParseInt b ds = Some n \<Longrightarrow> 0 \<le> n"
  using digits_no_sign [of ds] by (auto simp: ParseInt_def Let_def dest: ParseUint_bounds split: option.splits if_splits)

lemma g15_line_panics:
  "g15_line L l d = Panic \<longleftrightarrow> (\<exists>n. g15_names (Trim l (CHR 0x0D)) n \<and> int MaxPlayerCount \<le> n)"
proof (cases "FindStringSubmatch g15re (Trim l (CHR 0x0D))")
  case None
  then have "\<not> g15_names (Trim l (CHR 0x0D)) n" for n
    using g15_match_line unfolding g15_names_def by fastforce
  with None show ?thesis by (simp add: g15_line_def)
next
  case (Some ms)
  then obtain f ds x ty y v where e: "g15_entry_ok f ds x ty y v" "Trim l (CHR 0x0D) = g15_entry_line f ds x ty y v"
    using g15_match_only by blast
  have same: "ds' = ds" if "g15_entry_ok f' ds' x' ty' y' v'" "g15_entry_line f ds x ty y v = g15_entry_line f' ds' x' ty' y' v'" for f' ds' x' ty' y' v'
    using g15_match_line [OF e(1)] g15_match_line [OF that(1)] that(2) by simp
  then have names: "g15_names (Trim l (CHR 0x0D)) n \<longleftrightarrow> ParseInt 32 ds = Some n" for n
    using e unfolding g15_names_def by metis
  have "f \<in> set g15_fields" "ds \<noteq> []" "list_all is_digit ds" using e(1) by (simp_all add: g15_entry_ok_def)
  then have "g15_line L l d = Panic \<longleftrightarrow> (\<exists>n. ParseInt 32 ds = Some n \<and> int MaxPlayerCount \<le> n)"
    using ParseInt_nonneg [of ds 32]
    by (cases "ParseInt 32 ds")
      (auto simp: g15_line_def e(2) g15_match_line [OF e(1)] parseInt_def Let_def g15_assign_panic nat_le_iff le_nat_iff)
  then show ?thesis by (simp only: names)
qed

lemma g15_lines_panics: "g15_lines L ls d = Panic \<longleftrightarrow> (\<exists>l \<in> set ls. g15_line L l d = Panic)"
proof (induction ls arbitrary: d)
  case (Cons l ls)
  have indep: "g15_line L k d' = Panic \<longleftrightarrow> g15_line L k d = Panic" for k d' by (simp only: g15_line_panics)
  show ?case
  proof (cases "g15_line L l d")
    case (Ok d')
    have "(\<exists>k \<in> set ls. g15_line L k d' = Panic) \<longleftrightarrow> (\<exists>k \<in> set ls. g15_line L k d = Panic)" by (simp only: indep [of _ d'])
    then show ?thesis using Ok Cons.IH [of d'] by simp
  qed simp
qed simp

text \<open>C31: the parser of the g15 output panics, on any text, exactly when one of the lines the scanner gives is an entry
  of a player (a known field and type, a value in parentheses, nothing around it but carriage returns) whose index
  fits 32 bits and is at or above the length of the arrays. An index that does not fit is skipped.\<close>

theorem parsePlayerState_panics:
  "parsePlayerState L s = Panic \<longleftrightarrow>
     (\<exists>l \<in> set (scan_lines s). \<exists>n. g15_names (Trim l (CHR 0x0D)) n \<and> int MaxPlayerCount \<le> n)"
  by (simp add: parsePlayerState_def g15_lines_panics g15_line_panics)

text \<open>An entry of the 103rd player after a line of the status output.\<close>

theorem parsePlayerState_panics_witness:
  "parsePlayerState num_sid (''udp/ip  : 1.2.3.4'' @ [nl] @ ''m_iPing[0102] integer (5)'' @ [nl]) = Panic"
proof -
  let ?l = "''m_iPing[0102] integer (5)''"
  have lines: "scan_lines (''udp/ip  : 1.2.3.4'' @ [nl] @ ?l @ [nl]) = [''udp/ip  : 1.2.3.4'', ?l]"
    by (simp add: scan_lines_def Lines_append_line drop_nl_def dropCR_def MaxScanTokenSize_def nl_def)
  have "ParseInt 32 ''0102'' = Some 102" "Trim ?l (CHR 0x0D) = ?l" "g15_entry_ok ''m_iPing'' ''0102'' (CHR '' '') ''integer'' (CHR '' '') ''5''"
    "?l = g15_entry_line ''m_iPing'' ''0102'' (CHR '' '') ''integer'' (CHR '' '') ''5''"
    by code_simp+
  then have "g15_names (Trim ?l (CHR 0x0D)) 102" unfolding g15_names_def by metis
  then show ?thesis unfolding parsePlayerState_panics lines
    by (intro bexI [of _ ?l] exI [of _ 102]) (simp_all add: MaxPlayerCount_def)
qed

subsection \<open>A whole dump\<close>

definition bool_text :: "bool \<Rightarrow> string" where
  "bool_text b = (if b then ''true'' else ''false'')"

text \<open>The lines of player \<open>i\<close>; \<open>ids\<close> are the account ids behind the steam ids.\<close>

definition player_entries :: "'sid DumpPlayer \<Rightarrow> int list \<Rightarrow> nat \<Rightarrow> g15_entry list" where
  "player_entries d ids i =
     [(''m_szName'', i, ''string'', dp_Names d ! i),
      (''m_iPing'', i, ''integer'', Itoa (dp_Ping d ! i)),
      (''m_iScore'', i, ''integer'', Itoa (dp_Score d ! i)),
      (''m_iDeaths'', i, ''integer'', Itoa (dp_Deaths d ! i)),
      (''m_bConnected'', i, ''bool'', bool_text (dp_Connected d ! i)),
      (''m_iTeam'', i, ''integer'', Itoa (dp_Team d ! i)),
      (''m_bAlive'', i, ''bool'', bool_text (dp_Alive d ! i)),
      (''m_iHealth'', i, ''integer'', Itoa (dp_Health d ! i)),
      (''m_iAccountID'', i, ''integer'', Itoa (ids ! i)),
      (''m_bValid'', i, ''bool'', bool_text (dp_Valid d ! i)),
      (''m_iUserID'', i, ''integer'', Itoa (dp_UserID d ! i))]"

definition dump_entries :: "'sid DumpPlayer \<Rightarrow> int list \<Rightarrow> g15_entry list" where
  "dump_entries d ids = concat (map (player_entries d ids) [0..<MaxPlayerCount])"

text \<open>A dump whose values the game can print: 32-bit numbers, names without a newline that fit a line,
  and nothing in the arrays that only the server mode fills.\<close>

definition printable_dump :: "'sid steamid_pkg \<Rightarrow> 'sid DumpPlayer \<Rightarrow> int list \<Rightarrow> bool" where
  "printable_dump L d ids \<longleftrightarrow>
     wf_DumpPlayer d \<and> length ids = MaxPlayerCount \<and> dp_SteamID d = map (sid_New_int L) ids \<and>
     list_all (\<lambda>n. nl \<notin> set n \<and> length n < 65000) (dp_Names d) \<and>
     list_all int32 (dp_Ping d) \<and> list_all int32 (dp_Score d) \<and> list_all int32 (dp_Deaths d) \<and>
     list_all int32 (dp_Team d) \<and> list_all int32 (dp_Health d) \<and> list_all int32 ids \<and>
     list_all int32 (dp_UserID d) \<and>
     dp_Loss d = replicate MaxPlayerCount 0 \<and> dp_State d = replicate MaxPlayerCount [] \<and>
     dp_Address d = replicate MaxPlayerCount [] \<and> dp_Time d = replicate MaxPlayerCount 0"

lemma parseInt_Itoa: "int32 z \<Longrightarrow> parseInt (Itoa z) def = z"
  by (simp add: parseInt_def int32_def ParseInt_Itoa)

lemma parseBool_text [simp]: "parseBool (bool_text b) = b"
  by (cases b) (simp_all add: parseBool_def bool_text_def ParseBool_def)

text \<open>The dump after the first \<open>i\<close> players.\<close>

definition upto_player :: "'sid steamid_pkg \<Rightarrow> 'sid DumpPlayer \<Rightarrow> nat \<Rightarrow> 'sid DumpPlayer" where
  "upto_player L d i = (let z = zero_DumpPlayer L; m = MaxPlayerCount in
     z\<lparr>dp_Names := take i (dp_Names d) @ replicate (m - i) [],
       dp_Ping := take i (dp_Ping d) @ replicate (m - i) 0,
       dp_Score := take i (dp_Score d) @ replicate (m - i) 0,
       dp_Deaths := take i (dp_Deaths d) @ replicate (m - i) 0,
       dp_Connected := take i (dp_Connected d) @ replicate (m - i) False,
       dp_Team := take i (dp_Team d) @ replicate (m - i) 0,
       dp_Alive := take i (dp_Alive d) @ replicate (m - i) False,
       dp_Health := take i (dp_Health d) @ replicate (m - i) 0,
       dp_SteamID := take i (dp_SteamID d) @ replicate (m - i) (sid_zero L),
       dp_Valid := take i (dp_Valid d) @ replicate (m - i) False,
       dp_UserID := take i (dp_UserID d) @ replicate (m - i) 0\<rparr>)"

lemma fill_next:
  assumes "length xs = m" "i < m"
  shows "(take i xs @ replicate (m - i) z)[i := xs ! i] = take (Suc i) xs @ replicate (m - Suc i) z"
proof -
  obtain k where k: "m - i = Suc k" using assms(2) by (metis Suc_diff_Suc)
  then show ?thesis using assms by (simp add: list_update_append take_Suc_conv_app_nth)
qed

lemma g15_assigns_append:
  "g15_assigns L (es @ fs) d = outcome_bind (g15_assigns L es d) (g15_assigns L fs)"
proof (induction L es d rule: g15_assigns.induct)
  case (2 L f i ty v es d)
  then show ?case by (cases "g15_assign L f i v d") simp_all
qed simp

lemma player_entries_step:
  assumes "printable_dump L d ids" "i < MaxPlayerCount"
  shows "g15_assigns L (player_entries d ids i) (upto_player L d i) = Ok (upto_player L d (Suc i))"
proof -
  have l: "length (dp_Names d) = MaxPlayerCount" "length (dp_Ping d) = MaxPlayerCount"
    "length (dp_Score d) = MaxPlayerCount" "length (dp_Deaths d) = MaxPlayerCount"
    "length (dp_Connected d) = MaxPlayerCount" "length (dp_Team d) = MaxPlayerCount"
    "length (dp_Alive d) = MaxPlayerCount" "length (dp_Health d) = MaxPlayerCount"
    "length (dp_SteamID d) = MaxPlayerCount" "length (dp_Valid d) = MaxPlayerCount"
    "length (dp_UserID d) = MaxPlayerCount"
    using assms(1) by (simp_all add: printable_dump_def wf_DumpPlayer_def)
  have n: "int32 (dp_Ping d ! i)" "int32 (dp_Score d ! i)" "int32 (dp_Deaths d ! i)" "int32 (dp_Team d ! i)"
    "int32 (dp_Health d ! i)" "int32 (ids ! i)" "int32 (dp_UserID d ! i)"
    using assms l by (auto simp: printable_dump_def list_all_length)
  have s: "sid_New_int L (ids ! i) = dp_SteamID d ! i" using assms by (simp add: printable_dump_def)
  show ?thesis
    using assms(2) by (simp add: player_entries_def upto_player_def Let_def g15_assign_def parseInt_Itoa n s fill_next l)
qed

lemma upto_player_all:
  assumes "printable_dump L d ids" "n \<le> MaxPlayerCount"
  shows "g15_assigns L (concat (map (player_entries d ids) [0..<n])) (zero_DumpPlayer L) = Ok (upto_player L d n)"
  using assms(2)
proof (induction n)
  case 0
  show ?case by (simp add: upto_player_def zero_DumpPlayer_def Let_def)
next
  case (Suc n)
  then show ?case using player_entries_step [OF assms(1), of n] by (simp add: g15_assigns_append)
qed

lemma Itoa_short: "int32 z \<Longrightarrow> nl \<notin> set (Itoa z) \<and> length (Itoa z) < 65000"
  using length_Itoa [of z] Itoa_chars [of nl z] by (auto simp: nl_def is_digit_def)

lemma bool_text_short: "nl \<notin> set (bool_text b) \<and> length (bool_text b) < 65000"
  by (simp add: bool_text_def nl_def)

lemma dump_entries_printable:
  assumes "printable_dump L d ids"
  shows "list_all printable_entry (dump_entries d ids)"
proof -
  have "list_all printable_entry (player_entries d ids i)" if i: "i < MaxPlayerCount" for i
  proof -
    have "int32 (dp_Ping d ! i)" "int32 (dp_Score d ! i)" "int32 (dp_Deaths d ! i)" "int32 (dp_Team d ! i)"
      "int32 (dp_Health d ! i)" "int32 (ids ! i)" "int32 (dp_UserID d ! i)"
      "nl \<notin> set (dp_Names d ! i)" "length (dp_Names d ! i) < 65000"
      using assms i by (auto simp: printable_dump_def wf_DumpPlayer_def list_all_length)
    then show ?thesis
      using i by (simp add: player_entries_def printable_short g15_words Itoa_short bool_text_short)
  qed
  then show ?thesis by (auto simp: dump_entries_def list_all_iff)
qed

text \<open>C3: parsing the g15 text of a printable dump gives the dump back, for all players and fields.\<close>

theorem parsePlayerState_roundtrip:
  assumes "printable_dump L d ids"
  shows "parsePlayerState L (g15_dump (dump_entries d ids)) = Ok d"
proof -
  have "upto_player L d MaxPlayerCount = d"
    using assms unfolding printable_dump_def wf_DumpPlayer_def
    by (simp add: upto_player_def zero_DumpPlayer_def Let_def)
  with upto_player_all [OF assms order_refl] show ?thesis
    unfolding parsePlayerState_dump [OF dump_entries_printable [OF assms]] by (simp add: dump_entries_def)
qed

theorem parsePlayerState_roundtrip_witness:
  "parsePlayerState num_sid (g15_dump (dump_entries
     ((zero_DumpPlayer num_sid)\<lparr>dp_Names := ''alice'' # replicate 101 [], dp_Team := 3 # replicate 101 0,
        dp_SteamID := 22202 # replicate 101 0\<rparr>) (22202 # replicate 101 0))) =
   Ok ((zero_DumpPlayer num_sid)\<lparr>dp_Names := ''alice'' # replicate 101 [], dp_Team := 3 # replicate 101 0,
        dp_SteamID := 22202 # replicate 101 0\<rparr>)"
  by (rule parsePlayerState_roundtrip)
    (simp add: printable_dump_def wf_DumpPlayer_def zero_DumpPlayer_def MaxPlayerCount_def num_sid_def
      int32_def list_all_iff nl_def)

section \<open>The players of a status\<close>

definition overwrite :: "nat \<Rightarrow> 'a list \<Rightarrow> 'a list \<Rightarrow> 'a list" where
  "overwrite k vs xs = take k xs @ vs @ drop (k + length vs) xs"

lemma overwrite_Nil [simp]: "overwrite k [] xs = xs"
  by (simp add: overwrite_def)

lemma overwrite_update:
  "k < length xs \<Longrightarrow> overwrite (Suc k) vs (xs[k := v]) = overwrite k (v # vs) xs"
  by (simp add: overwrite_def take_Suc_conv_app_nth)

lemma overwrite_replicate: "overwrite 0 vs (replicate n z) = vs @ replicate (n - length vs) z"
  by (simp add: overwrite_def)

definition team_of :: "nat \<Rightarrow> Team" where
  "team_of i = (if i mod 2 = 0 then BLU else RED)"

text \<open>A dump with the players \<open>ps\<close> from index \<open>k\<close> on.\<close>

definition with_players :: "nat \<Rightarrow> 'sid extra_Player list \<Rightarrow> 'sid DumpPlayer \<Rightarrow> 'sid DumpPlayer" where
  "with_players k ps d =
     d\<lparr>dp_Connected := overwrite k (map (\<lambda>p. xp_State p = ''active'') ps) (dp_Connected d),
       dp_Names := overwrite k (map xp_Name ps) (dp_Names d),
       dp_Ping := overwrite k (map xp_Ping ps) (dp_Ping d),
       dp_SteamID := overwrite k (map xp_SID ps) (dp_SteamID d),
       dp_Address := overwrite k (map (\<lambda>p. xp_IP p @ '':'' @ Itoa (xp_Port p)) ps) (dp_Address d),
       dp_Loss := overwrite k (map xp_Loss ps) (dp_Loss d),
       dp_State := overwrite k (map xp_State ps) (dp_State d),
       dp_Time := overwrite k (map xp_ConnectedTime ps) (dp_Time d),
       dp_UserID := overwrite k (map xp_UserID ps) (dp_UserID d),
       dp_Team := overwrite k (map team_of [k..<k + length ps]) (dp_Team d)\<rparr>"

lemma dump_player_wf: "wf_DumpPlayer d \<Longrightarrow> dump_player p d = Ok d' \<Longrightarrow> wf_DumpPlayer d'"
  by (auto simp: dump_player_def wf_DumpPlayer_def split: prod.splits if_splits)

lemma dump_players_with:
  assumes "wf_DumpPlayer d" "k \<le> MaxPlayerCount"
  shows "dump_players (enumerate k ps) d =
     (if k + length ps \<le> MaxPlayerCount then Ok (with_players k ps d) else Panic)"
  using assms
proof (induction ps arbitrary: k d)
  case Nil
  then show ?case by (simp add: with_players_def)
next
  case (Cons p ps)
  show ?case
  proof (cases "k < MaxPlayerCount")
    case False
    then show ?thesis by (simp add: dump_player_def)
  next
    case True
    then obtain d' where d': "dump_player (k, p) d = Ok d'" by (simp add: dump_player_def)
    have "with_players (Suc k) ps d' = with_players k (p # ps) d"
      using d' True Cons.prems(1)
      by (auto simp: dump_player_def with_players_def wf_DumpPlayer_def overwrite_update team_of_def upt_conv_Cons
          simp del: upt_Suc)
    moreover have "dump_players (enumerate (Suc k) ps) d' =
        (if Suc k + length ps \<le> MaxPlayerCount then Ok (with_players (Suc k) ps d') else Panic)"
      using Cons.IH [of d' "Suc k"] dump_player_wf [OF Cons.prems(1) d'] True by simp
    ultimately show ?thesis by (simp add: d')
  qed
qed

lemma cmp_UserID_key: "cmp_UserID = (\<lambda>a b. cmp_Compare (xp_UserID a) (xp_UserID b))"
  by (auto simp: cmp_UserID_def cmp_Compare_def fun_eq_iff)

text \<open>C32: in server mode a response whose status parses gives the players in the order of their user
  ids, one array index each, and panics exactly when there are more players than indices.\<close>

theorem fetch_response_server:
  assumes "fe_serverMode f" "fl_ParseStatus F response True = Inr status"
  shows "fetch_response L F f response =
     (if length (xs_Players status) \<le> MaxPlayerCount
      then Ok (with_players 0 (sort_key xp_UserID (xs_Players status)) (zero_DumpPlayer L),
               server_status F response (fe_lastStatus f), None)
      else Panic)"
proof -
  let ?st = "server_status F response (fe_lastStatus f)"
  have "xs_Players (ss_Status ?st) = sort_key xp_UserID (xs_Players status)"
    using assms(2) by (auto simp: server_status_def Let_def cmp_UserID_key SortStableFunc_sort_key
        split: option.splits sum.splits)
  then show ?thesis
    using assms(1) dump_players_with [of "zero_DumpPlayer L" 0]
    by (simp add: fetch_response_def Let_def)
qed

text \<open>A library for the witnesses: floating point values are texts, and a status has the players of
  user ids 9 and 4.\<close>

definition text_lib :: "(int, string) fetch_lib" where
  "text_lib = \<lparr>fl_ParseStatus = (\<lambda>s b. Inr (zero_extra_Status\<lparr>xs_Players :=
       map (\<lambda>u. \<lparr>xp_UserID = u, xp_Name = ''p'', xp_SID = 100 + u, xp_ConnectedTime = 1, xp_Ping = 2, xp_Loss = 0,
         xp_State = ''active'', xp_IP = ''1.2.3.4'', xp_Port = 27005\<rparr>) [9, 4]\<rparr>)),
     fl_ParseFloat = (\<lambda>s. Inr s), fl_zero = ''0''\<rparr>"

theorem fetch_response_server_witness:
  "\<exists>d st. fetch_response num_sid text_lib (NewFetcher num_sid ''0'' ''a'' ''b'' True) ''x'' = Ok (d, st, None) \<and>
     dp_SteamID d ! 0 = 104 \<and> dp_SteamID d ! 1 = 109"
proof -
  let ?f = "NewFetcher num_sid ''0'' ''a'' ''b'' True :: (int, string) Fetcher"
  have "fl_ParseStatus text_lib ''x'' True = Inr (zero_extra_Status\<lparr>xs_Players :=
       map (\<lambda>u. \<lparr>xp_UserID = u, xp_Name = ''p'', xp_SID = 100 + u, xp_ConnectedTime = 1, xp_Ping = 2, xp_Loss = 0,
         xp_State = ''active'', xp_IP = ''1.2.3.4'', xp_Port = 27005\<rparr>) [9, 4]\<rparr>)"
    by (simp add: text_lib_def)
  from fetch_response_server [OF _ this, of ?f num_sid] show ?thesis
    by (simp add: NewFetcher_def MaxPlayerCount_def with_players_def overwrite_def zero_DumpPlayer_def)
qed

section \<open>Well-formed dumps\<close>

lemma g15_assign_wf: "wf_DumpPlayer d \<Longrightarrow> g15_assign L f i v d = Ok d' \<Longrightarrow> wf_DumpPlayer d'"
  unfolding g15_assign_def guarded_Ok
  by (elim conjE, hypsubst, simp only: if_distrib [of wf_DumpPlayer]) (simp add: wf_DumpPlayer_def)

lemma g15_lines_wf: "wf_DumpPlayer d \<Longrightarrow> g15_lines L ls d = Ok d' \<Longrightarrow> wf_DumpPlayer d'"
proof (induction L ls d arbitrary: d' rule: g15_lines.induct)
  case (2 L l ls d)
  then obtain d1 where "g15_line L l d = Ok d1" "g15_lines L ls d1 = Ok d'"
    by (auto simp: outcome_bind_Ok_iff)
  with 2 show ?case by (auto simp: g15_line_def Let_def split: option.splits if_splits dest: g15_assign_wf)
qed simp

lemma parsePlayerState_wf: "parsePlayerState L s = Ok d \<Longrightarrow> wf_DumpPlayer d"
  unfolding parsePlayerState_def by (rule g15_lines_wf [OF wf_zero_DumpPlayer])

lemma with_players_wf:
  "wf_DumpPlayer d \<Longrightarrow> length ps \<le> MaxPlayerCount \<Longrightarrow> wf_DumpPlayer (with_players 0 ps d)"
  by (simp add: wf_DumpPlayer_def with_players_def overwrite_def)

lemma debug_dump_wf: "wf_DumpPlayer (debug_dump L)"
proof -
  have "wf_DumpPlayer (fold (debug_player L) is d)" if "wf_DumpPlayer d" for "is" d
    using that by (induction "is" arbitrary: d) (auto simp: debug_player_def wf_DumpPlayer_def)
  then show ?thesis by (simp add: debug_dump_def)
qed

lemma Fetch_wf:
  assumes "Fetch L F R debug f w = Some (Ok (d, st, e), w')" "wf_DumpPlayer (fe_lastUpdate f)"
  shows "wf_DumpPlayer d"
proof -
  from assms(1) consider e' where "fetch_failed L F debug f e' = (d, st, e)"
    | resp where "fetch_response L F f resp = Ok (d, st, e)"
    by (auto simp: Fetch_def split: sum.splits bind_splits)
  then show ?thesis
  proof cases
    case 1
    then show ?thesis using assms(2) debug_dump_wf [of L] by (auto simp: fetch_failed_def split: if_splits)
  next
    case 2
    then show ?thesis
      using dump_players_with [of "zero_DumpPlayer L" 0] parsePlayerState_wf [of L resp] with_players_wf [of "zero_DumpPlayer L"]
      by (auto simp: fetch_response_def Let_def outcome_bind_Ok_iff split: if_splits)
  qed
qed

end
