(* ===== verification/Go_Path.thy ===== *)
theory Go_Path
  imports Go_Strings
begin

text \<open>
  Go's package path: \<open>Clean\<close> and \<open>Join\<close>. The components are kept last first while the path is read.
\<close>

definition clean_step :: "bool \<Rightarrow> string \<Rightarrow> string list \<Rightarrow> string list" where
  "clean_step rooted c acc =
     (if c = [] \<or> c = ''.'' then acc
      else if c = ''..'' then
        (case acc of
           [] \<Rightarrow> if rooted then [] else [''..'']
         | a # as \<Rightarrow> if a = ''..'' then ''..'' # acc else as)
      else c # acc)"

definition path_Clean :: "string \<Rightarrow> string" where
  "path_Clean p =
     (let rooted = HasPrefix p ''/'';
          body = Join ''/'' (rev (fold (clean_step rooted) (Split (CHR ''/'') p) []))
      in if rooted then ''/'' @ body else if body = [] then ''.'' else body)"

definition path_Join :: "string list \<Rightarrow> string" where
  "path_Join es =
     (let ne = filter (\<lambda>e. e \<noteq> []) es in if ne = [] then [] else path_Clean (Join ''/'' ne))"

text \<open>A file name: one component that \<open>Clean\<close> leaves alone.\<close>

definition plain_component :: "string \<Rightarrow> bool" where
  "plain_component c \<longleftrightarrow> c \<noteq> [] \<and> c \<noteq> ''.'' \<and> c \<noteq> ''..'' \<and> CHR ''/'' \<notin> set c"

lemma Split_append_last: "CHR ''/'' \<notin> set c \<Longrightarrow> Split (CHR ''/'') (p @ CHR ''/'' # c) = Split (CHR ''/'') p @ [c]"
proof (induction p)
  case Nil
  then show ?case by (simp add: Split_single)
next
  case (Cons x p)
  then show ?case by (cases "Split (CHR ''/'') p") auto
qed

lemma fold_clean_plain:
  "plain_component c \<Longrightarrow> fold (clean_step r) (Split (CHR ''/'') (p @ CHR ''/'' # c)) [] =
     c # fold (clean_step r) (Split (CHR ''/'') p) []"
  by (simp add: plain_component_def Split_append_last clean_step_def)

text \<open>Joining a directory and a file name keeps the file name as the last component.\<close>

lemma path_Join_file:
  assumes "dir \<noteq> []" "plain_component c"
  shows "path_Join [dir, c] =
     (let body = rev (fold (clean_step (HasPrefix dir ''/'')) (Split (CHR ''/'') dir) []) @ [c]
      in (if HasPrefix dir ''/'' then ''/'' else []) @ Join ''/'' body)"
proof -
  have c: "c \<noteq> []" using assms(2) by (simp add: plain_component_def)
  have r: "HasPrefix (dir @ CHR ''/'' # c) ''/'' = HasPrefix dir ''/''" using assms(1) by (cases dir) auto
  have ne: "Join ''/'' (xs @ [c]) \<noteq> []" for xs using c by (induction xs rule: induct_list012) auto
  show ?thesis using assms c r ne
    by (simp add: path_Join_def path_Clean_def Let_def fold_clean_plain)
qed

lemma Join_snoc: "xs \<noteq> [] \<Longrightarrow> Join sep (xs @ [c]) = Join sep xs @ sep @ c"
  by (induction xs rule: induct_list012) auto

lemma Join_snoc_inject: "Join sep (xs @ [c]) = Join sep (xs @ [d]) \<longleftrightarrow> c = d"
  by (cases xs) (auto simp: Join_snoc [of "_ # _", simplified])

lemma path_Join_inject:
  assumes "plain_component c" "plain_component d"
  shows "path_Join [dir, c] = path_Join [dir, d] \<longleftrightarrow> c = d"
proof (cases "dir = []")
  case True
  have "path_Join [[], e] = e" if "plain_component e" for e
    using that by (cases e) (auto simp: path_Join_def path_Clean_def plain_component_def Split_single
        clean_step_def Let_def HasPrefix_def)
  with True assms show ?thesis by simp
next
  case False
  with assms show ?thesis by (simp add: path_Join_file Let_def Join_snoc_inject)
qed

end
