(* ===== verification/Config.thy ===== *)
theory Config
  imports Steamid Go_Path Go_Strconv
begin

text \<open>
  internal/config/config.go and loader.go: the configuration record, the functions on it, and the
  loader: the settings it keeps in a store of the package viper, the file they are written to, and what
  is read back from it. The store, its encoder and its decoder are parameters, with laws for what the
  program relies on.
\<close>

section \<open>The configuration\<close>

record ServerConfig =
  sc_Address :: string
  sc_Password :: string
  sc_LogSecret :: int

record UserLink =
  ul_URL :: string
  ul_Name :: string
  ul_Format :: string

record UserList =
  us_URL :: string
  us_Name :: string
  us_LogSecret :: int

record 'sid Config =
  cf_SteamID :: 'sid
  cf_SteamIDString :: string
  cf_ConsoleLogPath :: string
  cf_UpdateFreqMs :: int
  cf_CacheDir :: string
  cf_Debug :: bool
  cf_APIBaseURL :: string
  cf_ServerModeEnabled :: bool
  cf_ServerLogAddress :: string
  cf_ServerBindAddress :: string
  cf_ServerUPNPEnabled :: bool
  cf_BDLists :: "UserList list"
  cf_Links :: "UserLink list"
  cf_Servers :: "ServerConfig list"
  cf_Client :: ServerConfig

definition zero_ServerConfig :: ServerConfig where
  "zero_ServerConfig = \<lparr>sc_Address = [], sc_Password = [], sc_LogSecret = 0\<rparr>"

definition zero_Config :: "'sid steamid_pkg \<Rightarrow> 'sid Config" where
  "zero_Config L = \<lparr>cf_SteamID = sid_zero L, cf_SteamIDString = [], cf_ConsoleLogPath = [],
     cf_UpdateFreqMs = 0, cf_CacheDir = [], cf_Debug = False, cf_APIBaseURL = [],
     cf_ServerModeEnabled = False, cf_ServerLogAddress = [], cf_ServerBindAddress = [],
     cf_ServerUPNPEnabled = False, cf_BDLists = [], cf_Links = [], cf_Servers = [],
     cf_Client = zero_ServerConfig\<rparr>"

definition ConfigDirName :: string where "ConfigDirName = ''tf-tui''"
definition DefaultConfigName :: string where "DefaultConfigName = ''tf-tui''"
definition DefaultDBName :: string where "DefaultDBName = ''tf-tui.db''"
definition DefaultLogName :: string where "DefaultLogName = ''tf-tui.log''"
definition CacheDirName :: string where "CacheDirName = ''cache''"
definition EnvPrefix :: string where "EnvPrefix = ''tftui''"

section \<open>Ports\<close>

definition getPort :: "string \<Rightarrow> int" where
  "getPort addr =
     (let parts = Split (CHR '':'') addr
      in if length parts \<noteq> 2 then 27115
         else case ParseUint 16 (parts ! 1) of None \<Rightarrow> 27115 | Some port \<Rightarrow> port)"

definition UPNPPortMapping :: "'sid Config \<Rightarrow> int \<times> int" where
  "UPNPPortMapping c = (getPort (cf_ServerLogAddress c), getPort (cf_ServerBindAddress c))"

section \<open>Links\<close>

text \<open>\<open>fmt.Sprintf\<close> with one string argument. A format is read verb by verb: \<open>%s\<close> and \<open>%v\<close> take the
  argument (the first one only), \<open>%%\<close> is a percent sign, and the other cases print Go's error
  texts. Flags, widths and precisions do not occur in links and are not covered: a \<open>%\<close> followed by
  another byte is reported as that verb.\<close>

fun sprintf1 :: "string \<Rightarrow> string \<Rightarrow> bool \<Rightarrow> string" where
  "sprintf1 [] arg used = (if used then [] else ''%!(EXTRA string='' @ arg @ '')'')"
| "sprintf1 (c # s) arg used =
     (if c \<noteq> CHR ''%'' then c # sprintf1 s arg used
      else case s of
             [] \<Rightarrow> ''%!(NOVERB)'' @ sprintf1 [] arg used
           | v # s' \<Rightarrow>
               if v = CHR ''%'' then CHR ''%'' # sprintf1 s' arg used
               else if used then ''%!'' @ [v] @ ''(MISSING)'' @ sprintf1 s' arg used
               else if v = CHR ''s'' \<or> v = CHR ''v'' then arg @ sprintf1 s' arg True
               else ''%!'' @ [v] @ ''(string='' @ arg @ '')'' @ sprintf1 s' arg True)"

definition Generate :: "'sid steamid_pkg \<Rightarrow> UserLink \<Rightarrow> 'sid \<Rightarrow> string" where
  "Generate L u steamID =
     (if ul_Format u = ''steam'' then sprintf1 (ul_URL u) (sid_Steam L steamID) False
      else if ul_Format u = ''steam3'' then sprintf1 (ul_URL u) (sid_Steam3 L steamID) False
      else sprintf1 (ul_URL u) (sid_String L steamID) False)"

section \<open>Paths\<close>

text \<open>The environment: \<open>CACHE_DIR\<close>, the XDG cache directory, the home directory or an error, the
  operating system and the user name.\<close>

record os_env =
  oe_CACHE_DIR :: "string option"
  oe_CacheHome :: string
  oe_UserHomeDir :: "string option"
  oe_GOOS :: string
  oe_UserName :: "string option"

definition PathCache :: "os_env \<Rightarrow> string \<Rightarrow> string" where
  "PathCache env name =
     (case oe_CACHE_DIR env of
        Some cacheDir \<Rightarrow>
          if cacheDir \<noteq> [] then cacheDir else path_Join [oe_CacheHome env, ConfigDirName, name]
      | None \<Rightarrow> path_Join [oe_CacheHome env, ConfigDirName, name])"

definition defaultConsoleLogPath :: "os_env \<Rightarrow> string outcome" where
  "defaultConsoleLogPath env =
     (if oe_GOOS env = ''darwin'' then
        (case oe_UserName env of
           None \<Rightarrow> Panic
         | Some name \<Rightarrow> Ok (''/Users/'' @ name @
             ''/Library/Application Support/Steam/steamapps/common/Team Fortress 2/tf/console.log''))
      else if oe_GOOS env = ''linux'' then
        Ok (path_Join [(case oe_UserHomeDir env of None \<Rightarrow> ''/'' | Some h \<Rightarrow> h),
              ''.steam/steam/steamapps/common/Team Fortress 2/tf/console.log''])
      else if oe_GOOS env = ''windows'' then
        Ok (''C:'' @ [CHR 0x5C] @ ''Program Files (x86)'' @ [CHR 0x5C] @ ''Steam'' @ [CHR 0x5C] @
            ''steamapps'' @ [CHR 0x5C] @ ''common'' @ [CHR 0x5C] @ ''Team Fortress 2'' @ [CHR 0x5C] @
            ''tf'' @ [CHR 0x5C] @ ''console.log'')
      else Ok [])"

section \<open>The store of settings\<close>

text \<open>A value as the file format has it, and a document: its top-level keys with their values.\<close>

datatype (plugins only: code size) yaml =
    YStr string | YInt int | YBool bool | YSeq "yaml list" | YMap "(string \<times> yaml) list"

type_synonym document = "string \<Rightarrow> yaml option"

text \<open>The values the program keeps under a key of viper: plain ones, as a document has them, and the lists of
  records that \<open>Write\<close> stores as they are.\<close>

datatype (plugins only: code size) setting =
    SPlain yaml | SLists "UserList list" | SLinks "UserLink list" | SServers "ServerConfig list"

type_synonym settings = "string \<Rightarrow> setting option"

text \<open>The operations of a store of viper: the empty one, the setters, the read of a file that holds a document, and
  all settings of the store. (The environment, which viper puts before the file, is left unset.)\<close>

record 'v viper_lib =
  vp_New :: 'v
  vp_SetDefault :: "string \<Rightarrow> setting \<Rightarrow> 'v \<Rightarrow> 'v"
  vp_Set :: "string \<Rightarrow> setting \<Rightarrow> 'v \<Rightarrow> 'v"
  vp_ReadInConfig :: "document \<Rightarrow> 'v \<Rightarrow> 'v"
  vp_AllSettings :: "'v \<Rightarrow> settings"

section \<open>The loader\<close>

text \<open>\<open>NewLoader\<close>: a store with the defaults, set in this order. (The search path of the file and the watching of
  it are not part of the model.)\<close>

definition default_settings :: "string \<Rightarrow> (string \<times> setting) list" where
  "default_settings consolePath =
     [(''steam_id'', SPlain (YStr [])),
      (''console_log_path'', SPlain (YStr consolePath)),
      (''update_freq_ms'', SPlain (YInt 2000)),
      (''server_mode_enabled'', SPlain (YBool False)),
      (''server_log_address'', SPlain (YStr ''1.2.3.4:27115'')),
      (''server_upnp_enabled'', SPlain (YBool False)),
      (''server_bind_address'', SPlain (YStr ''1.2.3.4:27115'')),
      (''api_base_url'', SPlain (YStr ''https://tf-api.roto.lol/'')),
      (''bd_lists'', SPlain (YSeq [])),
      (''links'', SPlain (YSeq [YMap [(''url'', YStr ''https://demos.tf/profiles/%s''), (''name'', YStr ''demos.tf''),
         (''format'', YStr [])]])),
      (''servers'', SPlain (YSeq [YMap [(''address'', YStr ''127.0.0.1:27015''), (''password'', YStr ''tf-tui''),
         (''log_secret'', YInt 0)]])),
      (''debug'', SPlain (YBool False))]"

definition NewLoader :: "'v viper_lib \<Rightarrow> string \<Rightarrow> 'v" where
  "NewLoader V consolePath = fold (\<lambda>(k, x). vp_SetDefault V k x) (default_settings consolePath) (vp_New V)"

text \<open>\<open>Write\<close>: the calls of \<open>Set\<close>, and \<open>WriteConfig\<close>, a parameter that gets the store and gives an error, if any,
  and what the file holds afterwards.\<close>

definition set_config :: "'sid steamid_pkg \<Rightarrow> 'v viper_lib \<Rightarrow> 'sid Config \<Rightarrow> 'v \<Rightarrow> 'v" where
  "set_config L V config v =
     (let v = vp_Set V ''steam_id''
                (SPlain (YStr (if sid_Valid L (cf_SteamID config) then sid_String L (cf_SteamID config) else []))) v;
          v = vp_Set V ''console_log_path'' (SPlain (YStr (cf_ConsoleLogPath config))) v;
          v = vp_Set V ''update_freq_ms'' (SPlain (YInt (cf_UpdateFreqMs config))) v;
          v = vp_Set V ''server_mode_enabled'' (SPlain (YBool (cf_ServerModeEnabled config))) v;
          v = vp_Set V ''server_log_address'' (SPlain (YStr (cf_ServerLogAddress config))) v;
          v = vp_Set V ''server_bind_address'' (SPlain (YStr (cf_ServerBindAddress config))) v;
          v = vp_Set V ''api_base_url'' (SPlain (YStr (cf_APIBaseURL config))) v;
          v = vp_Set V ''bd_lists'' (SLists (cf_BDLists config)) v;
          v = vp_Set V ''links'' (SLinks (cf_Links config)) v
      in vp_Set V ''servers'' (SServers (cf_Servers config)) v)"

definition Loader_Write ::
  "'sid steamid_pkg \<Rightarrow> 'v viper_lib \<Rightarrow> ('v \<Rightarrow> go_error option \<times> document option) \<Rightarrow> 'sid Config \<Rightarrow> 'v \<Rightarrow>
     go_error option \<times> 'v \<times> document option" where
  "Loader_Write L V WriteConfig config v =
     (let v = set_config L V config v
      in (case WriteConfig v of
            (Some err, left) \<Rightarrow> (Some (errors_Join err [errConfigWrite]), v, left)
          | (None, written) \<Rightarrow> (None, v, written)))"

text \<open>What \<open>Read\<close> does with the outcome of \<open>ReadInConfig\<close> (only a missing file is an error; any other
  failure goes on with what viper has) and of \<open>Unmarshal\<close>.\<close>

datatype read_outcome = ReadOk | ConfigFileNotFound go_error | ReadOther go_error

definition Loader_Read ::
  "'sid steamid_pkg \<Rightarrow> read_outcome \<Rightarrow> 'sid Config result \<Rightarrow> 'sid Config result" where
  "Loader_Read L readIn unmarshalled =
     (case readIn of
        ConfigFileNotFound e \<Rightarrow> Inl (errors_Join e [errConfigRead])
      | _ \<Rightarrow>
          (case unmarshalled of
             Inl e \<Rightarrow> Inl (errors_Join e [errConfigRead])
           | Inr config \<Rightarrow>
               if cf_SteamIDString config \<noteq> [] then
                 (let sid = sid_New_string L (cf_SteamIDString config)
                  in if \<not> sid_Valid L sid then Inl [errConfigRead]
                     else Inr (config\<lparr>cf_SteamID := sid\<rparr>))
               else Inr config))"

text \<open>\<open>Read\<close> of a loader whose file holds a document: \<open>ReadInConfig\<close> takes it into the store, which \<open>Unmarshal\<close>, a
  parameter, decodes.\<close>

definition Loader_Read_file ::
  "'sid steamid_pkg \<Rightarrow> 'v viper_lib \<Rightarrow> ('v \<Rightarrow> 'sid Config result) \<Rightarrow> document \<Rightarrow> 'v \<Rightarrow> 'sid Config result \<times> 'v" where
  "Loader_Read_file L V Unmarshal doc v =
     (let v = vp_ReadInConfig V doc v in (Loader_Read L ReadOk (Unmarshal v), v))"

text \<open>\<open>onConfigChange\<close>: the configuration sent to the channel, if any. The operations of the package
  fsnotify are bit masks, of which the two constants are arguments.\<close>

definition onConfigChange :: "int \<Rightarrow> int \<Rightarrow> int \<Rightarrow> 'sid Config result \<Rightarrow> 'sid Config option" where
  "onConfigChange op_Write op_Rename op read =
     (if op \<noteq> op_Write \<and> op \<noteq> op_Rename then None
      else case read of Inl _ \<Rightarrow> None | Inr config \<Rightarrow> Some config)"

section \<open>Properties\<close>

text \<open>A port is always a 16-bit number, and the port of an address with one colon and a 16-bit
  decimal after it is that number.\<close>

theorem getPort_spec:
  "0 \<le> getPort addr \<and> getPort addr < 65536 \<and>
   (\<forall>h p. 0 \<le> p \<and> p < 65536 \<and> CHR '':'' \<notin> set h \<longrightarrow> getPort (h @ '':'' @ Itoa p) = p)"
proof (intro conjI allI impI)
  show "0 \<le> getPort addr" "getPort addr < 65536"
    using ParseUint_bounds [of 16 "Split (CHR '':'') addr ! 1"]
    by (auto simp: getPort_def Let_def split: option.splits)
  fix h and p :: int assume a: "0 \<le> p \<and> p < 65536 \<and> CHR '':'' \<notin> set h"
  have "CHR '':'' \<notin> set (Itoa p)" using Itoa_chars [of "CHR '':''" p] by (auto simp: is_digit_def)
  with a have "Split (CHR '':'') (h @ '':'' @ Itoa p) = [h, Itoa p]"
    by (simp add: Split_append_sep Split_single)
  moreover have "ParseUint 16 (Itoa p) = Some p"
    using a by (simp add: ParseUint_def Itoa_def show_pos_digits digits_val_show_pos)
  ultimately show "getPort (h @ '':'' @ Itoa p) = p" by (simp add: getPort_def)
qed

theorem getPort_spec_witness: "getPort (''1.2.3.4'' @ '':'' @ Itoa 27015) = 27015"
  using getPort_spec [of "[]"] by (elim conjE) (drule spec [of _ "''1.2.3.4''"], drule spec [of _ 27015], simp)

section \<open>A configuration that is written and read back\<close>

text \<open>What the program relies on in viper. A value that was \<open>Set\<close> comes before everything else, a document that was
  read before the defaults.\<close>

definition viper_laws :: "'v viper_lib \<Rightarrow> bool" where
  "viper_laws V \<longleftrightarrow>
     (\<forall>k x v. vp_AllSettings V (vp_Set V k x v) = (vp_AllSettings V v)(k \<mapsto> x)) \<and>
     (\<forall>doc k x v. vp_AllSettings V (vp_ReadInConfig V doc (vp_Set V k x v)) =
        (vp_AllSettings V (vp_ReadInConfig V doc v))(k \<mapsto> x)) \<and>
     (\<forall>doc ds k. vp_AllSettings V (vp_ReadInConfig V doc (fold (\<lambda>(k, x). vp_SetDefault V k x) ds (vp_New V))) k =
        (case doc k of Some y \<Rightarrow> Some (SPlain y) | None \<Rightarrow> map_of (rev ds) k))"

text \<open>What is written for a value. The records have no tags for the encoder, which then takes the names of the
  fields in lower case: the key of a \<open>LogSecret\<close> is \<open>logsecret\<close>.\<close>

definition list_yaml :: "UserList \<Rightarrow> yaml" where
  "list_yaml u = YMap [(''url'', YStr (us_URL u)), (''name'', YStr (us_Name u)), (''logsecret'', YInt (us_LogSecret u))]"

definition link_yaml :: "UserLink \<Rightarrow> yaml" where
  "link_yaml u = YMap [(''url'', YStr (ul_URL u)), (''name'', YStr (ul_Name u)), (''format'', YStr (ul_Format u))]"

definition server_yaml :: "ServerConfig \<Rightarrow> yaml" where
  "server_yaml s = YMap [(''address'', YStr (sc_Address s)), (''password'', YStr (sc_Password s)),
     (''logsecret'', YInt (sc_LogSecret s))]"

definition setting_yaml :: "setting \<Rightarrow> yaml" where
  "setting_yaml x =
     (case x of SPlain y \<Rightarrow> y | SLists us \<Rightarrow> YSeq (map list_yaml us) | SLinks us \<Rightarrow> YSeq (map link_yaml us)
      | SServers ss \<Rightarrow> YSeq (map server_yaml ss))"

definition settings_document :: "settings \<Rightarrow> document" where
  "settings_document st k = map_option setting_yaml (st k)"

definition write_law :: "'v viper_lib \<Rightarrow> ('v \<Rightarrow> go_error option \<times> document option) \<Rightarrow> bool" where
  "write_law V WriteConfig \<longleftrightarrow>
     (\<forall>v doc. WriteConfig v = (None, doc) \<longrightarrow> doc = Some (settings_document (vp_AllSettings V v)))"

text \<open>What \<open>Unmarshal\<close> promises for settings of the right types: a field has the value whose key is its tag, and is
  zero when there is none; a list of the program's own records is taken as it is. The tag of a list's
  secret is \<open>log_secret\<close>, that of a server's secret is \<open>logsecret\<close>.\<close>

fun dec_str :: "setting option \<Rightarrow> string option" where
  "dec_str None = Some []"
| "dec_str (Some (SPlain (YStr s))) = Some s"
| "dec_str (Some x) = None"

fun dec_int :: "setting option \<Rightarrow> int option" where
  "dec_int None = Some 0"
| "dec_int (Some (SPlain (YInt n))) = Some n"
| "dec_int (Some x) = None"

fun dec_bool :: "setting option \<Rightarrow> bool option" where
  "dec_bool None = Some False"
| "dec_bool (Some (SPlain (YBool b))) = Some b"
| "dec_bool (Some x) = None"

fun dec_seq :: "(yaml \<Rightarrow> 'a option) \<Rightarrow> setting option \<Rightarrow> 'a list option" where
  "dec_seq f None = Some []"
| "dec_seq f (Some (SPlain (YSeq ys))) = those (map f ys)"
| "dec_seq f (Some x) = None"

definition key_at :: "(string \<times> yaml) list \<Rightarrow> string \<Rightarrow> setting option" where
  "key_at kvs k = map_option SPlain (map_of kvs k)"

fun dec_list :: "yaml \<Rightarrow> UserList option" where
  "dec_list (YMap kvs) =
     (case (dec_str (key_at kvs ''url''), dec_str (key_at kvs ''name''), dec_int (key_at kvs ''log_secret'')) of
        (Some u, Some n, Some s) \<Rightarrow> Some \<lparr>us_URL = u, us_Name = n, us_LogSecret = s\<rparr> | _ \<Rightarrow> None)"
| "dec_list y = None"

fun dec_link :: "yaml \<Rightarrow> UserLink option" where
  "dec_link (YMap kvs) =
     (case (dec_str (key_at kvs ''url''), dec_str (key_at kvs ''name''), dec_str (key_at kvs ''format'')) of
        (Some u, Some n, Some f) \<Rightarrow> Some \<lparr>ul_URL = u, ul_Name = n, ul_Format = f\<rparr> | _ \<Rightarrow> None)"
| "dec_link y = None"

fun dec_server :: "yaml \<Rightarrow> ServerConfig option" where
  "dec_server (YMap kvs) =
     (case (dec_str (key_at kvs ''address''), dec_str (key_at kvs ''password''), dec_int (key_at kvs ''logsecret'')) of
        (Some a, Some p, Some s) \<Rightarrow> Some \<lparr>sc_Address = a, sc_Password = p, sc_LogSecret = s\<rparr> | _ \<Rightarrow> None)"
| "dec_server y = None"

definition dec_lists :: "setting option \<Rightarrow> UserList list option" where
  "dec_lists x = (case x of Some (SLists us) \<Rightarrow> Some us | _ \<Rightarrow> dec_seq dec_list x)"

definition dec_links :: "setting option \<Rightarrow> UserLink list option" where
  "dec_links x = (case x of Some (SLinks us) \<Rightarrow> Some us | _ \<Rightarrow> dec_seq dec_link x)"

definition dec_servers :: "setting option \<Rightarrow> ServerConfig list option" where
  "dec_servers x = (case x of Some (SServers ss) \<Rightarrow> Some ss | _ \<Rightarrow> dec_seq dec_server x)"

definition dec_client :: "setting option \<Rightarrow> ServerConfig option" where
  "dec_client x = (case x of None \<Rightarrow> Some zero_ServerConfig | Some (SPlain y) \<Rightarrow> dec_server y | _ \<Rightarrow> None)"

definition decodes :: "'sid steamid_pkg \<Rightarrow> settings \<Rightarrow> 'sid Config \<Rightarrow> bool" where
  "decodes L st c \<longleftrightarrow>
     cf_SteamID c = sid_zero L \<and>
     dec_str (st ''steam_id'') = Some (cf_SteamIDString c) \<and>
     dec_str (st ''console_log_path'') = Some (cf_ConsoleLogPath c) \<and>
     dec_int (st ''update_freq_ms'') = Some (cf_UpdateFreqMs c) \<and>
     dec_str (st ''cache_dir'') = Some (cf_CacheDir c) \<and>
     dec_bool (st ''debug'') = Some (cf_Debug c) \<and>
     dec_str (st ''api_base_url'') = Some (cf_APIBaseURL c) \<and>
     dec_bool (st ''server_mode_enabled'') = Some (cf_ServerModeEnabled c) \<and>
     dec_str (st ''server_log_address'') = Some (cf_ServerLogAddress c) \<and>
     dec_str (st ''server_bind_address'') = Some (cf_ServerBindAddress c) \<and>
     dec_bool (st ''server_upnp_enabled'') = Some (cf_ServerUPNPEnabled c) \<and>
     dec_lists (st ''bd_lists'') = Some (cf_BDLists c) \<and>
     dec_links (st ''links'') = Some (cf_Links c) \<and>
     dec_servers (st ''servers'') = Some (cf_Servers c) \<and>
     dec_client (st ''client'') = Some (cf_Client c)"

definition unmarshal_law :: "'sid steamid_pkg \<Rightarrow> 'v viper_lib \<Rightarrow> ('v \<Rightarrow> 'sid Config result) \<Rightarrow> bool" where
  "unmarshal_law L V Unmarshal \<longleftrightarrow> (\<forall>v c. decodes L (vp_AllSettings V v) c \<longrightarrow> Unmarshal v = Inr c)"

text \<open>Each part of a document is read as it was written, but for the secret of a list.\<close>

lemma those_map: "(\<And>x. x \<in> set xs \<Longrightarrow> f x = Some (g x)) \<Longrightarrow> those (map f xs) = Some (map g xs)"
  by (induction xs) simp_all

lemma dec_lists_yaml: "dec_lists (Some (SPlain (setting_yaml (SLists us)))) = Some (map (us_LogSecret_update (\<lambda>_. 0)) us)"
  by (simp add: dec_lists_def setting_yaml_def comp_def list_yaml_def key_at_def those_map)

lemma dec_links_yaml: "dec_links (Some (SPlain (setting_yaml (SLinks us)))) = Some us"
  by (simp add: dec_links_def setting_yaml_def comp_def link_yaml_def key_at_def those_map map_idI)

lemma dec_servers_yaml: "dec_servers (Some (SPlain (setting_yaml (SServers ss)))) = Some ss"
  by (simp add: dec_servers_def setting_yaml_def comp_def server_yaml_def key_at_def those_map map_idI)

lemmas dec_yaml = dec_lists_yaml dec_links_yaml dec_servers_yaml

text \<open>What the store has under a key after \<open>Write\<close>.\<close>

lemma set_config_eq:
  "viper_laws V \<Longrightarrow> vp_AllSettings V (set_config L V config v) = (vp_AllSettings V v)
     (''steam_id'' \<mapsto> SPlain (YStr (if sid_Valid L (cf_SteamID config) then sid_String L (cf_SteamID config) else [])),
      ''console_log_path'' \<mapsto> SPlain (YStr (cf_ConsoleLogPath config)),
      ''update_freq_ms'' \<mapsto> SPlain (YInt (cf_UpdateFreqMs config)),
      ''server_mode_enabled'' \<mapsto> SPlain (YBool (cf_ServerModeEnabled config)),
      ''server_log_address'' \<mapsto> SPlain (YStr (cf_ServerLogAddress config)),
      ''server_bind_address'' \<mapsto> SPlain (YStr (cf_ServerBindAddress config)),
      ''api_base_url'' \<mapsto> SPlain (YStr (cf_APIBaseURL config)),
      ''bd_lists'' \<mapsto> SLists (cf_BDLists config), ''links'' \<mapsto> SLinks (cf_Links config),
      ''servers'' \<mapsto> SServers (cf_Servers config))"
  by (simp add: set_config_def Let_def viper_laws_def)

text \<open>What a new loader has under a key once it has read the document of some settings.\<close>

definition fresh_settings :: "string \<Rightarrow> settings \<Rightarrow> settings" where
  "fresh_settings path st k =
     (case st k of None \<Rightarrow> map_of (rev (default_settings path)) k | Some x \<Rightarrow> Some (SPlain (setting_yaml x)))"

lemma fresh_loader:
  "viper_laws V \<Longrightarrow>
     vp_AllSettings V (vp_ReadInConfig V (settings_document st) (NewLoader V path)) = fresh_settings path st"
  by (rule ext) (simp add: viper_laws_def NewLoader_def fresh_settings_def settings_document_def split: option.split)

lemma bool_kept:
  "dec_bool x = Some b \<Longrightarrow> dec_bool d = Some False \<Longrightarrow>
     dec_bool (case x of None \<Rightarrow> d | Some y \<Rightarrow> Some (SPlain (setting_yaml y))) = Some b"
  by (cases x rule: dec_bool.cases) (simp_all add: setting_yaml_def)

lemma str_kept:
  "dec_str x = Some t \<Longrightarrow> dec_str (case x of None \<Rightarrow> None | Some y \<Rightarrow> Some (SPlain (setting_yaml y))) = Some t"
  by (cases x rule: dec_str.cases) (simp_all add: setting_yaml_def)

lemma client_kept:
  "dec_client x = Some s \<Longrightarrow> dec_client (case x of None \<Rightarrow> None | Some y \<Rightarrow> Some (SPlain (setting_yaml y))) = Some s"
  by (simp add: dec_client_def setting_yaml_def split: option.splits setting.splits)

lemma fresh_decodes:
  assumes "viper_laws V" "decodes L (vp_AllSettings V v) c0"
  shows "decodes L (fresh_settings path (vp_AllSettings V (set_config L V config v)))
    (config\<lparr>cf_SteamID := sid_zero L,
       cf_SteamIDString := (if sid_Valid L (cf_SteamID config) then sid_String L (cf_SteamID config) else []),
       cf_CacheDir := cf_CacheDir c0, cf_Debug := cf_Debug c0, cf_ServerUPNPEnabled := cf_ServerUPNPEnabled c0,
       cf_BDLists := map (us_LogSecret_update (\<lambda>_. 0)) (cf_BDLists config), cf_Client := cf_Client c0\<rparr>)"
proof -
  have defaults: "map_of (rev (default_settings path)) ''debug'' = Some (SPlain (YBool False))"
    "map_of (rev (default_settings path)) ''server_upnp_enabled'' = Some (SPlain (YBool False))"
    "map_of (rev (default_settings path)) ''cache_dir'' = None" "map_of (rev (default_settings path)) ''client'' = None"
    by (simp_all add: default_settings_def)
  let ?st = "vp_AllSettings V (set_config L V config v)"
  have other: "?st ''cache_dir'' = vp_AllSettings V v ''cache_dir''" "?st ''debug'' = vp_AllSettings V v ''debug''"
    "?st ''server_upnp_enabled'' = vp_AllSettings V v ''server_upnp_enabled''" "?st ''client'' = vp_AllSettings V v ''client''"
    by (simp_all add: set_config_eq [OF assms(1)])
  have "dec_str (fresh_settings path ?st ''cache_dir'') = Some (cf_CacheDir c0)"
    "dec_bool (fresh_settings path ?st ''debug'') = Some (cf_Debug c0)"
    "dec_bool (fresh_settings path ?st ''server_upnp_enabled'') = Some (cf_ServerUPNPEnabled c0)"
    "dec_client (fresh_settings path ?st ''client'') = Some (cf_Client c0)"
    using assms(2) unfolding fresh_settings_def other defaults decodes_def by (simp_all add: bool_kept str_kept client_kept)
  then show ?thesis
    unfolding decodes_def by (simp add: fresh_settings_def set_config_eq [OF assms(1)] dec_yaml)
      (simp add: setting_yaml_def)
qed


text \<open>The saving program itself goes on with what it saved, whatever the file is changed to.\<close>

lemma saved_wins:
  assumes "viper_laws V" "Loader_Write L V WriteConfig config v = (err, v', left)"
    and "decodes L (vp_AllSettings V (vp_ReadInConfig V doc v')) c"
  shows "cf_ConsoleLogPath c = cf_ConsoleLogPath config \<and> cf_UpdateFreqMs c = cf_UpdateFreqMs config \<and>
    cf_ServerModeEnabled c = cf_ServerModeEnabled config \<and> cf_ServerLogAddress c = cf_ServerLogAddress config \<and>
    cf_ServerBindAddress c = cf_ServerBindAddress config \<and> cf_APIBaseURL c = cf_APIBaseURL config \<and>
    cf_BDLists c = cf_BDLists config \<and> cf_Links c = cf_Links config \<and> cf_Servers c = cf_Servers config"
proof -
  have v': "v' = set_config L V config v"
    using assms(2) by (auto simp: Loader_Write_def Let_def split: option.splits prod.splits)
  show ?thesis using assms(1,3) unfolding v'
    by (simp add: decodes_def set_config_def Let_def viper_laws_def dec_lists_def dec_links_def dec_servers_def)
qed

text \<open>For the witness, the store is a record of its layers, the first one that has a key winning.\<close>

record layers =
  ly_set :: settings
  ly_file :: document
  ly_default :: settings

definition layered :: "layers viper_lib" where
  "layered = \<lparr>vp_New = \<lparr>ly_set = Map.empty, ly_file = Map.empty, ly_default = Map.empty\<rparr>,
     vp_SetDefault = (\<lambda>k x v. v\<lparr>ly_default := (ly_default v)(k \<mapsto> x)\<rparr>),
     vp_Set = (\<lambda>k x v. v\<lparr>ly_set := (ly_set v)(k \<mapsto> x)\<rparr>), vp_ReadInConfig = (\<lambda>doc v. v\<lparr>ly_file := doc\<rparr>),
     vp_AllSettings = (\<lambda>v k. case ly_set v k of Some x \<Rightarrow> Some x
       | None \<Rightarrow> (case ly_file v k of Some y \<Rightarrow> Some (SPlain y) | None \<Rightarrow> ly_default v k))\<rparr>"

lemma layered_laws: "viper_laws layered"
proof -
  have "fold (\<lambda>(k, x). vp_SetDefault layered k x) ds v = v\<lparr>ly_default := (\<lambda>k. case map_of (rev ds) k of Some x \<Rightarrow> Some x | None \<Rightarrow> ly_default v k)\<rparr>" for ds v
    by (induction ds rule: rev_induct) (auto simp: layered_def fun_eq_iff split: option.split)
  then show ?thesis
    by (simp add: viper_laws_def) (auto simp: layered_def fun_eq_iff split: option.split)
qed

definition layered_write :: "layers \<Rightarrow> go_error option \<times> document option" where
  "layered_write v = (None, Some (settings_document (vp_AllSettings layered v)))"

definition layered_unmarshal :: "layers \<Rightarrow> int Config result" where
  "layered_unmarshal v =
     (let st = vp_AllSettings layered v
      in case (dec_str (st ''steam_id''), dec_str (st ''console_log_path''), dec_int (st ''update_freq_ms''),
            dec_str (st ''cache_dir''), dec_bool (st ''debug''), dec_str (st ''api_base_url''),
            dec_bool (st ''server_mode_enabled''), dec_str (st ''server_log_address''),
            dec_str (st ''server_bind_address''), dec_bool (st ''server_upnp_enabled''), dec_lists (st ''bd_lists''),
            dec_links (st ''links''), dec_servers (st ''servers''), dec_client (st ''client'')) of
        (Some sid, Some log, Some freq, Some cache, Some debug, Some api, Some mode, Some la, Some ba, Some upnp,
         Some bls, Some links, Some servers, Some client) \<Rightarrow>
          Inr \<lparr>cf_SteamID = sid_zero num_sid, cf_SteamIDString = sid, cf_ConsoleLogPath = log, cf_UpdateFreqMs = freq,
            cf_CacheDir = cache, cf_Debug = debug, cf_APIBaseURL = api, cf_ServerModeEnabled = mode,
            cf_ServerLogAddress = la, cf_ServerBindAddress = ba, cf_ServerUPNPEnabled = upnp, cf_BDLists = bls,
            cf_Links = links, cf_Servers = servers, cf_Client = client\<rparr>
      | _ \<Rightarrow> Inl [])"

lemma layered_codec: "write_law layered layered_write" "unmarshal_law num_sid layered layered_unmarshal"
  by (simp_all add: write_law_def layered_write_def unmarshal_law_def layered_unmarshal_def decodes_def Let_def)

text \<open>The store of a program that has read a file with two settings. It saves a list with a secret.\<close>

definition demo_store :: layers where
  "demo_store = vp_ReadInConfig layered [''server_upnp_enabled'' \<mapsto> YBool True,
     ''client'' \<mapsto> YMap [(''address'', YStr ''a:1''), (''password'', YStr ''pw''), (''logsecret'', YInt 7)]]
     (NewLoader layered ''/log'')"

definition demo_config0 :: "int Config" where
  "demo_config0 = (zero_Config num_sid)\<lparr>cf_ConsoleLogPath := ''/log'', cf_UpdateFreqMs := 2000,
     cf_APIBaseURL := ''https://tf-api.roto.lol/'', cf_ServerLogAddress := ''1.2.3.4:27115'',
     cf_ServerBindAddress := ''1.2.3.4:27115'', cf_ServerUPNPEnabled := True,
     cf_Links := [\<lparr>ul_URL = ''https://demos.tf/profiles/%s'', ul_Name = ''demos.tf'', ul_Format = []\<rparr>],
     cf_Servers := [\<lparr>sc_Address = ''127.0.0.1:27015'', sc_Password = ''tf-tui'', sc_LogSecret = 0\<rparr>],
     cf_Client := \<lparr>sc_Address = ''a:1'', sc_Password = ''pw'', sc_LogSecret = 7\<rparr>\<rparr>"


end
