(* ===== verification/Tfapi.thy ===== *)
theory Tfapi
  imports Steamid
begin

text \<open>
  The part of internal/tfapi (generated from the API description) that the program's own code reads:
  the profile of a player and the bot detector lists. Times are nanoseconds since the Unix epoch.
\<close>

record Ban =
  bn_CreatedOn :: int
  bn_ExpiresOn :: int
  bn_Name :: string
  bn_Permanent :: bool
  bn_Reason :: string
  bn_SiteName :: string
  bn_SteamId :: string
  bn_UnbanReason :: string
  bn_Unbanned :: bool

record LeaguePlayerTeamHistory =
  lh_Alias :: string
  lh_DivisionName :: string
  lh_Format :: string
  lh_JoinedTeam :: int
  lh_Leader :: bool
  lh_League :: string
  lh_LeagueId :: int
  lh_LeftTeam :: int
  lh_Rank :: int
  lh_Region :: string
  lh_SeasonName :: string
  lh_SteamId :: string
  lh_Tag :: string
  lh_TeamName :: string
  lh_Type :: string

record SteamFriend =
  sf_FriendSince :: int
  sf_Relationship :: string
  sf_RemovedOn :: int
  sf_SteamId :: string

text \<open>\<open>MetaProfileCommunityVisibilityState\<close> and \<open>MetaProfileProfileState\<close> are 64-bit integers.\<close>

record MetaProfile =
  mp_AvatarHash :: string
  mp_Bans :: "Ban list"
  mp_CommunityBanned :: bool
  mp_CommunityVisibilityState :: int
  mp_CompetitiveTeams :: "LeaguePlayerTeamHistory list"
  mp_DaysSinceLastBan :: int
  mp_EconomyBan :: string
  mp_Friends :: "SteamFriend list"
  mp_LogsCount :: int
  mp_NumberOfGameBans :: int
  mp_NumberOfVacBans :: int
  mp_PersonaName :: string
  mp_ProfileState :: int
  mp_RealName :: string
  mp_SteamId :: string
  mp_TimeCreated :: int

definition zero_MetaProfile :: MetaProfile where
  "zero_MetaProfile = \<lparr>mp_AvatarHash = [], mp_Bans = [], mp_CommunityBanned = False,
     mp_CommunityVisibilityState = 0, mp_CompetitiveTeams = [], mp_DaysSinceLastBan = 0,
     mp_EconomyBan = [], mp_Friends = [], mp_LogsCount = 0, mp_NumberOfGameBans = 0,
     mp_NumberOfVacBans = 0, mp_PersonaName = [], mp_ProfileState = 0, mp_RealName = [],
     mp_SteamId = [], mp_TimeCreated = 0\<rparr>"

record BDFileInfo =
  fi_Authors :: "string list"
  fi_Description :: string
  fi_Title :: string
  fi_UpdateUrl :: string

record BDLastSeen =
  ls_PlayerName :: string
  ls_Time :: int

text \<open>\<open>BDPlayer.Steamid\<close> is an \<open>interface{}\<close>: a string, an \<open>int64\<close>, a \<open>steamid.SteamID\<close>, or any other
  dynamic value (what a JSON number decodes to, for one), kept by its JSON text.\<close>

datatype (plugins only: code size) 'sid any_sid =
    AnyString string | AnyInt64 int | AnySteamID 'sid | AnyOther string

record 'sid BDPlayer =
  bp_Attributes :: "string list"
  bp_LastSeen :: BDLastSeen
  bp_Proof :: "string list"
  bp_Steamid :: "'sid any_sid"

record 'sid BDSchema =
  bs_Schema :: string
  bs_FileInfo :: BDFileInfo
  bs_Players :: "'sid BDPlayer list"

definition zero_BDSchema :: "'sid BDSchema" where
  "zero_BDSchema = \<lparr>bs_Schema = [],
     bs_FileInfo = \<lparr>fi_Authors = [], fi_Description = [], fi_Title = [], fi_UpdateUrl = []\<rparr>,
     bs_Players = []\<rparr>"

end
