(* ===== verification/Bd.thy ===== *)
theory Bd
  imports Tfapi Config "HOL-Library.Multiset"
begin

text \<open>
  internal/bd/bd.go: the bot detector lists. The HTTP client and the JSON decoder are parameters.
  The downloads run concurrently and hand their results over a channel, so the order in which they
  arrive is an argument of \<open>Update\<close>: any order of the successful downloads.
\<close>

record 'sid Match =
  ma_Player :: "'sid BDPlayer"
  ma_ListName :: string

record 'sid bd_Fetcher =
  bf_configured :: "UserList list"
  bf_lists :: "'sid BDSchema list"

definition bd_New :: "UserList list \<Rightarrow> 'sid bd_Fetcher" where
  "bd_New userLists = \<lparr>bf_configured = userLists, bf_lists = []\<rparr>"

text \<open>The HTTP client: making a request for a URL may fail, doing it gives a status code and a body or an
  error. \<open>hl_Decode\<close> is \<open>encoding.UnmarshalJSON[tfapi.BDSchema]\<close> on a body.\<close>

record 'sid http_lib =
  hl_NewRequest :: "string \<Rightarrow> go_error option"
  hl_Do :: "string \<Rightarrow> (int \<times> string) result"
  hl_Decode :: "string \<Rightarrow> 'sid BDSchema result"

definition debug_entry :: "'sid steamid_pkg \<Rightarrow> int \<Rightarrow> 'sid BDPlayer" where
  "debug_entry L now =
     \<lparr>bp_Attributes = [''cheater'', ''liar''],
      bp_LastSeen = \<lparr>ls_PlayerName = ''Evil Player'', ls_Time = now div 1000000000\<rparr>,
      bp_Proof = [''Some proof that can easily be manipulated.'', ''Some more nonsense''],
      bp_Steamid = AnySteamID (sid_New_string L ''76561197960265749'')\<rparr>"

text \<open>One download: \<open>None\<close> where the goroutine returns without sending.\<close>

definition download ::
  "'sid steamid_pkg \<Rightarrow> 'sid http_lib \<Rightarrow> string \<Rightarrow> int \<Rightarrow> UserList \<Rightarrow> 'sid BDSchema option" where
  "download L H debug now userList =
     (case hl_NewRequest H (us_URL userList) of
        Some _ \<Rightarrow> None
      | None \<Rightarrow>
          (case hl_Do H (us_URL userList) of
             Inl _ \<Rightarrow> None
           | Inr (statusCode, body) \<Rightarrow>
               if statusCode \<noteq> 200 then None
               else case hl_Decode H body of
                      Inl _ \<Rightarrow> None
                    | Inr bdList \<Rightarrow>
                        Some (if debug \<noteq> []
                              then bdList\<lparr>bs_Players := bs_Players bdList @ [debug_entry L now]\<rparr>
                              else bdList)))"

text \<open>The results of the configured downloads, and \<open>Update\<close> with the order of their arrival. The slice
  starts with as many zero lists as there are configured ones.\<close>

definition downloads ::
  "'sid steamid_pkg \<Rightarrow> 'sid http_lib \<Rightarrow> string \<Rightarrow> int \<Rightarrow> 'sid bd_Fetcher \<Rightarrow> 'sid BDSchema list" where
  "downloads L H debug now m = List.map_filter (download L H debug now) (bf_configured m)"

definition Update :: "'sid BDSchema list \<Rightarrow> 'sid bd_Fetcher \<Rightarrow> 'sid bd_Fetcher" where
  "Update arrivals m = m\<lparr>bf_lists := replicate (length (bf_configured m)) zero_BDSchema @ arrivals\<rparr>"

definition arrives ::
  "'sid steamid_pkg \<Rightarrow> 'sid http_lib \<Rightarrow> string \<Rightarrow> int \<Rightarrow> 'sid bd_Fetcher \<Rightarrow> 'sid BDSchema list \<Rightarrow> bool" where
  "arrives L H debug now m arrivals \<longleftrightarrow> mset arrivals = mset (downloads L H debug now m)"

text \<open>The type switch of \<open>Search\<close>.\<close>

fun entry_sid :: "'sid steamid_pkg \<Rightarrow> 'sid any_sid \<Rightarrow> 'sid" where
  "entry_sid L (AnyString s) = sid_New_string L s"
| "entry_sid L (AnyInt64 i) = sid_New_int L i"
| "entry_sid L (AnySteamID sid) = sid"
| "entry_sid L (AnyOther v) = sid_New_any L v"

fun search_list :: "'sid steamid_pkg \<Rightarrow> 'sid \<Rightarrow> string \<Rightarrow> 'sid BDPlayer list \<Rightarrow> 'sid Match list" where
  "search_list L steamID title [] = []"
| "search_list L steamID title (player # players) =
     (let sid = entry_sid L (bp_Steamid player)
      in if \<not> sid_Valid L sid then search_list L steamID title players
         else if sid_Equal L steamID sid then [\<lparr>ma_Player = player, ma_ListName = title\<rparr>]
         else search_list L steamID title players)"

fun search_lists :: "'sid steamid_pkg \<Rightarrow> 'sid \<Rightarrow> 'sid BDSchema list \<Rightarrow> 'sid Match list \<Rightarrow> 'sid Match list" where
  "search_lists L steamID [] matched = matched"
| "search_lists L steamID (l # ls) matched =
     search_lists L steamID ls
       (matched @ search_list L steamID (fi_Title (bs_FileInfo l)) (bs_Players l))"

definition Search :: "'sid steamid_pkg \<Rightarrow> 'sid bd_Fetcher \<Rightarrow> 'sid \<Rightarrow> 'sid Match list" where
  "Search L m steamID = search_lists L steamID (bf_lists m) []"

section \<open>What a search finds\<close>

text \<open>An entry marks a steam id when its own is valid and equal; a list marks a player with its first
  such entry.\<close>

definition marks :: "'sid steamid_pkg \<Rightarrow> 'sid \<Rightarrow> 'sid BDPlayer \<Rightarrow> bool" where
  "marks L steamID p \<longleftrightarrow>
     sid_Valid L (entry_sid L (bp_Steamid p)) \<and> sid_Equal L steamID (entry_sid L (bp_Steamid p))"

definition list_match :: "'sid steamid_pkg \<Rightarrow> 'sid \<Rightarrow> 'sid BDSchema \<Rightarrow> 'sid Match option" where
  "list_match L steamID l =
     map_option (\<lambda>p. \<lparr>ma_Player = p, ma_ListName = fi_Title (bs_FileInfo l)\<rparr>)
       (first_such (marks L steamID) (bs_Players l))"

lemma search_list_first:
  "search_list L steamID title ps =
     (case first_such (marks L steamID) ps of
        None \<Rightarrow> [] | Some p \<Rightarrow> [\<lparr>ma_Player = p, ma_ListName = title\<rparr>])"
  by (induction ps) (auto simp: marks_def Let_def)

lemma search_lists_filter:
  "search_lists L steamID ls acc = acc @ List.map_filter (list_match L steamID) ls"
  by (induction ls arbitrary: acc)
    (auto simp: search_list_first list_match_def map_filter_simps split: option.splits)

text \<open>A search returns one match per list that marks the player, in the order of the lists, with the
  list's title and its first entry for the player; lists that do not mark the player add nothing.\<close>

theorem Search_spec: "Search L m steamID = List.map_filter (list_match L steamID) (bf_lists m)"
  by (simp add: Search_def search_lists_filter)

lemma list_match_zero [simp]: "list_match L steamID zero_BDSchema = None"
  by (simp add: list_match_def zero_BDSchema_def)

lemma mset_map_filter_cong:
  "mset xs = mset ys \<Longrightarrow> mset (List.map_filter f xs) = mset (List.map_filter f ys)"
  by (simp add: List.map_filter_def mset_map mset_filter)

text \<open>C17: after an update, in whatever order the downloads arrived, a search finds exactly the matches in
  the lists that were downloaded: the zero lists the slice starts with, the lists that failed and
  everything an earlier update had stored contribute none.\<close>

theorem Search_Update:
  assumes "arrives L H debug now m arrivals"
  shows "mset (Search L (Update arrivals m) steamID) =
     mset (List.map_filter (list_match L steamID) (downloads L H debug now m))"
proof -
  have "List.map_filter (list_match L steamID) (replicate n zero_BDSchema @ ls) =
      List.map_filter (list_match L steamID) ls" for n ls
    by (induction n) (auto simp: List.map_filter_def)
  then have "Search L (Update arrivals m) steamID = List.map_filter (list_match L steamID) arrivals"
    by (simp add: Search_def search_lists_filter Update_def)
  then show ?thesis using assms mset_map_filter_cong [of arrivals "downloads L H debug now m"] by (simp add: arrives_def)
qed

text \<open>A client for the witness: one of two lists is there, with one entry.\<close>

definition demo_http :: "int http_lib" where
  "demo_http = \<lparr>hl_NewRequest = (\<lambda>u. None),
     hl_Do = (\<lambda>u. if u = ''good'' then Inr (200, ''body'') else Inr (404, [])),
     hl_Decode = (\<lambda>b. Inr (zero_BDSchema\<lparr>bs_Players :=
       [\<lparr>bp_Attributes = [''cheater''], bp_LastSeen = \<lparr>ls_PlayerName = [], ls_Time = 0\<rparr>, bp_Proof = [],
         bp_Steamid = AnyString ''5''\<rparr>]\<rparr>))\<rparr>"

theorem Search_Update_witness:
  "let m = bd_New [\<lparr>us_URL = ''bad'', us_Name = [], us_LogSecret = 0\<rparr>, \<lparr>us_URL = ''good'', us_Name = [], us_LogSecret = 0\<rparr>];
       arrivals = downloads num_sid demo_http [] 0 m
   in length arrivals = 1 \<and> size (mset (Search num_sid (Update arrivals m) 5)) = 1"
proof -
  let ?m = "bd_New [\<lparr>us_URL = ''bad'', us_Name = [], us_LogSecret = 0\<rparr>, \<lparr>us_URL = ''good'', us_Name = [], us_LogSecret = 0\<rparr>]"
  have a: "arrives num_sid demo_http [] 0 ?m (downloads num_sid demo_http [] 0 ?m)" by (simp add: arrives_def)
  have p: "ParseInt 64 ''5'' = Some 5" by code_simp
  show ?thesis unfolding Let_def Search_Update [OF a]
    by (simp add: downloads_def bd_New_def download_def demo_http_def zero_BDSchema_def map_filter_simps
        list_match_def marks_def num_sid_def p)
qed

end
