(* ===== verification/Cache.thy ===== *)
theory Cache
  imports Config
begin

text \<open>
  internal/cache/cache.go: the file system cache of API answers. The file system is a map from paths
  to contents and modification times; which system calls fail is an argument (\<open>os_faults\<close>), so that
  every error path is there.
\<close>

section \<open>Files\<close>

type_synonym files = "string \<Rightarrow> (string \<times> int) option"

record os_faults =
  of_mkdir :: "string \<Rightarrow> bool"
  of_create :: "string \<Rightarrow> bool"
  of_write :: "string \<Rightarrow> nat option"   \<comment> \<open>the number of bytes written before the failure\<close>
  of_open :: "string \<Rightarrow> bool"
  of_stat :: "string \<Rightarrow> bool"
  of_read :: "string \<Rightarrow> bool"
  of_close :: "string \<Rightarrow> bool"
  of_remove :: "string \<Rightarrow> bool"

definition no_faults :: os_faults where
  "no_faults = \<lparr>of_mkdir = (\<lambda>_. False), of_create = (\<lambda>_. False), of_write = (\<lambda>_. None), of_open = (\<lambda>_. False),
     of_stat = (\<lambda>_. False), of_read = (\<lambda>_. False), of_close = (\<lambda>_. False), of_remove = (\<lambda>_. False)\<rparr>"

definition os_error :: "string \<Rightarrow> go_error" where
  "os_error op = [ErrForeign op]"

section \<open>The cache\<close>

text \<open>A week, in nanoseconds. \<open>time.Since\<close> saturates at the largest duration.\<close>

definition maxCacheAge :: int where
  "maxCacheAge = 3600000000000 * 24 * 7"

definition time_Since :: "int \<Rightarrow> int \<Rightarrow> int" where
  "time_Since now t = max (- (2 ^ 63)) (min (2 ^ 63 - 1) (now - t))"

definition CacheMetaProfile :: int where
  "CacheMetaProfile = 0"

record Filesystem =
  fy_cacheDir :: string

definition cache_New :: "os_faults \<Rightarrow> os_env \<Rightarrow> Filesystem result" where
  "cache_New flt env =
     (let cachePath = PathCache env CacheDirName
      in if of_mkdir flt cachePath then Inl (errors_Join (os_error ''mkdir'') [errCacheDir])
         else Inr \<lparr>fy_cacheDir = cachePath\<rparr>)"

definition cacheName :: "'sid steamid_pkg \<Rightarrow> 'sid \<Rightarrow> int \<Rightarrow> string" where
  "cacheName L steamID variant = sid_String L steamID @ ''_'' @ Itoa variant"

definition cache_file :: "'sid steamid_pkg \<Rightarrow> Filesystem \<Rightarrow> 'sid \<Rightarrow> int \<Rightarrow> string" where
  "cache_file L c steamID variant = path_Join [fy_cacheDir c, cacheName L steamID variant]"

text \<open>\<open>os.Create\<close> truncates, so a failed write leaves a file with the part that was written.\<close>

definition Set ::
  "'sid steamid_pkg \<Rightarrow> os_faults \<Rightarrow> int \<Rightarrow> Filesystem \<Rightarrow> 'sid \<Rightarrow> int \<Rightarrow> string \<Rightarrow> files \<Rightarrow>
     go_error option \<times> files" where
  "Set L flt now c steamID variant content fs =
     (let p = cache_file L c steamID variant
      in if of_create flt p then (Some (errors_Join (os_error ''create'') [errCacheSet]), fs)
         else (case of_write flt p of
                 Some n \<Rightarrow> (Some (errors_Join (os_error ''write'') [errCacheSet]), fs(p \<mapsto> (take n content, now)))
               | None \<Rightarrow> (None, fs(p \<mapsto> (content, now)))))"

text \<open>The removal of a stale file uses the bare name, without the directory.\<close>

definition Get ::
  "'sid steamid_pkg \<Rightarrow> os_faults \<Rightarrow> int \<Rightarrow> Filesystem \<Rightarrow> 'sid \<Rightarrow> int \<Rightarrow> files \<Rightarrow> string result \<times> files" where
  "Get L flt now c steamID variant fs =
     (let p = cache_file L c steamID variant;
          name = cacheName L steamID variant
      in case fs p of
           None \<Rightarrow> (Inl (errors_Join (os_error ''open'') [ErrCacheMiss]), fs)
         | Some (body, modTime) \<Rightarrow>
             if of_open flt p then (Inl (errors_Join (os_error ''open'') [ErrCacheMiss]), fs)
             else if of_stat flt p then
               (if of_close flt p
                then (Inl (errors_Join (errors_Join (os_error ''stat'') (os_error ''close'')) [ErrCacheMiss]), fs)
                else (Inl (errors_Join (os_error ''stat'') [ErrCacheMiss]), fs))
             else if time_Since now modTime > maxCacheAge then
               (if of_close flt p then (Inl (errors_Join (os_error ''close'') [ErrCacheMiss]), fs)
                else if of_remove flt name \<or> fs name = None
                then (Inl (errors_Join (os_error ''remove'') [ErrCacheMiss]), fs)
                else (Inl [ErrCacheMiss], fs(name := None)))
             else if of_read flt p then
               (if of_close flt p then (Inl (errors_Join (os_error ''close'') [ErrCacheMiss]), fs)
                else (Inl (errors_Join (os_error ''read'') [ErrCacheMiss]), fs))
             else if of_close flt p then (Inl (errors_Join (os_error ''close'') [ErrCacheMiss]), fs)
             else (Inr body, fs))"

section \<open>The interface\<close>

text \<open>What a client of a cache relies on, in the states that satisfy an invariant. The keys are told apart
  by a name.\<close>

locale cache =
  fixes get :: "'k \<Rightarrow> 's \<Rightarrow> string result \<times> 's"
    and put :: "'k \<Rightarrow> string \<Rightarrow> 's \<Rightarrow> go_error option \<times> 's"
    and name :: "'k \<Rightarrow> 'n"
    and inv :: "'s \<Rightarrow> bool"
  assumes put_ok: "inv s \<Longrightarrow> fst (put k v s) = None"
    and put_inv: "inv s \<Longrightarrow> inv (snd (put k v s))"
    and get_inv: "inv s \<Longrightarrow> inv (snd (get k s))"
    and get_put: "inv s \<Longrightarrow> name k' = name k \<Longrightarrow> fst (get k' (snd (put k v s))) = Inr v"
    and get_put_other: "inv s \<Longrightarrow> name k' \<noteq> name k \<Longrightarrow> fst (get k' (snd (put k v s))) = fst (get k' s)"
    and get_error: "inv s \<Longrightarrow> fst (get k s) = Inl e \<Longrightarrow> errors_Is e ErrCacheMiss"
    and get_keeps: "inv s \<Longrightarrow> fst (get k' (snd (get k s))) = fst (get k' s)"
begin

text \<open>Storing a list of entries.\<close>

definition put_all :: "('k \<times> string) list \<Rightarrow> 's \<Rightarrow> 's" where
  "put_all kvs s = fold (\<lambda>kv s. snd (put (fst kv) (snd kv) s)) kvs s"

lemma put_all_inv: "inv s \<Longrightarrow> inv (put_all kvs s)"
  by (induction kvs arbitrary: s) (auto simp: put_all_def put_inv)

end

text \<open>A cache that is asked again later: entries are stored and looked up now, and the lookups of a later
  moment see what was stored now.\<close>

locale aging_cache = cache get put name inv
  for get :: "'k \<Rightarrow> 's \<Rightarrow> string result \<times> 's"
    and put :: "'k \<Rightarrow> string \<Rightarrow> 's \<Rightarrow> go_error option \<times> 's"
    and name :: "'k \<Rightarrow> 'n"
    and inv :: "'s \<Rightarrow> bool" +
  fixes later :: "'k \<Rightarrow> 's \<Rightarrow> string result \<times> 's"
  assumes later_put: "inv s \<Longrightarrow> name k' = name k \<Longrightarrow> fst (later k' (snd (put k v s))) = Inr v"
    and later_put_other: "inv s \<Longrightarrow> name k' \<noteq> name k \<Longrightarrow> fst (later k' (snd (put k v s))) = fst (later k' s)"
    and later_get: "inv s \<Longrightarrow> fst (later k' (snd (get k s))) = fst (later k' s)"
    and later_keeps: "inv s \<Longrightarrow> fst (later k' (snd (later k s))) = fst (later k' s)"
    and later_inv: "inv s \<Longrightarrow> inv (snd (later k s))"
begin

text \<open>The last entry stored for a name wins.\<close>

lemma later_put_all:
  "inv s \<Longrightarrow> fst (later k (put_all kvs s)) =
     (case first_such (\<lambda>kv. name (fst kv) = name k) (rev kvs) of
        None \<Rightarrow> fst (later k s) | Some kv \<Rightarrow> Inr (snd kv))"
proof (induction kvs rule: rev_induct)
  case (snoc kv kvs)
  have "put_all (kvs @ [kv]) s = snd (put (fst kv) (snd kv) (put_all kvs s))" by (simp add: put_all_def)
  with put_all_inv [OF snoc.prems, of kvs] later_put [of "put_all kvs s" k "fst kv" "snd kv"]
    later_put_other [of "put_all kvs s" k "fst kv" "snd kv"] snoc.IH [OF snoc.prems]
  show ?case by (cases "name (fst kv) = name k") simp_all
qed (simp add: put_all_def)

end

text \<open>The operations of the file system cache at one moment while no system call fails.\<close>

definition fs_get :: "'sid steamid_pkg \<Rightarrow> int \<Rightarrow> Filesystem \<Rightarrow> 'sid \<times> int \<Rightarrow> files \<Rightarrow> string result \<times> files" where
  "fs_get L now c k fs = Get L no_faults now c (fst k) (snd k) fs"

definition fs_put :: "'sid steamid_pkg \<Rightarrow> int \<Rightarrow> Filesystem \<Rightarrow> 'sid \<times> int \<Rightarrow> string \<Rightarrow> files \<Rightarrow> go_error option \<times> files" where
  "fs_put L now c k v fs = Set L no_faults now c (fst k) (snd k) v fs"

definition fs_name :: "'sid steamid_pkg \<Rightarrow> Filesystem \<Rightarrow> 'sid \<times> int \<Rightarrow> string" where
  "fs_name L c k = cache_file L c (fst k) (snd k)"

text \<open>The cache directory is not the working directory, and the working directory has no file with the
  name of an entry.\<close>

definition fs_inv :: "'sid steamid_pkg \<Rightarrow> Filesystem \<Rightarrow> files \<Rightarrow> bool" where
  "fs_inv L c fs \<longleftrightarrow>
     (\<forall>s v. fs (cacheName L s v) = None) \<and> (\<forall>s v s' v'. cache_file L c s v \<noteq> cacheName L s' v')"

lemma time_Since_self [simp]: "time_Since now now = 0"
  by (simp add: time_Since_def)

lemma fs_get_eq:
  "fs_inv L c fs \<Longrightarrow> fs_get L now c k fs =
     ((case fs (fs_name L c k) of
         None \<Rightarrow> Inl (errors_Join (os_error ''open'') [ErrCacheMiss])
       | Some (body, t) \<Rightarrow>
           if time_Since now t > maxCacheAge then Inl (errors_Join (os_error ''remove'') [ErrCacheMiss])
           else Inr body), fs)"
  by (auto simp: fs_get_def Get_def no_faults_def Let_def fs_inv_def fs_name_def split: option.splits)

lemma fs_put_eq: "fs_put L now c k v fs = (None, fs(fs_name L c k \<mapsto> (v, now)))"
  by (simp add: fs_put_def Set_def no_faults_def fs_name_def Let_def)

lemma fs_put_inv: "fs_inv L c fs \<Longrightarrow> fs_inv L c (fs(fs_name L c k \<mapsto> x))"
  unfolding fs_inv_def fs_name_def fun_upd_apply by metis

interpretation fs_cache: cache "fs_get L now c" "fs_put L now c" "fs_name L c" "fs_inv L c"
  for L :: "'sid steamid_pkg" and now c
proof unfold_locales
  fix s :: files and k k' :: "'sid \<times> int" and v e
  assume inv: "fs_inv L c s"
  show "fst (fs_put L now c k v s) = None" by (simp add: fs_put_eq)
  show "fs_inv L c (snd (fs_put L now c k v s))" using inv by (simp add: fs_put_eq fs_put_inv)
  show "fs_inv L c (snd (fs_get L now c k s))" using inv by (simp add: fs_get_eq)
  show "fst (fs_get L now c k' (snd (fs_put L now c k v s))) = Inr v" if "fs_name L c k' = fs_name L c k"
    using inv that by (simp add: fs_put_eq fs_get_eq fs_put_inv maxCacheAge_def)
  show "fst (fs_get L now c k' (snd (fs_put L now c k v s))) = fst (fs_get L now c k' s)"
    if "fs_name L c k' \<noteq> fs_name L c k"
    using inv that by (simp add: fs_put_eq fs_get_eq fs_put_inv)
  show "errors_Is e ErrCacheMiss" if "fst (fs_get L now c k s) = Inl e"
    using inv that by (auto simp: fs_get_eq split: option.splits if_splits)
  show "fst (fs_get L now c k' (snd (fs_get L now c k s))) = fst (fs_get L now c k' s)"
    using inv by (simp add: fs_get_eq)
qed

text \<open>Lookups at a later moment: what is stored now is found for a week.\<close>

definition fs_inv_until :: "'sid steamid_pkg \<Rightarrow> int \<Rightarrow> int \<Rightarrow> Filesystem \<Rightarrow> files \<Rightarrow> bool" where
  "fs_inv_until L now now' c fs \<longleftrightarrow> fs_inv L c fs \<and> now' \<le> now + 604800000000000"

lemma time_Since_week: "time_Since now' t > maxCacheAge \<longleftrightarrow> now' > t + 604800000000000"
  by (auto simp: time_Since_def maxCacheAge_def)

interpretation fs_aging: aging_cache "fs_get L now c" "fs_put L now c" "fs_name L c" "fs_inv_until L now now' c" "fs_get L now' c"
  for L :: "'sid steamid_pkg" and now now' c
proof unfold_locales
  fix s :: files and k k' :: "'sid \<times> int" and v e
  assume until: "fs_inv_until L now now' c s"
  then have inv: "fs_inv L c s" by (simp add: fs_inv_until_def)
  show "fst (fs_put L now c k v s) = None" using inv by (rule fs_cache.put_ok)
  show "fs_inv_until L now now' c (snd (fs_put L now c k v s))"
    using until fs_cache.put_inv [OF inv] by (simp add: fs_inv_until_def)
  show "fs_inv_until L now now' c (snd (fs_get L now c k s))" "fs_inv_until L now now' c (snd (fs_get L now' c k s))"
    using until fs_cache.get_inv [OF inv] by (simp_all add: fs_inv_until_def)
  show "fst (fs_get L now c k' (snd (fs_put L now c k v s))) = Inr v" if "fs_name L c k' = fs_name L c k"
    using inv that by (rule fs_cache.get_put)
  show "fst (fs_get L now c k' (snd (fs_put L now c k v s))) = fst (fs_get L now c k' s)"
    if "fs_name L c k' \<noteq> fs_name L c k" using inv that by (rule fs_cache.get_put_other)
  show "errors_Is e ErrCacheMiss" if "fst (fs_get L now c k s) = Inl e" using inv that by (rule fs_cache.get_error)
  show "fst (fs_get L now c k' (snd (fs_get L now c k s))) = fst (fs_get L now c k' s)"
    "fst (fs_get L now' c k' (snd (fs_get L now' c k s))) = fst (fs_get L now' c k' s)"
    using inv by (rule fs_cache.get_keeps)+
  show "fst (fs_get L now' c k' (snd (fs_put L now c k v s))) = Inr v" if "fs_name L c k' = fs_name L c k"
    using until inv that by (simp add: fs_put_eq fs_get_eq fs_put_inv time_Since_week fs_inv_until_def)
  show "fst (fs_get L now' c k' (snd (fs_put L now c k v s))) = fst (fs_get L now' c k' s)"
    if "fs_name L c k' \<noteq> fs_name L c k"
    using inv that by (simp add: fs_put_eq fs_get_eq fs_put_inv)
  show "fst (fs_get L now' c k' (snd (fs_get L now c k s))) = fst (fs_get L now' c k' s)"
    using inv by (simp add: fs_get_eq)
qed

section \<open>Properties\<close>

text \<open>C27: whatever system call fails, a \<open>Get\<close> that fails reports a cache miss, and one that succeeds returns
  the content of the entry's file, not older than a week, and changes no file.\<close>

theorem Get_spec:
  "(case Get L flt now c steamID variant fs of
      (Inl e, fs') \<Rightarrow> errors_Is e ErrCacheMiss
    | (Inr body, fs') \<Rightarrow> fs' = fs \<and>
        (\<exists>t. fs (cache_file L c steamID variant) = Some (body, t) \<and> time_Since now t \<le> maxCacheAge))"
  by (auto simp: Get_def Let_def split: option.splits)

text \<open>C26: what was stored is read back for a week, whatever happened to other files in between.\<close>

theorem Get_Set:
  assumes "Set L no_faults t0 c steamID variant content fs = (None, fs1)"
    and "fs2 (cache_file L c steamID variant) = fs1 (cache_file L c steamID variant)"
    and "time_Since now t0 \<le> maxCacheAge"
  shows "Get L no_faults now c steamID variant fs2 = (Inr content, fs2)"
  using assms by (auto simp: Set_def Get_def no_faults_def Let_def)

theorem Get_Set_witness:
  "let c = \<lparr>fy_cacheDir = ''/var/cache''\<rparr>;
       fs1 = snd (Set num_sid no_faults 10 c 5 0 ''body'' (\<lambda>_. None))
   in Get num_sid no_faults 20 c 5 0 fs1 = (Inr ''body'', fs1)"
proof -
  let ?c = "\<lparr>fy_cacheDir = ''/var/cache''\<rparr>"
  let ?fs = "snd (Set num_sid no_faults 10 ?c 5 0 ''body'' (\<lambda>_. None))"
  have "Set num_sid no_faults 10 ?c 5 0 ''body'' (\<lambda>_. None) = (None, ?fs)"
    by (simp add: Set_def no_faults_def Let_def)
  then have "Get num_sid no_faults 20 ?c 5 0 ?fs = (Inr ''body'', ?fs)"
    by (rule Get_Set) (simp_all add: time_Since_def maxCacheAge_def)
  then show ?thesis by (simp only: Let_def)
qed

text \<open>A stale entry is a miss but its file is never removed: outside the cache directory nothing has its
  bare name, so the removal fails and the files are unchanged.\<close>

theorem Get_stale_stays:
  assumes "fs_inv L c fs" "fs (cache_file L c steamID variant) = Some (body, t)"
    and "time_Since now t > maxCacheAge"
  shows "Get L no_faults now c steamID variant fs = (Inl [ErrForeign ''remove'', ErrCacheMiss], fs)"
  using assms by (simp add: fs_inv_def Get_def no_faults_def Let_def os_error_def errors_Join_def)

text \<open>The entries of the steam ids that are numbers, in the directory \<open>/c\<close>.\<close>

lemma num_cacheName: "CHR ''/'' \<notin> set (cacheName num_sid s v)"
  using Itoa_chars [of "CHR ''/''"] by (auto simp: cacheName_def num_sid_def is_digit_def)

lemma num_cache_file: "cache_file num_sid \<lparr>fy_cacheDir = ''/c''\<rparr> s v = ''/c/'' @ cacheName num_sid s v"
proof -
  have "plain_component (cacheName num_sid s v)"
    using num_cacheName [of s v]
    by (cases "Itoa s"; cases "Itoa v") (auto simp: plain_component_def cacheName_def num_sid_def)
  then show ?thesis by (simp add: cache_file_def path_Join_file Let_def clean_step_def)
qed

lemma num_fs_inv:
  assumes "\<And>s v. fs (cacheName num_sid s v) = None"
  shows "fs_inv num_sid \<lparr>fy_cacheDir = ''/c''\<rparr> fs"
  unfolding fs_inv_def num_cache_file using assms num_cacheName by (metis append_Cons list.set_intros(1))

theorem Get_stale_stays_witness:
  "let c = \<lparr>fy_cacheDir = ''/c''\<rparr>; fs = [''/c/5_0'' \<mapsto> (''old'', 0)]
   in Get num_sid no_faults (2 ^ 60) c 5 0 fs = (Inl [ErrForeign ''remove'', ErrCacheMiss], fs)"
proof -
  let ?c = "\<lparr>fy_cacheDir = ''/c''\<rparr>" and ?fs = "[''/c/5_0'' \<mapsto> (''old'', 0 :: int)]"
  have "cacheName num_sid 5 0 = ''5_0''" by code_simp
  moreover have "fs_inv num_sid ?c ?fs"
  proof (rule num_fs_inv)
    show "?fs (cacheName num_sid s v) = None" for s v
      using num_cacheName [of s v] by (auto dest: sym)
  qed
  ultimately have "Get num_sid no_faults (2 ^ 60) ?c 5 0 ?fs = (Inl [ErrForeign ''remove'', ErrCacheMiss], ?fs)"
    by (intro Get_stale_stays [where t = 0 and body = "''old''"])
      (auto simp: num_cache_file time_Since_def maxCacheAge_def)
  then show ?thesis by (simp only: Let_def)
qed

end
