(* ===== verification/Tfapi_Types.thy ===== *)
theory Tfapi_Types
  imports Tfapi
begin

text \<open>
  The other data types of internal/tfapi/tfapi.gen.go: the payloads of the operations the program does not call,
  the error model, and the values the API description defines for its enumerations. Times are nanoseconds,
  floating-point numbers are the type variable \<open>'f\<close>.
\<close>

text \<open>An \<open>interface{}\<close> that was decoded from JSON.\<close>

datatype (plugins only: code size) 'f json_value =
    JNull | JBool bool | JNumber 'f | JString string | JArray "'f json_value list"
  | JObject "(string \<times> 'f json_value) list"

type_synonym 'f Duration = "(string \<times> 'f json_value) list"

type_synonym LeagueResponseFormat = string
type_synonym LeagueResponseType = string
type_synonym LogsTFMatchVersion = int
type_synonym LogsTFMatchInfoVersion = int
type_synonym PlayerTeamHistoryResponseType = string

section \<open>Payloads\<close>

record 'sid BDSearchResult =
  bdr_ListName :: string
  bdr_Match :: "'sid BDPlayer"

record 'f ErrorDetail =
  edt_Location :: string
  edt_Message :: string
  edt_Value :: "'f json_value"

record 'f ErrorModel =
  emo_Schema :: string
  emo_Detail :: string
  emo_Errors :: "'f ErrorDetail list"
  emo_Instance :: string
  emo_Status :: int
  emo_Title :: string
  emo_Type :: string

record 'f Float32 =
  flo_Value :: "'f"

record LeagueResponse =
  lgr_Format :: LeagueResponseFormat
  lgr_League :: string
  lgr_LeagueId :: int
  lgr_Name :: string
  lgr_Region :: string
  lgr_Type :: LeagueResponseType

record LeagueTeamMemberResponse =
  ltm_Joined :: int
  ltm_Leader :: bool
  ltm_LeagueId :: int
  ltm_Left :: int
  ltm_Name :: string
  ltm_SteamId :: string

record LeagueTeamResponse =
  ltr_DivisionName :: string
  ltr_League :: string
  ltr_LeagueId :: int
  ltr_Name :: string
  ltr_Rank :: int
  ltr_Tag :: string
  ltr_TeamId :: string

record LogsTFChat =
  ltc_CreatedOn :: int
  ltc_IsFlagged :: bool
  ltc_LogId :: int
  ltc_Message :: string
  ltc_Name :: string
  ltc_SteamId :: string

record LogsTFClassCountMap =
  lcc_Demoman :: int
  lcc_Engineer :: int
  lcc_Heavyweapons :: int
  lcc_Medic :: int
  lcc_Pyro :: int
  lcc_Scout :: int
  lcc_Sniper :: int
  lcc_Soldier :: int
  lcc_Spy :: int

record LogsTFKillStreak =
  lks_Steamid :: string
  lks_Streak :: int
  lks_Time :: int

record 'f LogsTFMedicOverall =
  lmo_AvgTimeBeforeHealing :: "'f"
  lmo_AvgTimeBuild :: "'f Duration"
  lmo_AvgTimeUse :: "'f Duration"
  lmo_AvgUberLen :: "'f Duration"
  lmo_BiggestAdvLost :: "'f Duration"
  lmo_ChargesKritz :: int
  lmo_ChargesMedigun :: int
  lmo_ChargesQuickfix :: int
  lmo_ChargesVacc :: int
  lmo_DeathAfterCharge :: int
  lmo_Drops :: int
  lmo_Healing :: int
  lmo_HealingPerMin :: "'f"
  lmo_Healspread :: "string \<rightharpoonup> int"
  lmo_MajorAdvLost :: int
  lmo_NearFullDeath :: int
  lmo_SteamId :: string

record LogsTFPlayerClassWeapon =
  lpw_SteamID :: string
  lpw_Accuracy :: int
  lpw_Damage :: int
  lpw_Hits :: int
  lpw_Kills :: int
  lpw_Shots :: int
  lpw_Weapon :: string

record 'f LogsTFPlayerClassStats =
  lpc_Assists :: int
  lpc_Class :: string
  lpc_Damage :: int
  lpc_Deaths :: int
  lpc_Kills :: int
  lpc_Played :: "'f Duration"
  lpc_Weapons :: "LogsTFPlayerClassWeapon list"

record 'f LogsTFPlayerAlt =
  lpa_Airshots :: int
  lpa_Assists :: int
  lpa_Backstabs :: int
  lpa_Caps :: int
  lpa_ClassAssists :: LogsTFClassCountMap
  lpa_ClassDeaths :: LogsTFClassCountMap
  lpa_ClassKills :: LogsTFClassCountMap
  lpa_Classes :: "'f LogsTFPlayerClassStats list"
  lpa_Damage :: int
  lpa_DamageTaken :: int
  lpa_Deaths :: int
  lpa_Dpm :: int
  lpa_Dtm :: "'f"
  lpa_Headshots :: int
  lpa_HealingTaken :: int
  lpa_HealthPacks :: int
  lpa_HealthPacksHealing :: int
  lpa_Kad :: "'f"
  lpa_Kd :: "'f"
  lpa_Kills :: int
  lpa_Name :: string
  lpa_SteamId :: string
  lpa_Team :: string

record LogsTFRoundPlayerAlt =
  lrp_Dmg :: int
  lrp_Kills :: int
  lrp_SteamId :: string

record 'f LogsTFRound =
  lrd_DamageBlu :: int
  lrd_DamageRed :: int
  lrd_KillsBlu :: int
  lrd_KillsRed :: int
  lrd_Length :: "'f Duration"
  lrd_MidFight :: string
  lrd_Players :: "LogsTFRoundPlayerAlt list"
  lrd_Round :: int
  lrd_ScoreBlu :: int
  lrd_ScoreRed :: int
  lrd_UbersBlu :: int
  lrd_UbersRed :: int

record LogsTFTeamOverall =
  lto_Caps :: int
  lto_Charges :: int
  lto_Damage :: int
  lto_Deaths :: int
  lto_Drops :: int
  lto_FirstCaps :: int
  lto_Kills :: int
  lto_Score :: int

record LogsTFTeams =
  lts_Blu :: LogsTFTeamOverall
  lts_Red :: LogsTFTeamOverall

record 'f LogsTFMatch =
  lma_Schema :: string
  lma_Chat :: "LogsTFChat list"
  lma_CreatedOn :: int
  lma_Duration :: "'f Duration"
  lma_Killstreaks :: "LogsTFKillStreak list"
  lma_LogId :: int
  lma_Map :: string
  lma_Medics :: "'f LogsTFMedicOverall list"
  lma_Players :: "'f LogsTFPlayerAlt list"
  lma_Rounds :: "'f LogsTFRound list"
  lma_ScoreBlu :: int
  lma_ScoreRed :: int
  lma_Teams :: LogsTFTeams
  lma_Title :: string
  lma_Version :: LogsTFMatchVersion

record 'f LogsTFMatchInfo =
  lmi_CreatedOn :: int
  lmi_Duration :: "'f Duration"
  lmi_LogId :: int
  lmi_Map :: string
  lmi_ScoreBlu :: int
  lmi_ScoreRed :: int
  lmi_Title :: string
  lmi_Version :: LogsTFMatchInfoVersion

record 'f LogsTFPlayerSummary =
  lps_Schema :: string
  lps_AirshotsAvg :: "'f Float32"
  lps_AirshotsSum :: int
  lps_AssistsAvg :: "'f Float32"
  lps_AssistsSum :: int
  lps_BackstabsAvg :: "'f Float32"
  lps_BackstabsSum :: int
  lps_CapsAvg :: "'f Float32"
  lps_CapsSum :: int
  lps_DamageAvg :: "'f Float32"
  lps_DamageSum :: int
  lps_DamageTakenAvg :: "'f Float32"
  lps_DamageTakenSum :: int
  lps_DeathsAvg :: "'f Float32"
  lps_DeathsSum :: int
  lps_DpmAvg :: "'f Float32"
  lps_DtmAvg :: "'f Float32"
  lps_HeadshotsAvg :: "'f Float32"
  lps_HeadshotsSum :: int
  lps_HealingTakenAvg :: "'f Float32"
  lps_HealingTakenSum :: int
  lps_HealthPacksAvg :: "'f Float32"
  lps_HealthPacksSum :: int
  lps_KadAvg :: "'f Float32"
  lps_KdAvg :: "'f Float32"
  lps_KillsAvg :: "'f Float32"
  lps_KillsSum :: int
  lps_Logs :: int

record PlayerSummaryResponse =
  psr_AvatarHash :: string
  psr_CommentPermission :: int
  psr_LastLogoff :: int
  psr_LocCityId :: int
  psr_LocCountryCode :: string
  psr_LocStateCode :: string
  psr_PersonaName :: string
  psr_PersonaState :: int
  psr_PersonaStateFlags :: int
  psr_PrimaryClanId :: string
  psr_ProfileState :: int
  psr_ProfileUrl :: string
  psr_RealName :: string
  psr_SteamId :: string
  psr_TimeCreated :: int
  psr_VisibilityState :: int

record PlayerTeamHistoryResponse =
  pth_Alias :: string
  pth_DivisionName :: string
  pth_Format :: string
  pth_JoinedTeam :: int
  pth_Leader :: bool
  pth_League :: string
  pth_LeftTeam :: int
  pth_Rank :: int
  pth_Region :: string
  pth_SeasonName :: string
  pth_SteamId :: string
  pth_Tag :: string
  pth_TeamName :: string
  pth_Type :: PlayerTeamHistoryResponseType

record ResolvedSteamID =
  rsi_Schema :: string
  rsi_Profile :: string
  rsi_Steam :: string
  rsi_Steam3 :: string
  rsi_Steam32 :: int
  rsi_Steam64 :: string

record 'f SchemaAttributes =
  sca_Class :: string
  sca_Name :: string
  sca_Value :: "'f json_value"

record SchemaItemCapabilities =
  scc_CanBeRestored :: bool
  scc_CanCardUpgrade :: bool
  scc_CanConsume :: bool
  scc_CanCraftCount :: bool
  scc_CanCraftIfPurchased :: bool
  scc_CanCraftMark :: bool
  scc_CanGiftWrap :: bool
  scc_CanKillstreakify :: bool
  scc_CanStrangify :: bool
  scc_Nameable :: bool
  scc_Paintable :: bool
  scc_StrangeParts :: bool

record SchemaItemStyles =
  scs_Name :: string

record 'f SchemaItem =
  sci_Attributes :: "'f SchemaAttributes list"
  sci_Capabilities :: SchemaItemCapabilities
  sci_CraftClass :: string
  sci_CraftMaterialType :: string
  sci_Defindex :: int
  sci_DropType :: string
  sci_ImageInventory :: string
  sci_ImageUrl :: string
  sci_ImageUrlLarge :: string
  sci_ItemClass :: string
  sci_ItemDescription :: string
  sci_ItemName :: string
  sci_ItemQuality :: int
  sci_ItemSlot :: string
  sci_ItemTypeName :: string
  sci_MaxIlevel :: int
  sci_MinIlevel :: int
  sci_ModelPlayer :: string
  sci_Name :: string
  sci_ProperName :: bool
  sci_Styles :: "SchemaItemStyles list"
  sci_UsedByClasses :: "string list"

record SiteInfo =
  sin_Name :: string
  sin_Title :: string
  sin_Type :: string
  sin_Url :: string

record StatsOverall =
  sov_Schema :: string
  sov_AvatarCount :: int
  sov_BanCounts :: "string \<rightharpoonup> int"
  sov_BanTotalCount :: int
  sov_BdListCount :: int
  sov_BdListEntriesCount :: int
  sov_CommunityBanCount :: int
  sov_FriendCount :: int
  sov_GameBanCount :: int
  sov_LeaguesCount :: int
  sov_LeaguesTeamCount :: int
  sov_LogsTfChatCount :: int
  sov_LogsTfCount :: int
  sov_LogsTfPlayerCount :: int
  sov_MapsCount :: int
  sov_NameCount :: int
  sov_PlayersCount :: int
  sov_SourceCount :: int
  sov_VacCount :: int

record SteamBan =
  sba_CommunityBanned :: bool
  sba_DaysSinceLastBan :: int
  sba_EconomyBan :: string
  sba_NumberOfGameBans :: int
  sba_NumberOfVacBans :: int
  sba_SteamId :: string
  sba_VacBanned :: bool

record SteamGameOwnedPlayer =
  sgo_AppId :: int
  sgo_HasCommunityVisibleStats :: bool
  sgo_ImgIconUrl :: string
  sgo_ImgLogoUrl :: string
  sgo_Name :: string
  sgo_PlaytimeForeverMinutes :: int
  sgo_PlaytimeTwoWeeks :: int
  sgo_SteamId :: string

record SteamGroupMember =
  sgm_CreatedOn :: int
  sgm_GroupId :: string
  sgm_PersonaName :: string
  sgm_SteamId :: string
  sgm_UpdatedOn :: int

record SteamGroup =
  sgr_Schema :: string
  sgr_Avatar :: string
  sgr_CreatedOn :: int
  sgr_GroupId :: string
  sgr_GroupName :: string
  sgr_Headline :: string
  sgr_Members :: "SteamGroupMember list"
  sgr_Summary :: string
  sgr_UpdatedOn :: int
  sgr_Url :: string

record SteamRepEntry =
  sre_Banned :: bool
  sre_Reputations :: "string list"
  sre_SteamId :: string

section \<open>Enumerations\<close>

definition LeagueResponseFormat_values :: "string list" where
  "LeagueResponseFormat_values = [''bball'', ''highlander'', ''1v1'', ''4v4'', ''6v6'', ''nr6v6'', ''other'',
     ''passtime'', ''prolander'', ''readysteadypan'', ''ultiduo'']"

definition LeagueResponseType_values :: "string list" where
  "LeagueResponseType_values = [''cup'', ''other'', ''season'']"

definition LogsTFMatchVersion_values :: "int list" where
  "LogsTFMatchVersion_values = [1, 2, 3]"

definition LogsTFMatchInfoVersion_values :: "int list" where
  "LogsTFMatchInfoVersion_values = [1, 2, 3]"

definition MetaProfileCommunityVisibilityState_values :: "int list" where
  "MetaProfileCommunityVisibilityState_values = [1, 2, 3]"

definition MetaProfileProfileState_values :: "int list" where
  "MetaProfileProfileState_values = [0, 1]"

definition PlayerTeamHistoryResponseType_values :: "string list" where
  "PlayerTeamHistoryResponseType_values = [''cup'', ''other'', ''season'']"

definition LeaguesCompetitionsParamsLeague_values :: "string list" where
  "LeaguesCompetitionsParamsLeague_values = [''etf2l'', ''mgetf'', ''ozfortress'', ''rgl'', ''ugc'']"

definition LeaguesCompetitionsParamsFormat_values :: "string list" where
  "LeaguesCompetitionsParamsFormat_values = [''bball'', ''highlander'', ''1v1'', ''4v4'', ''6v6'', ''nr6v6'',
     ''other'', ''passtime'', ''prolander'', ''readysteadypan'', ''ultiduo'']"

definition LeaguesCompetitionsParamsType_values :: "string list" where
  "LeaguesCompetitionsParamsType_values = [''cup'', ''other'', ''season'']"

definition LeaguesHistoryParamsLeague_values :: "string list" where
  "LeaguesHistoryParamsLeague_values = [''etf2l'', ''mgetf'', ''ozfortress'', ''rgl'', ''ugc'']"

definition LeaguesHistoryParamsType_values :: "string list" where
  "LeaguesHistoryParamsType_values = [''cup'', ''other'', ''season'']"

definition LeaguesHistoryParamsFormat_values :: "string list" where
  "LeaguesHistoryParamsFormat_values = [''bball'', ''highlander'', ''1v1'', ''4v4'', ''6v6'', ''nr6v6'',
     ''other'', ''passtime'', ''prolander'', ''readysteadypan'', ''ultiduo'']"

definition LeaguesTeamMembersParamsLeague_values :: "string list" where
  "LeaguesTeamMembersParamsLeague_values = [''etf2l'', ''mgetf'', ''ozfortress'', ''rgl'', ''ugc'']"

definition LeaguesTeamsParamsLeague_values :: "string list" where
  "LeaguesTeamsParamsLeague_values = [''etf2l'', ''mgetf'', ''ozfortress'', ''rgl'', ''ugc'']"

end
