(* ===== verification/Go_Url.thy ===== *)
theory Go_Url
  imports Go_Strconv
begin

text \<open>
  Go's package net/url as the API client uses it: escaping, the values of a query, and parsing, resolving and
  printing a URL. How the authority of a URL (user, host and port) is read is an argument: a function from its
  text to the text of the user information and the host, or an error.
\<close>

section \<open>Escaping\<close>

datatype (plugins only: code size) url_mode =
    encodePath | encodePathSegment | encodeHost | encodeQueryComponent | encodeFragment

definition is_letter :: "char \<Rightarrow> bool" where
  "is_letter c \<longleftrightarrow> (CHR ''a'' \<le> c \<and> c \<le> CHR ''z'') \<or> (CHR ''A'' \<le> c \<and> c \<le> CHR ''Z'')"

definition shouldEscape :: "url_mode \<Rightarrow> char \<Rightarrow> bool" where
  "shouldEscape mode c =
     (if is_letter c \<or> is_digit c then False
      else if mode = encodeHost \<and> c \<in> set ''!$&'()*+,;=:[]<>\"'' then False
      else if c \<in> set ''-_.~'' then False
      else if c \<in> set ''$&+,/:;=?@'' then
        (case mode of
           encodePath \<Rightarrow> c = CHR ''?''
         | encodePathSegment \<Rightarrow> c \<in> set ''/;,?''
         | encodeHost \<Rightarrow> True
         | encodeQueryComponent \<Rightarrow> True
         | encodeFragment \<Rightarrow> False)
      else \<not> (mode = encodeFragment \<and> c \<in> set ''!()*''))"

definition upperhex :: "nat \<Rightarrow> char" where
  "upperhex n = ''0123456789ABCDEF'' ! n"

definition ishex :: "char \<Rightarrow> bool" where
  "ishex c \<longleftrightarrow> is_digit c \<or> (CHR ''a'' \<le> c \<and> c \<le> CHR ''f'') \<or> (CHR ''A'' \<le> c \<and> c \<le> CHR ''F'')"

definition unhex :: "char \<Rightarrow> nat" where
  "unhex c =
     (if is_digit c then of_char c - 48
      else if CHR ''a'' \<le> c \<and> c \<le> CHR ''f'' then of_char c - 97 + 10
      else of_char c - 65 + 10)"

definition escape_char :: "url_mode \<Rightarrow> char \<Rightarrow> string" where
  "escape_char mode c =
     (if c = CHR '' '' \<and> mode = encodeQueryComponent then ''+''
      else if shouldEscape mode c then [CHR ''%'', upperhex (of_char c div 16), upperhex (of_char c mod 16)]
      else [c])"

definition url_escape :: "url_mode \<Rightarrow> string \<Rightarrow> string" where
  "url_escape mode s = concat (map (escape_char mode) s)"

text \<open>\<open>unescape\<close> for all parts of a URL but the host, \<open>None\<close> on an escape error.\<close>

fun url_unescape :: "url_mode \<Rightarrow> string \<Rightarrow> string option" where
  "url_unescape mode [] = Some []"
| "url_unescape mode (c # s) =
     (if c = CHR ''%'' then
        (case s of
           a # b # s' \<Rightarrow>
             if ishex a \<and> ishex b
             then map_option (Cons (char_of (unhex a * 16 + unhex b))) (url_unescape mode s') else None
         | _ \<Rightarrow> None)
      else map_option (Cons (if c = CHR ''+'' \<and> mode = encodeQueryComponent then CHR '' '' else c))
             (url_unescape mode s))"

abbreviation QueryEscape :: "string \<Rightarrow> string" where
  "QueryEscape \<equiv> url_escape encodeQueryComponent"

abbreviation PathEscape :: "string \<Rightarrow> string" where
  "PathEscape \<equiv> url_escape encodePathSegment"

lemma url_escape_simps [simp]:
  "url_escape mode [] = []" "url_escape mode (c # s) = escape_char mode c @ url_escape mode s"
  "url_escape mode (s @ t) = url_escape mode s @ url_escape mode t"
  by (simp_all add: url_escape_def)

lemma hex_digits: "\<forall>n \<in> set [0..<16]. ishex (upperhex n) \<and> unhex (upperhex n) = n"
  by code_simp

lemma ishex_upperhex [simp]: "n < 16 \<Longrightarrow> ishex (upperhex n)"
  and unhex_upperhex [simp]: "n < 16 \<Longrightarrow> unhex (upperhex n) = n"
  using hex_digits by auto

lemma of_char_less [simp]: "(of_char (c :: char) :: nat) < 256"
  by (metis of_char_mod_256 mod_less_divisor zero_less_numeral)

lemma char_of_hex [simp]: "char_of (of_char c div 16 * 16 + of_char c mod (16 :: nat)) = (c :: char)"
  by (simp only: div_mult_mod_eq char_of_char)

lemma special_escaped: "\<forall>m \<in> {encodePath, encodePathSegment, encodeHost, encodeQueryComponent, encodeFragment}. shouldEscape m (CHR ''%'')"
  "\<forall>c \<in> set '' +&;=?/#''. shouldEscape encodeQueryComponent c"
  by code_simp+

lemma plain_char: "\<not> shouldEscape mode c \<Longrightarrow> c \<noteq> CHR ''%''"
  using special_escaped(1) by (cases mode) auto

lemma plain_query: "\<not> shouldEscape encodeQueryComponent c \<Longrightarrow> c \<notin> set '' +&;=?/#''"
  using special_escaped(2) by blast

text \<open>What is escaped for a part of the URL other than the host is read back.\<close>

theorem url_unescape_escape: "url_unescape mode (url_escape mode s @ t) = map_option ((@) s) (url_unescape mode t)"
proof (induction s)
  case (Cons c s)
  have "of_char c div 16 < (16 :: nat)" using of_char_less [of c] by linarith
  then show ?case
    using Cons plain_char [of mode c] plain_query [of c]
    by (auto simp: escape_char_def option.map_comp comp_def)
qed (simp add: option.map_id [unfolded id_def])

section \<open>Query values\<close>

text \<open>\<open>url.Values\<close>, a map from names to lists of values, by the list of its entries in the order of the names.\<close>

type_synonym url_values = "(string \<times> string list) list"

fun Values_Add :: "string \<Rightarrow> string \<Rightarrow> url_values \<Rightarrow> url_values" where
  "Values_Add k v [] = [(k, [v])]"
| "Values_Add k v ((k', vs) # r) =
     (if k = k' then (k', vs @ [v]) # r
      else if k < k' then (k, [v]) # (k', vs) # r
      else (k', vs) # Values_Add k v r)"

definition Values_pairs :: "url_values \<Rightarrow> (string \<times> string) list" where
  "Values_pairs vs = concat (map (\<lambda>(k, xs). map (Pair k) xs) vs)"

definition Values_Encode :: "url_values \<Rightarrow> string" where
  "Values_Encode vs = Join ''&'' (map (\<lambda>(k, v). QueryEscape k @ ''='' @ QueryEscape v) (Values_pairs vs))"

definition Cut :: "char \<Rightarrow> string \<Rightarrow> string \<times> string" where
  "Cut c s = (takeWhile (\<lambda>d. d \<noteq> c) s, drop 1 (dropWhile (\<lambda>d. d \<noteq> c) s))"

text \<open>One part of a query between ampersands; the flag says that there was an error.\<close>

definition query_part :: "string \<Rightarrow> url_values \<times> bool \<Rightarrow> url_values \<times> bool" where
  "query_part part r =
     (case r of (m, err) \<Rightarrow>
        if CHR '';'' \<in> set part then (m, True)
        else if part = [] then (m, err)
        else (case Cut (CHR ''='') part of (key, value) \<Rightarrow>
               (case url_unescape encodeQueryComponent key of
                  None \<Rightarrow> (m, True)
                | Some key \<Rightarrow>
                    (case url_unescape encodeQueryComponent value of
                       None \<Rightarrow> (m, True)
                     | Some value \<Rightarrow> (Values_Add key value m, err)))))"

definition ParseQuery :: "string \<Rightarrow> url_values \<times> bool" where
  "ParseQuery query = fold query_part (Split (CHR ''&'') query) ([], False)"

text \<open>The values of a map: names in order and different, each with a value.\<close>

definition values_ok :: "url_values \<Rightarrow> bool" where
  "values_ok vs \<longleftrightarrow> sorted_wrt (<) (map fst vs) \<and> list_all (\<lambda>(k, xs). xs \<noteq> []) vs"

lemma Values_Add_names: "set (map fst (Values_Add k v vs)) = insert k (set (map fst vs))"
  by (induction k v vs rule: Values_Add.induct) auto

lemma Values_Add_ok: "values_ok vs \<Longrightarrow> values_ok (Values_Add k v vs)"
proof (induction k v vs rule: Values_Add.induct)
  case (2 k v k' xs r)
  then show ?case using Values_Add_names [of k v r] by (auto simp: values_ok_def)
qed (simp add: values_ok_def)

lemma Values_Add_new:
  "k \<notin> set (map fst vs) \<Longrightarrow> set (Values_Add k v vs) = insert (k, [v]) (set vs)"
  by (induction k v vs rule: Values_Add.induct) auto

lemma Values_Add_end: "\<forall>e \<in> set vs. fst e < k \<Longrightarrow> Values_Add k v vs = vs @ [(k, [v])]"
  by (induction k v vs rule: Values_Add.induct) auto

lemma Values_Add_last: "\<forall>e \<in> set vs. fst e < k \<Longrightarrow> Values_Add k v (vs @ [(k, xs)]) = vs @ [(k, xs @ [v])]"
  by (induction k v vs rule: Values_Add.induct) auto

lemma Values_Add_values:
  assumes "\<forall>e \<in> set vs. fst e < k"
  shows "fold (\<lambda>x. Values_Add k x) xs (vs @ [(k, ys)]) = vs @ [(k, ys @ xs)]"
  by (induction xs arbitrary: ys) (simp_all add: Values_Add_last [OF assms])

lemma Values_Add_all:
  "values_ok (acc @ vs) \<Longrightarrow> fold (\<lambda>(k, v). Values_Add k v) (Values_pairs vs) acc = acc @ vs"
proof (induction vs arbitrary: acc)
  case (Cons e vs)
  obtain k x xs where e: "e = (k, x # xs)" using Cons.prems by (cases e; cases "snd e") (auto simp: values_ok_def)
  have lt: "\<forall>e \<in> set acc. fst e < k" using Cons.prems e by (auto simp: values_ok_def sorted_wrt_append)
  have "fold (\<lambda>(k, v). Values_Add k v) (map (Pair k) (x # xs)) acc = acc @ [e]"
    using Values_Add_values [OF lt, of xs "[x]"] by (simp add: e fold_map comp_def Values_Add_end [OF lt])
  moreover have "fold (\<lambda>(k, v). Values_Add k v) (Values_pairs vs) (acc @ [e]) = (acc @ [e]) @ vs"
    using Cons.IH [of "acc @ [e]"] Cons.prems by simp
  ultimately show ?case by (simp add: Values_pairs_def e)
qed (simp add: Values_pairs_def)

lemma QueryEscape_plain: "c \<in> set (QueryEscape s) \<Longrightarrow> c \<notin> set ''&;=?/# ''"
proof -
  assume "c \<in> set (QueryEscape s)"
  then obtain d where d: "c \<in> set (escape_char encodeQueryComponent d)" by (auto simp: url_escape_def)
  have hex: "\<forall>n \<in> set [0..<16]. upperhex n \<notin> set ''&;=?/# ''" by code_simp
  have "of_char d div 16 < (16 :: nat)" using of_char_less [of d] by linarith
  with d hex plain_query [of d] show ?thesis
    by (auto simp: escape_char_def split: if_splits)
qed

lemma Cut_at: "c \<notin> set s \<Longrightarrow> Cut c (s @ c # t) = (s, t)"
  by (simp add: Cut_def takeWhile_append dropWhile_append)

lemma query_part_pair:
  "query_part (QueryEscape k @ ''='' @ QueryEscape v) (m, err) = (Values_Add k v m, err)"
proof -
  have "CHR '';'' \<notin> set (QueryEscape k @ ''='' @ QueryEscape v)" "CHR ''='' \<notin> set (QueryEscape k)"
    using QueryEscape_plain [of "CHR '';''"] QueryEscape_plain [of "CHR ''=''"] by auto
  moreover have "url_unescape encodeQueryComponent (QueryEscape s) = Some s" for s
    using url_unescape_escape [of encodeQueryComponent s "[]"] by simp
  ultimately show ?thesis by (simp add: query_part_def Cut_at)
qed

text \<open>An encoded map of values is parsed back to itself, without an error.\<close>

theorem ParseQuery_Encode:
  assumes "values_ok vs"
  shows "ParseQuery (Values_Encode vs) = (vs, False)"
proof -
  let ?f = "\<lambda>(k, v). QueryEscape k @ ''='' @ QueryEscape v"
  have parts: "fold query_part (map ?f ps) (m, False) = (fold (\<lambda>(k, v). Values_Add k v) ps m, False)" for ps m
    by (induction ps arbitrary: m) (auto simp: query_part_pair [simplified])
  show ?thesis
  proof (cases "Values_pairs vs = []")
    case True
    with parts [of "[]" "[]"] Values_Add_all [of "[]" vs] assms show ?thesis
      by (simp add: ParseQuery_def Values_Encode_def query_part_def)
  next
    case False
    then have "Split (CHR ''&'') (Values_Encode vs) = map ?f (Values_pairs vs)"
      unfolding Values_Encode_def using QueryEscape_plain [of "CHR ''&''"]
      by (intro Split_Join) auto
    with parts [of "Values_pairs vs" "[]"] Values_Add_all [of "[]" vs] assms show ?thesis
      by (simp add: ParseQuery_def)
  qed
qed

section \<open>URLs\<close>

record URL =
  ul_Scheme :: string
  ul_Opaque :: string
  ul_User :: "string option"
  ul_Host :: string
  ul_Path :: string
  ul_RawPath :: string
  ul_OmitHost :: bool
  ul_ForceQuery :: bool
  ul_RawQuery :: string
  ul_Fragment :: string
  ul_RawFragment :: string

definition zero_URL :: URL where
  "zero_URL = \<lparr>ul_Scheme = [], ul_Opaque = [], ul_User = None, ul_Host = [], ul_Path = [], ul_RawPath = [],
     ul_OmitHost = False, ul_ForceQuery = False, ul_RawQuery = [], ul_Fragment = [], ul_RawFragment = []\<rparr>"

text \<open>How the authority is read: the text of the user information, if any, and the host.\<close>

type_synonym authority = "string \<Rightarrow> (string option \<times> string) result"

definition url_error :: "'a result" where
  "url_error = Inl [ErrForeign ''net/url'']"

definition ascii_lower :: "string \<Rightarrow> string" where
  "ascii_lower = map (\<lambda>c. if CHR ''A'' \<le> c \<and> c \<le> CHR ''Z'' then char_of (of_char c + 32 :: nat) else c)"

definition scheme_char :: "char \<Rightarrow> bool" where
  "scheme_char c \<longleftrightarrow> is_letter c \<or> is_digit c \<or> c \<in> set ''+-.''"

text \<open>The scheme, empty when there is none, and the rest; a leading colon is an error.\<close>

definition getScheme :: "string \<Rightarrow> (string \<times> string) option" where
  "getScheme s =
     (case s of
        [] \<Rightarrow> Some ([], s)
      | c # _ \<Rightarrow>
          if c = CHR '':'' then None
          else if \<not> is_letter c then Some ([], s)
          else (case dropWhile scheme_char s of
                  [] \<Rightarrow> Some ([], s)
                | d # rest \<Rightarrow> if d = CHR '':'' then Some (takeWhile scheme_char s, rest) else Some ([], s)))"

definition setPath :: "string \<Rightarrow> URL \<Rightarrow> URL result" where
  "setPath p u =
     (case url_unescape encodePath p of
        None \<Rightarrow> url_error
      | Some path \<Rightarrow> Inr (u\<lparr>ul_Path := path, ul_RawPath := (if url_escape encodePath path = p then [] else p)\<rparr>))"

definition setFragment :: "string \<Rightarrow> URL \<Rightarrow> URL result" where
  "setFragment f u =
     (case url_unescape encodeFragment f of
        None \<Rightarrow> url_error
      | Some frag \<Rightarrow>
          Inr (u\<lparr>ul_Fragment := frag, ul_RawFragment := (if url_escape encodeFragment frag = f then [] else f)\<rparr>))"

definition validEncoded :: "url_mode \<Rightarrow> string \<Rightarrow> bool" where
  "validEncoded mode s = list_all (\<lambda>c. c \<in> set ''!$&'()*+,;=:@[]%'' \<or> \<not> shouldEscape mode c) s"

definition EscapedPath :: "URL \<Rightarrow> string" where
  "EscapedPath u =
     (if ul_RawPath u \<noteq> [] \<and> validEncoded encodePath (ul_RawPath u) \<and>
         url_unescape encodePath (ul_RawPath u) = Some (ul_Path u) then ul_RawPath u
      else if ul_Path u = ''*'' then ''*''
      else url_escape encodePath (ul_Path u))"

definition EscapedFragment :: "URL \<Rightarrow> string" where
  "EscapedFragment u =
     (if ul_RawFragment u \<noteq> [] \<and> validEncoded encodeFragment (ul_RawFragment u) \<and>
         url_unescape encodeFragment (ul_RawFragment u) = Some (ul_Fragment u) then ul_RawFragment u
      else url_escape encodeFragment (ul_Fragment u))"

text \<open>The cut of the query: a single question mark at the end only sets the flag.\<close>

definition cut_query :: "string \<Rightarrow> URL \<Rightarrow> string \<times> URL" where
  "cut_query rest u =
     (if rest \<noteq> [] \<and> last rest = CHR ''?'' \<and> count_list rest (CHR ''?'') = 1
      then (butlast rest, u\<lparr>ul_ForceQuery := True\<rparr>)
      else (fst (Cut (CHR ''?'') rest), u\<lparr>ul_RawQuery := snd (Cut (CHR ''?'') rest)\<rparr>))"

text \<open>\<open>parse\<close> with \<open>viaRequest\<close> false.\<close>

definition url_parse :: "authority \<Rightarrow> string \<Rightarrow> URL result" where
  "url_parse A rawURL =
     (if list_ex (\<lambda>c. c < CHR '' '' \<or> c = CHR 0x7F) rawURL then url_error
      else if rawURL = ''*'' then Inr (zero_URL\<lparr>ul_Path := ''*''\<rparr>)
      else (case getScheme rawURL of
              None \<Rightarrow> url_error
            | Some (scheme, rest) \<Rightarrow>
                (case cut_query rest (zero_URL\<lparr>ul_Scheme := ascii_lower scheme\<rparr>) of (rest, u) \<Rightarrow>
                   if \<not> HasPrefix rest ''/'' \<and> scheme \<noteq> [] then Inr (u\<lparr>ul_Opaque := rest\<rparr>)
                   else if \<not> HasPrefix rest ''/'' \<and> CHR '':'' \<in> set (fst (Cut (CHR ''/'') rest)) then url_error
                   else if (scheme \<noteq> [] \<or> \<not> HasPrefix rest ''///'') \<and> HasPrefix rest ''//'' then
                     (let after = drop 2 rest in
                      case A (takeWhile (\<lambda>c. c \<noteq> CHR ''/'') after) of
                        Inl e \<Rightarrow> Inl e
                      | Inr (user, host) \<Rightarrow>
                          setPath (dropWhile (\<lambda>c. c \<noteq> CHR ''/'') after) (u\<lparr>ul_User := user, ul_Host := host\<rparr>))
                   else setPath rest (u\<lparr>ul_OmitHost := (scheme \<noteq> [] \<and> HasPrefix rest ''/'')\<rparr>))))"

definition url_Parse :: "authority \<Rightarrow> string \<Rightarrow> URL result" where
  "url_Parse A rawURL =
     (case Cut (CHR ''#'') rawURL of (u, frag) \<Rightarrow>
        (case url_parse A u of
           Inl e \<Rightarrow> Inl e
         | Inr url \<Rightarrow> if frag = [] then Inr url else setFragment frag url))"

definition URL_String :: "URL \<Rightarrow> string" where
  "URL_String u =
     (let scheme = (if ul_Scheme u = [] then [] else ul_Scheme u @ '':'');
          auth = (if (ul_Scheme u \<noteq> [] \<or> ul_Host u \<noteq> [] \<or> ul_User u \<noteq> None) \<and>
                     \<not> (ul_OmitHost u \<and> ul_Host u = [] \<and> ul_User u = None)
                  then (if ul_Host u \<noteq> [] \<or> ul_Path u \<noteq> [] \<or> ul_User u \<noteq> None then ''//'' else []) @
                       (case ul_User u of None \<Rightarrow> [] | Some ui \<Rightarrow> ui @ ''@'') @ url_escape encodeHost (ul_Host u)
                  else []);
          path = EscapedPath u;
          slash = (if path \<noteq> [] \<and> hd path \<noteq> CHR ''/'' \<and> ul_Host u \<noteq> [] then ''/'' else []);
          dot = (if scheme @ auth @ slash = [] \<and> CHR '':'' \<in> set (fst (Cut (CHR ''/'') path)) then ''./'' else [])
      in scheme @ (if ul_Opaque u \<noteq> [] then ul_Opaque u else auth @ slash @ dot @ path) @
         (if ul_ForceQuery u \<or> ul_RawQuery u \<noteq> [] then ''?'' @ ul_RawQuery u else []) @
         (if ul_Fragment u \<noteq> [] then ''#'' @ EscapedFragment u else []))"

text \<open>One element of the path; the flag says that no element was written yet.\<close>

definition resolve_elem :: "string \<Rightarrow> string \<times> bool \<Rightarrow> string \<times> bool" where
  "resolve_elem elem r =
     (case r of (str, first) \<Rightarrow>
        if elem = ''.'' then (str, False)
        else if elem = ''..'' then
          (if CHR ''/'' \<in> set str then (butlast (rev (dropWhile (\<lambda>c. c \<noteq> CHR ''/'') (rev str))), first) else ([], True))
        else (str @ (if first then [] else ''/'') @ elem, False))"

definition resolvePath :: "string \<Rightarrow> string \<Rightarrow> string" where
  "resolvePath base ref =
     (let full = (if ref = [] then base
                  else if hd ref \<noteq> CHR ''/'' then rev (dropWhile (\<lambda>c. c \<noteq> CHR ''/'') (rev base)) @ ref
                  else ref)
      in if full = [] then []
         else (let elems = Split (CHR ''/'') full;
                   str = fst (fold resolve_elem elems ([], True));
                   str = (if last elems = ''.'' \<or> last elems = ''..'' then str @ ''/'' else str)
               in if HasPrefix str ''/'' then str else ''/'' @ str))"

definition ResolveReference :: "URL \<Rightarrow> URL \<Rightarrow> URL" where
  "ResolveReference u ref =
     (let url = ref\<lparr>ul_Scheme := (if ul_Scheme ref = [] then ul_Scheme u else ul_Scheme ref)\<rparr>;
          set_path = (\<lambda>p v. case setPath p v of Inl _ \<Rightarrow> v | Inr v' \<Rightarrow> v')
      in if ul_Scheme ref \<noteq> [] \<or> ul_Host ref \<noteq> [] \<or> ul_User ref \<noteq> None
         then set_path (resolvePath (EscapedPath ref) []) url
         else if ul_Opaque ref \<noteq> [] then url\<lparr>ul_User := None, ul_Host := [], ul_Path := []\<rparr>
         else (let bare = (ul_Path ref = [] \<and> \<not> ul_ForceQuery ref \<and> ul_RawQuery ref = []);
                   url = (if bare then url\<lparr>ul_RawQuery := ul_RawQuery u\<rparr> else url);
                   url = (if bare \<and> ul_Fragment ref = []
                          then url\<lparr>ul_Fragment := ul_Fragment u, ul_RawFragment := ul_RawFragment u\<rparr> else url)
               in if ul_Path ref = [] \<and> ul_Opaque u \<noteq> []
                  then url\<lparr>ul_Opaque := ul_Opaque u, ul_User := None, ul_Host := [], ul_Path := []\<rparr>
                  else set_path (resolvePath (EscapedPath u) (EscapedPath ref))
                         (url\<lparr>ul_Host := ul_Host u, ul_User := ul_User u\<rparr>)))"

definition URL_Parse :: "authority \<Rightarrow> URL \<Rightarrow> string \<Rightarrow> URL result" where
  "URL_Parse A u ref = (case url_Parse A ref of Inl e \<Rightarrow> Inl e | Inr r \<Rightarrow> Inr (ResolveReference u r))"

definition URL_Query :: "URL \<Rightarrow> url_values" where
  "URL_Query u = fst (ParseQuery (ul_RawQuery u))"

lemma resolvePath_examples:
  "resolvePath ''/base/x'' ''./api/meta'' = ''/base/api/meta''"
  "resolvePath ''/base/'' ''./api/meta'' = ''/base/api/meta''"
  "resolvePath ''/'' ''./api/meta'' = ''/api/meta''"
  "resolvePath ''/a/b/c'' ''../d/.'' = ''/a/d/''"
  by code_simp+

section \<open>URLs of a server\<close>

text \<open>A URL of a scheme, a host, a path and a query in their normal forms.\<close>

definition plain_url :: "string \<Rightarrow> string \<Rightarrow> string \<Rightarrow> string \<Rightarrow> URL" where
  "plain_url scheme host path q =
     zero_URL\<lparr>ul_Scheme := scheme, ul_Host := host, ul_Path := path, ul_RawQuery := q\<rparr>"

definition plain_scheme :: "string \<Rightarrow> bool" where
  "plain_scheme s \<longleftrightarrow> s \<noteq> [] \<and> is_letter (hd s) \<and> list_all scheme_char s \<and> ascii_lower s = s"

definition plain_host :: "authority \<Rightarrow> string \<Rightarrow> bool" where
  "plain_host A h \<longleftrightarrow> h \<noteq> [] \<and> list_all (\<lambda>c. \<not> shouldEscape encodeHost c) h \<and> A h = Inr (None, h)"

definition plain_path :: "string \<Rightarrow> bool" where
  "plain_path p \<longleftrightarrow> list_all (\<lambda>c. \<not> shouldEscape encodePath c) p"

definition plain_query_text :: "string \<Rightarrow> bool" where
  "plain_query_text q \<longleftrightarrow> list_all (\<lambda>c. CHR '' '' < c \<and> c \<noteq> CHR 0x7F \<and> c \<noteq> CHR ''#'') q"

definition url_text :: "string \<Rightarrow> string \<Rightarrow> string \<Rightarrow> string \<Rightarrow> string" where
  "url_text scheme host path q = scheme @ ''://'' @ host @ path @ (if q = [] then [] else ''?'' @ q)"

lemma escaped_path_chars: "\<forall>c \<in> set '' ?#%''. shouldEscape encodePath c"
  and escaped_host_chars: "\<forall>c \<in> set '' ?#%/''. shouldEscape encodeHost c"
  by code_simp+

lemma escaped_ctl_codes:
  "\<forall>n \<in> set (127 # [0..<32]). shouldEscape encodePath (char_of n) \<and> shouldEscape encodeHost (char_of n) \<and>
     shouldEscape encodeQueryComponent (char_of n)"
  by code_simp

lemma escaped_ctl:
  assumes "c < CHR '' '' \<or> c = CHR 0x7F"
  shows "shouldEscape encodePath c" "shouldEscape encodeHost c" "shouldEscape encodeQueryComponent c"
proof -
  have "(of_char c :: nat) = 127 \<or> of_char c < (32 :: nat)"
    using assms by (auto simp: less_char_def)
  then have "of_char c \<in> set (127 # [0..<32 :: nat])" by simp
  with escaped_ctl_codes char_of_char [of c] show "shouldEscape encodePath c" "shouldEscape encodeHost c"
    "shouldEscape encodeQueryComponent c" by metis+
qed

lemma url_escape_id: "list_all (\<lambda>c. \<not> shouldEscape mode c) s \<Longrightarrow> CHR '' '' \<notin> set s \<Longrightarrow> url_escape mode s = s"
  by (induction s) (auto simp: escape_char_def)

lemma plain_no_blank:
  "plain_path p \<Longrightarrow> c \<in> set '' ?#%'' \<Longrightarrow> c \<notin> set p"
  "plain_host A h \<Longrightarrow> c \<in> set '' ?#%/'' \<Longrightarrow> c \<notin> set h"
  using escaped_path_chars escaped_host_chars by (fastforce simp: plain_path_def plain_host_def list_all_iff)+

lemma plain_path_chars:
  assumes "plain_path p" "c \<in> set p"
  shows "\<not> (c < CHR '' '' \<or> c = CHR 0x7F) \<and> c \<noteq> CHR ''#'' \<and> c \<noteq> CHR ''?''"
proof -
  have "\<not> shouldEscape encodePath c" using assms by (simp add: plain_path_def list_all_iff)
  moreover have "shouldEscape encodePath (CHR ''#'')" "shouldEscape encodePath (CHR ''?'')"
    using escaped_path_chars by simp_all
  ultimately show ?thesis using escaped_ctl(1) [of c] by metis
qed

lemma plain_host_chars:
  assumes "plain_host A h" "c \<in> set h"
  shows "\<not> (c < CHR '' '' \<or> c = CHR 0x7F) \<and> c \<noteq> CHR ''#''"
proof -
  have "\<not> shouldEscape encodeHost c" using assms by (simp add: plain_host_def list_all_iff)
  moreover have "shouldEscape encodeHost (CHR ''#'')" using escaped_host_chars by simp
  ultimately show ?thesis using escaped_ctl(2) [of c] by metis
qed

lemma setPath_plain: "plain_path p \<Longrightarrow> setPath p u = Inr (u\<lparr>ul_Path := p, ul_RawPath := []\<rparr>)"
proof -
  assume p: "plain_path p"
  have e: "url_escape encodePath p = p"
    using p plain_no_blank(1) [OF p, of "CHR '' ''"] by (intro url_escape_id) (auto simp: plain_path_def)
  have "url_unescape encodePath p = Some p"
    using url_unescape_escape [of encodePath p "[]"] e by simp
  with e show ?thesis by (simp add: setPath_def)
qed

lemma EscapedPath_plain: "plain_path (ul_Path u) \<Longrightarrow> ul_RawPath u = [] \<Longrightarrow> EscapedPath u = ul_Path u"
proof -
  assume p: "plain_path (ul_Path u)" "ul_RawPath u = []"
  then have "url_escape encodePath (ul_Path u) = ul_Path u"
    using plain_no_blank(1) [OF p(1), of "CHR '' ''"] by (intro url_escape_id) (auto simp: plain_path_def)
  with p show ?thesis by (simp add: EscapedPath_def)
qed

lemma URL_String_plain:
  assumes "plain_scheme scheme" "plain_host A host" "plain_path path" "path = [] \<or> hd path = CHR ''/''"
  shows "URL_String (plain_url scheme host path q) = url_text scheme host path q"
proof -
  have "url_escape encodeHost host = host"
    using assms(2) plain_no_blank(2) [OF assms(2), of "CHR '' ''"] by (intro url_escape_id) (auto simp: plain_host_def)
  moreover have "EscapedPath (plain_url scheme host path q) = path"
    using EscapedPath_plain [of "plain_url scheme host path q"] assms(3) by (simp add: plain_url_def zero_URL_def)
  ultimately show ?thesis
    using assms by (auto simp: URL_String_def plain_url_def zero_URL_def url_text_def plain_scheme_def plain_host_def)
qed

lemma getScheme_plain: "plain_scheme s \<Longrightarrow> getScheme (s @ CHR '':'' # t) = Some (s, t)"
proof -
  assume s: "plain_scheme s"
  have colon: "\<not> scheme_char (CHR '':'')" "\<not> is_letter (CHR '':'')" by code_simp+
  have span: "takeWhile scheme_char (s @ CHR '':'' # t) = s" "dropWhile scheme_char (s @ CHR '':'' # t) = CHR '':'' # t"
    using s colon by (simp_all add: plain_scheme_def list_all_iff takeWhile_append dropWhile_append)
  obtain c r where "s = c # r" "is_letter c" using s by (cases s) (auto simp: plain_scheme_def)
  with span colon show ?thesis by (auto simp: getScheme_def)
qed

lemma Cut_absent: "c \<notin> set s \<Longrightarrow> Cut c s = (s, [])"
  by (induction s) (auto simp: Cut_def)

lemma cut_query_plain:
  assumes "CHR ''?'' \<notin> set p"
  shows "cut_query (p @ (if q = [] then [] else ''?'' @ q)) u = (p, u\<lparr>ul_RawQuery := q\<rparr>)"
proof (cases "q = []")
  case True
  with assms have "\<not> (p \<noteq> [] \<and> last p = CHR ''?'' \<and> count_list p (CHR ''?'') = 1)" by auto
  with True assms show ?thesis by (simp add: cut_query_def Cut_absent)
next
  case False
  have "last q \<noteq> CHR ''?'' \<or> count_list q (CHR ''?'') \<noteq> 0"
    by (metis False last_in_set count_list_0_iff)
  with assms False have "\<not> (last (p @ CHR ''?'' # q) = CHR ''?'' \<and> count_list (p @ CHR ''?'' # q) (CHR ''?'') = 1)"
    by (auto simp: count_list_append)
  then have "cut_query (p @ ''?'' @ q) u =
      (fst (Cut (CHR ''?'') (p @ ''?'' @ q)), u\<lparr>ul_RawQuery := snd (Cut (CHR ''?'') (p @ ''?'' @ q))\<rparr>)"
    unfolding cut_query_def by (intro if_not_P) auto
  with assms False show ?thesis by (simp add: Cut_at)
qed

lemma scheme_char_plain: "scheme_char c \<Longrightarrow> \<not> shouldEscape encodeHost c \<and> c \<noteq> CHR ''#''"
proof -
  assume c: "scheme_char c"
  have "\<forall>c \<in> set ''+-.''. \<not> shouldEscape encodeHost c" "\<not> scheme_char (CHR ''#'')" by code_simp+
  moreover have "is_letter c \<or> is_digit c \<Longrightarrow> \<not> shouldEscape encodeHost c" by (simp add: shouldEscape_def)
  ultimately show ?thesis using c by (auto simp only: scheme_char_def)
qed

lemma url_parse_plain:
  assumes "plain_scheme scheme" "plain_host A host" "plain_path path" "path = [] \<or> hd path = CHR ''/''"
    and "plain_query_text q"
  shows "url_Parse A (url_text scheme host path q) = Inr (plain_url scheme host path q)"
proof -
  let ?t = "url_text scheme host path q" and ?rest = "''//'' @ host @ path"
  let ?ok = "\<lambda>c. \<not> (c < CHR '' '' \<or> c = CHR 0x7F) \<and> c \<noteq> CHR ''#''"
  have h: "?ok c" if "c \<in> set host" for c
    using plain_host_chars [OF assms(2) that] .
  have p: "?ok c" if "c \<in> set path" for c
    using plain_path_chars [OF assms(3) that] by blast
  have s: "?ok c" if "c \<in> set scheme" for c
  proof -
    have "scheme_char c" using that assms(1) by (auto simp: plain_scheme_def list_all_iff)
    then have "\<not> shouldEscape encodeHost c" "c \<noteq> CHR ''#''" by (auto dest: scheme_char_plain)
    then show ?thesis using escaped_ctl(2) [of c] by blast
  qed
  have lits: "?ok (CHR '':'')" "?ok (CHR ''/'')" "?ok (CHR ''?'')" by code_simp+
  have q: "?ok c" if "c \<in> set q" for c
  proof -
    have "CHR '' '' < c" "c \<noteq> CHR 0x7F" "c \<noteq> CHR ''#''"
      using that assms(5) by (simp_all add: plain_query_text_def list_all_iff)
    then show ?thesis by (meson order.asym)
  qed
  have all: "?ok c" if c: "c \<in> set ?t" for c
  proof -
    consider "c \<in> set scheme" | "c \<in> set host" | "c \<in> set path" | "c \<in> set q" | "c \<in> {CHR '':'', CHR ''/'', CHR ''?''}"
      using c unfolding url_text_def by (cases "q = []") auto
    then show ?thesis using h p s q lits by cases blast+
  qed
  have frag: "Cut (CHR ''#'') ?t = (?t, [])" using all by (intro Cut_absent) blast
  have star: "?t \<noteq> ''*''" using assms(1) by (cases scheme) (auto simp: url_text_def plain_scheme_def)
  have scheme: "getScheme ?t = Some (scheme, ?rest @ (if q = [] then [] else ''?'' @ q))"
    using getScheme_plain [OF assms(1), of "?rest @ (if q = [] then [] else ''?'' @ q)"] by (simp add: url_text_def)
  have noq: "CHR ''?'' \<notin> set ?rest"
    using plain_no_blank(2) [OF assms(2), of "CHR ''?''"] plain_no_blank(1) [OF assms(3), of "CHR ''?''"] by auto
  have host: "CHR ''/'' \<notin> set host" using plain_no_blank(2) [OF assms(2), of "CHR ''/''"] by auto
  have split: "takeWhile (\<lambda>c. c \<noteq> CHR ''/'') (host @ path) = host" "dropWhile (\<lambda>c. c \<noteq> CHR ''/'') (host @ path) = path"
    using host assms(4) by (cases path; auto simp: takeWhile_append dropWhile_append)+
  have "url_parse A ?t = Inr (plain_url scheme host path q)"
    using all star assms(1,2) unfolding url_parse_def scheme option.case prod.case cut_query_plain [OF noq]
    by (auto simp: split setPath_plain [OF assms(3)] list_ex_iff plain_scheme_def plain_host_def plain_url_def zero_URL_def)
  with frag show ?thesis by (simp add: url_Parse_def)
qed

text \<open>A relative path is resolved below the path of the server.\<close>

definition slashed :: "string list \<Rightarrow> string" where
  "slashed segs = concat (map (\<lambda>s. CHR ''/'' # s) segs)"

definition plain_segment :: "string \<Rightarrow> bool" where
  "plain_segment s \<longleftrightarrow> s \<noteq> [] \<and> s \<noteq> ''.'' \<and> s \<noteq> ''..'' \<and> CHR ''/'' \<notin> set s \<and> plain_path s"

lemma slashed_simps [simp]:
  "slashed [] = []" "slashed (s # segs) = CHR ''/'' # s @ slashed segs" "slashed (as @ bs) = slashed as @ slashed bs"
  by (simp_all add: slashed_def)

lemma plain_path_slashed: "list_all plain_segment segs \<Longrightarrow> plain_path (slashed segs)"
proof (induction segs)
  case (Cons s segs)
  have "\<not> shouldEscape encodePath (CHR ''/'')" by code_simp
  with Cons show ?case by (simp add: plain_segment_def plain_path_def)
qed (simp add: plain_path_def)

lemma Split_slashed: "list_all plain_segment segs \<Longrightarrow> Split (CHR ''/'') (slashed segs @ CHR ''/'' # t) = [] # segs @ Split (CHR ''/'') t"
proof (induction segs)
  case (Cons s segs)
  then have "CHR ''/'' \<notin> set s" by (simp add: plain_segment_def)
  with Cons show ?case
    by (cases segs) (simp_all add: Split_append_sep)
qed simp

lemma resolve_segments:
  "list_all plain_segment segs \<Longrightarrow> fold resolve_elem segs (str, False) = (str @ slashed segs, False)"
  by (induction segs arbitrary: str) (auto simp: resolve_elem_def plain_segment_def)

lemma Split_segments:
  "segs \<noteq> [] \<Longrightarrow> list_all plain_segment segs \<Longrightarrow> Split (CHR ''/'') (tl (slashed segs)) = segs"
proof (induction segs)
  case (Cons s segs)
  then have "CHR ''/'' \<notin> set s" by (simp add: plain_segment_def)
  with Cons show ?case by (cases segs) (auto simp: Split_single Split_append_sep)
qed simp

lemma resolvePath_below:
  assumes "list_all plain_segment segs" "list_all plain_segment ref" "ref \<noteq> []"
  shows "resolvePath (slashed segs @ ''/'') (CHR ''.'' # slashed ref) = slashed (segs @ ref)"
proof -
  let ?full = "slashed segs @ CHR ''/'' # CHR ''.'' # slashed ref"
  obtain r rs where ref: "ref = r # rs" using assms(3) by (cases ref) auto
  have dot: "Split (CHR ''/'') (CHR ''.'' # slashed ref) = ''.'' # ref"
    using Split_append_sep [of "CHR ''/''" "''.''" "r @ slashed rs"] Split_segments [OF assms(3,2)] ref by simp
  have elems: "Split (CHR ''/'') ?full = [] # segs @ ''.'' # ref"
    using Split_slashed [OF assms(1)] dot by simp
  have "fold resolve_elem ([] # segs @ ''.'' # ref) ([], True) = (slashed segs @ slashed ref, False)"
    using resolve_segments [OF assms(1), of "[]"] resolve_segments [OF assms(2), of "slashed segs"]
    by (simp add: resolve_elem_def)
  moreover have "last ref \<noteq> ''.''" "last ref \<noteq> ''..''"
    using assms(2,3) by (auto simp: plain_segment_def list_all_iff dest: last_in_set)
  moreover have "HasPrefix (slashed segs @ slashed ref) ''/''"
    using ref by (cases segs) auto
  ultimately show ?thesis
    using assms(3) elems by (simp add: resolvePath_def)
qed

lemma URL_Parse_below:
  assumes "list_all plain_segment segs" "list_all plain_segment ref" "ref \<noteq> []"
  shows "URL_Parse A (plain_url scheme host (slashed segs @ ''/'') []) (CHR ''.'' # slashed ref) =
     Inr (plain_url scheme host (slashed (segs @ ref)) [])"
proof -
  let ?r = "CHR ''.'' # slashed ref"
  have dot: "\<not> shouldEscape encodePath (CHR ''.'')" "\<not> shouldEscape encodePath (CHR ''/'')" by code_simp+
  have plain: "plain_path ?r" "plain_path (slashed segs @ ''/'')" "plain_path (slashed (segs @ ref))"
    using plain_path_slashed [OF assms(1)] plain_path_slashed [OF assms(2)] dot by (simp_all add: plain_path_def)
  have chars: "\<not> (c < CHR '' '' \<or> c = CHR 0x7F) \<and> c \<noteq> CHR ''#'' \<and> c \<noteq> CHR ''?''" if "c \<in> set ?r" for c
    using plain_path_chars [OF plain(1) that] .
  have hash: "CHR ''#'' \<notin> set ?r" and quest: "CHR ''?'' \<notin> set ?r" using chars by blast+
  have frag: "Cut (CHR ''#'') ?r = (?r, [])" "CHR ''?'' \<notin> set ?r" using Cut_absent [OF hash] quest by blast+
  have colon: "CHR '':'' \<notin> set (fst (Cut (CHR ''/'') ?r))" using assms(3) by (cases ref) (auto simp: Cut_def)
  have scheme: "getScheme ?r = Some ([], ?r)" by (simp add: getScheme_def is_letter_def)
  have "url_parse A ?r = Inr (zero_URL\<lparr>ul_Path := ?r\<rparr>)"
    using chars colon cut_query_plain [OF frag(2), of "[]"] scheme setPath_plain [OF plain(1)]
    by (auto simp: url_parse_def list_ex_iff zero_URL_def ascii_lower_def)
  then have "url_Parse A ?r = Inr (zero_URL\<lparr>ul_Path := ?r\<rparr>)" using frag by (simp add: url_Parse_def)
  moreover have "EscapedPath (zero_URL\<lparr>ul_Path := ?r\<rparr>) = ?r"
    "EscapedPath (plain_url scheme host (slashed segs @ ''/'') []) = slashed segs @ ''/''"
    using plain by (simp_all add: EscapedPath_plain plain_url_def zero_URL_def)
  ultimately show ?thesis
    using resolvePath_below [OF assms] setPath_plain [OF plain(3)]
    by (simp add: URL_Parse_def ResolveReference_def plain_url_def zero_URL_def)
qed

lemma QueryEscape_text: "plain_query_text (QueryEscape s)"
proof -
  have lits: "CHR '' '' < CHR ''%''" "CHR '' '' < CHR ''+''" "\<forall>n \<in> set [0..<16]. CHR '' '' < upperhex n \<and> upperhex n \<notin> {CHR 0x7F, CHR ''#''}"
    by code_simp+
  have "CHR '' '' < c \<and> c \<noteq> CHR 0x7F \<and> c \<noteq> CHR ''#''" if "c \<in> set (escape_char encodeQueryComponent d)" for c d
  proof (cases "\<not> shouldEscape encodeQueryComponent d")
    case True
    then have "c = d" using that plain_query [of d] by (auto simp: escape_char_def)
    moreover have "\<not> (d < CHR '' '' \<or> d = CHR 0x7F)" using True escaped_ctl(3) [of d] by blast
    ultimately show ?thesis using plain_query [OF True] by (auto simp only: list.set insert_iff not_less order.order_iff_strict)
  next
    case False
    have "of_char d div 16 < (16 :: nat)" using of_char_less [of d] by linarith
    with False that lits show ?thesis by (auto simp: escape_char_def split: if_splits)
  qed
  then show ?thesis by (auto simp: plain_query_text_def list_all_iff url_escape_def)
qed

lemma Encode_text: "plain_query_text (Values_Encode vs)"
proof -
  have "plain_query_text (Join ''&'' (map (\<lambda>(k, v). QueryEscape k @ ''='' @ QueryEscape v) ps))" for ps
  proof (induction ps rule: induct_list012)
    case (2 p)
    then show ?case using QueryEscape_text [of "fst p"] QueryEscape_text [of "snd p"]
      by (simp add: plain_query_text_def case_prod_beta less_char_def)
  next
    case (3 p p' ps)
    then show ?case using QueryEscape_text [of "fst p"] QueryEscape_text [of "snd p"]
      by (simp add: plain_query_text_def case_prod_beta less_char_def)
  qed (simp add: plain_query_text_def)
  then show ?thesis by (simp add: Values_Encode_def)
qed

end
