(* ===== verification/Tfapi_Client.thy ===== *)
theory Tfapi_Client
  imports Tfapi_Types Go_Url
begin

text \<open>
  The client of internal/tfapi/tfapi.gen.go. The generator wrote every operation from the same template: a request
  builder, a method that sends the request, and a parser of the response. The three templates are
  \<open>query_request\<close>, \<open>client_send\<close> and \<open>parse_response\<close>; an operation names its path, its parameters and its payload.
  The package runtime that styles a parameter, the HTTP client and the JSON decoders are arguments.
\<close>

section \<open>Parameters\<close>

type_synonym LeaguesCompetitionsParamsLeague = string
type_synonym LeaguesCompetitionsParamsFormat = string
type_synonym LeaguesCompetitionsParamsType = string
type_synonym LeaguesHistoryParamsLeague = string
type_synonym LeaguesHistoryParamsType = string
type_synonym LeaguesHistoryParamsFormat = string
type_synonym LeaguesTeamMembersParamsLeague = string
type_synonym LeaguesTeamsParamsLeague = string

record BansSearchParams =
  bans_SiteName :: string
  bans_HideUnbanned :: bool
  bans_Steamids :: string

record BdListParams =
  bdlist_Site :: string

record BdSearchParams =
  bdsearch_Steamids :: string
  bdsearch_Attrs :: string

record LeaguesCompetitionsParams =
  comp_League :: LeaguesCompetitionsParamsLeague
  comp_Format :: LeaguesCompetitionsParamsFormat
  comp_Type :: LeaguesCompetitionsParamsType

record LeaguesHistoryParams =
  hist_Steamids :: string
  hist_League :: LeaguesHistoryParamsLeague
  hist_Type :: LeaguesHistoryParamsType
  hist_Format :: LeaguesHistoryParamsFormat

record LeaguesTeamMembersParams =
  members_League :: LeaguesTeamMembersParamsLeague
  members_LeagueId :: int

record LeaguesTeamsParams =
  teams_League :: LeaguesTeamsParamsLeague
  teams_LeagueId :: int
  teams_Name :: string

record LogstfChatQueryParams =
  chat_Steamid :: string
  chat_Query :: string
  chat_FlaggedOnly :: bool
  chat_Name :: string
  chat_LogId :: int
  chat_Offset :: int
  chat_Limit :: int
  chat_Before :: int
  chat_After :: int

record LogstfMatchListParams =
  matches_Steamid :: string

record LogstfPlayerSummaryParams =
  summary_Steamid :: string

record MetaProfileParams =
  profile_Steamids :: string

record SteamBansParams =
  sbans_Steamids :: string

record SteamFriendsParams =
  friends_Steamid :: string

record SteamGamesParams =
  games_Steamids :: string

record SteamGroupParams =
  group_Groupid :: string

record SteamIdParams =
  resolve_Steamid :: string

record SteamSummariesParams =
  summaries_Steamids :: string

record SteamrepQueryParams =
  rep_Steamids :: string

section \<open>Requests\<close>

datatype (plugins only: code size) param_location = ParamLocationQuery | ParamLocationPath

datatype (plugins only: code size) param_value = PString string | PInt64 int | PBool bool | PTime int

text \<open>\<open>StyleParamWithLocation\<close> of the package runtime, from the style, the flag that explodes, the name, the location
  and the value; and how the authority of a URL is read.\<close>

record api_lib =
  al_Style :: "string \<Rightarrow> bool \<Rightarrow> string \<Rightarrow> param_location \<Rightarrow> param_value \<Rightarrow> string result"
  al_Authority :: authority

record http_req =
  rq_Method :: string
  rq_URL :: URL
  rq_Host :: string
  rq_Header :: url_values

text \<open>\<open>http.NewRequest\<close> without a body, for a valid method. A colon without a port is cut off the host.\<close>

definition removeEmptyPort :: "string \<Rightarrow> string" where
  "removeEmptyPort host = (if host \<noteq> [] \<and> last host = CHR '':'' then butlast host else host)"

definition NewRequest :: "api_lib \<Rightarrow> string \<Rightarrow> string \<Rightarrow> http_req result" where
  "NewRequest E mtd url =
     (case url_Parse (al_Authority E) url of
        Inl e \<Rightarrow> Inl e
      | Inr u \<Rightarrow>
          Inr \<lparr>rq_Method = mtd, rq_URL = u\<lparr>ul_Host := removeEmptyPort (ul_Host u)\<rparr>,
             rq_Host = removeEmptyPort (ul_Host u), rq_Header = []\<rparr>)"

text \<open>One parameter: it is styled, the result is parsed as a query, and its values are added.\<close>

definition add_param :: "api_lib \<Rightarrow> string \<times> param_value \<Rightarrow> url_values \<Rightarrow> url_values result" where
  "add_param E p queryValues =
     (case al_Style E ''form'' False (fst p) ParamLocationQuery (snd p) of
        Inl e \<Rightarrow> Inl e
      | Inr queryFrag \<Rightarrow>
          (case ParseQuery queryFrag of (parsed, err) \<Rightarrow>
             if err then url_error
             else Inr (fold (\<lambda>(k, v2). Values_Add k v2) (Values_pairs parsed) queryValues)))"

fun add_params :: "api_lib \<Rightarrow> (string \<times> param_value) list \<Rightarrow> url_values \<Rightarrow> url_values result" where
  "add_params E [] queryValues = Inr queryValues"
| "add_params E (p # ps) queryValues =
     (case add_param E p queryValues of Inl e \<Rightarrow> Inl e | Inr vs \<Rightarrow> add_params E ps vs)"

definition query_request ::
  "api_lib \<Rightarrow> string \<Rightarrow> string \<Rightarrow> (string \<times> param_value) list option \<Rightarrow> http_req result" where
  "query_request E server operationPath params =
     (case url_Parse (al_Authority E) server of
        Inl e \<Rightarrow> Inl e
      | Inr serverURL \<Rightarrow>
          let operationPath = (if hd operationPath = CHR ''/'' then ''.'' @ operationPath else operationPath) in
          (case URL_Parse (al_Authority E) serverURL operationPath of
             Inl e \<Rightarrow> Inl e
           | Inr queryURL \<Rightarrow>
               (case params of
                  None \<Rightarrow> NewRequest E ''GET'' (URL_String queryURL)
                | Some ps \<Rightarrow>
                    (case add_params E ps (URL_Query queryURL) of
                       Inl e \<Rightarrow> Inl e
                     | Inr queryValues \<Rightarrow>
                         NewRequest E ''GET'' (URL_String (queryURL\<lparr>ul_RawQuery := Values_Encode queryValues\<rparr>))))))"

definition NewBansSearchRequest :: "api_lib \<Rightarrow> string \<Rightarrow> BansSearchParams option \<Rightarrow> http_req result" where
  "NewBansSearchRequest E server params =
     query_request E server ''/api/bans/search''
       (map_option (\<lambda>p.
        [(''site_name'', PString (bans_SiteName p)),
         (''hide_unbanned'', PBool (bans_HideUnbanned p)),
         (''steamids'', PString (bans_Steamids p))]) params)"

definition NewBdListRequest :: "api_lib \<Rightarrow> string \<Rightarrow> BdListParams option \<Rightarrow> http_req result" where
  "NewBdListRequest E server params =
     query_request E server ''/api/bd/list''
       (map_option (\<lambda>p.
        [(''site'', PString (bdlist_Site p))]) params)"

definition NewBdSearchRequest :: "api_lib \<Rightarrow> string \<Rightarrow> BdSearchParams option \<Rightarrow> http_req result" where
  "NewBdSearchRequest E server params =
     query_request E server ''/api/bd/search''
       (map_option (\<lambda>p.
        [(''steamids'', PString (bdsearch_Steamids p)),
         (''attrs'', PString (bdsearch_Attrs p))]) params)"

definition NewLeaguesCompetitionsRequest :: "api_lib \<Rightarrow> string \<Rightarrow> LeaguesCompetitionsParams option \<Rightarrow> http_req result" where
  "NewLeaguesCompetitionsRequest E server params =
     query_request E server ''/api/leagues/competitions''
       (map_option (\<lambda>p.
        [(''league'', PString (comp_League p)),
         (''format'', PString (comp_Format p)),
         (''type'', PString (comp_Type p))]) params)"

definition NewLeaguesHistoryRequest :: "api_lib \<Rightarrow> string \<Rightarrow> LeaguesHistoryParams option \<Rightarrow> http_req result" where
  "NewLeaguesHistoryRequest E server params =
     query_request E server ''/api/leagues/history''
       (map_option (\<lambda>p.
        [(''steamids'', PString (hist_Steamids p)),
         (''league'', PString (hist_League p)),
         (''type'', PString (hist_Type p)),
         (''format'', PString (hist_Format p))]) params)"

definition NewLeaguesTeamMembersRequest :: "api_lib \<Rightarrow> string \<Rightarrow> LeaguesTeamMembersParams option \<Rightarrow> http_req result" where
  "NewLeaguesTeamMembersRequest E server params =
     query_request E server ''/api/leagues/members''
       (map_option (\<lambda>p.
        [(''league'', PString (members_League p)),
         (''league_id'', PInt64 (members_LeagueId p))]) params)"

definition NewLeaguesTeamsRequest :: "api_lib \<Rightarrow> string \<Rightarrow> LeaguesTeamsParams option \<Rightarrow> http_req result" where
  "NewLeaguesTeamsRequest E server params =
     query_request E server ''/api/leagues/teams''
       (map_option (\<lambda>p.
        [(''league'', PString (teams_League p)),
         (''league_id'', PInt64 (teams_LeagueId p)),
         (''name'', PString (teams_Name p))]) params)"

definition NewLogstfChatQueryRequest :: "api_lib \<Rightarrow> string \<Rightarrow> LogstfChatQueryParams option \<Rightarrow> http_req result" where
  "NewLogstfChatQueryRequest E server params =
     query_request E server ''/api/logstf/chat''
       (map_option (\<lambda>p.
        [(''steamid'', PString (chat_Steamid p)),
         (''query'', PString (chat_Query p)),
         (''flagged_only'', PBool (chat_FlaggedOnly p)),
         (''name'', PString (chat_Name p)),
         (''log_id'', PInt64 (chat_LogId p)),
         (''offset'', PInt64 (chat_Offset p)),
         (''limit'', PInt64 (chat_Limit p)),
         (''before'', PTime (chat_Before p)),
         (''after'', PTime (chat_After p))]) params)"

text \<open>The number of the log is part of the path.\<close>

definition NewLogstfLogRequest :: "api_lib \<Rightarrow> string \<Rightarrow> int \<Rightarrow> http_req result" where
  "NewLogstfLogRequest E server logid =
     (case al_Style E ''simple'' False ''logid'' ParamLocationPath (PInt64 logid) of
        Inl e \<Rightarrow> Inl e
      | Inr pathParam0 \<Rightarrow> query_request E server (''/api/logstf/log/'' @ pathParam0) None)"

definition NewLogstfMatchListRequest :: "api_lib \<Rightarrow> string \<Rightarrow> LogstfMatchListParams option \<Rightarrow> http_req result" where
  "NewLogstfMatchListRequest E server params =
     query_request E server ''/api/logstf/matches''
       (map_option (\<lambda>p.
        [(''steamid'', PString (matches_Steamid p))]) params)"

definition NewLogstfPlayerSummaryRequest :: "api_lib \<Rightarrow> string \<Rightarrow> LogstfPlayerSummaryParams option \<Rightarrow> http_req result" where
  "NewLogstfPlayerSummaryRequest E server params =
     query_request E server ''/api/logstf/summary''
       (map_option (\<lambda>p.
        [(''steamid'', PString (summary_Steamid p))]) params)"

definition NewMetaProfileRequest :: "api_lib \<Rightarrow> string \<Rightarrow> MetaProfileParams option \<Rightarrow> http_req result" where
  "NewMetaProfileRequest E server params =
     query_request E server ''/api/meta/profile''
       (map_option (\<lambda>p.
        [(''steamids'', PString (profile_Steamids p))]) params)"

definition NewMetaSitesRequest :: "api_lib \<Rightarrow> string \<Rightarrow> http_req result" where
  "NewMetaSitesRequest E server =
     query_request E server ''/api/meta/sites'' None"

definition NewStatsIdRequest :: "api_lib \<Rightarrow> string \<Rightarrow> http_req result" where
  "NewStatsIdRequest E server =
     query_request E server ''/api/stats/overall'' None"

definition NewSteamBansRequest :: "api_lib \<Rightarrow> string \<Rightarrow> SteamBansParams option \<Rightarrow> http_req result" where
  "NewSteamBansRequest E server params =
     query_request E server ''/api/steam/bans''
       (map_option (\<lambda>p.
        [(''steamids'', PString (sbans_Steamids p))]) params)"

definition NewSteamFriendsRequest :: "api_lib \<Rightarrow> string \<Rightarrow> SteamFriendsParams option \<Rightarrow> http_req result" where
  "NewSteamFriendsRequest E server params =
     query_request E server ''/api/steam/friends''
       (map_option (\<lambda>p.
        [(''steamid'', PString (friends_Steamid p))]) params)"

definition NewSteamGamesRequest :: "api_lib \<Rightarrow> string \<Rightarrow> SteamGamesParams option \<Rightarrow> http_req result" where
  "NewSteamGamesRequest E server params =
     query_request E server ''/api/steam/games''
       (map_option (\<lambda>p.
        [(''steamids'', PString (games_Steamids p))]) params)"

definition NewSteamGroupRequest :: "api_lib \<Rightarrow> string \<Rightarrow> SteamGroupParams option \<Rightarrow> http_req result" where
  "NewSteamGroupRequest E server params =
     query_request E server ''/api/steam/group''
       (map_option (\<lambda>p.
        [(''groupid'', PString (group_Groupid p))]) params)"

definition NewSteamIdRequest :: "api_lib \<Rightarrow> string \<Rightarrow> SteamIdParams option \<Rightarrow> http_req result" where
  "NewSteamIdRequest E server params =
     query_request E server ''/api/steam/id''
       (map_option (\<lambda>p.
        [(''steamid'', PString (resolve_Steamid p))]) params)"

definition NewSteamParseRequest :: "api_lib \<Rightarrow> string \<Rightarrow> http_req result" where
  "NewSteamParseRequest E server =
     query_request E server ''/api/steam/parse'' None"

definition NewSteamSchemaItemsRequest :: "api_lib \<Rightarrow> string \<Rightarrow> http_req result" where
  "NewSteamSchemaItemsRequest E server =
     query_request E server ''/api/steam/schema-items'' None"

definition NewSteamSummariesRequest :: "api_lib \<Rightarrow> string \<Rightarrow> SteamSummariesParams option \<Rightarrow> http_req result" where
  "NewSteamSummariesRequest E server params =
     query_request E server ''/api/steam/summary''
       (map_option (\<lambda>p.
        [(''steamids'', PString (summaries_Steamids p))]) params)"

definition NewSteamrepQueryRequest :: "api_lib \<Rightarrow> string \<Rightarrow> SteamrepQueryParams option \<Rightarrow> http_req result" where
  "NewSteamrepQueryRequest E server params =
     query_request E server ''/api/steamrep/query''
       (map_option (\<lambda>p.
        [(''steamids'', PString (rep_Steamids p))]) params)"

section \<open>The client\<close>

record http_resp =
  hr_Status :: string
  hr_StatusCode :: int
  hr_ContentType :: string
  hr_Body :: "string result"

text \<open>An editor changes the request or fails. A \<open>Doer\<close> performs it.\<close>

type_synonym request_editor = "http_req \<Rightarrow> go_error option \<times> http_req"
type_synonym 'w doer = "http_req \<Rightarrow> 'w \<Rightarrow> http_resp result \<times> 'w"

record 'w Client =
  cl_Server :: string
  cl_Client :: "'w doer option"
  cl_RequestEditors :: "request_editor list"

type_synonym 'w ClientOption = "'w Client \<Rightarrow> 'w Client result"

fun apply_options :: "'w ClientOption list \<Rightarrow> 'w Client \<Rightarrow> 'w Client result" where
  "apply_options [] client = Inr client"
| "apply_options (opt # opts) client =
     (case opt client of Inl e \<Rightarrow> Inl e | Inr client \<Rightarrow> apply_options opts client)"

text \<open>The first argument is the client of the package http with its default settings.\<close>

definition NewClient :: "'w doer \<Rightarrow> string \<Rightarrow> 'w ClientOption list \<Rightarrow> 'w Client result" where
  "NewClient default_client server opts =
     (case apply_options opts \<lparr>cl_Server = server, cl_Client = None, cl_RequestEditors = []\<rparr> of
        Inl e \<Rightarrow> Inl e
      | Inr client \<Rightarrow>
          let client = (if cl_Server client \<noteq> [] \<and> last (cl_Server client) = CHR ''/'' then client
                        else client\<lparr>cl_Server := cl_Server client @ ''/''\<rparr>)
          in Inr (if cl_Client client = None then client\<lparr>cl_Client := Some default_client\<rparr> else client))"

definition NewClientWithResponses :: "'w doer \<Rightarrow> string \<Rightarrow> 'w ClientOption list \<Rightarrow> 'w Client result" where
  "NewClientWithResponses default_client server opts =
     (case NewClient default_client server opts of Inl e \<Rightarrow> Inl e | Inr client \<Rightarrow> Inr client)"

definition WithHTTPClient :: "'w doer \<Rightarrow> 'w ClientOption" where
  "WithHTTPClient doer c = Inr (c\<lparr>cl_Client := Some doer\<rparr>)"

definition WithRequestEditorFn :: "request_editor \<Rightarrow> 'w ClientOption" where
  "WithRequestEditorFn fn c = Inr (c\<lparr>cl_RequestEditors := cl_RequestEditors c @ [fn]\<rparr>)"

definition WithBaseURL :: "authority \<Rightarrow> string \<Rightarrow> 'w ClientOption" where
  "WithBaseURL A baseURL c =
     (case url_Parse A baseURL of Inl e \<Rightarrow> Inl e | Inr newBaseURL \<Rightarrow> Inr (c\<lparr>cl_Server := URL_String newBaseURL\<rparr>))"

fun run_editors :: "request_editor list \<Rightarrow> http_req \<Rightarrow> go_error option \<times> http_req" where
  "run_editors [] req = (None, req)"
| "run_editors (r # rs) req = (case r req of (Some err, req) \<Rightarrow> (Some err, req) | (None, req) \<Rightarrow> run_editors rs req)"

definition applyEditors :: "'w Client \<Rightarrow> http_req \<Rightarrow> request_editor list \<Rightarrow> go_error option \<times> http_req" where
  "applyEditors c req additionalEditors =
     (case run_editors (cl_RequestEditors c) req of
        (Some err, req) \<Rightarrow> (Some err, req)
      | (None, req) \<Rightarrow> run_editors additionalEditors req)"

text \<open>Calling the method of a nil client panics.\<close>

definition client_send ::
  "'w Client \<Rightarrow> http_req result \<Rightarrow> request_editor list \<Rightarrow> 'w \<Rightarrow> (http_resp result \<times> 'w) outcome" where
  "client_send c request reqEditors w =
     (case request of
        Inl e \<Rightarrow> Ok (Inl e, w)
      | Inr req \<Rightarrow>
          (case applyEditors c req reqEditors of
             (Some err, _) \<Rightarrow> Ok (Inl err, w)
           | (None, req) \<Rightarrow> (case cl_Client c of None \<Rightarrow> Panic | Some doer \<Rightarrow> Ok (doer req w))))"

definition Client_BansSearch ::
  "api_lib \<Rightarrow> 'w Client \<Rightarrow> BansSearchParams option \<Rightarrow> request_editor list \<Rightarrow> 'w \<Rightarrow> (http_resp result \<times> 'w) outcome" where
  "Client_BansSearch E c params = client_send c (NewBansSearchRequest E (cl_Server c) params)"

definition Client_BdList ::
  "api_lib \<Rightarrow> 'w Client \<Rightarrow> BdListParams option \<Rightarrow> request_editor list \<Rightarrow> 'w \<Rightarrow> (http_resp result \<times> 'w) outcome" where
  "Client_BdList E c params = client_send c (NewBdListRequest E (cl_Server c) params)"

definition Client_BdSearch ::
  "api_lib \<Rightarrow> 'w Client \<Rightarrow> BdSearchParams option \<Rightarrow> request_editor list \<Rightarrow> 'w \<Rightarrow> (http_resp result \<times> 'w) outcome" where
  "Client_BdSearch E c params = client_send c (NewBdSearchRequest E (cl_Server c) params)"

definition Client_LeaguesCompetitions ::
  "api_lib \<Rightarrow> 'w Client \<Rightarrow> LeaguesCompetitionsParams option \<Rightarrow> request_editor list \<Rightarrow> 'w \<Rightarrow> (http_resp result \<times> 'w) outcome" where
  "Client_LeaguesCompetitions E c params = client_send c (NewLeaguesCompetitionsRequest E (cl_Server c) params)"

definition Client_LeaguesHistory ::
  "api_lib \<Rightarrow> 'w Client \<Rightarrow> LeaguesHistoryParams option \<Rightarrow> request_editor list \<Rightarrow> 'w \<Rightarrow> (http_resp result \<times> 'w) outcome" where
  "Client_LeaguesHistory E c params = client_send c (NewLeaguesHistoryRequest E (cl_Server c) params)"

definition Client_LeaguesTeamMembers ::
  "api_lib \<Rightarrow> 'w Client \<Rightarrow> LeaguesTeamMembersParams option \<Rightarrow> request_editor list \<Rightarrow> 'w \<Rightarrow> (http_resp result \<times> 'w) outcome" where
  "Client_LeaguesTeamMembers E c params = client_send c (NewLeaguesTeamMembersRequest E (cl_Server c) params)"

definition Client_LeaguesTeams ::
  "api_lib \<Rightarrow> 'w Client \<Rightarrow> LeaguesTeamsParams option \<Rightarrow> request_editor list \<Rightarrow> 'w \<Rightarrow> (http_resp result \<times> 'w) outcome" where
  "Client_LeaguesTeams E c params = client_send c (NewLeaguesTeamsRequest E (cl_Server c) params)"

definition Client_LogstfChatQuery ::
  "api_lib \<Rightarrow> 'w Client \<Rightarrow> LogstfChatQueryParams option \<Rightarrow> request_editor list \<Rightarrow> 'w \<Rightarrow> (http_resp result \<times> 'w) outcome" where
  "Client_LogstfChatQuery E c params = client_send c (NewLogstfChatQueryRequest E (cl_Server c) params)"

definition Client_LogstfLog ::
  "api_lib \<Rightarrow> 'w Client \<Rightarrow> int \<Rightarrow> request_editor list \<Rightarrow> 'w \<Rightarrow> (http_resp result \<times> 'w) outcome" where
  "Client_LogstfLog E c logid = client_send c (NewLogstfLogRequest E (cl_Server c) logid)"

definition Client_LogstfMatchList ::
  "api_lib \<Rightarrow> 'w Client \<Rightarrow> LogstfMatchListParams option \<Rightarrow> request_editor list \<Rightarrow> 'w \<Rightarrow> (http_resp result \<times> 'w) outcome" where
  "Client_LogstfMatchList E c params = client_send c (NewLogstfMatchListRequest E (cl_Server c) params)"

definition Client_LogstfPlayerSummary ::
  "api_lib \<Rightarrow> 'w Client \<Rightarrow> LogstfPlayerSummaryParams option \<Rightarrow> request_editor list \<Rightarrow> 'w \<Rightarrow> (http_resp result \<times> 'w) outcome" where
  "Client_LogstfPlayerSummary E c params = client_send c (NewLogstfPlayerSummaryRequest E (cl_Server c) params)"

definition Client_MetaProfile ::
  "api_lib \<Rightarrow> 'w Client \<Rightarrow> MetaProfileParams option \<Rightarrow> request_editor list \<Rightarrow> 'w \<Rightarrow> (http_resp result \<times> 'w) outcome" where
  "Client_MetaProfile E c params = client_send c (NewMetaProfileRequest E (cl_Server c) params)"

definition Client_MetaSites ::
  "api_lib \<Rightarrow> 'w Client \<Rightarrow> request_editor list \<Rightarrow> 'w \<Rightarrow> (http_resp result \<times> 'w) outcome" where
  "Client_MetaSites E c = client_send c (NewMetaSitesRequest E (cl_Server c))"

definition Client_StatsId ::
  "api_lib \<Rightarrow> 'w Client \<Rightarrow> request_editor list \<Rightarrow> 'w \<Rightarrow> (http_resp result \<times> 'w) outcome" where
  "Client_StatsId E c = client_send c (NewStatsIdRequest E (cl_Server c))"

definition Client_SteamBans ::
  "api_lib \<Rightarrow> 'w Client \<Rightarrow> SteamBansParams option \<Rightarrow> request_editor list \<Rightarrow> 'w \<Rightarrow> (http_resp result \<times> 'w) outcome" where
  "Client_SteamBans E c params = client_send c (NewSteamBansRequest E (cl_Server c) params)"

definition Client_SteamFriends ::
  "api_lib \<Rightarrow> 'w Client \<Rightarrow> SteamFriendsParams option \<Rightarrow> request_editor list \<Rightarrow> 'w \<Rightarrow> (http_resp result \<times> 'w) outcome" where
  "Client_SteamFriends E c params = client_send c (NewSteamFriendsRequest E (cl_Server c) params)"

definition Client_SteamGames ::
  "api_lib \<Rightarrow> 'w Client \<Rightarrow> SteamGamesParams option \<Rightarrow> request_editor list \<Rightarrow> 'w \<Rightarrow> (http_resp result \<times> 'w) outcome" where
  "Client_SteamGames E c params = client_send c (NewSteamGamesRequest E (cl_Server c) params)"

definition Client_SteamGroup ::
  "api_lib \<Rightarrow> 'w Client \<Rightarrow> SteamGroupParams option \<Rightarrow> request_editor list \<Rightarrow> 'w \<Rightarrow> (http_resp result \<times> 'w) outcome" where
  "Client_SteamGroup E c params = client_send c (NewSteamGroupRequest E (cl_Server c) params)"

definition Client_SteamId ::
  "api_lib \<Rightarrow> 'w Client \<Rightarrow> SteamIdParams option \<Rightarrow> request_editor list \<Rightarrow> 'w \<Rightarrow> (http_resp result \<times> 'w) outcome" where
  "Client_SteamId E c params = client_send c (NewSteamIdRequest E (cl_Server c) params)"

definition Client_SteamParse ::
  "api_lib \<Rightarrow> 'w Client \<Rightarrow> request_editor list \<Rightarrow> 'w \<Rightarrow> (http_resp result \<times> 'w) outcome" where
  "Client_SteamParse E c = client_send c (NewSteamParseRequest E (cl_Server c))"

definition Client_SteamSchemaItems ::
  "api_lib \<Rightarrow> 'w Client \<Rightarrow> request_editor list \<Rightarrow> 'w \<Rightarrow> (http_resp result \<times> 'w) outcome" where
  "Client_SteamSchemaItems E c = client_send c (NewSteamSchemaItemsRequest E (cl_Server c))"

definition Client_SteamSummaries ::
  "api_lib \<Rightarrow> 'w Client \<Rightarrow> SteamSummariesParams option \<Rightarrow> request_editor list \<Rightarrow> 'w \<Rightarrow> (http_resp result \<times> 'w) outcome" where
  "Client_SteamSummaries E c params = client_send c (NewSteamSummariesRequest E (cl_Server c) params)"

definition Client_SteamrepQuery ::
  "api_lib \<Rightarrow> 'w Client \<Rightarrow> SteamrepQueryParams option \<Rightarrow> request_editor list \<Rightarrow> 'w \<Rightarrow> (http_resp result \<times> 'w) outcome" where
  "Client_SteamrepQuery E c params = client_send c (NewSteamrepQueryRequest E (cl_Server c) params)"

section \<open>Responses\<close>

text \<open>The payload of an answer with status 200, and the error model of any other, when the answer is JSON.\<close>

record ('a, 'f) api_response =
  ar_Body :: string
  ar_HTTPResponse :: "http_resp option"
  ar_JSON200 :: "'a option"
  ar_Default :: "'f ErrorModel option"

definition response_StatusCode :: "('a, 'f) api_response \<Rightarrow> int" where
  "response_StatusCode r = (case ar_HTTPResponse r of Some rsp \<Rightarrow> hr_StatusCode rsp | None \<Rightarrow> 0)"

text \<open>\<open>http.StatusText(0)\<close> is empty.\<close>

definition response_Status :: "('a, 'f) api_response \<Rightarrow> string" where
  "response_Status r = (case ar_HTTPResponse r of Some rsp \<Rightarrow> hr_Status rsp | None \<Rightarrow> [])"

definition parse_response ::
  "(string \<Rightarrow> 'a result) \<Rightarrow> (string \<Rightarrow> 'f ErrorModel result) \<Rightarrow> http_resp \<Rightarrow> ('a, 'f) api_response result" where
  "parse_response dec decE rsp =
     (case hr_Body rsp of
        Inl e \<Rightarrow> Inl e
      | Inr bodyBytes \<Rightarrow>
          let response = \<lparr>ar_Body = bodyBytes, ar_HTTPResponse = Some rsp, ar_JSON200 = None, ar_Default = None\<rparr> in
          if Contains (hr_ContentType rsp) ''json'' \<and> hr_StatusCode rsp = 200 then
            (case dec bodyBytes of Inl e \<Rightarrow> Inl e | Inr dest \<Rightarrow> Inr (response\<lparr>ar_JSON200 := Some dest\<rparr>))
          else if Contains (hr_ContentType rsp) ''json'' then
            (case decE bodyBytes of Inl e \<Rightarrow> Inl e | Inr dest \<Rightarrow> Inr (response\<lparr>ar_Default := Some dest\<rparr>))
          else Inr response)"

type_synonym 'f BansSearchResponse = "(Ban list, 'f) api_response"

definition ParseBansSearchResponse ::
  "(string \<Rightarrow> (Ban list) result) \<Rightarrow> (string \<Rightarrow> 'f ErrorModel result) \<Rightarrow> http_resp \<Rightarrow> 'f BansSearchResponse result" where
  "ParseBansSearchResponse = parse_response"

type_synonym ('f, 'sid) BdListResponse = "('sid BDSchema, 'f) api_response"

definition ParseBdListResponse ::
  "(string \<Rightarrow> ('sid BDSchema) result) \<Rightarrow> (string \<Rightarrow> 'f ErrorModel result) \<Rightarrow> http_resp \<Rightarrow> ('f, 'sid) BdListResponse result" where
  "ParseBdListResponse = parse_response"

type_synonym ('f, 'sid) BdSearchResponse = "('sid BDSearchResult list, 'f) api_response"

definition ParseBdSearchResponse ::
  "(string \<Rightarrow> ('sid BDSearchResult list) result) \<Rightarrow> (string \<Rightarrow> 'f ErrorModel result) \<Rightarrow> http_resp \<Rightarrow> ('f, 'sid) BdSearchResponse result" where
  "ParseBdSearchResponse = parse_response"

type_synonym 'f LeaguesCompetitionsResponse = "(LeagueResponse list, 'f) api_response"

definition ParseLeaguesCompetitionsResponse ::
  "(string \<Rightarrow> (LeagueResponse list) result) \<Rightarrow> (string \<Rightarrow> 'f ErrorModel result) \<Rightarrow> http_resp \<Rightarrow> 'f LeaguesCompetitionsResponse result" where
  "ParseLeaguesCompetitionsResponse = parse_response"

type_synonym 'f LeaguesHistoryResponse = "(PlayerTeamHistoryResponse list, 'f) api_response"

definition ParseLeaguesHistoryResponse ::
  "(string \<Rightarrow> (PlayerTeamHistoryResponse list) result) \<Rightarrow> (string \<Rightarrow> 'f ErrorModel result) \<Rightarrow> http_resp \<Rightarrow> 'f LeaguesHistoryResponse result" where
  "ParseLeaguesHistoryResponse = parse_response"

type_synonym 'f LeaguesTeamMembersResponse = "(LeagueTeamMemberResponse list, 'f) api_response"

definition ParseLeaguesTeamMembersResponse ::
  "(string \<Rightarrow> (LeagueTeamMemberResponse list) result) \<Rightarrow> (string \<Rightarrow> 'f ErrorModel result) \<Rightarrow> http_resp \<Rightarrow> 'f LeaguesTeamMembersResponse result" where
  "ParseLeaguesTeamMembersResponse = parse_response"

type_synonym 'f LeaguesTeamsResponse = "(LeagueTeamResponse list, 'f) api_response"

definition ParseLeaguesTeamsResponse ::
  "(string \<Rightarrow> (LeagueTeamResponse list) result) \<Rightarrow> (string \<Rightarrow> 'f ErrorModel result) \<Rightarrow> http_resp \<Rightarrow> 'f LeaguesTeamsResponse result" where
  "ParseLeaguesTeamsResponse = parse_response"

type_synonym 'f LogstfChatQueryResponse = "(LogsTFChat list, 'f) api_response"

definition ParseLogstfChatQueryResponse ::
  "(string \<Rightarrow> (LogsTFChat list) result) \<Rightarrow> (string \<Rightarrow> 'f ErrorModel result) \<Rightarrow> http_resp \<Rightarrow> 'f LogstfChatQueryResponse result" where
  "ParseLogstfChatQueryResponse = parse_response"

type_synonym 'f LogstfLogResponse = "('f LogsTFMatch, 'f) api_response"

definition ParseLogstfLogResponse ::
  "(string \<Rightarrow> ('f LogsTFMatch) result) \<Rightarrow> (string \<Rightarrow> 'f ErrorModel result) \<Rightarrow> http_resp \<Rightarrow> 'f LogstfLogResponse result" where
  "ParseLogstfLogResponse = parse_response"

type_synonym 'f LogstfMatchListResponse = "('f LogsTFMatchInfo list, 'f) api_response"

definition ParseLogstfMatchListResponse ::
  "(string \<Rightarrow> ('f LogsTFMatchInfo list) result) \<Rightarrow> (string \<Rightarrow> 'f ErrorModel result) \<Rightarrow> http_resp \<Rightarrow> 'f LogstfMatchListResponse result" where
  "ParseLogstfMatchListResponse = parse_response"

type_synonym 'f LogstfPlayerSummaryResponse = "('f LogsTFPlayerSummary, 'f) api_response"

definition ParseLogstfPlayerSummaryResponse ::
  "(string \<Rightarrow> ('f LogsTFPlayerSummary) result) \<Rightarrow> (string \<Rightarrow> 'f ErrorModel result) \<Rightarrow> http_resp \<Rightarrow> 'f LogstfPlayerSummaryResponse result" where
  "ParseLogstfPlayerSummaryResponse = parse_response"

type_synonym 'f MetaProfileResponse = "(MetaProfile list, 'f) api_response"

definition ParseMetaProfileResponse ::
  "(string \<Rightarrow> (MetaProfile list) result) \<Rightarrow> (string \<Rightarrow> 'f ErrorModel result) \<Rightarrow> http_resp \<Rightarrow> 'f MetaProfileResponse result" where
  "ParseMetaProfileResponse = parse_response"

type_synonym 'f MetaSitesResponse = "(SiteInfo list, 'f) api_response"

definition ParseMetaSitesResponse ::
  "(string \<Rightarrow> (SiteInfo list) result) \<Rightarrow> (string \<Rightarrow> 'f ErrorModel result) \<Rightarrow> http_resp \<Rightarrow> 'f MetaSitesResponse result" where
  "ParseMetaSitesResponse = parse_response"

type_synonym 'f StatsIdResponse = "(StatsOverall, 'f) api_response"

definition ParseStatsIdResponse ::
  "(string \<Rightarrow> (StatsOverall) result) \<Rightarrow> (string \<Rightarrow> 'f ErrorModel result) \<Rightarrow> http_resp \<Rightarrow> 'f StatsIdResponse result" where
  "ParseStatsIdResponse = parse_response"

type_synonym 'f SteamBansResponse = "(SteamBan list, 'f) api_response"

definition ParseSteamBansResponse ::
  "(string \<Rightarrow> (SteamBan list) result) \<Rightarrow> (string \<Rightarrow> 'f ErrorModel result) \<Rightarrow> http_resp \<Rightarrow> 'f SteamBansResponse result" where
  "ParseSteamBansResponse = parse_response"

type_synonym 'f SteamFriendsResponse = "(SteamFriend list, 'f) api_response"

definition ParseSteamFriendsResponse ::
  "(string \<Rightarrow> (SteamFriend list) result) \<Rightarrow> (string \<Rightarrow> 'f ErrorModel result) \<Rightarrow> http_resp \<Rightarrow> 'f SteamFriendsResponse result" where
  "ParseSteamFriendsResponse = parse_response"

type_synonym 'f SteamGamesResponse = "(string \<rightharpoonup> SteamGameOwnedPlayer list option, 'f) api_response"

definition ParseSteamGamesResponse ::
  "(string \<Rightarrow> (string \<rightharpoonup> SteamGameOwnedPlayer list option) result) \<Rightarrow> (string \<Rightarrow> 'f ErrorModel result) \<Rightarrow> http_resp \<Rightarrow> 'f SteamGamesResponse result" where
  "ParseSteamGamesResponse = parse_response"

type_synonym 'f SteamGroupResponse = "(SteamGroup, 'f) api_response"

definition ParseSteamGroupResponse ::
  "(string \<Rightarrow> (SteamGroup) result) \<Rightarrow> (string \<Rightarrow> 'f ErrorModel result) \<Rightarrow> http_resp \<Rightarrow> 'f SteamGroupResponse result" where
  "ParseSteamGroupResponse = parse_response"

type_synonym 'f SteamIdResponse = "(ResolvedSteamID, 'f) api_response"

definition ParseSteamIdResponse ::
  "(string \<Rightarrow> (ResolvedSteamID) result) \<Rightarrow> (string \<Rightarrow> 'f ErrorModel result) \<Rightarrow> http_resp \<Rightarrow> 'f SteamIdResponse result" where
  "ParseSteamIdResponse = parse_response"

type_synonym 'f SteamParseResponse = "(string list, 'f) api_response"

definition ParseSteamParseResponse ::
  "(string \<Rightarrow> (string list) result) \<Rightarrow> (string \<Rightarrow> 'f ErrorModel result) \<Rightarrow> http_resp \<Rightarrow> 'f SteamParseResponse result" where
  "ParseSteamParseResponse = parse_response"

type_synonym 'f SteamSchemaItemsResponse = "('f SchemaItem list, 'f) api_response"

definition ParseSteamSchemaItemsResponse ::
  "(string \<Rightarrow> ('f SchemaItem list) result) \<Rightarrow> (string \<Rightarrow> 'f ErrorModel result) \<Rightarrow> http_resp \<Rightarrow> 'f SteamSchemaItemsResponse result" where
  "ParseSteamSchemaItemsResponse = parse_response"

type_synonym 'f SteamSummariesResponse = "(PlayerSummaryResponse list, 'f) api_response"

definition ParseSteamSummariesResponse ::
  "(string \<Rightarrow> (PlayerSummaryResponse list) result) \<Rightarrow> (string \<Rightarrow> 'f ErrorModel result) \<Rightarrow> http_resp \<Rightarrow> 'f SteamSummariesResponse result" where
  "ParseSteamSummariesResponse = parse_response"

type_synonym 'f SteamrepQueryResponse = "(SteamRepEntry list, 'f) api_response"

definition ParseSteamrepQueryResponse ::
  "(string \<Rightarrow> (SteamRepEntry list) result) \<Rightarrow> (string \<Rightarrow> 'f ErrorModel result) \<Rightarrow> http_resp \<Rightarrow> 'f SteamrepQueryResponse result" where
  "ParseSteamrepQueryResponse = parse_response"

section \<open>Operations with parsed responses\<close>

definition with_response :: "(http_resp \<Rightarrow> 'r result) \<Rightarrow> (http_resp result \<times> 'w) outcome \<Rightarrow> ('r result \<times> 'w) outcome" where
  "with_response parse sent =
     outcome_bind sent (\<lambda>(rsp, w). Ok ((case rsp of Inl err \<Rightarrow> Inl err | Inr rsp \<Rightarrow> parse rsp), w))"

definition BansSearchWithResponse ::
  "(string \<Rightarrow> (Ban list) result) \<Rightarrow> (string \<Rightarrow> 'f ErrorModel result) \<Rightarrow> api_lib \<Rightarrow> 'w Client \<Rightarrow> BansSearchParams option \<Rightarrow> request_editor list \<Rightarrow>
     'w \<Rightarrow> ('f BansSearchResponse result \<times> 'w) outcome" where
  "BansSearchWithResponse dec decE E c params editors w =
     with_response (ParseBansSearchResponse dec decE) (Client_BansSearch E c params editors w)"

definition BdListWithResponse ::
  "(string \<Rightarrow> ('sid BDSchema) result) \<Rightarrow> (string \<Rightarrow> 'f ErrorModel result) \<Rightarrow> api_lib \<Rightarrow> 'w Client \<Rightarrow> BdListParams option \<Rightarrow> request_editor list \<Rightarrow>
     'w \<Rightarrow> (('f, 'sid) BdListResponse result \<times> 'w) outcome" where
  "BdListWithResponse dec decE E c params editors w =
     with_response (ParseBdListResponse dec decE) (Client_BdList E c params editors w)"

definition BdSearchWithResponse ::
  "(string \<Rightarrow> ('sid BDSearchResult list) result) \<Rightarrow> (string \<Rightarrow> 'f ErrorModel result) \<Rightarrow> api_lib \<Rightarrow> 'w Client \<Rightarrow> BdSearchParams option \<Rightarrow> request_editor list \<Rightarrow>
     'w \<Rightarrow> (('f, 'sid) BdSearchResponse result \<times> 'w) outcome" where
  "BdSearchWithResponse dec decE E c params editors w =
     with_response (ParseBdSearchResponse dec decE) (Client_BdSearch E c params editors w)"

definition LeaguesCompetitionsWithResponse ::
  "(string \<Rightarrow> (LeagueResponse list) result) \<Rightarrow> (string \<Rightarrow> 'f ErrorModel result) \<Rightarrow> api_lib \<Rightarrow> 'w Client \<Rightarrow> LeaguesCompetitionsParams option \<Rightarrow> request_editor list \<Rightarrow>
     'w \<Rightarrow> ('f LeaguesCompetitionsResponse result \<times> 'w) outcome" where
  "LeaguesCompetitionsWithResponse dec decE E c params editors w =
     with_response (ParseLeaguesCompetitionsResponse dec decE) (Client_LeaguesCompetitions E c params editors w)"

definition LeaguesHistoryWithResponse ::
  "(string \<Rightarrow> (PlayerTeamHistoryResponse list) result) \<Rightarrow> (string \<Rightarrow> 'f ErrorModel result) \<Rightarrow> api_lib \<Rightarrow> 'w Client \<Rightarrow> LeaguesHistoryParams option \<Rightarrow> request_editor list \<Rightarrow>
     'w \<Rightarrow> ('f LeaguesHistoryResponse result \<times> 'w) outcome" where
  "LeaguesHistoryWithResponse dec decE E c params editors w =
     with_response (ParseLeaguesHistoryResponse dec decE) (Client_LeaguesHistory E c params editors w)"

definition LeaguesTeamMembersWithResponse ::
  "(string \<Rightarrow> (LeagueTeamMemberResponse list) result) \<Rightarrow> (string \<Rightarrow> 'f ErrorModel result) \<Rightarrow> api_lib \<Rightarrow> 'w Client \<Rightarrow> LeaguesTeamMembersParams option \<Rightarrow> request_editor list \<Rightarrow>
     'w \<Rightarrow> ('f LeaguesTeamMembersResponse result \<times> 'w) outcome" where
  "LeaguesTeamMembersWithResponse dec decE E c params editors w =
     with_response (ParseLeaguesTeamMembersResponse dec decE) (Client_LeaguesTeamMembers E c params editors w)"

definition LeaguesTeamsWithResponse ::
  "(string \<Rightarrow> (LeagueTeamResponse list) result) \<Rightarrow> (string \<Rightarrow> 'f ErrorModel result) \<Rightarrow> api_lib \<Rightarrow> 'w Client \<Rightarrow> LeaguesTeamsParams option \<Rightarrow> request_editor list \<Rightarrow>
     'w \<Rightarrow> ('f LeaguesTeamsResponse result \<times> 'w) outcome" where
  "LeaguesTeamsWithResponse dec decE E c params editors w =
     with_response (ParseLeaguesTeamsResponse dec decE) (Client_LeaguesTeams E c params editors w)"

definition LogstfChatQueryWithResponse ::
  "(string \<Rightarrow> (LogsTFChat list) result) \<Rightarrow> (string \<Rightarrow> 'f ErrorModel result) \<Rightarrow> api_lib \<Rightarrow> 'w Client \<Rightarrow> LogstfChatQueryParams option \<Rightarrow> request_editor list \<Rightarrow>
     'w \<Rightarrow> ('f LogstfChatQueryResponse result \<times> 'w) outcome" where
  "LogstfChatQueryWithResponse dec decE E c params editors w =
     with_response (ParseLogstfChatQueryResponse dec decE) (Client_LogstfChatQuery E c params editors w)"

definition LogstfLogWithResponse ::
  "(string \<Rightarrow> ('f LogsTFMatch) result) \<Rightarrow> (string \<Rightarrow> 'f ErrorModel result) \<Rightarrow> api_lib \<Rightarrow> 'w Client \<Rightarrow> int \<Rightarrow> request_editor list \<Rightarrow>
     'w \<Rightarrow> ('f LogstfLogResponse result \<times> 'w) outcome" where
  "LogstfLogWithResponse dec decE E c logid editors w =
     with_response (ParseLogstfLogResponse dec decE) (Client_LogstfLog E c logid editors w)"

definition LogstfMatchListWithResponse ::
  "(string \<Rightarrow> ('f LogsTFMatchInfo list) result) \<Rightarrow> (string \<Rightarrow> 'f ErrorModel result) \<Rightarrow> api_lib \<Rightarrow> 'w Client \<Rightarrow> LogstfMatchListParams option \<Rightarrow> request_editor list \<Rightarrow>
     'w \<Rightarrow> ('f LogstfMatchListResponse result \<times> 'w) outcome" where
  "LogstfMatchListWithResponse dec decE E c params editors w =
     with_response (ParseLogstfMatchListResponse dec decE) (Client_LogstfMatchList E c params editors w)"

definition LogstfPlayerSummaryWithResponse ::
  "(string \<Rightarrow> ('f LogsTFPlayerSummary) result) \<Rightarrow> (string \<Rightarrow> 'f ErrorModel result) \<Rightarrow> api_lib \<Rightarrow> 'w Client \<Rightarrow> LogstfPlayerSummaryParams option \<Rightarrow> request_editor list \<Rightarrow>
     'w \<Rightarrow> ('f LogstfPlayerSummaryResponse result \<times> 'w) outcome" where
  "LogstfPlayerSummaryWithResponse dec decE E c params editors w =
     with_response (ParseLogstfPlayerSummaryResponse dec decE) (Client_LogstfPlayerSummary E c params editors w)"

definition MetaProfileWithResponse ::
  "(string \<Rightarrow> (MetaProfile list) result) \<Rightarrow> (string \<Rightarrow> 'f ErrorModel result) \<Rightarrow> api_lib \<Rightarrow> 'w Client \<Rightarrow> MetaProfileParams option \<Rightarrow> request_editor list \<Rightarrow>
     'w \<Rightarrow> ('f MetaProfileResponse result \<times> 'w) outcome" where
  "MetaProfileWithResponse dec decE E c params editors w =
     with_response (ParseMetaProfileResponse dec decE) (Client_MetaProfile E c params editors w)"

definition MetaSitesWithResponse ::
  "(string \<Rightarrow> (SiteInfo list) result) \<Rightarrow> (string \<Rightarrow> 'f ErrorModel result) \<Rightarrow> api_lib \<Rightarrow> 'w Client \<Rightarrow> request_editor list \<Rightarrow>
     'w \<Rightarrow> ('f MetaSitesResponse result \<times> 'w) outcome" where
  "MetaSitesWithResponse dec decE E c editors w =
     with_response (ParseMetaSitesResponse dec decE) (Client_MetaSites E c editors w)"

definition StatsIdWithResponse ::
  "(string \<Rightarrow> (StatsOverall) result) \<Rightarrow> (string \<Rightarrow> 'f ErrorModel result) \<Rightarrow> api_lib \<Rightarrow> 'w Client \<Rightarrow> request_editor list \<Rightarrow>
     'w \<Rightarrow> ('f StatsIdResponse result \<times> 'w) outcome" where
  "StatsIdWithResponse dec decE E c editors w =
     with_response (ParseStatsIdResponse dec decE) (Client_StatsId E c editors w)"

definition SteamBansWithResponse ::
  "(string \<Rightarrow> (SteamBan list) result) \<Rightarrow> (string \<Rightarrow> 'f ErrorModel result) \<Rightarrow> api_lib \<Rightarrow> 'w Client \<Rightarrow> SteamBansParams option \<Rightarrow> request_editor list \<Rightarrow>
     'w \<Rightarrow> ('f SteamBansResponse result \<times> 'w) outcome" where
  "SteamBansWithResponse dec decE E c params editors w =
     with_response (ParseSteamBansResponse dec decE) (Client_SteamBans E c params editors w)"

definition SteamFriendsWithResponse ::
  "(string \<Rightarrow> (SteamFriend list) result) \<Rightarrow> (string \<Rightarrow> 'f ErrorModel result) \<Rightarrow> api_lib \<Rightarrow> 'w Client \<Rightarrow> SteamFriendsParams option \<Rightarrow> request_editor list \<Rightarrow>
     'w \<Rightarrow> ('f SteamFriendsResponse result \<times> 'w) outcome" where
  "SteamFriendsWithResponse dec decE E c params editors w =
     with_response (ParseSteamFriendsResponse dec decE) (Client_SteamFriends E c params editors w)"

definition SteamGamesWithResponse ::
  "(string \<Rightarrow> (string \<rightharpoonup> SteamGameOwnedPlayer list option) result) \<Rightarrow> (string \<Rightarrow> 'f ErrorModel result) \<Rightarrow> api_lib \<Rightarrow> 'w Client \<Rightarrow> SteamGamesParams option \<Rightarrow> request_editor list \<Rightarrow>
     'w \<Rightarrow> ('f SteamGamesResponse result \<times> 'w) outcome" where
  "SteamGamesWithResponse dec decE E c params editors w =
     with_response (ParseSteamGamesResponse dec decE) (Client_SteamGames E c params editors w)"

definition SteamGroupWithResponse ::
  "(string \<Rightarrow> (SteamGroup) result) \<Rightarrow> (string \<Rightarrow> 'f ErrorModel result) \<Rightarrow> api_lib \<Rightarrow> 'w Client \<Rightarrow> SteamGroupParams option \<Rightarrow> request_editor list \<Rightarrow>
     'w \<Rightarrow> ('f SteamGroupResponse result \<times> 'w) outcome" where
  "SteamGroupWithResponse dec decE E c params editors w =
     with_response (ParseSteamGroupResponse dec decE) (Client_SteamGroup E c params editors w)"

definition SteamIdWithResponse ::
  "(string \<Rightarrow> (ResolvedSteamID) result) \<Rightarrow> (string \<Rightarrow> 'f ErrorModel result) \<Rightarrow> api_lib \<Rightarrow> 'w Client \<Rightarrow> SteamIdParams option \<Rightarrow> request_editor list \<Rightarrow>
     'w \<Rightarrow> ('f SteamIdResponse result \<times> 'w) outcome" where
  "SteamIdWithResponse dec decE E c params editors w =
     with_response (ParseSteamIdResponse dec decE) (Client_SteamId E c params editors w)"

definition SteamParseWithResponse ::
  "(string \<Rightarrow> (string list) result) \<Rightarrow> (string \<Rightarrow> 'f ErrorModel result) \<Rightarrow> api_lib \<Rightarrow> 'w Client \<Rightarrow> request_editor list \<Rightarrow>
     'w \<Rightarrow> ('f SteamParseResponse result \<times> 'w) outcome" where
  "SteamParseWithResponse dec decE E c editors w =
     with_response (ParseSteamParseResponse dec decE) (Client_SteamParse E c editors w)"

definition SteamSchemaItemsWithResponse ::
  "(string \<Rightarrow> ('f SchemaItem list) result) \<Rightarrow> (string \<Rightarrow> 'f ErrorModel result) \<Rightarrow> api_lib \<Rightarrow> 'w Client \<Rightarrow> request_editor list \<Rightarrow>
     'w \<Rightarrow> ('f SteamSchemaItemsResponse result \<times> 'w) outcome" where
  "SteamSchemaItemsWithResponse dec decE E c editors w =
     with_response (ParseSteamSchemaItemsResponse dec decE) (Client_SteamSchemaItems E c editors w)"

definition SteamSummariesWithResponse ::
  "(string \<Rightarrow> (PlayerSummaryResponse list) result) \<Rightarrow> (string \<Rightarrow> 'f ErrorModel result) \<Rightarrow> api_lib \<Rightarrow> 'w Client \<Rightarrow> SteamSummariesParams option \<Rightarrow> request_editor list \<Rightarrow>
     'w \<Rightarrow> ('f SteamSummariesResponse result \<times> 'w) outcome" where
  "SteamSummariesWithResponse dec decE E c params editors w =
     with_response (ParseSteamSummariesResponse dec decE) (Client_SteamSummaries E c params editors w)"

definition SteamrepQueryWithResponse ::
  "(string \<Rightarrow> (SteamRepEntry list) result) \<Rightarrow> (string \<Rightarrow> 'f ErrorModel result) \<Rightarrow> api_lib \<Rightarrow> 'w Client \<Rightarrow> SteamrepQueryParams option \<Rightarrow> request_editor list \<Rightarrow>
     'w \<Rightarrow> ('f SteamrepQueryResponse result \<times> 'w) outcome" where
  "SteamrepQueryWithResponse dec decE E c params editors w =
     with_response (ParseSteamrepQueryResponse dec decE) (Client_SteamrepQuery E c params editors w)"

section \<open>What a request says\<close>

text \<open>What the program relies on in the package runtime: a query parameter is its name, an equals sign and its escaped
  text, a path parameter its escaped text; \<open>fmt\<close> is the text of a time.\<close>

fun param_text :: "(int \<Rightarrow> string) \<Rightarrow> param_value \<Rightarrow> string" where
  "param_text fmt (PString s) = s"
| "param_text fmt (PInt64 n) = Itoa n"
| "param_text fmt (PBool b) = (if b then ''true'' else ''false'')"
| "param_text fmt (PTime t) = fmt t"

definition style_laws :: "api_lib \<Rightarrow> (int \<Rightarrow> string) \<Rightarrow> bool" where
  "style_laws E fmt \<longleftrightarrow>
     (\<forall>name v. al_Style E ''form'' False name ParamLocationQuery v =
        Inr (name @ ''='' @ QueryEscape (param_text fmt v))) \<and>
     (\<forall>name v. al_Style E ''simple'' False name ParamLocationPath v = Inr (PathEscape (param_text fmt v)))"

text \<open>A server whose URL needs no escaping, and a request to one of its paths.\<close>

definition plain_server :: "api_lib \<Rightarrow> string \<Rightarrow> string \<Rightarrow> string list \<Rightarrow> bool" where
  "plain_server E scheme host segs \<longleftrightarrow>
     plain_scheme scheme \<and> plain_host (al_Authority E) host \<and> last host \<noteq> CHR '':'' \<and> list_all plain_segment segs"

definition server_text :: "string \<Rightarrow> string \<Rightarrow> string list \<Rightarrow> string" where
  "server_text scheme host segs = scheme @ ''://'' @ host @ slashed segs"

definition get_request :: "string \<Rightarrow> string \<Rightarrow> string list \<Rightarrow> string \<Rightarrow> http_req" where
  "get_request scheme host segs q =
     \<lparr>rq_Method = ''GET'', rq_URL = plain_url scheme host (slashed segs) q, rq_Host = host, rq_Header = []\<rparr>"

definition param_values :: "(int \<Rightarrow> string) \<Rightarrow> (string \<times> param_value) list \<Rightarrow> url_values" where
  "param_values fmt ps = fold (\<lambda>p. Values_Add (fst p) (param_text fmt (snd p))) ps []"

lemma param_values_ok: "values_ok (param_values fmt ps)"
proof -
  have "values_ok vs \<Longrightarrow> values_ok (fold (\<lambda>p. Values_Add (fst p) (param_text fmt (snd p))) ps vs)" for vs
    by (induction ps arbitrary: vs) (auto intro: Values_Add_ok)
  then show ?thesis by (simp add: param_values_def values_ok_def)
qed

lemma add_param_value:
  assumes "style_laws E fmt" "QueryEscape n = n"
  shows "add_param E (n, v) vs = Inr (Values_Add n (param_text fmt v) vs)"
proof -
  have chars: "CHR ''&'' \<notin> set (QueryEscape n @ ''='' @ QueryEscape (param_text fmt v))"
    using QueryEscape_plain [of "CHR ''&''"] by auto
  have "ParseQuery (n @ ''='' @ QueryEscape (param_text fmt v)) = ([(n, [param_text fmt v])], False)"
    using query_part_pair [of n "param_text fmt v" "[]" False] chars assms(2)
    by (simp add: ParseQuery_def Split_single)
  with assms(1) show ?thesis
    by (simp add: add_param_def style_laws_def Values_pairs_def)
qed

lemma add_params_values:
  assumes "style_laws E fmt" "list_all (\<lambda>p. QueryEscape (fst p) = fst p) ps"
  shows "add_params E ps vs = Inr (fold (\<lambda>p. Values_Add (fst p) (param_text fmt (snd p))) ps vs)"
  using assms(2) by (induction ps arbitrary: vs) (auto simp: add_param_value [OF assms(1)])

lemma NewRequest_plain:
  assumes "plain_server E scheme host segs" "plain_query_text q" "segs \<noteq> []"
  shows "NewRequest E ''GET'' (URL_String (plain_url scheme host (slashed segs) q)) = Inr (get_request scheme host segs q)"
proof -
  have s: "plain_scheme scheme" "plain_host (al_Authority E) host" "last host \<noteq> CHR '':''" "plain_path (slashed segs)"
    using assms(1) plain_path_slashed by (auto simp: plain_server_def)
  have hd: "slashed segs = [] \<or> hd (slashed segs) = CHR ''/''" using assms(3) by (cases segs) auto
  show ?thesis
    using url_parse_plain [OF s(1,2,4) hd assms(2)] URL_String_plain [OF s(1,2,4) hd] s(3)
    by (simp add: NewRequest_def get_request_def removeEmptyPort_def plain_url_def)
qed

lemma Parse_server:
  assumes "plain_server E scheme host segs"
  shows "url_Parse (al_Authority E) (server_text scheme host segs @ ''/'') = Inr (plain_url scheme host (slashed segs @ ''/'') [])"
proof -
  have path: "plain_path (slashed segs @ ''/'')" "slashed segs @ ''/'' = [] \<or> hd (slashed segs @ ''/'') = CHR ''/''"
  proof -
    have "\<not> shouldEscape encodePath (CHR ''/'')" by code_simp
    with assms show "plain_path (slashed segs @ ''/'')"
      using plain_path_slashed [of segs] by (simp add: plain_server_def plain_path_def)
  qed (cases segs; simp)
  show ?thesis
    using url_parse_plain [OF _ _ path, of scheme "al_Authority E" host "[]"] assms
    by (simp add: plain_server_def url_text_def server_text_def plain_query_text_def)
qed

text \<open>A request without parameters, and one with them: the path is below that of the server and the query decodes to
  exactly the parameters.\<close>

lemma query_request_none:
  assumes "plain_server E scheme host segs" "list_all plain_segment ref" "ref \<noteq> []"
  shows "query_request E (server_text scheme host segs @ ''/'') (slashed ref) None = Inr (get_request scheme host (segs @ ref) [])"
proof -
  have "hd (slashed ref) = CHR ''/''" using assms(3) by (cases ref) auto
  moreover have "plain_server E scheme host (segs @ ref)" using assms by (simp add: plain_server_def)
  ultimately show ?thesis
    using NewRequest_plain [of E scheme host "segs @ ref" "[]"] assms
    by (simp add: query_request_def Parse_server URL_Parse_below plain_server_def plain_query_text_def)
qed

lemma query_request_values:
  assumes "plain_server E scheme host segs" "list_all plain_segment ref" "ref \<noteq> []" "style_laws E fmt"
    and "list_all (\<lambda>p. QueryEscape (fst p) = fst p) ps"
  shows "query_request E (server_text scheme host segs @ ''/'') (slashed ref) (Some ps) =
     Inr (get_request scheme host (segs @ ref) (Values_Encode (param_values fmt ps)))"
proof -
  have hd: "hd (slashed ref) = CHR ''/''" using assms(3) by (cases ref) auto
  have "plain_server E scheme host (segs @ ref)" using assms by (simp add: plain_server_def)
  from NewRequest_plain [OF this Encode_text] assms(3)
  have send: "NewRequest E ''GET'' (URL_String (plain_url scheme host (slashed (segs @ ref)) (Values_Encode vs))) =
      Inr (get_request scheme host (segs @ ref) (Values_Encode vs))" for vs by simp
  have "URL_Query (plain_url scheme host (slashed (segs @ ref)) []) = []"
    by (simp add: URL_Query_def ParseQuery_def plain_url_def zero_URL_def query_part_def)
  moreover have "add_params E ps [] = Inr (param_values fmt ps)"
    using add_params_values [OF assms(4,5)] by (simp add: param_values_def)
  moreover have "(plain_url scheme host p [])\<lparr>ul_RawQuery := q\<rparr> = plain_url scheme host p q" for p q
    by (simp add: plain_url_def)
  ultimately show ?thesis
    using hd assms send by (simp add: query_request_def Parse_server URL_Parse_below plain_server_def)
qed

lemma get_request_Query: "URL_Query (rq_URL (get_request scheme host segs (Values_Encode (param_values fmt ps)))) = param_values fmt ps"
  by (simp add: get_request_def plain_url_def URL_Query_def ParseQuery_Encode [OF param_values_ok])

lemma get_request_String:
  assumes "plain_server E scheme host segs" "segs \<noteq> []"
  shows "URL_String (rq_URL (get_request scheme host segs q)) =
     server_text scheme host segs @ (if q = [] then [] else ''?'' @ q)"
proof -
  have "slashed segs = [] \<or> hd (slashed segs) = CHR ''/''" using assms(2) by (cases segs) auto
  with assms plain_path_slashed [of segs] URL_String_plain [of scheme "al_Authority E" host "slashed segs" q] show ?thesis
    by (simp add: get_request_def plain_server_def url_text_def server_text_def)
qed

lemma Values_Encode_nonempty: "values_ok vs \<Longrightarrow> vs \<noteq> [] \<Longrightarrow> Values_Encode vs \<noteq> []"
  using ParseQuery_Encode [of vs] by (auto simp: ParseQuery_def query_part_def)

lemma query_request_sends:
  assumes "style_laws E fmt" "plain_server E scheme host segs" "list_all plain_segment ref" "ref \<noteq> []"
    and "list_all (\<lambda>p. QueryEscape (fst p) = fst p) ps" "param_values fmt ps = vs" "vs \<noteq> []"
  shows "\<exists>req. query_request E (server_text scheme host segs @ ''/'') (slashed ref) (Some ps) = Inr req \<and>
     rq_Method req = ''GET'' \<and>
     URL_String (rq_URL req) = server_text scheme host segs @ slashed ref @ ''?'' @ Values_Encode vs \<and>
     URL_Query (rq_URL req) = vs"
proof -
  have "plain_server E scheme host (segs @ ref)" using assms by (simp add: plain_server_def)
  with get_request_String [of E scheme host "segs @ ref"] Values_Encode_nonempty [OF param_values_ok [of fmt ps]]
    get_request_Query [of scheme host "segs @ ref" fmt ps] query_request_values [OF assms(2-4,1,5)] assms(4,6,7)
  show ?thesis by (auto simp: server_text_def get_request_def)
qed

text \<open>C22: against a server whose URL needs no escaping, every search of the chat messages becomes a GET request for the
  path of the operation below that of the server, and its query decodes to exactly the nine parameters that were
  given, whatever bytes the texts hold.\<close>

theorem NewLogstfChatQueryRequest_decodes:
  assumes "style_laws E fmt" "plain_server E scheme host segs"
  shows "\<exists>req q. NewLogstfChatQueryRequest E (server_text scheme host segs @ ''/'') (Some p) = Inr req \<and>
     rq_Method req = ''GET'' \<and>
     URL_String (rq_URL req) = server_text scheme host segs @ ''/api/logstf/chat?'' @ q \<and>
     URL_Query (rq_URL req) =
       [(''after'', [fmt (chat_After p)]), (''before'', [fmt (chat_Before p)]),
        (''flagged_only'', [if chat_FlaggedOnly p then ''true'' else ''false'']),
        (''limit'', [Itoa (chat_Limit p)]), (''log_id'', [Itoa (chat_LogId p)]), (''name'', [chat_Name p]),
        (''offset'', [Itoa (chat_Offset p)]), (''query'', [chat_Query p]), (''steamid'', [chat_Steamid p])]"
    (is "\<exists>req q. _ \<and> _ \<and> _ \<and> URL_Query (rq_URL req) = ?vs")
proof -
  let ?ps = "[(''steamid'', PString (chat_Steamid p)), (''query'', PString (chat_Query p)),
      (''flagged_only'', PBool (chat_FlaggedOnly p)), (''name'', PString (chat_Name p)),
      (''log_id'', PInt64 (chat_LogId p)), (''offset'', PInt64 (chat_Offset p)), (''limit'', PInt64 (chat_Limit p)),
      (''before'', PTime (chat_Before p)), (''after'', PTime (chat_After p))]"
  have ref: "list_all plain_segment [''api'', ''logstf'', ''chat'']" "slashed [''api'', ''logstf'', ''chat''] = ''/api/logstf/chat''"
    by code_simp+
  have names: "list_all (\<lambda>p. QueryEscape (fst p) = fst p) ?ps" by code_simp
  have "param_values fmt ?ps = ?vs" by (simp add: param_values_def)
  from query_request_sends [OF assms ref(1) _ names this] ref(2) show ?thesis
    by (auto simp: NewLogstfChatQueryRequest_def)
qed

text \<open>For the witness, times are printed as their number.\<close>

definition demo_api_lib :: api_lib where
  "demo_api_lib = \<lparr>al_Style = (\<lambda>style explode name loc v.
       if style = ''form'' then Inr (name @ ''='' @ QueryEscape (param_text Itoa v))
       else Inr (PathEscape (param_text Itoa v))),
     al_Authority = (\<lambda>a. Inr (None, a))\<rparr>"

lemma demo_api_lib_laws: "style_laws demo_api_lib Itoa" "plain_server demo_api_lib ''https'' ''tf-api.com'' []"
proof -
  show "style_laws demo_api_lib Itoa" by (simp add: style_laws_def demo_api_lib_def)
  have "plain_scheme ''https''" "list_all (\<lambda>c. \<not> shouldEscape encodeHost c) ''tf-api.com''" by code_simp+
  then show "plain_server demo_api_lib ''https'' ''tf-api.com'' []"
    by (simp add: plain_server_def plain_host_def demo_api_lib_def)
qed

theorem NewLogstfChatQueryRequest_decodes_witness:
  "\<exists>req q. NewLogstfChatQueryRequest demo_api_lib ''https://tf-api.com/''
      (Some \<lparr>chat_Steamid = ''7'', chat_Query = ''a&b=c'', chat_FlaggedOnly = True, chat_Name = [], chat_LogId = 3,
         chat_Offset = 0, chat_Limit = 10, chat_Before = 5, chat_After = 4\<rparr>) = Inr req \<and>
     URL_String (rq_URL req) = ''https://tf-api.com/api/logstf/chat?'' @ q \<and>
     URL_Query (rq_URL req) =
       [(''after'', [''4'']), (''before'', [''5'']), (''flagged_only'', [''true'']), (''limit'', [''10'']),
        (''log_id'', [''3'']), (''name'', [[]]), (''offset'', [''0'']), (''query'', [''a&b=c'']), (''steamid'', [''7''])]"
proof -
  have n: "Itoa 4 = ''4''" "Itoa 5 = ''5''" "Itoa 10 = ''10''" "Itoa 3 = ''3''" "Itoa 0 = ''0''" by code_simp+
  show ?thesis
    using NewLogstfChatQueryRequest_decodes [OF demo_api_lib_laws,
      of "\<lparr>chat_Steamid = ''7'', chat_Query = ''a&b=c'', chat_FlaggedOnly = True, chat_Name = [], chat_LogId = 3,
         chat_Offset = 0, chat_Limit = 10, chat_Before = 5, chat_After = 4\<rparr>"]
    by (auto simp: server_text_def n)
qed

end
