(* ===== verification/Meta.thy ===== *)
theory Meta
  imports Cache Tfapi_Client
begin

text \<open>
  internal/meta/meta_profiles.go: player profiles, from the cache or from the API. The operations of the
  cache are arguments, as in the code, which takes the \<open>Cache\<close> interface. The API is a function from the text of the ids to a response;
  \<open>client_api\<close> is that of the generated client. Go's JSON encoding is a parameter.
\<close>

section \<open>The API\<close>

record 'f json_lib =
  jl_profile :: "string \<Rightarrow> MetaProfile result"             \<comment> \<open>decode one profile\<close>
  jl_profiles :: "string \<Rightarrow> MetaProfile list result"       \<comment> \<open>decode a list of profiles\<close>
  jl_error :: "string \<Rightarrow> 'f ErrorModel result"             \<comment> \<open>decode an error model\<close>
  jl_encode :: "MetaProfile \<Rightarrow> string result"

type_synonym meta_api = "string \<Rightarrow> http_resp result"

definition UnmarshalJSON :: "(string \<Rightarrow> 'a result) \<Rightarrow> string \<Rightarrow> 'a result" where
  "UnmarshalJSON decode body =
     (case decode body of Inl e \<Rightarrow> Inl (errors_Join e [ErrDecodeJSON]) | Inr v \<Rightarrow> Inr v)"

section \<open>The fetcher\<close>

type_synonym ('sid, 's) cache_get = "'sid \<times> int \<Rightarrow> 's \<Rightarrow> string result \<times> 's"
type_synonym ('sid, 's) cache_put = "'sid \<times> int \<Rightarrow> string \<Rightarrow> 's \<Rightarrow> go_error option \<times> 's"

fun cached_loop ::
  "'f json_lib \<Rightarrow> ('sid, 's) cache_get \<Rightarrow> 'sid list \<Rightarrow> MetaProfile list \<Rightarrow> 'sid list \<Rightarrow> 's \<Rightarrow>
     (MetaProfile list \<times> 'sid list) result \<times> 's"
where
  "cached_loop J get [] profiles missing s = (Inr (profiles, missing), s)"
| "cached_loop J get (steamID # ids) profiles missing s =
     (case get (steamID, CacheMetaProfile) s of
        (Inl errGet, s') \<Rightarrow>
          if \<not> errors_Is errGet ErrCacheMiss then (Inl (errors_Join errGet [ErrFetchMetaProfile]), s')
          else cached_loop J get ids profiles (missing @ [steamID]) s'
      | (Inr body, s') \<Rightarrow>
          (case UnmarshalJSON (jl_profile J) body of
             Inl _ \<Rightarrow> cached_loop J get ids profiles (missing @ [steamID]) s'
           | Inr cached \<Rightarrow> cached_loop J get ids (profiles @ [cached]) missing s'))"

definition cachedMetaProfiles ::
  "'f json_lib \<Rightarrow> ('sid, 's) cache_get \<Rightarrow> 'sid list \<Rightarrow> 's \<Rightarrow> (MetaProfile list \<times> 'sid list) result \<times> 's" where
  "cachedMetaProfiles J get ids s = cached_loop J get ids [] [] s"

fun store_loop ::
  "'sid steamid_pkg \<Rightarrow> 'f json_lib \<Rightarrow> ('sid, 's) cache_put \<Rightarrow> MetaProfile list \<Rightarrow> MetaProfile list \<Rightarrow> 's \<Rightarrow>
     MetaProfile list result \<times> 's"
where
  "store_loop L J put [] profiles s = (Inr profiles, s)"
| "store_loop L J put (profile # ps) profiles s =
     (case jl_encode J profile of
        Inl errBody \<Rightarrow> (Inl (errors_Join errBody [ErrFetchMetaProfile]), s)
      | Inr buf \<Rightarrow>
          (case put (sid_New_string L (mp_SteamId profile), CacheMetaProfile) buf s of
             (Some errSet, s') \<Rightarrow> (Inl (errors_Join errSet [ErrFetchMetaProfile]), s')
           | (None, s') \<Rightarrow> store_loop L J put ps (profiles @ [profile]) s'))"

text \<open>Dereferencing a nil \<open>JSON200\<close> panics.\<close>

definition fetchMetaProfiles ::
  "'sid steamid_pkg \<Rightarrow> 'f json_lib \<Rightarrow> ('sid, 's) cache_put \<Rightarrow> meta_api \<Rightarrow> 'sid list \<Rightarrow> 's \<Rightarrow>
     (MetaProfile list result \<times> 's) outcome" where
  "fetchMetaProfiles L J put api steamIDs s =
     (case api (Join '','' (map (sid_String L) steamIDs)) of
        Inl errResp \<Rightarrow> Ok (Inl (errors_Join errResp [ErrFetchMetaProfile]), s)
      | Inr resp \<Rightarrow>
          if hr_StatusCode resp \<noteq> 200 then Ok (Inl [ErrFetchMetaProfile], s)
          else case ParseMetaProfileResponse (jl_profiles J) (jl_error J) resp of
                 Inl errParse \<Rightarrow> Ok (Inl (errors_Join errParse [ErrFetchMetaProfile]), s)
               | Inr parsed \<Rightarrow>
                   (case ar_JSON200 parsed of
                      None \<Rightarrow> Panic
                    | Some profiles \<Rightarrow> Ok (store_loop L J put profiles [] s)))"

definition MetaProfiles ::
  "'sid steamid_pkg \<Rightarrow> 'f json_lib \<Rightarrow> ('sid, 's) cache_get \<Rightarrow> ('sid, 's) cache_put \<Rightarrow> meta_api \<Rightarrow> 'sid list \<Rightarrow>
     's \<Rightarrow> ((MetaProfile list \<times> go_error option) \<times> 's) outcome" where
  "MetaProfiles L J get put api steamIDs s =
     (if steamIDs = [] then Ok (([], None), s)
      else case cachedMetaProfiles J get steamIDs s of
             (Inl e, s') \<Rightarrow> Ok (([], Some e), s')
           | (Inr (profiles, missing), s') \<Rightarrow>
               if missing = [] then Ok ((profiles, None), s')
               else outcome_bind (fetchMetaProfiles L J put api missing s') (\<lambda>(res, s'').
                 case res of
                   Inl e \<Rightarrow> Ok ((profiles, Some e), s'')
                 | Inr updates \<Rightarrow> Ok ((profiles @ updates, None), s'')))"

section \<open>Fetching once\<close>

text \<open>What the program relies on in encoding/json: a profile encodes, and decodes to itself.\<close>

definition json_laws :: "'f json_lib \<Rightarrow> MetaProfile list \<Rightarrow> bool" where
  "json_laws J ps \<longleftrightarrow> list_all (\<lambda>p. \<exists>t. jl_encode J p = Inr t \<and> jl_profile J t = Inr p) ps"

definition profile_text :: "'f json_lib \<Rightarrow> MetaProfile \<Rightarrow> string" where
  "profile_text J p = (case jl_encode J p of Inl _ \<Rightarrow> [] | Inr t \<Rightarrow> t)"

lemma json_laws_text:
  "json_laws J ps \<Longrightarrow> p \<in> set ps \<Longrightarrow>
     jl_encode J p = Inr (profile_text J p) \<and> jl_profile J (profile_text J p) = Inr p"
  unfolding json_laws_def profile_text_def list_all_iff by (metis sum.case(2))

definition profile_key :: "'sid steamid_pkg \<Rightarrow> MetaProfile \<Rightarrow> 'sid \<times> int" where
  "profile_key L p = (sid_New_string L (mp_SteamId p), CacheMetaProfile)"

text \<open>The profile of a cache entry, if there is one that decodes.\<close>

definition entry_profile :: "'f json_lib \<Rightarrow> string result \<Rightarrow> MetaProfile option" where
  "entry_profile J r =
     (case r of Inl _ \<Rightarrow> None | Inr b \<Rightarrow> (case jl_profile J b of Inl _ \<Rightarrow> None | Inr p \<Rightarrow> Some p))"

lemma first_such_rev_map: "first_such P (rev (map f xs)) = map_option f (first_such (\<lambda>x. P (f x)) (rev xs))"
  by (induction xs rule: rev_induct) simp_all

text \<open>A cache whose keys are a steam id and a variant.\<close>

locale profile_cache = aging_cache get put name inv later
  for get :: "'sid \<times> int \<Rightarrow> 's \<Rightarrow> string result \<times> 's"
    and put :: "'sid \<times> int \<Rightarrow> string \<Rightarrow> 's \<Rightarrow> go_error option \<times> 's"
    and name :: "'sid \<times> int \<Rightarrow> 'n"
    and inv :: "'s \<Rightarrow> bool"
    and later :: "'sid \<times> int \<Rightarrow> 's \<Rightarrow> string result \<times> 's"
begin

text \<open>Once every id has an entry that decodes, the answer is these entries in the order of the ids.\<close>

lemma cached_loop_hits:
  assumes "\<forall>i \<in> set ids. entry_profile J (fst (later (i, CacheMetaProfile) s)) = Some (f i)" "inv s"
  shows "\<exists>s'. cached_loop J later ids acc missing s = (Inr (acc @ map f ids, missing), s')"
  using assms
proof (induction ids arbitrary: acc s)
  case (Cons i ids)
  then obtain b s1 where g: "later (i, CacheMetaProfile) s = (Inr b, s1)" "jl_profile J b = Inr (f i)"
    by (cases "later (i, CacheMetaProfile) s") (auto simp: entry_profile_def split: sum.splits)
  have s1: "inv s1" "fst (later k s1) = fst (later k s)" for k
    using later_inv [OF Cons.prems(2), of "(i, CacheMetaProfile)"] later_keeps [OF Cons.prems(2), of k "(i, CacheMetaProfile)"] g
    by simp_all
  from Cons.IH [of s1 "acc @ [f i]"] Cons.prems s1 obtain s' where
    "cached_loop J later ids (acc @ [f i]) missing s1 = (Inr ((acc @ [f i]) @ map f ids, missing), s')" by auto
  with g show ?case by (simp add: UnmarshalJSON_def)
qed simp

text \<open>Looking in the cache before the fetch does not change what is found later.\<close>

lemma cached_loop_keeps:
  assumes "cached_loop J get ids acc missing s = (r, s')" "inv s"
  shows "inv s' \<and> (\<forall>k. fst (later k s') = fst (later k s))"
  using assms
proof (induction ids arbitrary: acc missing s)
  case (Cons i ids)
  obtain q s1 where g: "get (i, CacheMetaProfile) s = (q, s1)" by force
  have s1: "inv s1" "\<And>k. fst (later k s1) = fst (later k s)"
    using get_inv [OF Cons.prems(2), of "(i, CacheMetaProfile)"] later_get [OF Cons.prems(2), of _ "(i, CacheMetaProfile)"] g
    by simp_all
  consider "s' = s1" | acc' missing' where "cached_loop J get ids acc' missing' s1 = (r, s')"
    using Cons.prems(1) g by (auto simp: UnmarshalJSON_def split: sum.splits if_splits)
  then show ?case using Cons.IH s1 by cases metis+
qed simp

lemma store_loop_all:
  assumes "json_laws J ps" "inv s"
  shows "store_loop L J put ps acc s = (Inr (acc @ ps), put_all (map (\<lambda>p. (profile_key L p, profile_text J p)) ps) s)"
  using assms
proof (induction ps arbitrary: acc s)
  case (Cons p ps)
  obtain s1 where s1: "put (profile_key L p) (profile_text J p) s = (None, s1)" "inv s1"
    using put_ok [OF Cons.prems(2)] put_inv [OF Cons.prems(2)] by (metis prod.collapse)
  with Cons.IH [OF _ s1(2), of "acc @ [p]"] json_laws_text [OF Cons.prems(1), of p] Cons.prems(1)
  show ?case by (simp add: profile_key_def put_all_def json_laws_def)
qed (simp add: put_all_def)

text \<open>The profile that is found later for an id: the last one stored for its name, or else the old entry.\<close>

lemma stored_entry:
  assumes "json_laws J ps" "inv s"
  shows "entry_profile J (fst (later k (put_all (map (\<lambda>p. (profile_key L p, profile_text J p)) ps) s))) =
    (case first_such (\<lambda>p. name (profile_key L p) = name k) (rev ps) of
       Some p \<Rightarrow> Some p | None \<Rightarrow> entry_profile J (fst (later k s)))"
proof (cases "first_such (\<lambda>p. name (profile_key L p) = name k) (rev ps)")
  case (Some p)
  with first_such_SomeD [OF Some] json_laws_text [OF assms(1), of p] show ?thesis
    by (simp add: later_put_all [OF assms(2)] first_such_rev_map entry_profile_def)
qed (simp add: later_put_all [OF assms(2)] first_such_rev_map)

text \<open>After a successful call, a later call for ids that the API answered or that are still in the cache finds
  everything in the cache: its result is the same for every API.\<close>

lemma MetaProfiles_second_call:
  assumes "json_laws J parsed" "inv s"
    and "cachedMetaProfiles J get ids s = (Inr (cached, missing), s1)" "missing \<noteq> []"
    and "api (Join '','' (map (sid_String L) missing)) = Inr resp" "hr_StatusCode resp = 200"
    and "ParseMetaProfileResponse (jl_profiles J) (jl_error J) resp = Inr rsp" "ar_JSON200 rsp = Some parsed"
    and served: "\<forall>i \<in> set ids'. (case first_such (\<lambda>p. name (profile_key L p) = name (i, CacheMetaProfile)) (rev parsed) of
       Some p \<Rightarrow> Some p | None \<Rightarrow> entry_profile J (fst (later (i, CacheMetaProfile) s))) = Some (f i)"
  shows "\<exists>s2 s3. MetaProfiles L J get put api ids s = Ok ((cached @ parsed, None), s2) \<and>
     (\<forall>put' api'. MetaProfiles L J later put' api' ids' s2 = Ok ((map f ids', None), s3))"
proof -
  note c = cached_loop_keeps [OF assms(3) [unfolded cachedMetaProfiles_def] assms(2)]
  then have inv1: "inv s1" and keeps: "fst (later k s1) = fst (later k s)" for k by blast+
  let ?s2 = "put_all (map (\<lambda>p. (profile_key L p, profile_text J p)) parsed) s1"
  have fetched: "fetchMetaProfiles L J put api missing s1 = Ok (Inr parsed, ?s2)"
    using assms(5-8) store_loop_all [OF assms(1) inv1, of L "[]"] by (simp add: fetchMetaProfiles_def)
  have ids: "ids \<noteq> []" using assms(3,4) by (auto simp: cachedMetaProfiles_def)
  have "\<forall>i \<in> set ids'. entry_profile J (fst (later (i, CacheMetaProfile) ?s2)) = Some (f i)"
    unfolding stored_entry [OF assms(1) inv1] keeps by (rule served)
  with cached_loop_hits [of ids' J ?s2 f "[]" "[]"] put_all_inv [OF inv1] obtain s3 where
    "cached_loop J later ids' [] [] ?s2 = (Inr (map f ids', []), s3)" by auto
  then have "\<exists>s3. \<forall>put' api'. MetaProfiles L J later put' api' ids' ?s2 = Ok ((map f ids', None), s3)"
    by (cases "ids' = []") (simp_all add: MetaProfiles_def cachedMetaProfiles_def)
  moreover have "MetaProfiles L J get put api ids s = Ok ((cached @ parsed, None), ?s2)"
    using fetched ids assms(3,4) by (simp add: MetaProfiles_def)
  ultimately show ?thesis by blast
qed

end

interpretation fs_profiles: profile_cache "fs_get L now c" "fs_put L now c" "fs_name L c" "fs_inv_until L now now' c" "fs_get L now' c"
  for L :: "'sid steamid_pkg" and now now' c
  unfolding profile_cache_def by (rule fs_aging.aging_cache_axioms)

text \<open>The profile the program should show for an id at a later moment: the last one of the API's answer that is
  stored under the id's name, or else that of a file which is then not older than a week.\<close>

definition profile_at :: "'sid steamid_pkg \<Rightarrow> 'f json_lib \<Rightarrow> int \<Rightarrow> Filesystem \<Rightarrow> MetaProfile list \<Rightarrow> files \<Rightarrow> 'sid \<Rightarrow> MetaProfile option" where
  "profile_at L J now c parsed fs i =
     (case first_such (\<lambda>p. fs_name L c (profile_key L p) = fs_name L c (i, CacheMetaProfile)) (rev parsed) of
        Some p \<Rightarrow> Some p
      | None \<Rightarrow>
          (case fs (fs_name L c (i, CacheMetaProfile)) of
             None \<Rightarrow> None
           | Some (body, t) \<Rightarrow> if now > t + 604800000000000 then None else entry_profile J (Inr body)))"

lemma profile_at_eq:
  "fs_inv L c fs \<Longrightarrow> profile_at L J now c parsed fs i =
     (case first_such (\<lambda>p. fs_name L c (profile_key L p) = fs_name L c (i, CacheMetaProfile)) (rev parsed) of
        Some p \<Rightarrow> Some p | None \<Rightarrow> entry_profile J (fst (fs_get L now c (i, CacheMetaProfile) fs)))"
  by (simp add: profile_at_def fs_get_eq time_Since_week entry_profile_def split: option.split)

text \<open>C13: with the file system cache, a call at the time \<open>now\<close> whose missing ids the API answers returns the cached
  and the fetched profiles. A call within a week after it, for ids that were fetched or that are still in the
  cache, returns exactly their profiles, in the order of the ids, and without the API: the answer is the same
  for every API.\<close>

theorem MetaProfiles_cached:
  assumes "json_laws J parsed" "fs_inv L c fs" "now' \<le> now + 604800000000000"
    and "cachedMetaProfiles J (fs_get L now c) ids fs = (Inr (cached, missing), fs1)" "missing \<noteq> []"
    and "api (Join '','' (map (sid_String L) missing)) = Inr resp" "hr_StatusCode resp = 200"
    and "ParseMetaProfileResponse (jl_profiles J) (jl_error J) resp = Inr rsp" "ar_JSON200 rsp = Some parsed"
    and "\<forall>i \<in> set ids'. profile_at L J now' c parsed fs i \<noteq> None"
  shows "\<exists>fs2 fs3. MetaProfiles L J (fs_get L now c) (fs_put L now c) api ids fs = Ok ((cached @ parsed, None), fs2) \<and>
     (\<forall>api'. MetaProfiles L J (fs_get L now' c) (fs_put L now' c) api' ids' fs2 =
        Ok ((map (\<lambda>i. the (profile_at L J now' c parsed fs i)) ids', None), fs3))"
proof -
  have until: "fs_inv_until L now now' c fs" using assms(2,3) by (simp add: fs_inv_until_def)
  have "\<forall>i \<in> set ids'. (case first_such (\<lambda>p. fs_name L c (profile_key L p) = fs_name L c (i, CacheMetaProfile)) (rev parsed) of
      Some p \<Rightarrow> Some p | None \<Rightarrow> entry_profile J (fst (fs_get L now' c (i, CacheMetaProfile) fs))) =
      Some (the (profile_at L J now' c parsed fs i))"
    using assms(10) unfolding profile_at_eq [OF assms(2)] by simp
  with assms(1,4-9) until have "\<exists>fs2 fs3. MetaProfiles L J (fs_get L now c) (fs_put L now c) api ids fs = Ok ((cached @ parsed, None), fs2) \<and>
     (\<forall>put' api'. MetaProfiles L J (fs_get L now' c) put' api' ids' fs2 =
        Ok ((map (\<lambda>i. the (profile_at L J now' c parsed fs i)) ids', None), fs3))"
    by (intro fs_profiles.MetaProfiles_second_call)
  then show ?thesis by blast
qed

text \<open>For the witness, a profile is encoded as its steam id.\<close>

definition demo_json :: "unit json_lib" where
  "demo_json = \<lparr>jl_profile = (\<lambda>b. Inr (zero_MetaProfile\<lparr>mp_SteamId := b\<rparr>)),
     jl_profiles = (\<lambda>b. Inr [zero_MetaProfile\<lparr>mp_SteamId := b\<rparr>]),
     jl_error = (\<lambda>b. Inl []), jl_encode = (\<lambda>p. Inr (mp_SteamId p))\<rparr>"

definition demo_api :: meta_api where
  "demo_api q = Inr \<lparr>hr_Status = ''200 OK'', hr_StatusCode = 200, hr_ContentType = ''application/json'', hr_Body = Inr q\<rparr>"

theorem MetaProfiles_cached_witness:
  "\<exists>fs2 fs3.
     MetaProfiles num_sid demo_json (fs_get num_sid 1 \<lparr>fy_cacheDir = ''/c''\<rparr>) (fs_put num_sid 1 \<lparr>fy_cacheDir = ''/c''\<rparr>)
       demo_api [5] (\<lambda>_. None) = Ok (([zero_MetaProfile\<lparr>mp_SteamId := ''5''\<rparr>], None), fs2) \<and>
     MetaProfiles num_sid demo_json (fs_get num_sid 86400000000001 \<lparr>fy_cacheDir = ''/c''\<rparr>)
       (fs_put num_sid 86400000000001 \<lparr>fy_cacheDir = ''/c''\<rparr>) (\<lambda>_. Inl []) [5, 5] fs2 =
         Ok (([zero_MetaProfile\<lparr>mp_SteamId := ''5''\<rparr>, zero_MetaProfile\<lparr>mp_SteamId := ''5''\<rparr>], None), fs3)"
proof -
  let ?c = "\<lparr>fy_cacheDir = ''/c''\<rparr>" and ?p = "zero_MetaProfile\<lparr>mp_SteamId := ''5''\<rparr>" and ?day = "86400000000001"
  let ?resp = "\<lparr>hr_Status = ''200 OK'', hr_StatusCode = 200, hr_ContentType = ''application/json'', hr_Body = Inr ''5''\<rparr>"
  let ?rsp = "\<lparr>ar_Body = ''5'', ar_HTTPResponse = Some ?resp, ar_JSON200 = Some [?p], ar_Default = None\<rparr>"
  have inv: "fs_inv num_sid ?c (\<lambda>_. None)" by (rule num_fs_inv) simp
  have i5: "Itoa 5 = ''5''" "ParseInt 64 ''5'' = Some 5" "Contains ''application/json'' ''json''" by code_simp+
  have served: "profile_at num_sid demo_json ?day ?c [?p] (\<lambda>_. None) 5 = Some ?p"
    by (simp add: profile_at_def profile_key_def num_sid_def i5)
  have "\<exists>fs2 fs3. MetaProfiles num_sid demo_json (fs_get num_sid 1 ?c) (fs_put num_sid 1 ?c) demo_api [5] (\<lambda>_. None) =
       Ok (([] @ [?p], None), fs2) \<and>
     (\<forall>api'. MetaProfiles num_sid demo_json (fs_get num_sid ?day ?c) (fs_put num_sid ?day ?c) api' [5, 5] fs2 =
        Ok ((map (\<lambda>i. the (profile_at num_sid demo_json ?day ?c [?p] (\<lambda>_. None) i)) [5, 5], None), fs3))"
  proof (rule MetaProfiles_cached [where missing = "[5]" and rsp = ?rsp])
    show "cachedMetaProfiles demo_json (fs_get num_sid 1 ?c) [5] (\<lambda>_. None) = (Inr ([], [5]), \<lambda>_. None)"
      using inv by (simp add: cachedMetaProfiles_def fs_get_eq)
    show "demo_api (Join '','' (map (sid_String num_sid) [5])) =
        Inr \<lparr>hr_Status = ''200 OK'', hr_StatusCode = 200, hr_ContentType = ''application/json'', hr_Body = Inr ''5''\<rparr>"
      by (simp add: demo_api_def num_sid_def i5)
    show "\<forall>i \<in> set [5, 5]. profile_at num_sid demo_json ?day ?c [?p] (\<lambda>_. None) i \<noteq> None" by (simp add: served)
  qed (use inv in \<open>simp_all add: json_laws_def demo_json_def ParseMetaProfileResponse_def parse_response_def i5\<close>)
  then show ?thesis by (auto simp: served)
qed

text \<open>C14: asking for profiles panics exactly when some of them are not in the cache and the API answers with status 200
  and a readable body that is not announced as JSON.\<close>

theorem MetaProfiles_panics:
  "MetaProfiles L J get put api steamIDs s = Panic \<longleftrightarrow>
     (\<exists>profiles missing s' resp body.
        steamIDs \<noteq> [] \<and> cachedMetaProfiles J get steamIDs s = (Inr (profiles, missing), s') \<and> missing \<noteq> [] \<and>
        api (Join '','' (map (sid_String L) missing)) = Inr resp \<and> hr_StatusCode resp = 200 \<and>
        hr_Body resp = Inr body \<and> \<not> Contains (hr_ContentType resp) ''json'')"
proof -
  have fetch: "fetchMetaProfiles L J put api ids s = Panic \<longleftrightarrow>
     (\<exists>resp body. api (Join '','' (map (sid_String L) ids)) = Inr resp \<and> hr_StatusCode resp = 200 \<and>
        hr_Body resp = Inr body \<and> \<not> Contains (hr_ContentType resp) ''json'')" for ids s
    by (auto simp: fetchMetaProfiles_def ParseMetaProfileResponse_def parse_response_def Let_def
          split: sum.splits option.splits if_splits)
  have bind: "outcome_bind x f = Panic \<longleftrightarrow> x = Panic \<or> (\<exists>y. x = Ok y \<and> f y = Panic)" for x :: "'x outcome" and f :: "'x \<Rightarrow> 'y outcome"
    by (cases x) auto
  have ok: "(case res of Inl e \<Rightarrow> Ok (f e) | Inr u \<Rightarrow> Ok (g u)) \<noteq> Panic" for res :: "'l + 'r" and f g
    by (cases res) auto
  obtain r s' where c: "cachedMetaProfiles J get steamIDs s = (r, s')" by force
  show ?thesis
  proof (cases r)
    case (Inr pm)
    then show ?thesis using c fetch
      by (cases pm) (auto simp: MetaProfiles_def bind ok split: prod.splits)
  qed (simp add: MetaProfiles_def c)
qed

section \<open>Against the generated client\<close>

text \<open>The call of the API client with the text of the ids.\<close>

definition client_api :: "api_lib \<Rightarrow> 'w Client \<Rightarrow> 'w \<Rightarrow> meta_api" where
  "client_api E c w ids =
     (case Client_MetaProfile E c (Some \<lparr>profile_Steamids = ids\<rparr>) [] w of Ok (rsp, _) \<Rightarrow> rsp | Panic \<Rightarrow> Inl [])"

lemma NewClientWithResponses_server:
  assumes "last server \<noteq> CHR ''/''"
  shows "NewClientWithResponses dflt server [WithHTTPClient doer] =
     Inr \<lparr>cl_Server = server @ ''/'', cl_Client = Some doer, cl_RequestEditors = []\<rparr>"
  using assms by (simp add: NewClientWithResponses_def NewClient_def WithHTTPClient_def Let_def)

lemma server_text_last:
  assumes "plain_server E scheme host segs"
  shows "last (server_text scheme host segs) \<noteq> CHR ''/''"
proof (cases segs rule: rev_cases)
  case Nil
  have "host \<noteq> []" "CHR ''/'' \<notin> set host"
    using assms plain_no_blank(2) [of "al_Authority E" host "CHR ''/''"] by (auto simp: plain_server_def plain_host_def)
  then show ?thesis using Nil last_in_set [of host] by (cases "last host = CHR ''/''") (simp_all add: server_text_def)
next
  case (snoc ss seg)
  then have "seg \<noteq> []" "CHR ''/'' \<notin> set seg" using assms by (auto simp: plain_server_def plain_segment_def)
  then show ?thesis using snoc last_in_set [of seg] by (cases "last seg = CHR ''/''") (simp_all add: server_text_def)
qed

text \<open>C15: the client that is created at the start for a base URL sends for a batch of ids that are not in the cache one GET
  request to the profile path below that URL, whose query decodes to the comma separated ids, and the rest of
  the call depends on the response to that request only.\<close>

theorem MetaProfiles_sends:
  assumes "style_laws E fmt" "plain_server E scheme host segs"
    and "NewClientWithResponses dflt (server_text scheme host segs) [WithHTTPClient doer] = Inr c"
  shows "\<exists>req q. rq_Method req = ''GET'' \<and>
     URL_String (rq_URL req) = server_text scheme host segs @ ''/api/meta/profile?'' @ q \<and>
     URL_Query (rq_URL req) = [(''steamids'', [Join '','' (map (sid_String L) ids)])] \<and>
     fetchMetaProfiles L J put (client_api E c w) ids s = fetchMetaProfiles L J put (\<lambda>_. fst (doer req w)) ids s"
proof -
  let ?text = "Join '','' (map (sid_String L) ids)"
  have ref: "list_all plain_segment [''api'', ''meta'', ''profile'']" "slashed [''api'', ''meta'', ''profile''] = ''/api/meta/profile''"
    by code_simp+
  have names: "list_all (\<lambda>p. QueryEscape (fst p) = fst p) [(''steamids'', PString ?text)]" by code_simp
  have "param_values fmt [(''steamids'', PString ?text)] = [(''steamids'', [?text])]" by (simp add: param_values_def)
  from query_request_sends [OF assms(1,2) ref(1) _ names this] ref(2) obtain req where req:
    "NewMetaProfileRequest E (server_text scheme host segs @ ''/'') (Some \<lparr>profile_Steamids = ?text\<rparr>) = Inr req"
    "rq_Method req = ''GET''"
    "URL_String (rq_URL req) = server_text scheme host segs @ ''/api/meta/profile?'' @ Values_Encode [(''steamids'', [?text])]"
    "URL_Query (rq_URL req) = [(''steamids'', [?text])]"
    by (auto simp: NewMetaProfileRequest_def)
  have "c = \<lparr>cl_Server = server_text scheme host segs @ ''/'', cl_Client = Some doer, cl_RequestEditors = []\<rparr>"
    using assms(3) NewClientWithResponses_server [OF server_text_last [OF assms(2)], of dflt doer] by simp
  with req(1) have "client_api E c w ?text = fst (doer req w)"
    by (simp add: client_api_def Client_MetaProfile_def client_send_def applyEditors_def split: prod.split)
  then have "fetchMetaProfiles L J put (client_api E c w) ids s = fetchMetaProfiles L J put (\<lambda>_. fst (doer req w)) ids s"
    by (simp add: fetchMetaProfiles_def)
  with req(2-4) show ?thesis by blast
qed

text \<open>The witness: the profiles of two ids from the server of the project.\<close>

theorem MetaProfiles_sends_witness:
  "\<exists>c (req :: http_req) q. NewClientWithResponses (\<lambda>_ w. (Inl [], w)) ''https://tf-api.com'' [WithHTTPClient (\<lambda>_ w. (Inl [], w))] = Inr c \<and>
     rq_Method req = ''GET'' \<and> URL_String (rq_URL req) = ''https://tf-api.com/api/meta/profile?'' @ q \<and>
     URL_Query (rq_URL req) = [(''steamids'', [''5,7''])] \<and>
     fetchMetaProfiles num_sid demo_json (\<lambda>_ _ s. (None, s)) (client_api demo_api_lib c ()) [5, 7] () =
       Ok (Inl [ErrFetchMetaProfile], ())"
proof -
  let ?doer = "\<lambda>(_ :: http_req) (w :: unit). (Inl [] :: http_resp result, w)"
  let ?c = "\<lparr>cl_Server = ''https://tf-api.com/'', cl_Client = Some ?doer, cl_RequestEditors = []\<rparr>"
  have c: "NewClientWithResponses ?doer (server_text ''https'' ''tf-api.com'' []) [WithHTTPClient ?doer] = Inr ?c"
    by (subst NewClientWithResponses_server) (simp_all add: server_text_def)
  have n: "Itoa 5 = ''5''" "Itoa 7 = ''7''" by code_simp+
  have ids: "Join '','' (map (sid_String num_sid) [5, 7]) = ''5,7''" by (simp add: n num_sid_def)
  have fails: "fetchMetaProfiles num_sid demo_json (\<lambda>_ _ s. (None, s)) (\<lambda>_. Inl []) [5, 7] () =
      Ok (Inl [ErrFetchMetaProfile], ())"
    by (simp add: fetchMetaProfiles_def errors_Join_def)
  obtain req q where r: "rq_Method req = ''GET''"
    "URL_String (rq_URL req) = server_text ''https'' ''tf-api.com'' [] @ ''/api/meta/profile?'' @ q"
    "URL_Query (rq_URL req) = [(''steamids'', [''5,7''])]"
    "fetchMetaProfiles num_sid demo_json (\<lambda>_ _ s. (None, s)) (client_api demo_api_lib ?c ()) [5, 7] () =
       fetchMetaProfiles num_sid demo_json (\<lambda>_ _ s. (None, s)) (\<lambda>_. fst (?doer req ())) [5, 7] ()"
    using MetaProfiles_sends [OF demo_api_lib_laws c, of num_sid "[5, 7]" demo_json "\<lambda>_ _ s. (None, s)" "()" "()"]
    unfolding ids by blast
  have "fetchMetaProfiles num_sid demo_json (\<lambda>_ _ s. (None, s)) (client_api demo_api_lib ?c ()) [5, 7] () =
       Ok (Inl [ErrFetchMetaProfile], ())"
    unfolding r(4) by (simp add: fails)
  with c r(1-3) show ?thesis by (intro exI [of _ ?c] exI [of _ req] exI [of _ q]) (simp add: server_text_def)
qed

end
