(* ===== verification/Events_Router.thy ===== *)
theory Events_Router
  imports Events_Parser
begin

text \<open>
  internal/tf/events/router.go: the handlers registered for the events of a server, and \<open>Send\<close>, which
  parses a log line and offers the event to them. Channels are numbered. A channel has a buffer of
  fixed capacity and receivers that wait for a value; an offer (a \<open>select\<close> with a default case)
  succeeds when a slot of the buffer or a waiting receiver is free, and is dropped otherwise.
\<close>

section \<open>Channels\<close>

record 'e chan =
  ch_cap :: nat
  ch_waiting :: nat
  ch_buf :: "'e list"

type_synonym 'e chans = "nat \<Rightarrow> 'e chan"

definition make_chan :: "nat \<Rightarrow> 'e chan" where
  "make_chan cap = \<lparr>ch_cap = cap, ch_waiting = 0, ch_buf = []\<rparr>"

definition has_room :: "'e chan \<Rightarrow> bool" where
  "has_room c \<longleftrightarrow> length (ch_buf c) < ch_cap c + ch_waiting c"

definition offer :: "'e \<Rightarrow> nat \<Rightarrow> 'e chans \<Rightarrow> 'e chans" where
  "offer e h cs =
     (if has_room (cs h) then cs(h := (cs h)\<lparr>ch_buf := ch_buf (cs h) @ [e]\<rparr>) else cs)"

section \<open>The router\<close>

record Router =
  ro_readersAll :: "nat list"
  ro_readersAny :: "string \<Rightarrow> nat list option"
  ro_readers :: "string \<Rightarrow> (EventType \<Rightarrow> nat list option) option"

definition NewRouter :: Router where
  "NewRouter = \<lparr>ro_readersAll = [], ro_readersAny = Map.empty, ro_readers = Map.empty\<rparr>"

text \<open>One turn of the loop of \<open>ListenFor\<close>, and the loop, which ends with \<open>Any\<close> unless the host is empty.\<close>

definition listen_type :: "string \<Rightarrow> nat \<Rightarrow> EventType \<Rightarrow> Router \<Rightarrow> Router" where
  "listen_type hostPort handler ty r =
     (let types = (case ro_readers r hostPort of None \<Rightarrow> Map.empty | Some m \<Rightarrow> m);
          hs = (case types ty of None \<Rightarrow> [] | Some hs \<Rightarrow> hs)
      in r\<lparr>ro_readers := (ro_readers r)(hostPort \<mapsto> types(ty \<mapsto> hs @ [handler]))\<rparr>)"

definition listen_any :: "string \<Rightarrow> nat \<Rightarrow> Router \<Rightarrow> Router" where
  "listen_any hostPort handler r =
     (let hs = (case ro_readersAny r hostPort of None \<Rightarrow> [] | Some hs \<Rightarrow> hs)
      in r\<lparr>ro_readersAny := (ro_readersAny r)(hostPort \<mapsto> hs @ [handler])\<rparr>)"

fun ListenFor :: "string \<Rightarrow> nat \<Rightarrow> EventType list \<Rightarrow> Router \<Rightarrow> Router" where
  "ListenFor hostPort handler [] r = r"
| "ListenFor hostPort handler (logType # logTypes) r =
     (if hostPort = [] then
        ListenFor hostPort handler logTypes (r\<lparr>ro_readersAll := ro_readersAll r @ [handler]\<rparr>)
      else if logType = EvAny then listen_any hostPort handler r
      else ListenFor hostPort handler logTypes (listen_type hostPort handler logType r))"

text \<open>The event \<open>Send\<close> makes of a line.\<close>

definition line_event :: "'sid steamid_pkg \<Rightarrow> time \<Rightarrow> string \<Rightarrow> string \<Rightarrow> 'sid Event" where
  "line_event L now hostPort line =
     (let (logEvent, err) = Parse L now line;
          logEvent = (if err \<noteq> None then logEvent\<lparr>ev_Type := EvAny, ev_Raw := line\<rparr> else logEvent)
      in logEvent\<lparr>ev_HostPort := hostPort\<rparr>)"

definition Send ::
  "'sid steamid_pkg \<Rightarrow> time \<Rightarrow> Router \<Rightarrow> string \<Rightarrow> string \<Rightarrow> 'sid Event chans \<Rightarrow> 'sid Event chans" where
  "Send L now r hostPort line cs =
     (let logEvent = line_event L now hostPort line;
          cs = (case ro_readers r hostPort of
                  None \<Rightarrow> cs
                | Some types \<Rightarrow>
                    (case types (ev_Type logEvent) of
                       None \<Rightarrow> cs
                     | Some handlers \<Rightarrow> fold (offer logEvent) handlers cs));
          cs = (case ro_readersAny r hostPort of
                  None \<Rightarrow> cs
                | Some anyHandlers \<Rightarrow> fold (offer logEvent) anyHandlers cs)
      in fold (offer logEvent) (ro_readersAll r) cs)"

section \<open>Who receives a line\<close>

text \<open>The handlers of an event of a host, in the order they are offered it.\<close>

definition type_handlers :: "Router \<Rightarrow> string \<Rightarrow> EventType \<Rightarrow> nat list" where
  "type_handlers r hostPort ty =
     (case ro_readers r hostPort of
        None \<Rightarrow> [] | Some m \<Rightarrow> (case m ty of None \<Rightarrow> [] | Some hs \<Rightarrow> hs))"

definition any_handlers :: "Router \<Rightarrow> string \<Rightarrow> nat list" where
  "any_handlers r hostPort = (case ro_readersAny r hostPort of None \<Rightarrow> [] | Some hs \<Rightarrow> hs)"

definition recipients :: "Router \<Rightarrow> string \<Rightarrow> EventType \<Rightarrow> nat list" where
  "recipients r hostPort ty = type_handlers r hostPort ty @ any_handlers r hostPort @ ro_readersAll r"

lemma Send_recipients:
  "Send L now r hostPort line cs =
     fold (offer (line_event L now hostPort line))
       (recipients r hostPort (ev_Type (line_event L now hostPort line))) cs"
  by (simp add: Send_def Let_def recipients_def type_handlers_def any_handlers_def split: option.splits)

text \<open>Offering an event \<open>n\<close> times to a channel stores it as often as there is room.\<close>

definition free_slots :: "'e chan \<Rightarrow> nat" where
  "free_slots c = ch_cap c + ch_waiting c - length (ch_buf c)"

lemma fold_offer:
  "fold (offer e) hs cs h =
     (cs h)\<lparr>ch_buf := ch_buf (cs h) @ replicate (min (count_list hs h) (free_slots (cs h))) e\<rparr>"
proof (induction hs arbitrary: cs)
  case (Cons k hs)
  show ?case
  proof (cases "k = h \<and> has_room (cs h)")
    case True
    then obtain n where n: "free_slots (cs h) = Suc n"
      by (cases "free_slots (cs h)") (auto simp: has_room_def free_slots_def)
    then have "free_slots ((cs h)\<lparr>ch_buf := ch_buf (cs h) @ [e]\<rparr>) = n" by (simp add: free_slots_def)
    with True n Cons show ?thesis by (simp add: offer_def)
  next
    case False
    then have "offer e k cs h = cs h" "k = h \<Longrightarrow> free_slots (cs h) = 0"
      by (auto simp: offer_def has_room_def free_slots_def)
    with Cons show ?thesis by auto
  qed
qed simp

text \<open>C16: a line is offered to every channel as often as the channel is registered for it: by its event type
  or for any event of its host, or for all hosts. The channel's buffer grows by one copy of the event
  per registration as long as it has room; every other channel is unchanged.\<close>

theorem Send_delivers:
  "let e = line_event L now hostPort line; n = count_list (recipients r hostPort (ev_Type e)) h
   in Send L now r hostPort line cs h =
        (cs h)\<lparr>ch_buf := ch_buf (cs h) @ replicate (min n (free_slots (cs h))) e\<rparr>"
  by (simp add: Send_recipients fold_offer Let_def)

text \<open>What registering changes.\<close>

lemma type_handlers_listen_type:
  "type_handlers (listen_type hp h ty r) hp' ty' =
     type_handlers r hp' ty' @ (if hp' = hp \<and> ty' = ty then [h] else [])"
  by (auto simp: type_handlers_def listen_type_def Let_def split: option.splits)

lemma any_handlers_listen_any:
  "any_handlers (listen_any hp h r) hp' = any_handlers r hp' @ (if hp' = hp then [h] else [])"
  by (auto simp: any_handlers_def listen_any_def Let_def split: option.splits)

lemma listen_frame [simp]:
  "any_handlers (listen_type hp h ty r) hp' = any_handlers r hp'"
  "ro_readersAll (listen_type hp h ty r) = ro_readersAll r"
  "type_handlers (listen_any hp h r) hp' ty' = type_handlers r hp' ty'"
  "ro_readersAll (listen_any hp h r) = ro_readersAll r"
  "type_handlers (r\<lparr>ro_readersAll := xs\<rparr>) hp' ty' = type_handlers r hp' ty'"
  "any_handlers (r\<lparr>ro_readersAll := xs\<rparr>) hp' = any_handlers r hp'"
  by (simp_all add: any_handlers_def type_handlers_def listen_type_def listen_any_def Let_def)

lemma ListenFor_host:
  assumes "hp \<noteq> []"
  shows "type_handlers (ListenFor hp h tys r) hp' ty =
      type_handlers r hp' ty @ (if hp' = hp then replicate (count_list (takeWhile (\<lambda>t. t \<noteq> EvAny) tys) ty) h else [])"
    and "any_handlers (ListenFor hp h tys r) hp' =
      any_handlers r hp' @ (if hp' = hp \<and> EvAny \<in> set tys then [h] else [])"
    and "ro_readersAll (ListenFor hp h tys r) = ro_readersAll r"
proof -
  show "type_handlers (ListenFor hp h tys r) hp' ty =
      type_handlers r hp' ty @ (if hp' = hp then replicate (count_list (takeWhile (\<lambda>t. t \<noteq> EvAny) tys) ty) h else [])"
    using assms by (induction tys arbitrary: r) (auto simp: type_handlers_listen_type replicate_append_same [symmetric])
  show "any_handlers (ListenFor hp h tys r) hp' =
      any_handlers r hp' @ (if hp' = hp \<and> EvAny \<in> set tys then [h] else [])"
    using assms by (induction tys arbitrary: r) (auto simp: any_handlers_listen_any)
  show "ro_readersAll (ListenFor hp h tys r) = ro_readersAll r"
    using assms by (induction tys arbitrary: r) auto
qed

text \<open>A channel that listens to one server never receives a line of another: after registering an unused
  channel for a host, sending a line of a different host leaves the channel as it was.\<close>

theorem Send_other_host:
  assumes "\<forall>hp ty. h \<notin> set (recipients r hp ty)" "hostPort \<noteq> []" "other \<noteq> hostPort"
  shows "Send L now (ListenFor hostPort h tys r) other line cs h = cs h"
proof -
  have "count_list (recipients (ListenFor hostPort h tys r) other ty) h = 0" for ty
    using assms by (auto simp: recipients_def ListenFor_host count_list_0_iff)
  then show ?thesis by (simp add: Send_recipients fold_offer)
qed

theorem Send_other_host_witness:
  "Send num_sid 0 (ListenFor ''a:1'' 3 [EvAny] NewRouter) ''b:1'' ''x connected'' (\<lambda>_. make_chan 1) 3 = make_chan 1"
  using Send_other_host [of 3 NewRouter "''a:1''" "''b:1''" num_sid 0 "[EvAny]" "''x connected''" "\<lambda>_. make_chan 1"]
  by (simp add: recipients_def type_handlers_def any_handlers_def NewRouter_def)

text \<open>A channel registered for any event of a host that has room receives every line of the host, also
  the lines no pattern matches, which arrive with the type \<open>Any\<close> and the line as their raw text.\<close>

theorem Send_any:
  assumes "\<forall>hp ty. h \<notin> set (recipients r hp ty)" "hostPort \<noteq> []" "has_room (cs h)"
  shows "\<exists>e. ch_buf (Send L now (ListenFor hostPort h [EvAny] r) hostPort line cs h) = ch_buf (cs h) @ [e] \<and>
     ev_HostPort e = hostPort \<and> ev_Raw e = line \<and>
     (snd (Parse L now line) \<noteq> None \<longrightarrow> ev_Type e = EvAny)"
proof -
  let ?e = "line_event L now hostPort line"
  have "count_list (recipients (ListenFor hostPort h [EvAny] r) hostPort ty) h = 1" for ty
    using assms(1,2) by (simp add: recipients_def any_handlers_listen_any count_list_0_iff)
  moreover have "0 < free_slots (cs h)" using assms(3) by (simp add: has_room_def free_slots_def)
  ultimately have "ch_buf (Send L now (ListenFor hostPort h [EvAny] r) hostPort line cs h) = ch_buf (cs h) @ [?e]"
    by (simp add: Send_recipients fold_offer min_def Suc_le_eq del: ListenFor.simps)
  moreover have "ev_Raw ?e = line"
    using parse_loop_ok [of L now line NewParser zero_Event]
    by (auto simp: line_event_def Parse_def zero_Event_def split: prod.splits)
  moreover have "ev_HostPort ?e = hostPort" "snd (Parse L now line) \<noteq> None \<longrightarrow> ev_Type ?e = EvAny"
    by (auto simp: line_event_def split: prod.splits)
  ultimately show ?thesis by blast
qed

theorem Send_any_witness:
  "\<exists>e. ch_buf (Send num_sid 0 (ListenFor ''a:1'' 3 [EvAny] NewRouter) ''a:1'' ''???'' (\<lambda>_. make_chan 1) 3) = [e] \<and>
     ev_Raw e = ''???''"
  using Send_any [of 3 NewRouter "''a:1''" "\<lambda>_. make_chan 1" num_sid 0 "''???''"]
  by (auto simp: recipients_def type_handlers_def any_handlers_def NewRouter_def make_chan_def has_room_def)

section \<open>What a receiver promises\<close>

text \<open>
  The interface \<open>console.Receiver\<close>, through which the sources of log lines know the router. They rely on a
  line of one host not being seen by those who listen to another: the view of a host is whatever of the
  receiver's state belongs to it alone.
\<close>

locale receiver =
  fixes send :: "time \<Rightarrow> string \<Rightarrow> string \<Rightarrow> 'r \<Rightarrow> 'r" and view :: "string \<Rightarrow> 'r \<Rightarrow> 'v"
  assumes other_host: "h \<noteq> hostPort \<Longrightarrow> view h (send now hostPort line r) = view h r"

text \<open>For the router these are the channels that are registered for this host only.\<close>

definition only_for :: "Router \<Rightarrow> string \<Rightarrow> nat \<Rightarrow> bool" where
  "only_for r hp h \<longleftrightarrow> (\<forall>hp' ty. h \<in> set (recipients r hp' ty) \<longrightarrow> hp' = hp)"

definition host_view :: "Router \<Rightarrow> string \<Rightarrow> 'e chans \<Rightarrow> nat \<Rightarrow> 'e chan option" where
  "host_view r hp cs h = (if only_for r hp h then Some (cs h) else None)"

lemma Send_not_recipient:
  "h \<notin> set (recipients r hp (ev_Type (line_event L now hp line))) \<Longrightarrow> Send L now r hp line cs h = cs h"
  by (simp add: Send_recipients fold_offer count_list_0_iff)

lemma host_view_Send:
  "h \<noteq> hostPort \<Longrightarrow> host_view r h (Send L now r hostPort line cs) = host_view r h cs"
  using Send_not_recipient [of _ r hostPort L now line cs] by (auto simp: host_view_def only_for_def fun_eq_iff)

interpretation router: receiver "\<lambda>now. Send L now r" "host_view r"
  by unfold_locales (rule host_view_Send)

end
