(* ===== verification/Store.thy ===== *)
theory Store
  imports Prelude Go_Strings
begin

text \<open>
  internal/store: opening the database, its migrations, and the generated statements and queries. The SQL
  driver and the migration package are parameters on a world \<open>'w\<close>.
\<close>

datatype (plugins only: code size) sql_value = SqlInt int | SqlText string

record 'w db_lib =
  db_Open :: "string \<Rightarrow> 'w \<Rightarrow> go_error option \<times> 'w"
  db_Exec :: "string \<Rightarrow> sql_value list \<Rightarrow> 'w \<Rightarrow> go_error option \<times> 'w"
  db_Ping :: "'w \<Rightarrow> go_error option \<times> 'w"
  db_Close :: "'w \<Rightarrow> go_error option \<times> 'w"

section \<open>Statements\<close>

record InsertChatParams =
  ic_ChatID :: int
  ic_SteamID :: int
  ic_Name :: string
  ic_Message :: string
  ic_TeamOnly :: int
  ic_CreatedOn :: int

record InsertPlayerParams =
  ip_SteamID :: int
  ip_Name :: string
  ip_CreatedOn :: int
  ip_UpdatedOn :: int

definition insertChat_sql :: string where
  "insertChat_sql =
     ''-- name: InsertChat :exec'' @ [nl] @
     ''INSERT INTO chat_history (chat_id, steam_id, name, message, team_only, created_on)'' @ [nl] @
     ''VALUES (?, ?, ?, ?, ?, ?)'' @ [nl]"

definition insertPlayer_sql :: string where
  "insertPlayer_sql =
     ''-- name: InsertPlayer :exec'' @ [nl] @
     ''INSERT INTO player (steam_id, name, created_on, updated_on)'' @ [nl] @
     ''VALUES (?1, ?2, ?3, ?4)'' @ [nl] @
     ''ON CONFLICT (steam_id) DO UPDATE'' @ [nl] @
     ''    SET name       = sqlc.arg(name),'' @ [nl] @
     ''        updated_on = sqlc.arg(updated_on)'' @ [nl]"

definition InsertChat :: "'w db_lib \<Rightarrow> InsertChatParams \<Rightarrow> 'w \<Rightarrow> go_error option \<times> 'w" where
  "InsertChat D arg w =
     db_Exec D insertChat_sql
       [SqlInt (ic_ChatID arg), SqlInt (ic_SteamID arg), SqlText (ic_Name arg), SqlText (ic_Message arg),
        SqlInt (ic_TeamOnly arg), SqlInt (ic_CreatedOn arg)] w"

definition InsertPlayer :: "'w db_lib \<Rightarrow> InsertPlayerParams \<Rightarrow> 'w \<Rightarrow> go_error option \<times> 'w" where
  "InsertPlayer D arg w =
     db_Exec D insertPlayer_sql
       [SqlInt (ip_SteamID arg), SqlText (ip_Name arg), SqlInt (ip_CreatedOn arg), SqlInt (ip_UpdatedOn arg)] w"

record InsertMarkParams =
  im_SteamID :: int
  im_Tags :: string
  im_Note :: string
  im_CreatedOn :: int
  im_UpdatedOn :: int

definition insertMark_sql :: string where
  "insertMark_sql =
     ''-- name: InsertMark :exec'' @ [nl] @
     ''INSERT INTO marks (steam_id, tags, note, created_on, updated_on)'' @ [nl] @
     ''VALUES (?, ?, ?, ?, ?)'' @ [nl]"

definition InsertMark :: "'w db_lib \<Rightarrow> InsertMarkParams \<Rightarrow> 'w \<Rightarrow> go_error option \<times> 'w" where
  "InsertMark D arg w =
     db_Exec D insertMark_sql
       [SqlInt (im_SteamID arg), SqlText (im_Tags arg), SqlText (im_Note arg), SqlInt (im_CreatedOn arg),
        SqlInt (im_UpdatedOn arg)] w"

record InsertNoteParams =
  in_SteamID :: int
  in_Note :: string
  in_UpdatedOn :: int

definition insertNote_sql :: string where
  "insertNote_sql =
     ''-- name: InsertNote :exec'' @ [nl] @
     ''INSERT INTO notes (steam_id, note, updated_on)'' @ [nl] @
     ''VALUES (?, ?, ?)'' @ [nl]"

definition InsertNote :: "'w db_lib \<Rightarrow> InsertNoteParams \<Rightarrow> 'w \<Rightarrow> go_error option \<times> 'w" where
  "InsertNote D arg w =
     db_Exec D insertNote_sql [SqlInt (in_SteamID arg), SqlText (in_Note arg), SqlInt (in_UpdatedOn arg)] w"

record UpdateNoteParams =
  un_Note :: string
  un_UpdatedOn :: int
  un_SteamID :: int

definition updateNote_sql :: string where
  "updateNote_sql =
     ''-- name: UpdateNote :exec'' @ [nl] @
     ''UPDATE notes'' @ [nl] @
     ''SET note       = ?,'' @ [nl] @
     ''    updated_on = ?'' @ [nl] @
     ''WHERE steam_id = ?'' @ [nl]"

definition UpdateNote :: "'w db_lib \<Rightarrow> UpdateNoteParams \<Rightarrow> 'w \<Rightarrow> go_error option \<times> 'w" where
  "UpdateNote D arg w =
     db_Exec D updateNote_sql [SqlText (un_Note arg), SqlInt (un_UpdatedOn arg), SqlInt (un_SteamID arg)] w"

section \<open>Queries\<close>

text \<open>
  A query gives an error, or a cursor: the rows, each scanned into a value or an error of the scan, the error of
  the iteration and that of closing. \<open>read_rows\<close> is the loop of the generated readers.
\<close>

record 'row cursor =
  cu_rows :: "'row result list"
  cu_Close :: "go_error option"
  cu_Err :: "go_error option"

fun scan_rows :: "'row result list \<Rightarrow> 'row list \<Rightarrow> 'row list result" where
  "scan_rows [] items = Inr items"
| "scan_rows (r # rs) items = (case r of Inl e \<Rightarrow> Inl e | Inr i \<Rightarrow> scan_rows rs (items @ [i]))"

definition read_rows :: "'row cursor result \<Rightarrow> 'row list result" where
  "read_rows res =
     (case res of
        Inl e \<Rightarrow> Inl e
      | Inr rows \<Rightarrow>
          (case scan_rows (cu_rows rows) [] of
             Inl e \<Rightarrow> Inl e
           | Inr items \<Rightarrow>
               (case cu_Close rows of
                  Some e \<Rightarrow> Inl e
                | None \<Rightarrow> (case cu_Err rows of Some e \<Rightarrow> Inl e | None \<Rightarrow> Inr items))))"

record ChatHistory =
  chh_ChatID :: int
  chh_MatchID :: int
  chh_SteamID :: int
  chh_Name :: string
  chh_Message :: string
  chh_TeamOnly :: int
  chh_CreatedOn :: int

record Note =
  no_SteamID :: int
  no_Note :: string
  no_UpdatedOn :: int

definition getChatHistory_sql :: string where
  "getChatHistory_sql =
     ''-- name: GetChatHistory :many'' @ [nl] @
     ''SELECT chat_id, match_id, steam_id, name, message, team_only, created_on'' @ [nl] @
     ''FROM chat_history'' @ [nl] @
     ''WHERE steam_id = ?'' @ [nl]"

definition GetChatHistory ::
  "(string \<Rightarrow> sql_value list \<Rightarrow> 'w \<Rightarrow> ChatHistory cursor result \<times> 'w) \<Rightarrow> int \<Rightarrow> 'w \<Rightarrow> ChatHistory list result \<times> 'w" where
  "GetChatHistory Query steamID w = (let (res, w) = Query getChatHistory_sql [SqlInt steamID] w in (read_rows res, w))"

definition getNotes_sql :: string where
  "getNotes_sql =
     ''-- name: GetNotes :many'' @ [nl] @
     ''SELECT steam_id, note, updated_on'' @ [nl] @
     ''FROM notes'' @ [nl] @
     ''WHERE steam_id IN (/*SLICE:steam_ids*/?)'' @ [nl]"

text \<open>\<open>strings.Replace\<close> of the first occurrence, and the statement with one placeholder for each id.\<close>

definition Replace1 :: "string \<Rightarrow> string \<Rightarrow> string \<Rightarrow> string" where
  "Replace1 s old new = (case Index s old of None \<Rightarrow> s | Some i \<Rightarrow> take i s @ new @ drop (i + length old) s)"

definition notes_query :: "int list \<Rightarrow> string" where
  "notes_query steamIds =
     Replace1 getNotes_sql ''/*SLICE:steam_ids*/?''
       (if length steamIds > 0 then drop 1 (concat (replicate (length steamIds) '',?'')) else ''NULL'')"

definition GetNotes ::
  "(string \<Rightarrow> sql_value list \<Rightarrow> 'w \<Rightarrow> Note cursor result \<times> 'w) \<Rightarrow> int list \<Rightarrow> 'w \<Rightarrow> Note list result \<times> 'w" where
  "GetNotes Query steamIds w = (let (res, w) = Query (notes_query steamIds) (map SqlInt steamIds) w in (read_rows res, w))"

section \<open>Opening the database\<close>

datatype (plugins only: code size) MigrationAction = MigrateUp | MigrateDn | MigrateUpOne | MigrateDownOne

text \<open>The migrator: making the driver, the source and the instance may each fail; a step count or a full run
  gives an error or none, and \<open>ErrNoChange\<close> is told apart by its message.\<close>

datatype (plugins only: code size) mig_call = MigSteps int | MigUp | MigDown

record 'w mig_lib =
  mg_Driver :: "'w \<Rightarrow> go_error option \<times> 'w"
  mg_Source :: "'w \<Rightarrow> go_error option \<times> 'w"
  mg_Instance :: "'w \<Rightarrow> go_error option \<times> 'w"
  mg_Run :: "mig_call \<Rightarrow> 'w \<Rightarrow> go_error option \<times> 'w"

definition ErrNoChange :: sentinel where
  "ErrNoChange = ErrForeign ''no change''"

definition migrate_call :: "MigrationAction \<Rightarrow> mig_call" where
  "migrate_call action =
     (case action of
        MigrateUpOne \<Rightarrow> MigSteps 1 | MigrateDn \<Rightarrow> MigDown | MigrateDownOne \<Rightarrow> MigSteps (-1)
      | MigrateUp \<Rightarrow> MigUp)"

definition Migrate :: "'w mig_lib \<Rightarrow> MigrationAction \<Rightarrow> 'w \<Rightarrow> go_error option \<times> 'w" where
  "Migrate M action w =
     (case mg_Driver M w of
        (Some e, w) \<Rightarrow> (Some (errors_Join e [ErrMigrate]), w)
      | (None, w) \<Rightarrow>
     (case mg_Source M w of
        (Some e, w) \<Rightarrow> (Some (errors_Join e [ErrMigrate]), w)
      | (None, w) \<Rightarrow>
     (case mg_Instance M w of
        (Some e, w) \<Rightarrow> (Some (errors_Join e [ErrMigrate]), w)
      | (None, w) \<Rightarrow>
     (case mg_Run M (migrate_call action) w of
        (Some e, w) \<Rightarrow> if errors_Is e ErrNoChange then (None, w) else (Some (errors_Join e [ErrMigrate]), w)
      | (None, w) \<Rightarrow> (None, w)))))"

definition pragmas :: "string list" where
  "pragmas = [''PRAGMA foreign_keys = ON'', ''PRAGMA busy_timeout = 10000'', ''PRAGMA journal_mode=WAL'',
     ''PRAGMA main.synchronous = NORMAL'', ''PRAGMA main.cache_size = -32768'']"

definition parallelism :: "int \<Rightarrow> int" where
  "parallelism gomaxprocs = min 8 (max 2 gomaxprocs)"

fun run_pragmas :: "'w db_lib \<Rightarrow> string list \<Rightarrow> 'w \<Rightarrow> go_error option \<times> 'w" where
  "run_pragmas D [] w = (None, w)"
| "run_pragmas D (p # ps) w =
     (case db_Exec D p [] w of
        (Some e, w') \<Rightarrow> (Some (errors_Join e [ErrDBConnect]), w')
      | (None, w') \<Rightarrow> run_pragmas D ps w')"

definition configureConnection :: "'w db_lib \<Rightarrow> 'w \<Rightarrow> go_error option \<times> 'w" where
  "configureConnection D w = run_pragmas D pragmas w"

definition db_path :: "string \<Rightarrow> string" where
  "db_path path = (if path = [] then '':memory:'' else path) @ ''?cache=private''"

text \<open>\<open>Open\<close>. The error joined when the ping fails is the one of the ping: the inner \<open>err\<close> of the failed close
  is a new variable.\<close>

definition store_Open :: "'w db_lib \<Rightarrow> 'w mig_lib \<Rightarrow> string \<Rightarrow> bool \<Rightarrow> 'w \<Rightarrow> go_error option \<times> 'w" where
  "store_Open D M path autoMigrate w =
     (case db_Open D (db_path path) w of
        (Some e, w) \<Rightarrow> (Some (errors_Join e [ErrDBConnect]), w)
      | (None, w) \<Rightarrow>
     (case configureConnection D w of
        (Some e, w) \<Rightarrow> (Some e, w)
      | (None, w) \<Rightarrow>
     (case db_Ping D w of
        (Some e, w) \<Rightarrow> (Some (errors_Join e [ErrDBConnect]), snd (db_Close D w))
      | (None, w) \<Rightarrow>
          if autoMigrate then
            (case Migrate M MigrateUp w of
               (Some e, w) \<Rightarrow> (Some (errors_Join e [ErrDBConnect]), w)
             | (None, w) \<Rightarrow> (None, w))
          else (None, w))))"

section \<open>Properties\<close>

text \<open>A query returns all rows or the first error.\<close>

lemma scan_rows_all: "scan_rows (map Inr rows) items = Inr (items @ rows)"
  by (induction rows arbitrary: items) simp_all

lemma scan_rows_error: "scan_rows (map Inr rows @ Inl e # rs) items = Inl e"
  by (induction rows arbitrary: items) simp_all

text \<open>The statement for notes has one placeholder for each argument.\<close>

lemma notes_query_placeholders: "count_list (notes_query steamIds) (CHR ''?'') = length (map SqlInt steamIds)"
proof -
  have i: "Index getNotes_sql ''/*SLICE:steam_ids*/?'' = Some 88" by code_simp
  have rest: "count_list (take 88 getNotes_sql) (CHR ''?'') = 0" "count_list (drop (88 + 20) getNotes_sql) (CHR ''?'') = 0"
    by code_simp+
  have "count_list (concat (replicate n '',?'')) (CHR ''?'') = n" for n by (induction n) simp_all
  then have "count_list (drop 1 (concat (replicate (Suc n) '',?''))) (CHR ''?'') = Suc n" for n by simp
  then have "count_list (if length steamIds > 0 then drop 1 (concat (replicate (length steamIds) '',?'')) else ''NULL'') (CHR ''?'') =
      length steamIds" by (cases steamIds) (simp_all del: replicate.simps)
  with rest show ?thesis unfolding notes_query_def Replace1_def i by simp
qed

lemma run_pragmas_error: "run_pragmas D ps w = (Some e, w') \<Longrightarrow> errors_Is e ErrDBConnect"
  by (induction ps arbitrary: w) (auto split: prod.splits option.splits)

text \<open>Opening the database fails only with \<open>ErrDBConnect\<close>, and a migration that finds nothing to do is not a
  failure.\<close>

theorem store_Open_errors:
  "case store_Open D M path auto w of (Some e, w') \<Rightarrow> errors_Is e ErrDBConnect | (None, w') \<Rightarrow> True"
  by (auto simp: store_Open_def configureConnection_def dest: run_pragmas_error split: prod.splits option.splits)

lemma Migrate_no_change:
  assumes "mg_Driver M w = (None, w1)" "mg_Source M w1 = (None, w2)" "mg_Instance M w2 = (None, w3)"
    "mg_Run M (migrate_call action) w3 = (Some e, w4)" "errors_Is e ErrNoChange"
  shows "Migrate M action w = (None, w4)"
  using assms by (simp add: Migrate_def)

end
