(* ===== verification/Blackbox.thy ===== *)
theory Blackbox
  imports Events_Parser Store
begin

text \<open>
  internal/state/blackbox.go: the recorder of a server's events. It keeps the current match in memory and
  stores chat messages in the database. The histories of a match are pointers in the code; each is only
  reached through the match, so the list of their values stands for them.
\<close>

record 'sid PlayerKill =
  pk_Source :: 'sid
  pk_Victim :: 'sid
  pk_Weapon :: string
  pk_Crit :: bool
  pk_CreatedOn :: time

record 'sid PlayerHistory =
  ph_SteamID :: 'sid
  ph_Name :: string
  ph_Score :: int
  ph_Deaths :: int
  ph_Ping :: int
  ph_Team :: Team
  ph_Connected :: int
  ph_Kills :: "'sid PlayerKill list"

record 'sid bb_Match =
  bm_Players :: "'sid PlayerHistory list"
  bm_Messages :: "'sid list"
  bm_Hostname :: string
  bm_Address :: string
  bm_Tags :: "string list"

record 'sid blackBox =
  bb_validIDs :: "'sid list"
  bb_match :: "'sid bb_Match"

definition zero_Match :: "'sid bb_Match" where
  "zero_Match = \<lparr>bm_Players = [], bm_Messages = [], bm_Hostname = [], bm_Address = [], bm_Tags = []\<rparr>"

definition newBlackBox :: "'sid blackBox" where
  "newBlackBox = \<lparr>bb_validIDs = [], bb_match = zero_Match\<rparr>"

definition new_history :: "'sid \<Rightarrow> 'sid PlayerHistory" where
  "new_history sid = \<lparr>ph_SteamID = sid, ph_Name = [], ph_Score = 0, ph_Deaths = 0, ph_Ping = 0, ph_Team = 0,
     ph_Connected = 0, ph_Kills = []\<rparr>"

definition onConnect :: "'sid blackBox \<Rightarrow> 'sid blackBox" where
  "onConnect b = b\<lparr>bb_match := zero_Match\<rparr>"

text \<open>\<open>player\<close>: the index of the first history with the id, after adding a new one when there is none.\<close>

definition bb_player :: "'sid steamid_pkg \<Rightarrow> 'sid \<Rightarrow> 'sid PlayerHistory list \<Rightarrow> nat \<times> 'sid PlayerHistory list" where
  "bb_player L steamID players =
     (case first_index (\<lambda>p. sid_Equal L (ph_SteamID p) steamID) players of
        Some i \<Rightarrow> (i, players)
      | None \<Rightarrow> (length players, players @ [new_history steamID]))"

definition onKill :: "'sid steamid_pkg \<Rightarrow> 'sid KillEvent \<Rightarrow> 'sid blackBox \<Rightarrow> 'sid blackBox" where
  "onKill L event b =
     (let (i, players) = bb_player L (ke_PlayerSID event) (bm_Players (bb_match b));
          kill = \<lparr>pk_Source = ke_PlayerSID event, pk_Victim = ke_VictimSID event, pk_Weapon = ke_Weapon event,
                  pk_Crit = ke_Crit event, pk_CreatedOn = ke_Timestamp event\<rparr>;
          player = players ! i
      in b\<lparr>bb_match := (bb_match b)\<lparr>bm_Players := players[i := player\<lparr>ph_Kills := ph_Kills player @ [kill]\<rparr>]\<rparr>\<rparr>)"

text \<open>\<open>slices.Contains\<close> compares steam ids as values. A time is in nanoseconds, \<open>Unix()\<close> in seconds.\<close>

definition unix_seconds :: "time \<Rightarrow> int" where
  "unix_seconds t = t div 1000000000"

definition ensureSID ::
  "'sid steamid_pkg \<Rightarrow> 'w db_lib \<Rightarrow> time \<Rightarrow> 'sid \<Rightarrow> 'sid blackBox \<Rightarrow> 'w \<Rightarrow> go_error option \<times> 'sid blackBox \<times> 'w" where
  "ensureSID L D now steamID b w =
     (if steamID \<in> set (bb_validIDs b) then (None, b, w)
      else case InsertPlayer D
                  \<lparr>ip_SteamID = sid_Int64 L steamID, ip_Name = [], ip_CreatedOn = unix_seconds now,
                   ip_UpdatedOn = unix_seconds now\<rparr> w of
             (Some e, w) \<Rightarrow> (Some (errors_Join e [errBlackBox]), b, w)
           | (None, w) \<Rightarrow> (None, b\<lparr>bb_validIDs := bb_validIDs b @ [steamID]\<rparr>, w))"

definition onMsg ::
  "'sid steamid_pkg \<Rightarrow> 'w db_lib \<Rightarrow> time \<Rightarrow> time \<Rightarrow> 'sid MsgEvent \<Rightarrow> 'sid blackBox \<Rightarrow> 'w \<Rightarrow>
     go_error option \<times> 'sid blackBox \<times> 'w" where
  "onMsg L D now timeStamp event b w =
     (case ensureSID L D now (me_PlayerSID event) b w of
        (Some e, b, w) \<Rightarrow> (Some e, b, w)
      | (None, b, w) \<Rightarrow>
          (case InsertChat D
                  \<lparr>ic_ChatID = 0, ic_SteamID = sid_Int64 L (me_PlayerSID event), ic_Name = me_Player event,
                   ic_Message = me_Message event, ic_TeamOnly = (if me_TeamOnly event then 1 else 0),
                   ic_CreatedOn = unix_seconds timeStamp\<rparr> w of
             (Some e, w) \<Rightarrow> (Some (errors_Join e [errBlackBox]), b, w)
           | (None, w) \<Rightarrow> (None, b, w)))"

text \<open>One turn of the loop of \<open>Start\<close>: the error is only logged.\<close>

definition bb_event ::
  "'sid steamid_pkg \<Rightarrow> 'w db_lib \<Rightarrow> time \<Rightarrow> 'sid Event \<Rightarrow> 'sid blackBox \<Rightarrow> 'w \<Rightarrow> 'sid blackBox \<times> 'w" where
  "bb_event L D now event b w =
     (case ev_Data event of
        MsgData data \<Rightarrow> snd (onMsg L D now (ev_Timestamp event) data b w)
      | KillData data \<Rightarrow> (onKill L data b, w)
      | ConnectEvent p \<Rightarrow> (onConnect b, w)
      | AddressEvent a \<Rightarrow> (b\<lparr>bb_match := (bb_match b)\<lparr>bm_Address := Addr_String a\<rparr>\<rparr>, w)
      | HostnameEvent h \<Rightarrow> (b\<lparr>bb_match := (bb_match b)\<lparr>bm_Hostname := h\<rparr>\<rparr>, w)
      | TagsEvent ts \<Rightarrow> (b\<lparr>bb_match := (bb_match b)\<lparr>bm_Tags := ts\<rparr>\<rparr>, w)
      | _ \<Rightarrow> (b, w))"

text \<open>\<open>Start\<close> on the events it receives, each with the time of its handling.\<close>

fun bb_Start ::
  "'sid steamid_pkg \<Rightarrow> 'w db_lib \<Rightarrow> (time \<times> 'sid Event) list \<Rightarrow> 'sid blackBox \<Rightarrow> 'w \<Rightarrow> 'sid blackBox \<times> 'w" where
  "bb_Start L D [] b w = (b, w)"
| "bb_Start L D ((now, e) # es) b w = (case bb_event L D now e b w of (b, w) \<Rightarrow> bb_Start L D es b w)"

section \<open>The kills of a match\<close>

definition all_kills :: "'sid blackBox \<Rightarrow> nat" where
  "all_kills b = sum_list (map (\<lambda>p. length (ph_Kills p)) (bm_Players (bb_match b)))"

definition histories_distinct :: "'sid steamid_pkg \<Rightarrow> 'sid blackBox \<Rightarrow> bool" where
  "histories_distinct L b \<longleftrightarrow>
     (\<forall>i j. i < j \<longrightarrow> j < length (bm_Players (bb_match b)) \<longrightarrow>
        \<not> sid_Equal L (ph_SteamID (bm_Players (bb_match b) ! i)) (ph_SteamID (bm_Players (bb_match b) ! j)))"

lemma sum_list_update_Suc:
  "i < length xs \<Longrightarrow> f y = Suc (f (xs ! i)) \<Longrightarrow> sum_list (map f (xs[i := y])) = Suc (sum_list (map f xs))"
proof (induction xs arbitrary: i)
  case (Cons x xs)
  then show ?case by (cases i) auto
qed simp

lemma bb_player_index: "bb_player L sid ps = (i, ps') \<Longrightarrow> i < length ps'"
  by (auto simp: bb_player_def split: option.splits dest: first_index_SomeD)

lemma all_kills_onKill: "all_kills (onKill L e b) = Suc (all_kills b)"
proof -
  obtain i ps where p: "bb_player L (ke_PlayerSID e) (bm_Players (bb_match b)) = (i, ps)" by force
  have "sum_list (map (\<lambda>p. length (ph_Kills p)) ps) = all_kills b"
    using p by (auto simp: bb_player_def all_kills_def new_history_def split: option.splits)
  with p show ?thesis
    using bb_player_index [OF p] by (simp add: onKill_def all_kills_def Let_def sum_list_update_Suc)
qed

lemma histories_onKill:
  assumes "steamid_laws L" "histories_distinct L b"
  shows "histories_distinct L (onKill L e b)"
proof -
  obtain i ps where p: "bb_player L (ke_PlayerSID e) (bm_Players (bb_match b)) = (i, ps)" by force
  have "\<not> sid_Equal L (ph_SteamID (ps ! j)) (ph_SteamID (ps ! k))" if "j < k" "k < length ps" for j k
    using p assms that
    by (auto simp: bb_player_def histories_distinct_def new_history_def nth_append first_index_None_iff less_Suc_eq
        split: option.splits if_splits)
  moreover have "ph_SteamID (ps[i := (ps ! i)\<lparr>ph_Kills := x\<rparr>] ! j) = ph_SteamID (ps ! j)" if "j < length ps" for j x
    using that by (cases "i = j") simp_all
  ultimately show ?thesis using p
    by (simp add: onKill_def Let_def histories_distinct_def)
qed

text \<open>The kills after the last connect of a run.\<close>

fun kills_since :: "nat \<Rightarrow> 'sid Event list \<Rightarrow> nat" where
  "kills_since n [] = n"
| "kills_since n (e # es) =
     kills_since (case ev_Data e of KillData _ \<Rightarrow> Suc n | ConnectEvent _ \<Rightarrow> 0 | _ \<Rightarrow> n) es"

lemma ensureSID_match: "bb_match (fst (snd (ensureSID L D now s b w))) = bb_match b"
  by (auto simp: ensureSID_def split: prod.splits option.splits)

lemma onMsg_match: "bb_match (fst (snd (onMsg L D now t e b w))) = bb_match b"
  using ensureSID_match [of L D now "me_PlayerSID e" b w]
  by (auto simp: onMsg_def split: prod.splits option.splits)

lemma bb_event_kills:
  "all_kills (fst (bb_event L D now e b w)) =
     (case ev_Data e of KillData _ \<Rightarrow> Suc (all_kills b) | ConnectEvent _ \<Rightarrow> 0 | _ \<Rightarrow> all_kills b)"
  using onMsg_match [of L D now "ev_Timestamp e" _ b w]
  by (auto simp: bb_event_def all_kills_onKill onConnect_def split: EventData.splits)
    (simp_all add: all_kills_def zero_Match_def)

lemma bb_event_distinct:
  assumes "steamid_laws L" "histories_distinct L b"
  shows "histories_distinct L (fst (bb_event L D now e b w))"
  using assms histories_onKill [OF assms] onMsg_match [of L D now "ev_Timestamp e" _ b w]
  by (auto simp: bb_event_def onConnect_def split: EventData.splits)
    (simp_all add: histories_distinct_def zero_Match_def)

text \<open>C30: after any run of events, failing database or not, the match holds as many kills as were reported since
  the last connect, and no two of its histories belong to the same player.\<close>

theorem bb_Start_kills:
  assumes "steamid_laws L"
  shows "all_kills (fst (bb_Start L D es newBlackBox w)) = kills_since 0 (map snd es) \<and>
     histories_distinct L (fst (bb_Start L D es newBlackBox w))"
proof -
  have "all_kills (fst (bb_Start L D es b w)) = kills_since (all_kills b) (map snd es) \<and>
     histories_distinct L (fst (bb_Start L D es b w))" if "histories_distinct L b" for b w
    using that
  proof (induction es arbitrary: b w)
    case (Cons te es)
    obtain now e where te: "te = (now, e)" by (cases te)
    obtain b' w' where b': "bb_event L D now e b w = (b', w')" by force
    have "histories_distinct L b'" "all_kills b' =
        (case ev_Data e of KillData _ \<Rightarrow> Suc (all_kills b) | ConnectEvent _ \<Rightarrow> 0 | _ \<Rightarrow> all_kills b)"
      using bb_event_distinct [OF assms Cons.prems, of D now e w] bb_event_kills [of L D now e b w] b' by simp_all
    with Cons.IH [of b' w'] show ?case by (simp add: te b')
  qed simp
  from this [of newBlackBox w] show ?thesis
    by (simp add: newBlackBox_def histories_distinct_def zero_Match_def all_kills_def)
qed

text \<open>A database for the witness, which fails every statement.\<close>

definition broken_db :: "unit db_lib" where
  "broken_db = \<lparr>db_Open = (\<lambda>p w. (None, w)), db_Exec = (\<lambda>q a w. (Some [ErrForeign ''SQL logic error''], w)),
     db_Ping = (\<lambda>w. (None, w)), db_Close = (\<lambda>w. (None, w))\<rparr>"

definition demo_events :: "(time \<times> int Event) list" where
  "demo_events = map (\<lambda>l. (0, fst (Parse num_sid 0 l)))
     [''a killed b with gun.'', ''bob connected'', ''a killed b with gun.'', ''c killed d with gun. (crit)'']"

theorem bb_Start_kills_witness:
  "all_kills (fst (bb_Start num_sid broken_db demo_events newBlackBox ())) = 2 \<and>
   histories_distinct num_sid (fst (bb_Start num_sid broken_db demo_events newBlackBox ()))"
proof -
  have "kills_since 0 (map snd demo_events) = 2" by code_simp
  with bb_Start_kills [OF num_sid_laws, of broken_db demo_events "()"] show ?thesis by simp
qed

text \<open>Kills parsed from log lines carry the zero steam id, so all kills of a match end up in one history.\<close>

lemma onKill_zero:
  assumes "steamid_laws L" "ke_PlayerSID e = sid_zero L"
    "\<forall>p \<in> set (bm_Players (bb_match b)). ph_SteamID p = sid_zero L" "length (bm_Players (bb_match b)) \<le> 1"
  shows "(\<forall>p \<in> set (bm_Players (bb_match (onKill L e b))). ph_SteamID p = sid_zero L) \<and>
     length (bm_Players (bb_match (onKill L e b))) = 1"
  using assms sid_Equal_refl [OF assms(1), of "sid_zero L"]
  by (cases "bm_Players (bb_match b)") (auto simp: onKill_def bb_player_def new_history_def Let_def)

definition one_history :: "'sid steamid_pkg \<Rightarrow> 'sid blackBox \<Rightarrow> bool" where
  "one_history L b \<longleftrightarrow>
     (\<forall>p \<in> set (bm_Players (bb_match b)). ph_SteamID p = sid_zero L) \<and> length (bm_Players (bb_match b)) \<le> 1"

lemma Parse_kill_zero:
  assumes "ev_Data (fst (Parse L now line)) = KillData e"
  shows "ke_PlayerSID e = sid_zero L"
proof -
  have "ev_Data (fst (parse_loop L now line rxs out)) = KillData e \<Longrightarrow> ev_Data out = NoData \<Longrightarrow>
      set rxs \<subseteq> set NewParser \<Longrightarrow> ke_PlayerSID e = sid_zero L" for rxs out
  proof (induction rxs arbitrary: out)
    case (Cons a rxs)
    obtain ty rx where [simp]: "a = (ty, rx)" by force
    have "parse_data L ty line m NoData = Some (KillData e) \<Longrightarrow> ke_PlayerSID e = sid_zero L" for m
      by (cases ty) (auto simp: parse_StatusID_def split: option.splits sum.splits if_splits)
    with Cons show ?case by (auto simp: Let_def split: option.splits)
  qed simp
  with assms show ?thesis by (auto simp: Parse_def zero_Event_def)
qed

text \<open>The events of a log, whatever the lines are, put the kills of every player into a single history: the
  kill events of the parser have no steam id.\<close>

theorem bb_Start_one_history:
  assumes "steamid_laws L"
  shows "one_history L (fst (bb_Start L D (map (\<lambda>(now, line). (now, fst (Parse L now line))) lines) newBlackBox w))"
proof -
  have "one_history L (fst (bb_Start L D (map (\<lambda>(now, line). (now, fst (Parse L now line))) lines) b w))"
    if "one_history L b" for b w
    using that
  proof (induction lines arbitrary: b w)
    case (Cons tl lines)
    obtain now line where tl: "tl = (now, line)" by (cases tl)
    let ?e = "fst (Parse L now line)"
    obtain b' w' where b': "bb_event L D now ?e b w = (b', w')" by force
    have k: "one_history L (onKill L k b)" if "ev_Data ?e = KillData k" for k
      using onKill_zero [OF assms Parse_kill_zero [OF that], of b] Cons.prems by (simp add: one_history_def)
    have z: "one_history L (onConnect b)" by (simp add: one_history_def onConnect_def zero_Match_def)
    have m: "one_history L c" if "bm_Players (bb_match c) = bm_Players (bb_match b)" for c
      using that Cons.prems by (simp add: one_history_def)
    have "one_history L (fst (bb_event L D now ?e b w))"
    proof (cases "ev_Data ?e")
      case (MsgData d)
      then show ?thesis using m [of "fst (snd (onMsg L D now (ev_Timestamp ?e) d b w))"] by (simp add: bb_event_def onMsg_match)
    qed (simp_all add: bb_event_def k z m Cons.prems)
    then have "one_history L b'" by (simp add: b')
    with Cons.IH [of b' w'] show ?case by (simp add: tl b')
  qed simp
  moreover have "one_history L newBlackBox" by (simp add: one_history_def newBlackBox_def zero_Match_def)
  ultimately show ?thesis by blast
qed

theorem bb_Start_one_history_witness:
  "one_history num_sid (fst (bb_Start num_sid broken_db
     (map (\<lambda>(now, line). (now, fst (Parse num_sid now line)))
        [(0, ''a killed b with gun.''), (1, ''c killed d with gun.'')]) newBlackBox ()))"
  by (rule bb_Start_one_history) (rule num_sid_laws)

end
