(* ===== verification/Server_State.thy ===== *)
theory Server_State
  imports Events_Router Fetcher Bd Meta Blackbox
begin

text \<open>
  internal/state/server.go and player.go: what the program knows about one server. The operations take
  the state and return it; the clock, the rcon connection and the third-party packages are arguments.
  Every operation runs under the state's mutex, except that \<open>onDumpTick\<close> runs two of them concurrently:
  their interleavings are the step relation of the theory Server_Run.
\<close>

section \<open>Players\<close>

record 'sid Player =
  pl_SteamID :: 'sid
  pl_Name :: string
  pl_Ping :: int
  pl_Loss :: int
  pl_Address :: string
  pl_Time :: int
  pl_Score :: int
  pl_Deaths :: int
  pl_Connected :: bool
  pl_Team :: Team
  pl_Alive :: bool
  pl_Health :: int
  pl_Valid :: bool
  pl_UserID :: int
  pl_BDMatches :: "'sid Match list"
  pl_Meta :: MetaProfile
  pl_MetaUpdatedOn :: time
  pl_G15UpdatedOn :: time

text \<open>\<open>Player{SteamID: sid, Meta: tfapi.MetaProfile{Bans: []tfapi.Ban{}}}\<close>\<close>

definition new_Player :: "'sid \<Rightarrow> 'sid Player" where
  "new_Player sid = \<lparr>pl_SteamID = sid, pl_Name = [], pl_Ping = 0, pl_Loss = 0, pl_Address = [], pl_Time = 0,
     pl_Score = 0, pl_Deaths = 0, pl_Connected = False, pl_Team = 0, pl_Alive = False, pl_Health = 0,
     pl_Valid = False, pl_UserID = 0, pl_BDMatches = [], pl_Meta = zero_MetaProfile,
     pl_MetaUpdatedOn = zero_time, pl_G15UpdatedOn = zero_time\<rparr>"

text \<open>The constants of manager.go, in nanoseconds.\<close>

definition playerTimeout :: int where "playerTimeout = 30 * 1000000000"
definition checkInterval :: int where "checkInterval = 2 * 1000000000"
definition removeInterval :: int where "removeInterval = 1000000000"

section \<open>The state\<close>

record ('sid, 'f) serverState =
  sv_players :: "'sid Player list"
  sv_server :: ServerConfig
  sv_remote :: bool
  sv_externalAddress :: string
  sv_blackbox :: "'sid blackBox"
  sv_incomingEvents :: nat
  sv_dumpFetcher :: "('sid, 'f) Fetcher"
  sv_status :: "('sid, 'f) Status"
  sv_countryCode :: string
  sv_address :: string
  sv_eventCount :: int
  sv_cvars :: CVarList
  sv_pluginsSM :: "GamePlugin list"
  sv_pluginsMeta :: "GamePlugin list"

record ('sid, 'f) Snapshot =
  sn_HostPort :: string
  sn_Players :: "'sid Player list"
  sn_Status :: "('sid, 'f) Status"
  sn_Region :: string
  sn_PluginsSM :: "GamePlugin list"
  sn_PluginsMeta :: "GamePlugin list"
  sn_CVars :: CVarList
  sn_createdOn :: time

text \<open>\<open>newServerState\<close> registers two channels for all events of the server, the black box's and its own.\<close>

definition newServerState ::
  "'sid steamid_pkg \<Rightarrow> 'f \<Rightarrow> 'sid Config \<Rightarrow> ServerConfig \<Rightarrow> nat \<Rightarrow> nat \<Rightarrow> Router \<Rightarrow>
     ('sid, 'f) serverState \<times> Router" where
  "newServerState L z conf server allEvent serverEvents router =
     (let router = ListenFor (sc_Address server) allEvent [EvAny] router;
          router = ListenFor (sc_Address server) serverEvents [EvAny] router
      in (\<lparr>sv_players = [], sv_server = server, sv_remote = cf_ServerModeEnabled conf,
           sv_externalAddress = cf_ServerLogAddress conf, sv_blackbox = newBlackBox,
           sv_incomingEvents = serverEvents,
           sv_dumpFetcher = NewFetcher L z (sc_Address server) (sc_Password server) (cf_ServerModeEnabled conf),
           sv_status = zero_Status z, sv_countryCode = [], sv_address = [], sv_eventCount = 0,
           sv_cvars = [], sv_pluginsSM = [], sv_pluginsMeta = []\<rparr>, router))"

section \<open>Reading and writing players\<close>

definition find_player :: "'sid steamid_pkg \<Rightarrow> 'sid \<Rightarrow> 'sid Player list \<Rightarrow> 'sid Player option" where
  "find_player L steamID players = first_such (\<lambda>p. sid_Equal L steamID (pl_SteamID p)) players"

definition sv_player :: "'sid steamid_pkg \<Rightarrow> ('sid, 'f) serverState \<Rightarrow> 'sid \<Rightarrow> 'sid Player result" where
  "sv_player L s steamID =
     (case find_player L steamID (sv_players s) of None \<Rightarrow> Inl [ErrPlayerNotFound] | Some p \<Rightarrow> Inr p)"

text \<open>The loops of \<open>setPlayer\<close>. The flag \<open>existing\<close> is declared outside the loop over the updates and never
  reset.\<close>

fun set_loop :: "'sid steamid_pkg \<Rightarrow> 'sid Player list \<Rightarrow> bool \<Rightarrow> 'sid Player list \<Rightarrow> 'sid Player list" where
  "set_loop L [] existing players = players"
| "set_loop L (player # updates) existing players =
     (let matches = (\<lambda>p. sid_Equal L (pl_SteamID p) (pl_SteamID player));
          existing = (existing \<or> list_ex matches players);
          players = map (\<lambda>p. if matches p then player else p) players
      in set_loop L updates existing (if \<not> existing then players @ [player] else players))"

definition setPlayer ::
  "'sid steamid_pkg \<Rightarrow> 'sid Player list \<Rightarrow> ('sid, 'f) serverState \<Rightarrow> ('sid, 'f) serverState" where
  "setPlayer L updates s = s\<lparr>sv_players := set_loop L updates False (sv_players s)\<rparr>"

definition sv_Snapshot :: "time \<Rightarrow> ('sid, 'f) serverState \<Rightarrow> ('sid, 'f) Snapshot" where
  "sv_Snapshot now s =
     \<lparr>sn_HostPort = sc_Address (sv_server s), sn_Players = sv_players s, sn_Status = sv_status s,
      sn_Region = sv_countryCode s, sn_PluginsSM = sv_pluginsSM s, sn_PluginsMeta = sv_pluginsMeta s,
      sn_CVars = sv_cvars s, sn_createdOn = now\<rparr>"

definition sv_Stats :: "('sid, 'f) serverState \<Rightarrow> 'f Stats" where
  "sv_Stats s = ss_Stats (sv_status s)"

definition UpdateStatus :: "('sid, 'f) Status \<Rightarrow> ('sid, 'f) serverState \<Rightarrow> ('sid, 'f) serverState" where
  "UpdateStatus status s = s\<lparr>sv_status := status\<rparr>"

definition removeExpired :: "time \<Rightarrow> ('sid, 'f) serverState \<Rightarrow> ('sid, 'f) serverState" where
  "removeExpired now s =
     s\<lparr>sv_players := filter (\<lambda>p. \<not> time_Since now (pl_G15UpdatedOn p) > playerTimeout) (sv_players s)\<rparr>"

section \<open>Events\<close>

definition onAddress :: "string \<Rightarrow> ('sid, 'f) serverState \<Rightarrow> ('sid, 'f) serverState" where
  "onAddress address s = s\<lparr>sv_address := address\<rparr>"

definition onStatusID ::
  "'sid steamid_pkg \<Rightarrow> 'sid StatusIDEvent \<Rightarrow> ('sid, 'f) serverState \<Rightarrow> ('sid, 'f) serverState" where
  "onStatusID L data s =
     (case sv_player L s (si_PlayerSID data) of
        Inl e \<Rightarrow>
          if \<not> errors_Is e ErrPlayerNotFound then s
          else setPlayer L [(new_Player (si_PlayerSID data))\<lparr>pl_Name := si_Player data\<rparr>] s
      | Inr player \<Rightarrow> setPlayer L [player\<lparr>pl_Name := si_Player data\<rparr>] s)"

text \<open>The counter is an \<open>atomic.Int64\<close> and wraps.\<close>

definition onIncomingEvent ::
  "'sid steamid_pkg \<Rightarrow> 'sid Event \<Rightarrow> ('sid, 'f) serverState \<Rightarrow> ('sid, 'f) serverState" where
  "onIncomingEvent L event s =
     (case ev_Data event of
        AddressEvent a \<Rightarrow> onAddress (Addr_String a) s
      | RawEvent _ \<Rightarrow> s\<lparr>sv_eventCount := int_of_uint64 (sv_eventCount s + 1)\<rparr>
      | StatusIDData data \<Rightarrow> onStatusID L data s
      | _ \<Rightarrow> s)"

section \<open>The player dump\<close>

text \<open>The fields copied from index \<open>idx\<close> of a dump.\<close>

definition apply_dump :: "'sid DumpPlayer \<Rightarrow> nat \<Rightarrow> time \<Rightarrow> 'sid Player \<Rightarrow> 'sid Player" where
  "apply_dump stats idx now player =
     player\<lparr>pl_Valid := dp_Valid stats ! idx, pl_Health := dp_Health stats ! idx,
            pl_Alive := dp_Alive stats ! idx, pl_Deaths := dp_Deaths stats ! idx,
            pl_Ping := dp_Ping stats ! idx, pl_Score := dp_Score stats ! idx,
            pl_Connected := dp_Connected stats ! idx, pl_Name := dp_Names stats ! idx,
            pl_Loss := dp_Loss stats ! idx, pl_Address := dp_Address stats ! idx,
            pl_Time := dp_Time stats ! idx, pl_Team := dp_Team stats ! idx,
            pl_UserID := dp_UserID stats ! idx, pl_G15UpdatedOn := now\<rparr>"

text \<open>One turn of the loop of \<open>UpdateDumpPlayer\<close>: the player for index \<open>idx\<close>, \<open>None\<close> where the loop goes on.
  The clock gives the time at each index.\<close>

definition dump_index ::
  "'sid steamid_pkg \<Rightarrow> (nat \<Rightarrow> time) \<Rightarrow> 'sid DumpPlayer \<Rightarrow> nat \<Rightarrow> 'sid Player list \<Rightarrow> 'sid Player option" where
  "dump_index L clock stats idx players =
     (let sid = dp_SteamID stats ! idx
      in if \<not> sid_Valid L sid then None
         else Some (apply_dump stats idx (clock idx)
                (case find_player L sid players of None \<Rightarrow> new_Player sid | Some p \<Rightarrow> p)))"

definition UpdateDumpPlayer ::
  "'sid steamid_pkg \<Rightarrow> (nat \<Rightarrow> time) \<Rightarrow> 'sid DumpPlayer \<Rightarrow> ('sid, 'f) serverState \<Rightarrow> ('sid, 'f) serverState" where
  "UpdateDumpPlayer L clock stats s =
     setPlayer L
       (List.map_filter (\<lambda>idx. dump_index L clock stats idx (sv_players s)) [0..<MaxPlayerCount]) s"

definition updateDump ::
  "'sid steamid_pkg \<Rightarrow> ('sid, 'f) fetch_lib \<Rightarrow> ('c, 'w) rcon_lib \<Rightarrow> string \<Rightarrow> (nat \<Rightarrow> time) \<Rightarrow>
     ('sid, 'f) serverState \<Rightarrow> 'w \<Rightarrow> (('sid, 'f) serverState outcome \<times> 'w) option" where
  "updateDump L F R debug clock s w =
     Fetch L F R debug (sv_dumpFetcher s) w \<bind>
     (\<lambda>(res, w). Some (outcome_bind res (\<lambda>(dump, status, errDump).
        Ok (UpdateDumpPlayer L clock dump (UpdateStatus status s))), w))"

section \<open>Bot lists and profiles\<close>

definition updateBD ::
  "'sid steamid_pkg \<Rightarrow> 'sid bd_Fetcher \<Rightarrow> ('sid, 'f) serverState \<Rightarrow> ('sid, 'f) serverState" where
  "updateBD L bdFetcher s =
     setPlayer L
       (map (\<lambda>player. player\<lparr>pl_BDMatches := Search L bdFetcher (pl_SteamID player)\<rparr>)
          (sn_Players (sv_Snapshot 0 s))) s"

text \<open>\<open>UpdateMetaProfile\<close>: an unknown player ends it without any update.\<close>

fun meta_players ::
  "'sid steamid_pkg \<Rightarrow> ('sid, 'f) serverState \<Rightarrow> MetaProfile list \<Rightarrow> 'sid Player list option" where
  "meta_players L s [] = Some []"
| "meta_players L s (meta # metas) =
     (case sv_player L s (sid_New_string L (mp_SteamId meta)) of
        Inl _ \<Rightarrow> None
      | Inr player \<Rightarrow> map_option (\<lambda>ps. player\<lparr>pl_Meta := meta\<rparr> # ps) (meta_players L s metas))"

definition UpdateMetaProfile ::
  "'sid steamid_pkg \<Rightarrow> MetaProfile list \<Rightarrow> ('sid, 'f) serverState \<Rightarrow> ('sid, 'f) serverState" where
  "UpdateMetaProfile L metaProfiles s =
     (case meta_players L s metaProfiles of None \<Rightarrow> s | Some players \<Rightarrow> setPlayer L players s)"

section \<open>Starting and stopping\<close>

definition sv_conn :: "('sid, 'f) serverState \<Rightarrow> Connection" where
  "sv_conn s = New (sc_Address (sv_server s)) (sc_Password (sv_server s))"

definition registerAddress ::
  "('c, 'w) rcon_lib \<Rightarrow> ('sid, 'f) serverState \<Rightarrow> 'w \<Rightarrow> (go_error option \<times> 'w) option" where
  "registerAddress R s w =
     Exec R (sv_conn s) (''logaddress_add '' @ sv_externalAddress s) False w \<bind>
     (\<lambda>(res, w). case res of
        Inl e \<Rightarrow> Some (Some (errors_Join e [ErrRegistration]), w)
      | Inr _ \<Rightarrow>
          Exec R (sv_conn s) ''logaddress_list'' False w \<bind>
          (\<lambda>(res, w). case res of
             Inl e \<Rightarrow> Some (Some (errors_Join e [ErrRegistration]), w)
           | Inr resp \<Rightarrow>
               Some (if \<not> Contains resp (sv_externalAddress s) then Some [ErrRegistration] else None, w)))"

definition unregisterAddress ::
  "('c, 'w) rcon_lib \<Rightarrow> ('sid, 'f) serverState \<Rightarrow> 'w \<Rightarrow> (go_error option \<times> 'w) option" where
  "unregisterAddress R s w =
     Exec R (sv_conn s) (''logaddress_del '' @ sv_externalAddress s) False w \<bind>
     (\<lambda>(res, w). Some (case res of Inl e \<Rightarrow> Some (errors_Join e [ErrUnregistration]) | Inr _ \<Rightarrow> None, w))"

definition sv_close ::
  "('c, 'w) rcon_lib \<Rightarrow> ('sid, 'f) serverState \<Rightarrow> 'w \<Rightarrow> (go_error option \<times> 'w) option" where
  "sv_close R s w = unregisterAddress R s w"

definition fetchCVarList ::
  "('c, 'w) rcon_lib \<Rightarrow> ('sid, 'f) serverState \<Rightarrow> 'w \<Rightarrow> (('sid, 'f) serverState \<times> 'w) option" where
  "fetchCVarList R s w =
     Exec R (sv_conn s) ''cvarlist'' True w \<bind>
     (\<lambda>(res, w). Some (case res of Inl _ \<Rightarrow> s | Inr cvarData \<Rightarrow> s\<lparr>sv_cvars := ParseCVars cvarData\<rparr>, w))"

definition fetchSMPluginsList ::
  "('c, 'w) rcon_lib \<Rightarrow> ('sid, 'f) serverState \<Rightarrow> 'w \<Rightarrow> (('sid, 'f) serverState \<times> 'w) option" where
  "fetchSMPluginsList R s w =
     Exec R (sv_conn s) ''sm plugins list'' True w \<bind>
     (\<lambda>(res, w). Some (case res of Inl _ \<Rightarrow> s | Inr body \<Rightarrow> s\<lparr>sv_pluginsSM := ParseGamePlugins body False\<rparr>, w))"

definition fetchMetaPluginsList ::
  "('c, 'w) rcon_lib \<Rightarrow> ('sid, 'f) serverState \<Rightarrow> 'w \<Rightarrow> (('sid, 'f) serverState \<times> 'w) option" where
  "fetchMetaPluginsList R s w =
     Exec R (sv_conn s) ''meta list'' True w \<bind>
     (\<lambda>(res, w). Some (case res of Inl _ \<Rightarrow> s | Inr body \<Rightarrow> s\<lparr>sv_pluginsMeta := ParseGamePlugins body False\<rparr>, w))"

text \<open>\<open>geoip.Lookup\<close> gives the ISO code of a host's country or an error; it and \<open>strings.ToLower\<close> are
  arguments.\<close>

definition resolveCountry ::
  "(string \<Rightarrow> string) \<Rightarrow> (string \<Rightarrow> string result) \<Rightarrow> ('sid, 'f) serverState \<Rightarrow> ('sid, 'f) serverState" where
  "resolveCountry ToLower Lookup s =
     (case Lookup (hd (Split (CHR '':'') (sc_Address (sv_server s)))) of
        Inl _ \<Rightarrow> s | Inr isoCode \<Rightarrow> s\<lparr>sv_countryCode := ToLower isoCode\<rparr>)"

definition onStart ::
  "('c, 'w) rcon_lib \<Rightarrow> (string \<Rightarrow> string) \<Rightarrow> (string \<Rightarrow> string result) \<Rightarrow> ('sid, 'f) serverState \<Rightarrow> 'w \<Rightarrow>
     (('sid, 'f) serverState \<times> 'w) option" where
  "onStart R ToLower Lookup s w =
     registerAddress R s w \<bind> (\<lambda>(_, w).
     fetchCVarList R s w \<bind> (\<lambda>(s, w).
     fetchSMPluginsList R s w \<bind> (\<lambda>(s, w).
     fetchMetaPluginsList R s w \<bind> (\<lambda>(s, w).
     Some (resolveCountry ToLower Lookup s, w)))))"

declare set_loop.simps(2) [simp del]

section \<open>The list of players as a table\<close>

definition same_id :: "'sid steamid_pkg \<Rightarrow> 'sid Player \<Rightarrow> 'sid Player \<Rightarrow> bool" where
  "same_id L p q \<longleftrightarrow> sid_Equal L (pl_SteamID p) (pl_SteamID q)"

definition ids_distinct :: "'sid steamid_pkg \<Rightarrow> 'sid Player list \<Rightarrow> bool" where
  "ids_distinct L ps \<longleftrightarrow> sorted_wrt (\<lambda>p q. \<not> same_id L p q) ps"

definition known :: "'sid steamid_pkg \<Rightarrow> 'sid Player list \<Rightarrow> 'sid Player \<Rightarrow> bool" where
  "known L ps u \<longleftrightarrow> list_ex (\<lambda>p. same_id L p u) ps"

definition replace :: "'sid steamid_pkg \<Rightarrow> 'sid Player \<Rightarrow> 'sid Player list \<Rightarrow> 'sid Player list" where
  "replace L u ps = map (\<lambda>p. if same_id L p u then u else p) ps"

definition upsert :: "'sid steamid_pkg \<Rightarrow> 'sid Player \<Rightarrow> 'sid Player list \<Rightarrow> 'sid Player list" where
  "upsert L u ps = (if known L ps u then replace L u ps else ps @ [u])"

lemma replace_unknown: "\<not> known L ps u \<Longrightarrow> replace L u ps = ps"
  by (auto simp: known_def replace_def list_ex_iff intro: map_idI)

lemma set_loop_step:
  "set_loop L (u # us) ex ps =
     set_loop L us (ex \<or> known L ps u) (if ex \<or> known L ps u then replace L u ps else ps @ [u])"
  using replace_unknown [of L ps u] by (auto simp: set_loop.simps(2) Let_def known_def replace_def same_id_def)

lemma set_loop_True: "set_loop L us True ps = fold (replace L) us ps"
  by (induction us arbitrary: ps) (simp_all add: set_loop_step)

lemma set_loop_single: "set_loop L [u] False ps = upsert L u ps"
  by (simp add: set_loop_step upsert_def)

lemma known_append: "known L (ps @ qs) u \<longleftrightarrow> known L ps u \<or> known L qs u"
  by (simp add: known_def)

text \<open>A batch of different players: those before the first known one are appended, from there on only
  known players are replaced.\<close>

lemma set_loop_split:
  assumes "ids_distinct L us"
  shows "set_loop L us False ps =
     fold (replace L) (dropWhile (\<lambda>u. \<not> known L ps u) us) (ps @ takeWhile (\<lambda>u. \<not> known L ps u) us)"
  using assms
proof (induction us arbitrary: ps)
  case (Cons u us)
  have d: "ids_distinct L us" "\<forall>v \<in> set us. \<not> same_id L u v" using Cons.prems by (auto simp: ids_distinct_def)
  have k: "known L (ps @ [u]) v = known L ps v" if "v \<in> set us" for v
    using d(2) that by (simp add: known_append) (simp add: known_def)
  have w: "takeWhile (\<lambda>v. \<not> known L (ps @ [u]) v) us = takeWhile (\<lambda>v. \<not> known L ps v) us"
    "dropWhile (\<lambda>v. \<not> known L (ps @ [u]) v) us = dropWhile (\<lambda>v. \<not> known L ps v) us"
    using k by (auto intro: takeWhile_cong dropWhile_cong)
  show ?case
    using Cons.IH [OF d(1), of "ps @ [u]"]
    by (cases "known L ps u") (simp_all add: set_loop_step set_loop_True w)
qed simp

lemma same_id_refl: "steamid_laws L \<Longrightarrow> same_id L p p"
  by (simp add: same_id_def sid_Equal_refl)

lemma same_id_sym: "steamid_laws L \<Longrightarrow> same_id L p q = same_id L q p"
  by (simp add: same_id_def sid_Equal_commute)

lemma same_id_replaced:
  assumes "steamid_laws L"
  shows "same_id L (if same_id L p u then u else p) q = same_id L p q"
  using assms by (auto simp: same_id_def dest: sid_Equal_trans sid_Equal_sym)

lemma known_replace: "steamid_laws L \<Longrightarrow> known L (replace L u ps) q = known L ps q"
  by (induction ps) (simp_all add: known_def replace_def same_id_replaced)

lemma known_fold_replace: "steamid_laws L \<Longrightarrow> known L (fold (replace L) us ps) q = known L ps q"
  by (induction us arbitrary: ps) (simp_all add: known_replace)

lemma replace_distinct:
  assumes "steamid_laws L" "ids_distinct L ps"
  shows "ids_distinct L (replace L u ps)"
  using assms(2) unfolding ids_distinct_def replace_def sorted_wrt_map
  by (rule sorted_wrt_mono_rel [rotated]) (metis assms(1) same_id_replaced same_id_sym)

lemma set_loop_distinct:
  assumes "steamid_laws L" "ids_distinct L ps"
  shows "ids_distinct L (set_loop L us ex ps)"
  using assms(2)
proof (induction us arbitrary: ex ps)
  case (Cons u us)
  have "ids_distinct L (ps @ [u])" if "\<not> known L ps u"
    using that Cons.prems by (auto simp: ids_distinct_def sorted_wrt_append known_def list_ex_iff)
  with Cons replace_distinct [OF assms(1) Cons.prems] show ?case
    by (simp add: set_loop_step)
qed simp

lemma find_player_None: "steamid_laws L \<Longrightarrow> find_player L (pl_SteamID u) ps = None \<longleftrightarrow> \<not> known L ps u"
  by (auto simp: find_player_def first_such_None_iff known_def list_ex_iff same_id_def sid_Equal_commute)

lemma find_replace:
  assumes "steamid_laws L"
  shows "find_player L sid (replace L u ps) =
    (if sid_Equal L sid (pl_SteamID u) then (if known L ps u then Some u else None) else find_player L sid ps)"
proof (induction ps)
  case (Cons p ps)
  have "sid_Equal L sid (pl_SteamID p) = sid_Equal L sid (pl_SteamID u)" if "sid_Equal L (pl_SteamID p) (pl_SteamID u)"
    using that assms by (meson sid_Equal_sym sid_Equal_trans)
  moreover have "sid_Equal L sid (pl_SteamID p) \<Longrightarrow> sid_Equal L sid (pl_SteamID u) \<Longrightarrow> sid_Equal L (pl_SteamID p) (pl_SteamID u)"
    using assms by (meson sid_Equal_sym sid_Equal_trans)
  ultimately show ?case
    using Cons by (auto simp: find_player_def replace_def known_def same_id_def)
qed (simp add: find_player_def replace_def known_def)

lemma find_append:
  "find_player L sid (ps @ qs) = (case find_player L sid ps of None \<Rightarrow> find_player L sid qs | Some p \<Rightarrow> Some p)"
  by (cases "find_player L sid ps") (simp_all add: find_player_def first_such_append)

lemma find_upsert:
  assumes "steamid_laws L"
  shows "find_player L sid (upsert L u ps) =
    (if sid_Equal L sid (pl_SteamID u) then Some u else find_player L sid ps)"
proof (cases "known L ps u")
  case True
  then show ?thesis by (simp add: upsert_def find_replace [OF assms])
next
  case False
  then have "find_player L sid ps = None" if "sid_Equal L sid (pl_SteamID u)"
    using that assms by (auto simp: find_player_def first_such_None_iff known_def list_ex_iff same_id_def
        dest: sid_Equal_sym sid_Equal_trans)
  with False show ?thesis
    by (auto simp: upsert_def find_append) (auto simp: find_player_def split: option.splits)
qed

lemma find_known:
  assumes "steamid_laws L" "known L ps v" "sid_Equal L sid (pl_SteamID v)"
  shows "find_player L sid ps \<noteq> None"
proof -
  obtain p where "p \<in> set ps" "sid_Equal L (pl_SteamID p) (pl_SteamID v)"
    using assms(2) by (auto simp: known_def list_ex_iff same_id_def)
  with assms(1,3) have "sid_Equal L sid (pl_SteamID p)" by (meson sid_Equal_sym sid_Equal_trans)
  with \<open>p \<in> set ps\<close> show ?thesis by (auto simp: find_player_def first_such_None_iff)
qed

lemma find_None_replaces:
  assumes "steamid_laws L"
  shows "find_player L sid ps = None \<Longrightarrow> find_player L sid (fold (replace L) vs ps) = None"
proof (induction vs arbitrary: ps)
  case (Cons v vs)
  have "find_player L sid (replace L v ps) = None"
    using Cons.prems find_known [OF assms, of ps v sid] by (auto simp: find_replace [OF assms])
  then show ?case using Cons.IH by simp
qed simp

text \<open>The contract of a table of players: a lookup returns what was put last for an equal id.\<close>

locale player_table =
  fixes lookup :: "'k \<Rightarrow> 's \<Rightarrow> 'p option"
    and put :: "'p \<Rightarrow> 's \<Rightarrow> 's"
    and key :: "'p \<Rightarrow> 'k"
    and eq :: "'k \<Rightarrow> 'k \<Rightarrow> bool"
  assumes lookup_put: "equivp eq \<Longrightarrow> lookup k (put p s) = (if eq k (key p) then Some p else lookup k s)"
begin

lemma lookup_puts:
  assumes "equivp eq"
  shows "lookup k (fold put ps s) =
    (case first_such (\<lambda>p. eq k (key p)) (rev ps) of None \<Rightarrow> lookup k s | Some p \<Rightarrow> Some p)"
  by (induction ps rule: rev_induct) (auto simp: lookup_put [OF assms])

lemma lookup_put_same: "equivp eq \<Longrightarrow> lookup (key p) (put p s) = Some p"
  by (simp add: lookup_put equivp_reflp)

lemma put_absorb: "equivp eq \<Longrightarrow> eq (key p) (key q) \<Longrightarrow> lookup k (put q (put p s)) = lookup k (put q s)"
  using equivp_transp [of eq k "key p" "key q"] by (auto simp: lookup_put)

end

interpretation players: player_table "find_player L" "upsert L" pl_SteamID "sid_Equal L" for L :: "'sid steamid_pkg"
  by unfold_locales (simp add: find_upsert steamid_laws_def)

section \<open>Properties of the operations\<close>

lemma setPlayer_single: "setPlayer L [u] s = s\<lparr>sv_players := upsert L u (sv_players s)\<rparr>"
  unfolding setPlayer_def set_loop_single ..

text \<open>A batch of updates to different players is applied like this: the players before the first known
  one are appended, and after that only known players are replaced.\<close>

theorem setPlayer_batch:
  assumes "ids_distinct L us"
  shows "sv_players (setPlayer L us s) =
     fold (replace L) (dropWhile (\<lambda>u. \<not> known L (sv_players s) u) us)
       (sv_players s @ takeWhile (\<lambda>u. \<not> known L (sv_players s) u) us)"
  using set_loop_split [OF assms] by (simp add: setPlayer_def)

theorem setPlayer_batch_witness:
  "map pl_SteamID (sv_players (setPlayer num_sid [new_Player 3, new_Player 1, new_Player 4]
     ((fst (newServerState num_sid () (zero_Config num_sid) zero_ServerConfig 0 1 NewRouter))\<lparr>sv_players := [new_Player 1, new_Player 2]\<rparr>)))
   = [1, 2, 3]"
proof -
  have d: "ids_distinct num_sid [new_Player 3, new_Player 1, new_Player 4]"
    by (simp add: ids_distinct_def same_id_def new_Player_def num_sid_def)
  show ?thesis
    unfolding setPlayer_batch [OF d]
    by (simp add: known_def same_id_def replace_def num_sid_def new_Player_def)
qed

text \<open>C40: a batch whose first player is known adds nobody: a player that was not known before is not known
  after, although the batch may contain it.\<close>

theorem setPlayer_drops_new:
  assumes "steamid_laws L" "known L (sv_players s) u" "find_player L sid (sv_players s) = None"
  shows "find_player L sid (sv_players (setPlayer L (u # us) s)) = None"
proof -
  have "set_loop L (u # us) False (sv_players s) = fold (replace L) (u # us) (sv_players s)"
    using assms(2) by (simp add: set_loop_step set_loop_True)
  with find_None_replaces [OF assms(1,3), of "u # us"] show ?thesis by (simp only: setPlayer_def) simp
qed

theorem setPlayer_drops_new_witness:
  "find_player num_sid 2 (sv_players (setPlayer num_sid [new_Player 1, new_Player 2]
     ((fst (newServerState num_sid () (zero_Config num_sid) zero_ServerConfig 0 1 NewRouter))\<lparr>sv_players := [new_Player 1]\<rparr>))) = None"
  by (rule setPlayer_drops_new [OF num_sid_laws])
    (simp_all add: known_def same_id_def find_player_def new_Player_def num_sid_def)

text \<open>Every operation of a server keeps the steam ids of its players pairwise different.\<close>

lemma ids_distinct_filter: "ids_distinct L ps \<Longrightarrow> ids_distinct L (filter P ps)"
  by (simp add: ids_distinct_def sorted_wrt_filter)

lemma setPlayer_distinct:
  "steamid_laws L \<Longrightarrow> ids_distinct L (sv_players s) \<Longrightarrow> ids_distinct L (sv_players (setPlayer L us s))"
  by (simp add: setPlayer_def set_loop_distinct)

lemma onIncomingEvent_distinct:
  "steamid_laws L \<Longrightarrow> ids_distinct L (sv_players s) \<Longrightarrow> ids_distinct L (sv_players (onIncomingEvent L e s))"
  by (auto simp: onIncomingEvent_def onAddress_def onStatusID_def setPlayer_distinct
      split: EventData.splits sum.splits)

lemma UpdateDumpPlayer_distinct:
  "steamid_laws L \<Longrightarrow> ids_distinct L (sv_players s) \<Longrightarrow> ids_distinct L (sv_players (UpdateDumpPlayer L clock d s))"
  by (simp add: UpdateDumpPlayer_def setPlayer_distinct)

lemma removeExpired_distinct:
  "ids_distinct L (sv_players s) \<Longrightarrow> ids_distinct L (sv_players (removeExpired now s))"
  by (simp add: removeExpired_def ids_distinct_filter)

section \<open>Dumps\<close>

lemma dump_index_id: "dump_index L clock d i ps = Some p \<Longrightarrow> steamid_laws L \<Longrightarrow> 
    sid_Equal L (dp_SteamID d ! i) (pl_SteamID p) \<and> sid_Valid L (dp_SteamID d ! i)"
  by (auto simp: dump_index_def Let_def apply_dump_def new_Player_def find_player_def sid_Equal_refl
      split: if_splits option.splits dest!: first_such_SomeD)

text \<open>The steam ids of the players in a dump are pairwise different.\<close>

definition dump_distinct :: "'sid steamid_pkg \<Rightarrow> 'sid DumpPlayer \<Rightarrow> bool" where
  "dump_distinct L d \<longleftrightarrow>
     sorted_wrt (\<lambda>i j. sid_Valid L (dp_SteamID d ! i) \<longrightarrow> sid_Valid L (dp_SteamID d ! j) \<longrightarrow>
        \<not> sid_Equal L (dp_SteamID d ! i) (dp_SteamID d ! j)) [0..<MaxPlayerCount]"

lemma sorted_wrt_map_filter:
  assumes "\<And>x y a b. R x y \<Longrightarrow> f x = Some a \<Longrightarrow> f y = Some b \<Longrightarrow> S a b"
  shows "sorted_wrt R xs \<Longrightarrow> sorted_wrt S (List.map_filter f xs)"
proof (induction xs)
  case (Cons x xs)
  have "y \<in> set (List.map_filter f xs) \<Longrightarrow> \<exists>z \<in> set xs. f z = Some y" for y
    by (auto simp: List.map_filter_def)
  with Cons assms show ?case by (cases "f x") (fastforce simp: map_filter_simps)+
qed (simp add: map_filter_simps)

lemma dump_updates_distinct:
  assumes "steamid_laws L" "dump_distinct L d"
  shows "ids_distinct L (List.map_filter (\<lambda>i. dump_index L clock d i ps) [0..<MaxPlayerCount])"
  using assms(2) unfolding ids_distinct_def dump_distinct_def
proof (rule sorted_wrt_map_filter [rotated])
  fix i j p q
  assume r: "sid_Valid L (dp_SteamID d ! i) \<longrightarrow> sid_Valid L (dp_SteamID d ! j) \<longrightarrow>
        \<not> sid_Equal L (dp_SteamID d ! i) (dp_SteamID d ! j)"
    and "dump_index L clock d i ps = Some p" "dump_index L clock d j ps = Some q"
  then have "sid_Equal L (dp_SteamID d ! i) (pl_SteamID p)" "sid_Equal L (dp_SteamID d ! j) (pl_SteamID q)"
    "sid_Valid L (dp_SteamID d ! i)" "sid_Valid L (dp_SteamID d ! j)"
    using dump_index_id assms(1) by blast+
  with r show "\<not> same_id L p q" unfolding same_id_def by (meson assms(1) sid_Equal_sym sid_Equal_trans)
qed

lemma find_replaces_distinct:
  assumes "steamid_laws L" "ids_distinct L us" "u \<in> set us" "known L ps u" "sid_Equal L sid (pl_SteamID u)"
  shows "find_player L sid (fold (replace L) us ps) = Some u"
  using assms(2-4)
proof (induction us arbitrary: ps)
  case (Cons v us)
  have keep: "find_player L sid (fold (replace L) ws qs) = find_player L sid qs"
    if "\<forall>x \<in> set ws. \<not> same_id L u x" for ws qs
    using that
  proof (induction ws arbitrary: qs)
    case (Cons x ws)
    then have "\<not> sid_Equal L sid (pl_SteamID x)"
      using assms(1,5) unfolding same_id_def by (meson list.set_intros(1) sid_Equal_sym sid_Equal_trans)
    with Cons show ?case by (simp add: find_replace [OF assms(1)])
  qed simp
  show ?case
  proof (cases "u = v")
    case True
    then have "\<forall>x \<in> set us. \<not> same_id L u x" using Cons.prems(1) by (auto simp: ids_distinct_def)
    with True Cons.prems(3) assms(5) show ?thesis by (simp add: keep find_replace [OF assms(1)])
  next
    case False
    then show ?thesis using Cons by (simp add: ids_distinct_def known_replace [OF assms(1)])
  qed
qed simp

lemma dump_all_known:
  assumes "steamid_laws L"
    and "\<forall>j < MaxPlayerCount. sid_Valid L (dp_SteamID d ! j) \<longrightarrow> find_player L (dp_SteamID d ! j) ps \<noteq> None"
    and "v \<in> set (List.map_filter (\<lambda>i. dump_index L clock d i ps) [0..<MaxPlayerCount])"
  shows "known L ps v"
proof -
  obtain j where j: "j < MaxPlayerCount" "dump_index L clock d j ps = Some v"
    using assms(3) by (auto simp: List.map_filter_def)
  from dump_index_id [OF j(2) assms(1)] assms(2) j(1) obtain q where
    q: "find_player L (dp_SteamID d ! j) ps = Some q" "sid_Equal L (dp_SteamID d ! j) (pl_SteamID v)" by auto
  from first_such_SomeD [OF q(1) [unfolded find_player_def]] q(2) assms(1) show ?thesis
    unfolding known_def list_ex_iff same_id_def by (meson sid_Equal_trans sid_Equal_sym)
qed

text \<open>A dump of known players only replaces players.\<close>

lemma UpdateDumpPlayer_replaces:
  assumes "steamid_laws L" "dump_distinct L d"
    and "\<forall>j < MaxPlayerCount. sid_Valid L (dp_SteamID d ! j) \<longrightarrow> find_player L (dp_SteamID d ! j) (sv_players s) \<noteq> None"
  shows "sv_players (UpdateDumpPlayer L clock d s) =
     fold (replace L) (List.map_filter (\<lambda>i. dump_index L clock d i (sv_players s)) [0..<MaxPlayerCount]) (sv_players s)"
proof -
  let ?us = "List.map_filter (\<lambda>i. dump_index L clock d i (sv_players s)) [0..<MaxPlayerCount]"
  have "takeWhile (\<lambda>u. \<not> known L (sv_players s) u) ?us = []" "dropWhile (\<lambda>u. \<not> known L (sv_players s) u) ?us = ?us"
    using dump_all_known [OF assms(1,3), of _ clock] by (cases ?us; simp)+
  then show ?thesis
    by (simp add: UpdateDumpPlayer_def setPlayer_def set_loop_split [OF dump_updates_distinct [OF assms(1,2)]])
qed

lemma UpdateDumpPlayer_find:
  assumes "steamid_laws L" "dump_distinct L d" "i < MaxPlayerCount" "sid_Valid L (dp_SteamID d ! i)"
    and "\<forall>j < MaxPlayerCount. sid_Valid L (dp_SteamID d ! j) \<longrightarrow> find_player L (dp_SteamID d ! j) (sv_players s) \<noteq> None"
    and "find_player L (dp_SteamID d ! i) (sv_players s) = Some p"
  shows "find_player L (dp_SteamID d ! i) (sv_players (UpdateDumpPlayer L clock d s)) =
     Some (apply_dump d i (clock i) p)"
proof -
  let ?us = "List.map_filter (\<lambda>i. dump_index L clock d i (sv_players s)) [0..<MaxPlayerCount]"
  let ?u = "apply_dump d i (clock i) p"
  have u: "dump_index L clock d i (sv_players s) = Some ?u" using assms(4,6) by (simp add: dump_index_def Let_def)
  have in_us: "?u \<in> set ?us" using assms(3) u by (force simp: List.map_filter_def)
  have "sid_Equal L (dp_SteamID d ! i) (pl_SteamID ?u)" using dump_index_id [OF u assms(1)] by simp
  with find_replaces_distinct [OF assms(1) dump_updates_distinct [OF assms(1,2)] in_us dump_all_known [OF assms(1,5) in_us]]
  show ?thesis by (simp add: UpdateDumpPlayer_replaces [OF assms(1,2,5)])
qed

text \<open>C6: when every player of a dump is already known, each of them has the values of its index afterwards and
  the rest of its record is kept.\<close>

theorem UpdateDumpPlayer_known:
  assumes "steamid_laws L" "dump_distinct L d" "i < MaxPlayerCount" "sid_Valid L (dp_SteamID d ! i)"
    and "\<forall>j < MaxPlayerCount. sid_Valid L (dp_SteamID d ! j) \<longrightarrow> find_player L (dp_SteamID d ! j) (sv_players s) \<noteq> None"
    and "find_player L (dp_SteamID d ! i) (sv_players s) = Some p"
  shows "find_player L (dp_SteamID d ! i) (sv_players (UpdateDumpPlayer L clock d s)) =
     Some (p\<lparr>pl_Name := dp_Names d ! i, pl_Ping := dp_Ping d ! i, pl_Loss := dp_Loss d ! i, pl_Address := dp_Address d ! i,
       pl_Time := dp_Time d ! i, pl_Score := dp_Score d ! i, pl_Deaths := dp_Deaths d ! i,
       pl_Connected := dp_Connected d ! i, pl_Team := dp_Team d ! i, pl_Alive := dp_Alive d ! i,
       pl_Health := dp_Health d ! i, pl_Valid := dp_Valid d ! i, pl_UserID := dp_UserID d ! i,
       pl_G15UpdatedOn := clock i\<rparr>)"
  unfolding UpdateDumpPlayer_find [OF assms] by (simp add: apply_dump_def)

lemma dump_index_None: "\<not> sid_Valid L (dp_SteamID d ! i) \<Longrightarrow> dump_index L clock d i ps = None"
  by (simp add: dump_index_def)

text \<open>A dump with two players for the witnesses.\<close>

definition two_dump :: "int DumpPlayer" where
  "two_dump = (zero_DumpPlayer num_sid)\<lparr>dp_SteamID := 1 # 2 # replicate 100 0, dp_Names := ''a'' # ''b'' # replicate 100 []\<rparr>"

definition demo_server :: "int Player list \<Rightarrow> (int, unit) serverState" where
  "demo_server ps = (fst (newServerState num_sid () (zero_Config num_sid) zero_ServerConfig 0 1 NewRouter))\<lparr>sv_players := ps\<rparr>"

lemma two_dump_SteamID: "i < MaxPlayerCount \<Longrightarrow> dp_SteamID two_dump ! i = (if i = 0 then 1 else if i = 1 then 2 else 0)"
  by (auto simp: two_dump_def nth_Cons' MaxPlayerCount_def)

lemma two_dump_distinct: "dump_distinct num_sid two_dump"
  unfolding dump_distinct_def
  by (rule sorted_wrt_mono_rel [OF _ sorted_wrt_upt]) (auto simp: two_dump_SteamID num_sid_def split: if_splits)

theorem UpdateDumpPlayer_known_witness:
  "map_option pl_Name (find_player num_sid 2 (sv_players (UpdateDumpPlayer num_sid (\<lambda>_. 9) two_dump
     (demo_server [new_Player 2, new_Player 1])))) = Some ''b''"
proof -
  let ?s = "demo_server [new_Player 2, new_Player 1]"
  have v: "dp_SteamID two_dump ! 1 = 2" by (simp add: two_dump_def)
  have f: "find_player num_sid 2 (sv_players ?s) = Some (new_Player 2)"
    by (simp add: demo_server_def find_player_def num_sid_def new_Player_def)
  have "find_player num_sid (dp_SteamID two_dump ! 1) (sv_players (UpdateDumpPlayer num_sid (\<lambda>_. 9) two_dump ?s)) =
     Some ((new_Player 2)\<lparr>pl_Name := dp_Names two_dump ! 1, pl_Ping := dp_Ping two_dump ! 1, pl_Loss := dp_Loss two_dump ! 1,
       pl_Address := dp_Address two_dump ! 1, pl_Time := dp_Time two_dump ! 1, pl_Score := dp_Score two_dump ! 1,
       pl_Deaths := dp_Deaths two_dump ! 1, pl_Connected := dp_Connected two_dump ! 1, pl_Team := dp_Team two_dump ! 1,
       pl_Alive := dp_Alive two_dump ! 1, pl_Health := dp_Health two_dump ! 1, pl_Valid := dp_Valid two_dump ! 1,
       pl_UserID := dp_UserID two_dump ! 1, pl_G15UpdatedOn := 9\<rparr>)"
  proof (rule UpdateDumpPlayer_known [OF num_sid_laws two_dump_distinct])
    show "\<forall>j < MaxPlayerCount. sid_Valid num_sid (dp_SteamID two_dump ! j) \<longrightarrow>
        find_player num_sid (dp_SteamID two_dump ! j) (sv_players ?s) \<noteq> None"
      by (auto simp: two_dump_SteamID demo_server_def find_player_def num_sid_def new_Player_def)
    show "find_player num_sid (dp_SteamID two_dump ! 1) (sv_players ?s) = Some (new_Player 2)" using f v by simp
  qed (simp_all add: two_dump_SteamID MaxPlayerCount_def num_sid_def)
  then show ?thesis by (simp add: v) (simp add: two_dump_def)
qed

section \<open>Expiry\<close>

lemma zero_time_expired: "0 \<le> now \<Longrightarrow> time_Since now zero_time > playerTimeout"
  by (simp add: time_Since_def zero_time_def playerTimeout_def)

text \<open>Removing expired players keeps, in their order, exactly the players updated in the last thirty seconds;
  a player known from a status line only, which has no update time, does not survive it.\<close>

theorem removeExpired_spec:
  assumes "0 \<le> now" "now < 2 ^ 62"
    and "\<forall>p \<in> set (sv_players s). pl_G15UpdatedOn p = zero_time \<or> 0 \<le> pl_G15UpdatedOn p \<and> pl_G15UpdatedOn p < 2 ^ 62"
  shows "sv_players (removeExpired now s) =
     filter (\<lambda>p. pl_G15UpdatedOn p \<noteq> zero_time \<and> now - pl_G15UpdatedOn p \<le> 30 * 1000000000) (sv_players s)"
proof -
  have "(\<not> time_Since now (pl_G15UpdatedOn p) > playerTimeout) \<longleftrightarrow>
      pl_G15UpdatedOn p \<noteq> zero_time \<and> now - pl_G15UpdatedOn p \<le> 30 * 1000000000" if "p \<in> set (sv_players s)" for p
  proof (cases "pl_G15UpdatedOn p = zero_time")
    case True
    then show ?thesis using zero_time_expired [OF assms(1)] by simp
  next
    case False
    then have "0 \<le> pl_G15UpdatedOn p" "pl_G15UpdatedOn p < 2 ^ 62" using assms(3) that by auto
    with False assms(1,2) show ?thesis by (simp add: time_Since_def playerTimeout_def not_less)
  qed
  then show ?thesis by (auto simp: removeExpired_def intro: filter_cong)
qed

theorem removeExpired_spec_witness:
  "map pl_SteamID (sv_players (removeExpired 50000000000 (demo_server
     [new_Player 1, (new_Player 2)\<lparr>pl_G15UpdatedOn := 20000000000\<rparr>, (new_Player 3)\<lparr>pl_G15UpdatedOn := 10000000000\<rparr>]))) = [2]"
proof -
  let ?s = "demo_server [new_Player 1, (new_Player 2)\<lparr>pl_G15UpdatedOn := 20000000000\<rparr>, (new_Player 3)\<lparr>pl_G15UpdatedOn := 10000000000\<rparr>]"
  have p: "sv_players ?s = [new_Player 1, (new_Player 2)\<lparr>pl_G15UpdatedOn := 20000000000\<rparr>, (new_Player 3)\<lparr>pl_G15UpdatedOn := 10000000000\<rparr>]"
    by (simp add: demo_server_def)
  have r: "sv_players (removeExpired 50000000000 ?s) =
     filter (\<lambda>p. pl_G15UpdatedOn p \<noteq> zero_time \<and> 50000000000 - pl_G15UpdatedOn p \<le> 30 * 1000000000) (sv_players ?s)"
    by (rule removeExpired_spec, simp, simp, unfold p) (simp add: new_Player_def)
  show ?thesis unfolding r p by (simp add: new_Player_def zero_time_def)
qed

section \<open>Bot lists\<close>

lemma replaces_same_ids:
  assumes "steamid_laws L"
  shows "list_all2 (same_id L) (fold (replace L) vs ps) ps"
proof (induction vs rule: rev_induct)
  case Nil
  show ?case by (simp add: list_all2_refl same_id_refl [OF assms])
next
  case (snoc v vs)
  then show ?case by (simp add: replace_def list_all2_map1 same_id_replaced [OF assms])
qed

text \<open>Updates that name the players in their order replace the whole list.\<close>

lemma fold_replace_all:
  assumes "steamid_laws L" "ids_distinct L us" "list_all2 (same_id L) qs us"
  shows "fold (replace L) us qs = us"
proof -
  have "fold (replace L) us (rs @ qs) = rs @ us" if "ids_distinct L (rs @ us)" "list_all2 (same_id L) qs us" for rs
    using that
  proof (induction us arbitrary: rs qs)
    case (Cons u us)
    then obtain q qs' where q: "qs = q # qs'" "same_id L q u" "list_all2 (same_id L) qs' us"
      by (auto simp: list_all2_Cons2)
    have "\<not> same_id L r u" if "r \<in> set rs" for r
      using that Cons.prems(1) by (auto simp: ids_distinct_def sorted_wrt_append)
    moreover have "\<not> same_id L x u" if x: "x \<in> set qs'" for x
    proof -
      obtain y where "y \<in> set us" "same_id L x y"
        using x q(3) by (metis list_all2_conv_all_nth in_set_conv_nth)
      moreover from this Cons.prems(1) have "\<not> same_id L u y" by (auto simp: ids_distinct_def sorted_wrt_append)
      ultimately show ?thesis using assms(1) unfolding same_id_def by (meson sid_Equal_sym sid_Equal_trans)
    qed
    ultimately have "replace L u (rs @ q # qs') = (rs @ [u]) @ qs'"
      using q(2) by (auto simp: replace_def intro!: map_idI)
    with Cons.IH [of "rs @ [u]" qs'] Cons.prems(1) q show ?case by simp
  qed simp
  from this [of "[]"] assms(2,3) show ?thesis by simp
qed

lemma set_loop_rewrites:
  assumes "steamid_laws L" "ids_distinct L us" "list_all2 (same_id L) qs us"
  shows "set_loop L us False qs = us"
proof -
  have "takeWhile (\<lambda>u. \<not> known L qs u) us = []" "dropWhile (\<lambda>u. \<not> known L qs u) us = us"
    using assms(3) by (cases us; auto simp: list_all2_Cons2 known_def)+
  with fold_replace_all [OF assms] show ?thesis by (simp add: set_loop_split [OF assms(2)])
qed

text \<open>Refreshing the bot lists changes the matches of every player to what a search for the player finds,
  and nothing else: not the order, not the set of players.\<close>

theorem updateBD_spec:
  assumes "steamid_laws L" "ids_distinct L (sv_players s)"
  shows "updateBD L B s = s\<lparr>sv_players := map (\<lambda>p. p\<lparr>pl_BDMatches := Search L B (pl_SteamID p)\<rparr>) (sv_players s)\<rparr>"
proof -
  let ?us = "map (\<lambda>p. p\<lparr>pl_BDMatches := Search L B (pl_SteamID p)\<rparr>) (sv_players s)"
  have "ids_distinct L ?us" using assms(2) by (simp add: ids_distinct_def sorted_wrt_map same_id_def)
  moreover have "list_all2 (same_id L) (sv_players s) ?us"
    using assms(1) by (simp add: list_all2_map2 same_id_def list_all2_refl sid_Equal_refl)
  ultimately show ?thesis
    using set_loop_rewrites [OF assms(1)] by (simp add: updateBD_def sv_Snapshot_def setPlayer_def)
qed

theorem updateBD_spec_witness:
  "map pl_BDMatches (sv_players (updateBD num_sid (bd_New []) (demo_server [new_Player 1, new_Player 2]))) = [[], []]"
proof -
  have "ids_distinct num_sid (sv_players (demo_server [new_Player 1, new_Player 2]))"
    by (simp add: demo_server_def ids_distinct_def same_id_def num_sid_def new_Player_def)
  from updateBD_spec [OF num_sid_laws this, of "bd_New []"] show ?thesis
    by (simp add: demo_server_def Search_def bd_New_def)
qed

section \<open>Failing queries\<close>

lemma UpdateDumpPlayer_zero:
  assumes "\<not> sid_Valid L (sid_zero L)"
  shows "UpdateDumpPlayer L clock (zero_DumpPlayer L) s = s"
proof -
  have "List.map_filter (\<lambda>i. dump_index L clock (zero_DumpPlayer L) i (sv_players s)) [0..<MaxPlayerCount] = []"
    using assms by (auto simp: List.map_filter_def zero_DumpPlayer_def dump_index_def Let_def filter_empty_conv)
  then show ?thesis by (simp add: UpdateDumpPlayer_def setPlayer_def)
qed

text \<open>C29: when the query of a server fails, outside debug mode, the players are kept but the status is reset to
  the zero status: the fetcher remembers nothing of earlier answers.\<close>

theorem updateDump_failure:
  assumes "\<not> sid_Valid L (sid_zero L)"
    and "sv_dumpFetcher s = NewFetcher L (fl_zero F) address password mode"
    and "Exec R (New address password) (fetch_command mode) True w = Some (Inl e, w')"
  shows "updateDump L F R [] clock s w = Some (Ok (s\<lparr>sv_status := zero_Status (fl_zero F)\<rparr>), w')"
proof -
  have "Fetch L F R [] (sv_dumpFetcher s) w =
      Some (Ok (zero_DumpPlayer L, zero_Status (fl_zero F), Some (errors_Join e [ErrDumpQuery])), w')"
    using assms by (simp add: Fetch_def NewFetcher_def fetch_failed_def zero_DumpPlayer_def MaxPlayerCount_def)
  then show ?thesis using UpdateDumpPlayer_zero [OF assms(1)] by (simp add: updateDump_def UpdateStatus_def)
qed

theorem updateDump_failure_witness:
  "let s = (fst (newServerState num_sid ''0'' (zero_Config num_sid) zero_ServerConfig 0 1 NewRouter))
             \<lparr>sv_players := [new_Player 1], sv_status := (zero_Status ''0'')\<lparr>ss_Region := ''eu''\<rparr>\<rparr>
   in updateDump num_sid text_lib script_rcon [] (\<lambda>_. 0) s [] = Some (Ok (s\<lparr>sv_status := zero_Status ''0''\<rparr>), [])"
proof -
  let ?s = "(fst (newServerState num_sid ''0'' (zero_Config num_sid) zero_ServerConfig 0 1 NewRouter))
             \<lparr>sv_players := [new_Player 1], sv_status := (zero_Status ''0'')\<lparr>ss_Region := ''eu''\<rparr>\<rparr>"
  have "Exec script_rcon (New [] []) (fetch_command False) True [] = Some (Inl [ErrForeign ''EOF'', errRCON], [])"
    by (simp add: Exec_def rconLarge_def script_rcon_def rconLarge_loop.simps errors_Join_def)
  moreover have "sv_dumpFetcher ?s = NewFetcher num_sid (fl_zero text_lib) [] [] False"
    by (simp add: newServerState_def Let_def zero_Config_def zero_ServerConfig_def text_lib_def)
  ultimately have "updateDump num_sid text_lib script_rcon [] (\<lambda>_. 0) ?s [] =
      Some (Ok (?s\<lparr>sv_status := zero_Status (fl_zero text_lib)\<rparr>), [])"
    by (intro updateDump_failure) (simp_all add: num_sid_def)
  then show ?thesis by (simp only: Let_def) (simp add: text_lib_def)
qed

section \<open>Log address registration\<close>

text \<open>A request for one packet always returns, and so does the registration, which makes two of them.\<close>

lemma Exec_short_returns: "Exec R r cmd False w \<noteq> None"
  by (auto simp: Exec_def split: prod.split sum.split)

lemma registerAddress_returns: "registerAddress R s w \<noteq> None"
proof -
  obtain res1 w1 where 1: "Exec R (sv_conn s) (''logaddress_add '' @ sv_externalAddress s) False w = Some (res1, w1)"
    using Exec_short_returns [of R "sv_conn s" "''logaddress_add '' @ sv_externalAddress s" w] by auto
  obtain res2 w2 where 2: "Exec R (sv_conn s) ''logaddress_list'' False w1 = Some (res2, w2)"
    using Exec_short_returns [of R "sv_conn s" "''logaddress_list''" w1] by auto
  show ?thesis unfolding registerAddress_def 1 by (simp add: 2 split: sum.split)
qed

text \<open>C28: registering an address always returns, and reports success only when the server's list of log addresses, read back, contains the
  external address; every failure carries \<open>ErrRegistration\<close>.\<close>

theorem registerAddress_spec:
  "\<exists>err w'. registerAddress R s w = Some (err, w') \<and>
     (case err of
        Some e \<Rightarrow> errors_Is e ErrRegistration
      | None \<Rightarrow> \<exists>w1 added resp.
          Exec R (sv_conn s) (''logaddress_add '' @ sv_externalAddress s) False w = Some (Inr added, w1) \<and>
          Exec R (sv_conn s) ''logaddress_list'' False w1 = Some (Inr resp, w') \<and>
          Contains resp (sv_externalAddress s))"
proof -
  obtain err w' where r: "registerAddress R s w = Some (err, w')"
    using registerAddress_returns [of R s w] by auto
  then show ?thesis
    by (intro exI [of _ err] exI [of _ w'])
      (auto simp: registerAddress_def split: bind_splits sum.splits if_splits option.splits)
qed

lemma registerAddress_example:
  "registerAddress script_rcon ((demo_server [])\<lparr>sv_externalAddress := ''1.2.3.4:27115''\<rparr>)
     [(''ok'', 1), (''1.2.3.4:27115'', 1)] = Some (None, []) \<and>
   Contains ''1.2.3.4:27115'' ''1.2.3.4:27115''"
proof -
  let ?s = "(demo_server [])\<lparr>sv_externalAddress := ''1.2.3.4:27115''\<rparr>"
  have c: "Contains ''1.2.3.4:27115'' ''1.2.3.4:27115''" by code_simp
  have r: "registerAddress script_rcon ?s [(''ok'', 1), (''1.2.3.4:27115'', 1)] = Some (None, [])"
    by (simp add: registerAddress_def Exec_def rcon_def script_rcon_def c)
  then show ?thesis using c by simp
qed

section \<open>Status lines\<close>

text \<open>A status line adds or renames one player.\<close>

lemma onStatusID_players:
  "sv_players (onStatusID L d s) =
     upsert L ((case find_player L (si_PlayerSID d) (sv_players s) of None \<Rightarrow> new_Player (si_PlayerSID d) | Some p \<Rightarrow> p)
       \<lparr>pl_Name := si_Player d\<rparr>) (sv_players s)"
  by (auto simp: onStatusID_def sv_player_def setPlayer_single split: option.splits)

text \<open>After a status line its player is known under the name of the line, the other fields as they were,
  and every other player is unchanged.\<close>

theorem onStatusID_spec:
  assumes "steamid_laws L"
  shows "find_player L sid (sv_players (onStatusID L d s)) =
     (if sid_Equal L sid (si_PlayerSID d)
      then Some ((case find_player L (si_PlayerSID d) (sv_players s) of None \<Rightarrow> new_Player (si_PlayerSID d) | Some p \<Rightarrow> p)
             \<lparr>pl_Name := si_Player d\<rparr>)
      else find_player L sid (sv_players s))"
proof -
  let ?p = "case find_player L (si_PlayerSID d) (sv_players s) of None \<Rightarrow> new_Player (si_PlayerSID d) | Some p \<Rightarrow> p"
  have e: "sid_Equal L (si_PlayerSID d) (pl_SteamID ?p)"
    by (auto simp: new_Player_def find_player_def sid_Equal_refl [OF assms] split: option.splits dest!: first_such_SomeD)
  have "sid_Equal L sid (pl_SteamID (?p\<lparr>pl_Name := si_Player d\<rparr>)) = sid_Equal L sid (si_PlayerSID d)"
    using e assms by (simp, meson sid_Equal_sym sid_Equal_trans)
  moreover have "equivp (sid_Equal L)" using assms by (simp add: steamid_laws_def)
  ultimately show ?thesis
    unfolding onStatusID_players by (subst players.lookup_put) simp_all
qed

theorem onStatusID_spec_witness:
  "map_option pl_Name (find_player num_sid 5 (sv_players (onStatusID num_sid
     \<lparr>si_UserID = 3, si_Player = ''bob'', si_PlayerSID = 5, si_Connected = 0, si_Ping = 0, si_Loss = 0, si_State = [], si_Address = []\<rparr>
     (demo_server [])))) = Some ''bob''"
  by (subst onStatusID_spec [OF num_sid_laws]) (simp add: num_sid_def)

end
