(* ===== verification/Server_Run.thy ===== *)
theory Server_Run
  imports Server_State
begin

text \<open>
  The loop of \<open>serverState.start\<close> as a step relation. Between its turns the loop is idle; a turn is one
  event, one removal of expired players, or one dump tick. A dump tick runs \<open>updateBD\<close> and \<open>updateDump\<close>
  concurrently, so it is made of the atomic actions of the two, each under the state's mutex, in any
  order. The slice a snapshot returns shares its array with the state: a later read of element \<open>i\<close> of the
  snapshot may give the value at the time of the snapshot or the current one, which the rule for reading
  leaves open.
\<close>

datatype 'sid bd_thread =
    BdIdle
  | BdStart
  | BdRead "'sid Player list" "'sid Player list"   \<comment> \<open>the snapshot, the updates so far\<close>
  | BdDone

datatype ('sid, 'f) dump_thread =
    DpIdle
  | DpStart
  | DpFetched "'sid DumpPlayer" "('sid, 'f) Status"
  | DpCollect "'sid DumpPlayer" nat "'sid Player list"   \<comment> \<open>the dump, the next index, the updates so far\<close>
  | DpDone

type_synonym ('sid, 'f) run_state = "('sid, 'f) serverState \<times> 'sid bd_thread \<times> ('sid, 'f) dump_thread"

definition mark_player :: "'sid steamid_pkg \<Rightarrow> 'sid bd_Fetcher \<Rightarrow> 'sid Player \<Rightarrow> 'sid Player" where
  "mark_player L B p = p\<lparr>pl_BDMatches := Search L B (pl_SteamID p)\<rparr>"

inductive server_step ::
  "'sid steamid_pkg \<Rightarrow> 'sid bd_Fetcher \<Rightarrow> ('sid, 'f) run_state \<Rightarrow> ('sid, 'f) run_state \<Rightarrow> bool"
  for L :: "'sid steamid_pkg" and B :: "'sid bd_Fetcher" where
  event: "server_step L B (s, BdIdle, DpIdle) (onIncomingEvent L (line_event L now hostPort line) s, BdIdle, DpIdle)"
| remove: "server_step L B (s, BdIdle, DpIdle) (removeExpired now s, BdIdle, DpIdle)"
| tick: "server_step L B (s, BdIdle, DpIdle) (s, BdStart, DpStart)"
| bd_snapshot: "server_step L B (s, BdStart, d) (s, BdRead (sn_Players (sv_Snapshot now s)) [], d)"
| bd_read: "length acc < length snap \<Longrightarrow>
    q = snap ! length acc \<or> (length acc < length (sv_players s) \<and> q = sv_players s ! length acc) \<Longrightarrow>
    server_step L B (s, BdRead snap acc, d) (s, BdRead snap (acc @ [mark_player L B q]), d)"
| bd_set: "length acc = length snap \<Longrightarrow>
    server_step L B (s, BdRead snap acc, d) (setPlayer L acc s, BdDone, d)"
| dp_fetch: "server_step L B (s, b, DpStart) (s, b, DpFetched dump status)"
| dp_status: "server_step L B (s, b, DpFetched dump status) (UpdateStatus status s, b, DpCollect dump 0 [])"
| dp_index: "idx < MaxPlayerCount \<Longrightarrow>
    server_step L B (s, b, DpCollect dump idx acc)
      (s, b, DpCollect dump (Suc idx)
        (acc @ (case dump_index L (\<lambda>_. now) dump idx (sv_players s) of None \<Rightarrow> [] | Some p \<Rightarrow> [p])))"
| dp_set: "server_step L B (s, b, DpCollect dump MaxPlayerCount acc) (setPlayer L acc s, b, DpDone)"
| tick_done: "server_step L B (s, BdDone, DpDone) (s, BdIdle, DpIdle)"

inductive_simps idle_step: "server_step L B (s, BdIdle, DpIdle) r"

definition server_runs ::
  "'sid steamid_pkg \<Rightarrow> 'sid bd_Fetcher \<Rightarrow> ('sid, 'f) run_state \<Rightarrow> ('sid, 'f) run_state \<Rightarrow> bool" where
  "server_runs L B = (server_step L B)\<^sup>*\<^sup>*"

section \<open>What every run keeps\<close>

text \<open>The players' ids are pairwise different; the configuration of the server and the fetcher never change; no
  event counts.\<close>

definition server_inv :: "'sid steamid_pkg \<Rightarrow> ('sid, 'f) serverState \<Rightarrow> ('sid, 'f) serverState \<Rightarrow> bool" where
  "server_inv L s0 s \<longleftrightarrow>
     ids_distinct L (sv_players s) \<and> sv_server s = sv_server s0 \<and> sv_dumpFetcher s = sv_dumpFetcher s0 \<and>
     sv_eventCount s = sv_eventCount s0"

lemma line_event_not_raw: "ev_Data (line_event L now hp line) \<noteq> RawEvent x"
proof -
  obtain ev err where p: "Parse L now line = (ev, err)" by force
  show ?thesis
  proof (cases err)
    case None
    with parse_loop_ok [of L now line NewParser zero_Event ev] p have "data_of (ev_Type ev) (ev_Data ev)"
      by (simp add: Parse_def zero_Event_def)
    with p None show ?thesis by (auto simp: line_event_def data_of_def)
  next
    case (Some e)
    with parse_loop_err [of L now line NewParser zero_Event ev e] p have "ev_Data ev = NoData"
      by (simp add: Parse_def zero_Event_def)
    with p Some show ?thesis by (simp add: line_event_def)
  qed
qed

lemma onIncomingEvent_frame:
  "sv_server (onIncomingEvent L e s) = sv_server s" "sv_dumpFetcher (onIncomingEvent L e s) = sv_dumpFetcher s"
  "(\<And>x. ev_Data e \<noteq> RawEvent x) \<Longrightarrow> sv_eventCount (onIncomingEvent L e s) = sv_eventCount s"
  by (auto simp: onIncomingEvent_def onAddress_def onStatusID_def setPlayer_def split: EventData.splits sum.splits)

lemma server_step_inv:
  assumes "server_step L B r r'" "steamid_laws L" "server_inv L s0 (fst r)"
  shows "server_inv L s0 (fst r')"
  using assms
proof (induction rule: server_step.induct)
  case (event s now hp line)
  then show ?case
    using onIncomingEvent_distinct [of L s "line_event L now hp line"]
    by (simp add: server_inv_def onIncomingEvent_frame line_event_not_raw)
next
  case (remove s now)
  then show ?case using removeExpired_distinct [of L s now] by (simp add: server_inv_def) (simp add: removeExpired_def)
qed (simp_all add: server_inv_def setPlayer_distinct UpdateStatus_def setPlayer_def set_loop_distinct)

interpretation server_states: step_invariant "server_step L B" "\<lambda>r. steamid_laws L \<and> server_inv L s0 (fst r)"
  by unfold_locales (blast intro: server_step_inv)

text \<open>C1: in every state a server reaches, by any sequence of log lines, dump ticks and removals and any
  interleaving of the two halves of a tick, no two players have the same steam id, the fetcher is the
  one the server was created with, and the event counter is still zero.\<close>

theorem server_reachable:
  assumes "steamid_laws L"
    and "server_runs L B (fst (newServerState L z conf server c1 c2 router), BdIdle, DpIdle) (s, b, d)"
  shows "ids_distinct L (sv_players s) \<and>
     sv_dumpFetcher s = NewFetcher L z (sc_Address server) (sc_Password server) (cf_ServerModeEnabled conf) \<and>
     sv_eventCount s = 0"
proof -
  let ?s0 = "fst (newServerState L z conf server c1 c2 router)"
  have "server_inv L ?s0 ?s0" by (simp add: server_inv_def newServerState_def Let_def ids_distinct_def)
  with server_states.runs_inv [OF assms(2) [unfolded server_runs_def], of ?s0] assms(1)
  have "server_inv L ?s0 s" by simp
  then show ?thesis by (simp add: server_inv_def newServerState_def Let_def)
qed

theorem server_reachable_witness:
  "ids_distinct num_sid (sv_players (removeExpired 0 (fst (newServerState num_sid () (zero_Config num_sid) zero_ServerConfig 0 1 NewRouter))))"
proof -
  let ?s0 = "fst (newServerState num_sid () (zero_Config num_sid) zero_ServerConfig 0 1 NewRouter)"
  have "server_runs num_sid (bd_New []) (?s0, BdIdle, DpIdle) (removeExpired 0 ?s0, BdIdle, DpIdle)"
    unfolding server_runs_def by (rule r_into_rtranclp) (rule server_step.remove)
  from server_reachable [OF num_sid_laws this] show ?thesis by simp
qed

section \<open>One tick\<close>

lemma server_runs_trans: "server_runs L B r1 r2 \<Longrightarrow> server_runs L B r2 r3 \<Longrightarrow> server_runs L B r1 r3"
  by (simp add: server_runs_def)

text \<open>The steps of the current tick: the loop is not idle before them, so no second tick begins.\<close>

definition tick_step ::
  "'sid steamid_pkg \<Rightarrow> 'sid bd_Fetcher \<Rightarrow> ('sid, 'f) run_state \<Rightarrow> ('sid, 'f) run_state \<Rightarrow> bool" where
  "tick_step L B r r' \<longleftrightarrow> server_step L B r r' \<and> snd r \<noteq> (BdIdle, DpIdle)"

abbreviation tick_runs ::
  "'sid steamid_pkg \<Rightarrow> 'sid bd_Fetcher \<Rightarrow> ('sid, 'f) run_state \<Rightarrow> ('sid, 'f) run_state \<Rightarrow> bool" where
  "tick_runs L B \<equiv> (tick_step L B)\<^sup>*\<^sup>*"

lemma tick_runs_one: "server_step L B r r' \<Longrightarrow> snd r \<noteq> (BdIdle, DpIdle) \<Longrightarrow> tick_runs L B r r'"
  by (simp add: tick_step_def r_into_rtranclp)

lemma tick_runs_server: "tick_runs L B r r' \<Longrightarrow> server_runs L B r r'"
  unfolding server_runs_def by (rule rtranclp_mono [THEN predicate2D]) (auto simp: tick_step_def)

lemma bd_reads:
  assumes "length acc \<le> length snap"
  shows "tick_runs L B (s, BdRead snap acc, d) (s, BdRead snap (acc @ map (mark_player L B) (drop (length acc) snap)), d)"
  using assms
proof (induction "length snap - length acc" arbitrary: acc)
  case (Suc n)
  let ?acc = "acc @ [mark_player L B (snap ! length acc)]"
  have l: "length acc < length snap" using Suc.hyps(2) by simp
  have run: "tick_runs L B (s, BdRead snap ?acc, d)
      (s, BdRead snap (?acc @ map (mark_player L B) (drop (length ?acc) snap)), d)"
    using Suc.hyps(2) l by (intro Suc.hyps(1)) simp_all
  have eq: "?acc @ map (mark_player L B) (drop (length ?acc) snap) = acc @ map (mark_player L B) (drop (length acc) snap)"
    using l by (simp add: Cons_nth_drop_Suc [symmetric])
  have "tick_runs L B (s, BdRead snap acc, d) (s, BdRead snap ?acc, d)"
    by (rule tick_runs_one, rule server_step.bd_read [OF l]) simp_all
  from rtranclp_trans [OF this run] show ?case unfolding eq .
qed simp

lemma bd_starts: "tick_runs L B (s, BdStart, d) (s, BdRead (sv_players s) (map (mark_player L B) (sv_players s)), d)"
proof -
  let ?ps = "sv_players s"
  have "tick_runs L B (s, BdStart, d) (s, BdRead ?ps [], d)"
    using server_step.bd_snapshot [of L B s d 0] by (intro tick_runs_one) (simp_all add: sv_Snapshot_def)
  moreover have "tick_runs L B (s, BdRead ?ps [], d) (s, BdRead ?ps (map (mark_player L B) ?ps), d)"
    using bd_reads [of "[]" ?ps] by simp
  ultimately show ?thesis by (rule rtranclp_trans)
qed

lemma bd_ends:
  "length us = length snap \<Longrightarrow> tick_runs L B (s, BdRead snap us, d) (setPlayer L us s, BdDone, d)"
  by (intro tick_runs_one server_step.bd_set) simp_all

lemma updateBD_runs: "tick_runs L B (s, BdStart, d) (updateBD L B s, BdDone, d)"
  using rtranclp_trans [OF bd_starts bd_ends [of "map (mark_player L B) (sv_players s)"]]
  by (simp add: updateBD_def sv_Snapshot_def mark_player_def [abs_def])

lemma dump_indices:
  "n \<le> MaxPlayerCount \<Longrightarrow>
   tick_runs L B (s, b, DpCollect dump 0 [])
     (s, b, DpCollect dump n (List.map_filter (\<lambda>i. dump_index L clock dump i (sv_players s)) [0..<n]))"
proof (induction n)
  case (Suc n)
  have "dump_index L (\<lambda>_. clock n) dump n ps = dump_index L clock dump n ps" for ps by (simp add: dump_index_def)
  with Suc server_step.dp_index [of n L B s b dump _ "clock n"] show ?case
    by (auto simp: map_filter_simps List.map_filter_def tick_step_def split: option.splits
        intro: rtranclp.rtrancl_into_rtrancl)
qed (simp add: map_filter_simps)

lemma dump_arrives: "tick_runs L B (s, b, DpStart) (s, b, DpFetched dump status)"
  by (intro tick_runs_one server_step.dp_fetch) simp

lemma dump_applied:
  "tick_runs L B (s, b, DpFetched dump status) (UpdateDumpPlayer L clock dump (UpdateStatus status s), b, DpDone)"
proof -
  let ?s = "UpdateStatus status s"
  let ?us = "List.map_filter (\<lambda>i. dump_index L clock dump i (sv_players ?s)) [0..<MaxPlayerCount]"
  have 1: "tick_runs L B (s, b, DpFetched dump status) (?s, b, DpCollect dump 0 [])"
    by (intro tick_runs_one server_step.dp_status) simp
  have 2: "tick_runs L B (?s, b, DpCollect dump 0 []) (?s, b, DpCollect dump MaxPlayerCount ?us)"
    by (rule dump_indices) simp
  have 3: "tick_runs L B (?s, b, DpCollect dump MaxPlayerCount ?us) (setPlayer L ?us ?s, b, DpDone)"
    by (intro tick_runs_one server_step.dp_set) simp
  from rtranclp_trans [OF rtranclp_trans [OF 1 2] 3] show ?thesis unfolding UpdateDumpPlayer_def .
qed

lemma tick_ends: "tick_runs L B (s, BdDone, DpDone) (s, BdIdle, DpIdle)"
  by (intro tick_runs_one server_step.tick_done) simp

text \<open>The functions \<open>updateBD\<close> and \<open>UpdateDumpPlayer\<close> describe the runs of a tick in which the two halves do not
  overlap, in either order: the step relation has those runs.\<close>

theorem tick_sequential:
  "server_runs L B (s, BdIdle, DpIdle)
     (UpdateDumpPlayer L clock dump (UpdateStatus status (updateBD L B s)), BdIdle, DpIdle) \<and>
   server_runs L B (s, BdIdle, DpIdle)
     (updateBD L B (UpdateDumpPlayer L clock dump (UpdateStatus status s)), BdIdle, DpIdle)"
proof -
  have t: "server_runs L B (s, BdIdle, DpIdle) (s, BdStart, DpStart)"
    unfolding server_runs_def by (rule r_into_rtranclp, rule server_step.tick)
  have "tick_runs L B (s, BdStart, DpStart) (UpdateDumpPlayer L clock dump (UpdateStatus status (updateBD L B s)), BdIdle, DpIdle)"
    "tick_runs L B (s, BdStart, DpStart) (updateBD L B (UpdateDumpPlayer L clock dump (UpdateStatus status s)), BdIdle, DpIdle)"
    by (meson updateBD_runs dump_arrives dump_applied tick_ends rtranclp_trans)+
  with t show ?thesis by (blast intro: server_runs_trans tick_runs_server)
qed

text \<open>C11: a tick can lose the answer of the server. Whatever answer about known players arrives, the tick can go on so
  that the players end with the values they had before it, only their bot list matches refreshed: the half that
  searches the lists read the players before the answer and writes them back after it. When the halves do not overlap,
  the same answer is in the players when the tick ends.\<close>

theorem tick_loses_dump:
  assumes "steamid_laws L" "ids_distinct L (sv_players s)" "dump_distinct L dump"
    and "\<forall>j < MaxPlayerCount. sid_Valid L (dp_SteamID dump ! j) \<longrightarrow> find_player L (dp_SteamID dump ! j) (sv_players s) \<noteq> None"
  shows "(\<exists>b. tick_runs L B (s, BdStart, DpStart) (s, b, DpFetched dump status) \<and>
       tick_runs L B (s, b, DpFetched dump status)
         ((UpdateStatus status s)\<lparr>sv_players := map (mark_player L B) (sv_players s)\<rparr>, BdIdle, DpIdle)) \<and>
     tick_runs L B (s, BdStart, DpStart) (s, BdStart, DpFetched dump status) \<and>
     tick_runs L B (s, BdStart, DpFetched dump status)
       (updateBD L B (UpdateDumpPlayer L clock dump (UpdateStatus status s)), BdIdle, DpIdle)"
proof (intro conjI exI)
  let ?ps = "sv_players s" and ?us = "map (mark_player L B) (sv_players s)"
  let ?s1 = "UpdateDumpPlayer L clock dump (UpdateStatus status s)"
  have us: "ids_distinct L ?us" using assms(2) by (simp add: ids_distinct_def sorted_wrt_map same_id_def mark_player_def)
  obtain vs where "sv_players ?s1 = fold (replace L) vs ?ps"
    using UpdateDumpPlayer_replaces [of L dump "UpdateStatus status s" clock] assms by (auto simp: UpdateStatus_def)
  moreover have "same_id L p (mark_player L B q) = same_id L p q" for p q by (simp add: same_id_def mark_player_def)
  ultimately have "list_all2 (same_id L) (sv_players ?s1) ?us"
    using replaces_same_ids [OF assms(1), of vs ?ps] by (simp add: list_all2_map2)
  from set_loop_rewrites [OF assms(1) us this] have "sv_players (setPlayer L ?us ?s1) = ?us" by (simp add: setPlayer_def)
  then have eq: "setPlayer L ?us ?s1 = (UpdateStatus status s)\<lparr>sv_players := ?us\<rparr>"
    by (simp add: setPlayer_def UpdateDumpPlayer_def)
  show "tick_runs L B (s, BdStart, DpStart) (s, BdRead ?ps ?us, DpFetched dump status)"
    by (meson bd_starts dump_arrives rtranclp_trans)
  have "tick_runs L B (?s1, BdRead ?ps ?us, DpDone) (setPlayer L ?us ?s1, BdDone, DpDone)" by (rule bd_ends) simp
  then show "tick_runs L B (s, BdRead ?ps ?us, DpFetched dump status) ((UpdateStatus status s)\<lparr>sv_players := ?us\<rparr>, BdIdle, DpIdle)"
    unfolding eq by (meson dump_applied tick_ends rtranclp_trans)
  show "tick_runs L B (s, BdStart, DpStart) (s, BdStart, DpFetched dump status)" by (rule dump_arrives)
  show "tick_runs L B (s, BdStart, DpFetched dump status) (updateBD L B ?s1, BdIdle, DpIdle)"
    by (meson updateBD_runs dump_applied tick_ends rtranclp_trans)
qed

text \<open>The answer names the two players, and their names are still empty when the tick ends.\<close>

theorem tick_loses_dump_witness:
  "\<exists>b s. map (\<lambda>i. dp_Names two_dump ! i) [0, 1] = [''a'', ''b''] \<and>
     tick_runs num_sid (bd_New []) (demo_server [new_Player 2, new_Player 1], b, DpFetched two_dump (zero_Status ())) (s, BdIdle, DpIdle) \<and>
     map pl_Name (sv_players s) = [[], []]"
proof -
  let ?s = "demo_server [new_Player 2, new_Player 1]"
  have d: "ids_distinct num_sid (sv_players ?s)"
    by (simp add: demo_server_def ids_distinct_def same_id_def num_sid_def new_Player_def)
  have k: "\<forall>j < MaxPlayerCount. sid_Valid num_sid (dp_SteamID two_dump ! j) \<longrightarrow>
      find_player num_sid (dp_SteamID two_dump ! j) (sv_players ?s) \<noteq> None"
    by (auto simp: two_dump_SteamID demo_server_def find_player_def num_sid_def new_Player_def)
  from tick_loses_dump [OF num_sid_laws d two_dump_distinct k, of "bd_New []" "zero_Status ()"] obtain b where
    "tick_runs num_sid (bd_New []) (?s, b, DpFetched two_dump (zero_Status ()))
       ((UpdateStatus (zero_Status ()) ?s)\<lparr>sv_players := map (mark_player num_sid (bd_New [])) (sv_players ?s)\<rparr>, BdIdle, DpIdle)"
    by blast
  then show ?thesis
    by (intro exI conjI) (simp add: two_dump_def, assumption, simp add: demo_server_def mark_player_def new_Player_def)
qed

end
