(* ===== verification/Console.thy ===== *)
theory Console
  imports Events_Router Fetcher
begin

text \<open>
  internal/tf/console: the sources of log lines. Each source reads lines and hands them to a receiver,
  in this program the event router. The loops that select over channels are folded over the list of
  their turns, each turn with what the channels had to offer; the receiver is a function on a state
  \<open>'r\<close>. The network and the tail package are parameters.
\<close>

type_synonym 'r receiver_fun = "time \<Rightarrow> string \<Rightarrow> string \<Rightarrow> 'r \<Rightarrow> 'r"   \<comment> \<open>time of the call, host, line\<close>

section \<open>Substrings\<close>

text \<open>\<open>s[a:b]\<close>, which panics unless \<open>a <= b <= len(s)\<close>.\<close>

definition substring :: "string \<Rightarrow> nat \<Rightarrow> nat \<Rightarrow> string outcome" where
  "substring s a b = (if a \<le> b \<and> b \<le> length s then Ok (take (b - a) (drop a s)) else Panic)"

section \<open>The remote source\<close>

definition s2aLogString :: char where "s2aLogString = CHR 0x52"
definition s2aLogString2 :: char where "s2aLogString2 = CHR 0x53"

record ('a, 'c) Remote =
  rm_udpAddr :: "'a option"
  rm_conn :: "'c option"
  rm_secret :: int
  rm_listenAddress :: string
  rm_ServerHostMap :: "int \<rightharpoonup> string"

record RemoteOpts =
  op_ListenAddress :: string
  op_ServerHostMap :: "int \<rightharpoonup> string"

record ('a, 'c, 'w) net_lib =
  nl_ResolveUDPAddr :: "string \<Rightarrow> 'a result"
  nl_ListenUDP :: "'a \<Rightarrow> 'w \<Rightarrow> 'c result \<times> 'w"
  nl_CloseUDP :: "'c \<Rightarrow> 'w \<Rightarrow> go_error option \<times> 'w"

definition NewRemote :: "RemoteOpts \<Rightarrow> ('a, 'c) Remote result" where
  "NewRemote opts =
     (if op_ListenAddress opts = [] then Inl [ErrConfig]
      else Inr \<lparr>rm_udpAddr = None, rm_conn = None, rm_secret = 0,
                rm_listenAddress = op_ListenAddress opts, rm_ServerHostMap = op_ServerHostMap opts\<rparr>)"

definition Remote_Close :: "('a, 'c, 'w) net_lib \<Rightarrow> ('a, 'c) Remote \<Rightarrow> 'w \<Rightarrow> go_error option \<times> 'w" where
  "Remote_Close N l w =
     (case rm_conn l of
        None \<Rightarrow> (None, w)
      | Some c \<Rightarrow>
          (case nl_CloseUDP N c w of
             (None, w) \<Rightarrow> (None, w)
           | (Some e, w) \<Rightarrow> (Some (errors_Join e [ErrClose]), w)))"

definition Remote_Open ::
  "('a, 'c, 'w) net_lib \<Rightarrow> ('a, 'c) Remote \<Rightarrow> 'w \<Rightarrow> go_error option \<times> ('a, 'c) Remote \<times> 'w" where
  "Remote_Open N l w =
     (case nl_ResolveUDPAddr N (rm_listenAddress l) of
        Inl e \<Rightarrow> (Some (errors_Join e [ErrSetup]), l, w)
      | Inr udpAddr \<Rightarrow>
          (case nl_ListenUDP N udpAddr w of
             (Inl e, w) \<Rightarrow> (Some (errors_Join e [ErrSetup]), l, w)
           | (Inr conn, w) \<Rightarrow> (None, l\<lparr>rm_conn := Some conn, rm_udpAddr := Some udpAddr\<rparr>, w)))"

text \<open>The local variables of \<open>Start\<close>: the count of unsupported packets, a \<open>uint64\<close>, and the packets counted
  per secret.\<close>

record counters =
  ct_insecure :: int
  ct_messages :: "int \<rightharpoonup> int"

definition new_counters :: counters where
  "new_counters = \<lparr>ct_insecure = 0, ct_messages = Map.empty\<rparr>"

definition count_message :: "int \<Rightarrow> counters \<Rightarrow> counters" where
  "count_message reqSecret c =
     (case ct_messages c reqSecret of
        None \<Rightarrow> c\<lparr>ct_messages := (ct_messages c)(reqSecret \<mapsto> 1)\<rparr>
      | Some n \<Rightarrow> c\<lparr>ct_messages := (ct_messages c)(reqSecret \<mapsto> int_of_uint64 (n + 1))\<rparr>)"

text \<open>A datagram fills the front of a buffer of 1024 zero bytes; what does not fit is lost.\<close>

definition buffer_size :: nat where "buffer_size = 1024"

definition udp_buffer :: "string \<Rightarrow> string" where
  "udp_buffer payload = take buffer_size payload @ replicate (buffer_size - length payload) (CHR 0x00)"

definition insecure_packet ::
  "'r receiver_fun \<Rightarrow> ('a, 'c) Remote \<Rightarrow> time \<Rightarrow> string \<Rightarrow> counters \<Rightarrow> 'r \<Rightarrow> counters \<times> 'r" where
  "insecure_packet send l now buffer c r =
     (let c = (if rm_secret l > 0 then c\<lparr>ct_insecure := (ct_insecure c + 1) mod 2 ^ 64\<rparr> else c)
      in (count_message 0 c, send now [] (TrimSpace buffer) r))"

definition secure_packet ::
  "'r receiver_fun \<Rightarrow> ('a, 'c) Remote \<Rightarrow> time \<Rightarrow> string \<Rightarrow> nat \<Rightarrow> counters \<Rightarrow> 'r \<Rightarrow> (counters \<times> 'r) outcome" where
  "secure_packet send l now line readLen c r =
     (case Index line ''L '' of
        None \<Rightarrow> Ok (c, r)
      | Some idx \<Rightarrow>
          outcome_bind (substring line 5 idx) (\<lambda>digits.
          (case ParseInt 32 digits of
             None \<Rightarrow> Ok (c, r)
           | Some secret \<Rightarrow>
               outcome_bind (substring line idx readLen) (\<lambda>rest.
               (case rm_ServerHostMap l secret of
                  None \<Rightarrow> Ok (c, r)
                | Some hostPort \<Rightarrow> Ok (count_message secret c, send now hostPort (TrimSpace rest) r))))))"

text \<open>What \<open>Start\<close> does with one datagram. A packet of neither type is counted under the secret 0.\<close>

definition Remote_packet ::
  "'r receiver_fun \<Rightarrow> ('a, 'c) Remote \<Rightarrow> time \<Rightarrow> string \<Rightarrow> counters \<Rightarrow> 'r \<Rightarrow> (counters \<times> 'r) outcome" where
  "Remote_packet send l now payload c r =
     (let buffer = udp_buffer payload; readLen = min buffer_size (length payload)
      in if buffer ! 4 = s2aLogString then Ok (insecure_packet send l now buffer c r)
         else if buffer ! 4 = s2aLogString2 then secure_packet send l now buffer readLen c r
         else Ok (count_message 0 c, r))"

datatype (plugins only: code size) udp_turn =
    LogTick | ReadTimeout | ReadFailed | ReadClosed | UdpDone | Packet time string

fun Remote_Start ::
  "'r receiver_fun \<Rightarrow> ('a, 'c) Remote \<Rightarrow> udp_turn list \<Rightarrow> counters \<Rightarrow> 'r \<Rightarrow> (counters \<times> 'r) outcome" where
  "Remote_Start send l [] c r = Ok (c, r)"
| "Remote_Start send l (turn # turns) c r =
     (case turn of
        Packet now payload \<Rightarrow>
          outcome_bind (Remote_packet send l now payload c r) (\<lambda>(c, r). Remote_Start send l turns c r)
      | ReadClosed \<Rightarrow> Ok (c, r)
      | UdpDone \<Rightarrow> Ok (c, r)
      | _ \<Rightarrow> Remote_Start send l turns c r)"

section \<open>The local source\<close>

text \<open>The stop channel has no buffer, so that a send on it waits for \<open>Start\<close> to take the value; the flag
  returned with an operation says whether it sends.\<close>

record 't Local =
  lo_tail :: "'t option"
  lo_filePath :: string

record ('t, 'w) tail_lib =
  tl_TailFile :: "string \<Rightarrow> 'w \<Rightarrow> 't result \<times> 'w"   \<comment> \<open>from the end of the file, following and reopening it\<close>
  tl_Filename :: "'t \<Rightarrow> string"
  tl_Stop :: "'t \<Rightarrow> 'w \<Rightarrow> 'w"

definition NewLocal :: "string \<Rightarrow> 't Local" where
  "NewLocal filePath = \<lparr>lo_tail = None, lo_filePath = filePath\<rparr>"

definition Local_Close :: "'t Local \<Rightarrow> bool" where
  "Local_Close l \<longleftrightarrow> lo_tail l \<noteq> None"

definition Local_Open ::
  "('t, 'w) tail_lib \<Rightarrow> 't Local \<Rightarrow> 'w \<Rightarrow> (go_error option \<times> bool) \<times> 't Local \<times> 'w" where
  "Local_Open T l w =
     (if \<exists>t. lo_tail l = Some t \<and> tl_Filename T t = lo_filePath l then ((None, False), l, w)
      else case tl_TailFile T (lo_filePath l) w of
             (Inl e, w) \<Rightarrow> ((Some (errors_Join e [ErrOpen]), False), l, w)
           | (Inr tailFile, w) \<Rightarrow> ((None, lo_tail l \<noteq> None), l\<lparr>lo_tail := Some tailFile\<rparr>, w))"

text \<open>A closed channel of lines gives \<open>nil\<close>, which the loop skips.\<close>

datatype (plugins only: code size) local_turn = LocalDone | LocalStop | LocalLine time "string option"

fun local_loop ::
  "'r receiver_fun \<Rightarrow> ('t, 'w) tail_lib \<Rightarrow> 't \<Rightarrow> local_turn list \<Rightarrow> 'r \<Rightarrow> 'w \<Rightarrow> 'r \<times> 'w" where
  "local_loop send T t [] r w = (r, w)"
| "local_loop send T t (turn # turns) r w =
     (case turn of
        LocalDone \<Rightarrow> (r, tl_Stop T t w)
      | LocalStop \<Rightarrow> (r, tl_Stop T t w)
      | LocalLine now msg \<Rightarrow>
          local_loop send T t turns (case msg of None \<Rightarrow> r | Some text \<Rightarrow> send now [] text r) w)"

definition Local_Start ::
  "'r receiver_fun \<Rightarrow> ('t, 'w) tail_lib \<Rightarrow> 't Local \<Rightarrow> local_turn list \<Rightarrow> 'r \<Rightarrow> 'w \<Rightarrow> ('r \<times> 'w) outcome" where
  "Local_Start send T l turns r w =
     (case lo_tail l of None \<Rightarrow> Panic | Some t \<Rightarrow> Ok (local_loop send T t turns r w))"

section \<open>The debug source\<close>

text \<open>The file is its content, \<open>None\<close> where it cannot be opened.\<close>

record Debug =
  dg_file :: "string option"
  dg_logPath :: string

definition NewDebug :: "string \<Rightarrow> Debug" where
  "NewDebug logPath = \<lparr>dg_file = None, dg_logPath = logPath\<rparr>"

definition Debug_Open :: "(string \<Rightarrow> string result) \<Rightarrow> Debug \<Rightarrow> go_error option \<times> Debug" where
  "Debug_Open os_Open c =
     (case os_Open (dg_logPath c) of
        Inl e \<Rightarrow> (Some (errors_Join e [ErrOpen]), c)
      | Inr content \<Rightarrow> (None, c\<lparr>dg_file := Some content\<rparr>))"

definition Debug_Close :: "go_error option \<Rightarrow> Debug \<Rightarrow> go_error option" where
  "Debug_Close file_Close c =
     (case dg_file c of
        None \<Rightarrow> None
      | Some _ \<Rightarrow> (case file_Close of None \<Rightarrow> None | Some e \<Rightarrow> Some (errors_Join e [ErrClose])))"

fun debug_loop :: "'r receiver_fun \<Rightarrow> string list \<Rightarrow> time option list \<Rightarrow> 'r \<Rightarrow> 'r" where
  "debug_loop send lines [] r = r"
| "debug_loop send lines (None # turns) r = r"   \<comment> \<open>the context is done\<close>
| "debug_loop send [] (Some now # turns) r = debug_loop send [] turns r"
| "debug_loop send (line # lines) (Some now # turns) r = debug_loop send lines turns (send now [] line r)"

text \<open>A scanner on a nil file has no lines.\<close>

definition Debug_Start :: "'r receiver_fun \<Rightarrow> Debug \<Rightarrow> time option list \<Rightarrow> 'r \<Rightarrow> 'r" where
  "Debug_Start send c turns r =
     debug_loop send (case dg_file c of None \<Rightarrow> [] | Some content \<Rightarrow> scan_lines content) turns r"

section \<open>Packets\<close>

lemma length_udp_buffer [simp]: "length (udp_buffer p) = buffer_size"
  by (simp add: udp_buffer_def)

lemma udp_buffer_nth:
  "i < buffer_size \<Longrightarrow> udp_buffer p ! i = (if i < length p then p ! i else CHR 0x00)"
  by (simp add: udp_buffer_def nth_append)

lemma HasPrefix2: "HasPrefix (drop i s) [a, b] \<longleftrightarrow> Suc i < length s \<and> s ! i = a \<and> s ! Suc i = b"
proof (cases "Suc i < length s")
  case True
  then have "drop i s = s ! i # s ! Suc i # drop (Suc (Suc i)) s"
    by (simp add: Cons_nth_drop_Suc)
  with True show ?thesis by simp
next
  case False
  then have "length (drop i s) < 2" by simp
  then have "\<not> HasPrefix (drop i s) [a, b]" by (auto simp only: HasPrefix_iff length_append list.size)
  with False show ?thesis by simp
qed

lemma Index_first:
  assumes "CHR ''L'' \<notin> set a"
  shows "Index (a @ ''L '' @ b) ''L '' = Some (length a)"
  using assms by (induction a) (auto simp: Index.simps [of "_ # _"])

text \<open>The marker is never found in the padding.\<close>

lemma marker_in_payload:
  assumes "Index (udp_buffer p) ''L '' = Some i"
  shows "i + 2 \<le> min buffer_size (length p)"
proof -
  have "HasPrefix (drop i (udp_buffer p)) ''L ''" using Index_SomeD [OF assms] by (simp add: HasPrefix_def)
  then have "Suc i < buffer_size" "udp_buffer p ! Suc i = CHR '' ''" by (simp_all only: HasPrefix2 length_udp_buffer)
  then show ?thesis by (auto simp: udp_buffer_nth split: if_splits)
qed

lemma substring_Panic: "substring s a b = Panic \<longleftrightarrow> \<not> (a \<le> b \<and> b \<le> length s)"
  by (simp add: substring_def)

lemma secure_packet_Panic:
  "secure_packet send l now (udp_buffer p) (min buffer_size (length p)) c r = Panic \<longleftrightarrow>
     (\<exists>i < 5. Index (udp_buffer p) ''L '' = Some i)"
proof (cases "Index (udp_buffer p) ''L ''")
  case (Some i)
  from marker_in_payload [OF Some] have "substring (udp_buffer p) i (min buffer_size (length p)) \<noteq> Panic"
    "i \<le> buffer_size" by (simp_all add: substring_def)
  with Some show ?thesis
    by (cases "substring (udp_buffer p) i (min buffer_size (length p))")
      (auto simp: secure_packet_def substring_def split: option.splits if_splits)
qed (simp add: secure_packet_def)

text \<open>C33: a datagram crashes the reader of remote logs exactly when it has the type of a packet with a secret and
  the text \<open>L \<close> starts before the place of the secret. Nothing else in a datagram, of any length, does.\<close>

theorem Remote_packet_panics:
  "Remote_packet send l now payload c r = Panic \<longleftrightarrow>
     4 < length payload \<and> payload ! 4 = s2aLogString2 \<and> (\<exists>i < 5. HasPrefix (drop i payload) ''L '')"
proof -
  let ?b = "udp_buffer payload"
  have four: "?b ! 4 = s2aLogString2 \<longleftrightarrow> 4 < length payload \<and> payload ! 4 = s2aLogString2"
    by (simp add: udp_buffer_nth buffer_size_def s2aLogString2_def)
  have "(\<exists>i < 5. Index ?b ''L '' = Some i) \<longleftrightarrow> (\<exists>i < 5. HasPrefix (drop i ?b) ''L '')"
  proof
    assume "\<exists>i < 5. Index ?b ''L '' = Some i"
    then show "\<exists>i < 5. HasPrefix (drop i ?b) ''L ''" by (auto simp only: HasPrefix_def dest!: Index_SomeD)
  next
    assume "\<exists>i < 5. HasPrefix (drop i ?b) ''L ''"
    then obtain i where i: "i < 5" "HasPrefix (drop i ?b) ''L ''" by blast
    then have "i < Suc (length ?b)" by (simp add: buffer_size_def)
    with i(2) obtain k where k: "Index ?b ''L '' = Some k" using Index_None_iff by (metis option.exhaust)
    with i Index_SomeD [OF k] have "k \<le> i" by (meson leI)
    with i(1) k show "\<exists>i < 5. Index ?b ''L '' = Some i" by auto
  qed
  moreover have "HasPrefix (drop i ?b) ''L '' \<longleftrightarrow> HasPrefix (drop i payload) ''L ''" if "i < 5" for i
    using that by (auto simp only: HasPrefix2 length_udp_buffer udp_buffer_nth buffer_size_def split: if_splits)
  ultimately have "(\<exists>i < 5. Index ?b ''L '' = Some i) \<longleftrightarrow> (\<exists>i < 5. HasPrefix (drop i payload) ''L '')" by metis
  moreover have "Remote_packet send l now payload c r = Panic \<longleftrightarrow>
      ?b ! 4 = s2aLogString2 \<and> (\<exists>i < 5. Index ?b ''L '' = Some i)"
    unfolding Remote_packet_def Let_def
    by (simp add: s2aLogString_def s2aLogString2_def flip: secure_packet_Panic [where send = send and l = l and now = now and c = c and r = r])
  ultimately show ?thesis using four by simp
qed

text \<open>The datagram a server sends for a log line, with its secret.\<close>

definition log_packet :: "int \<Rightarrow> string \<Rightarrow> string" where
  "log_packet secret text = replicate 4 (CHR 0xFF) @ s2aLogString2 # Itoa secret @ ''L '' @ text"

text \<open>A datagram with a 32-bit secret that fits the buffer reaches the receiver as the line it carries, under
  the host of the secret, and is counted for the secret; one with an unknown secret does nothing.\<close>

theorem Remote_packet_secret:
  assumes "- (2 ^ 31) \<le> secret" "secret < 2 ^ 31" "length (log_packet secret text) \<le> buffer_size"
  shows "Remote_packet send l now (log_packet secret text) c r =
     (case rm_ServerHostMap l secret of
        None \<Rightarrow> Ok (c, r)
      | Some hostPort \<Rightarrow> Ok (count_message secret c, send now hostPort (TrimSpace (''L '' @ text)) r))"
proof -
  let ?p = "log_packet secret text" and ?a = "replicate 4 (CHR 0xFF) @ s2aLogString2 # Itoa secret"
  let ?z = "replicate (buffer_size - length ?p) (CHR 0x00)"
  have b: "udp_buffer ?p = ?p @ ?z" "min buffer_size (length ?p) = length ?p"
    using assms(3) by (simp_all add: udp_buffer_def)
  have p: "?p @ ?z = ?a @ ''L '' @ text @ ?z" by (simp add: log_packet_def)
  have "CHR ''L'' \<notin> set (Itoa secret)" by (auto simp: is_digit_def dest: Itoa_chars)
  then have "CHR ''L'' \<notin> set ?a" by (simp add: s2aLogString2_def)
  from Index_first [OF this] have i: "Index (?p @ ?z) ''L '' = Some (length ?a)" unfolding p .
  have d: "substring (?p @ ?z) 5 (length ?a) = Ok (Itoa secret)"
    unfolding p by (simp add: substring_def numeral_eq_Suc)
  have n: "ParseInt 32 (Itoa secret) = Some secret" using assms(1,2) by (intro ParseInt_Itoa) simp_all
  have t: "substring (?p @ ?z) (length ?a) (length ?p) = Ok (''L '' @ text)"
    unfolding substring_def by (simp add: log_packet_def)
  have "(?p @ ?z) ! 4 = s2aLogString2" unfolding p by (simp add: nth_append)
  moreover have "s2aLogString2 \<noteq> s2aLogString" by (simp add: s2aLogString_def s2aLogString2_def)
  ultimately have "Remote_packet send l now ?p c r = secure_packet send l now (?p @ ?z) (length ?p) c r"
    unfolding Remote_packet_def Let_def b by simp
  also have "\<dots> = (case rm_ServerHostMap l secret of
        None \<Rightarrow> Ok (c, r)
      | Some hostPort \<Rightarrow> Ok (count_message secret c, send now hostPort (TrimSpace (''L '' @ text)) r))"
    unfolding secure_packet_def by (simp only: i d n t option.case outcome_bind.simps)
  finally show ?thesis .
qed

theorem Remote_packet_secret_witness:
  "Remote_packet (\<lambda>now h l r. (h, l) # r) \<lparr>rm_udpAddr = None, rm_conn = None, rm_secret = 0, rm_listenAddress = ''x'',
      rm_ServerHostMap = [7 \<mapsto> ''a:1'']\<rparr> 0 (log_packet 7 ''hi'') new_counters [] =
     Ok (count_message 7 new_counters, [(''a:1'', ''L hi'')])"
proof -
  have "length (log_packet 7 ''hi'') \<le> buffer_size"
    by (simp add: log_packet_def buffer_size_def Itoa_def show_pos.simps)
  moreover have "TrimSpace ''L hi'' = ''L hi''" by (rule TrimSpace_id) (simp add: graph_ascii_def)
  ultimately show ?thesis by (simp add: Remote_packet_secret)
qed

section \<open>Hosts a source does not know\<close>

context receiver
begin

lemma local_loop_view:
  "h \<noteq> [] \<Longrightarrow> view h (fst (local_loop send T t turns r w)) = view h r"
  by (induction turns arbitrary: r) (auto simp: other_host split: local_turn.split option.split)

lemma debug_loop_view: "h \<noteq> [] \<Longrightarrow> view h (debug_loop send lines turns r) = view h r"
proof (induction turns arbitrary: lines r)
  case (Cons turn turns)
  then show ?case by (cases turn; cases lines) (simp_all add: other_host)
qed simp

lemma packet_view:
  assumes "h \<noteq> []" "h \<notin> ran (rm_ServerHostMap l)" "Remote_packet send l now payload c r = Ok (c', r')"
  shows "view h r' = view h r"
proof -
  have known: "rm_ServerHostMap l secret = Some hostPort \<Longrightarrow> h \<noteq> hostPort" for secret hostPort
    using assms(2) by (auto simp: ran_def)
  from assms(1,3) show ?thesis
    by (auto simp: Remote_packet_def insecure_packet_def secure_packet_def Let_def outcome_bind_Ok_iff
        split: if_splits option.splits intro!: other_host dest: known)
qed

lemma Remote_Start_view:
  assumes "h \<noteq> []" "h \<notin> ran (rm_ServerHostMap l)" "Remote_Start send l turns c r = Ok (c', r')"
  shows "view h r' = view h r"
  using assms(3)
proof (induction turns arbitrary: c r)
  case (Cons turn turns)
  show ?case
  proof (cases turn)
    case (Packet now payload)
    with Cons.prems obtain c1 r1 where "Remote_packet send l now payload c r = Ok (c1, r1)"
      "Remote_Start send l turns c1 r1 = Ok (c', r')" by (auto simp: outcome_bind_Ok_iff)
    with Cons.IH packet_view [OF assms(1,2)] show ?thesis by metis
  qed (use Cons in auto)
qed simp

end

end
