(* ===== verification/Manager.thy ===== *)
theory Manager
  imports Server_Run Console
begin

text \<open>
  internal/state/manager.go: the servers and the source of log lines the program is configured with. The
  channels \<open>newServerState\<close> makes are numbered: the server at index \<open>i\<close> has the channels \<open>2 * i\<close> (its
  black box) and \<open>2 * i + 1\<close> (its own).
\<close>

datatype ('t, 'a, 'c) source = SrcLocal "'t Local" | SrcRemote "('a, 'c) Remote"

record 'sid serverMetaUpdate =
  mu_logAddress :: int
  mu_steamID :: 'sid
  mu_profile :: MetaProfile

record ('sid, 'f, 't, 'a, 'c) Manager =
  mg_serverStates :: "('sid, 'f) serverState list"
  mg_logSource :: "('t, 'a, 'c) source"
  mg_metaInFlight :: bool
  mg_config :: "'sid Config"

section \<open>Construction\<close>

fun new_servers ::
  "'sid steamid_pkg \<Rightarrow> 'f \<Rightarrow> 'sid Config \<Rightarrow> ServerConfig list \<Rightarrow> nat \<Rightarrow> Router \<Rightarrow>
     ('sid, 'f) serverState list \<times> Router" where
  "new_servers L z conf [] ch router = ([], router)"
| "new_servers L z conf (server # servers) ch router =
     (let (s, router) = newServerState L z conf server ch (Suc ch) router;
          (ss, router) = new_servers L z conf servers (Suc (Suc ch)) router
      in (s # ss, router))"

definition ServerHostMap :: "ServerConfig list \<Rightarrow> (int \<rightharpoonup> string)" where
  "ServerHostMap servers = fold (\<lambda>server m. m(sc_LogSecret server \<mapsto> sc_Address server)) servers Map.empty"

definition NewManager ::
  "'sid steamid_pkg \<Rightarrow> 'f \<Rightarrow> Router \<Rightarrow> 'sid Config \<Rightarrow> ('sid, 'f, 't, 'a, 'c) Manager result \<times> Router" where
  "NewManager L z router conf =
     (let (sources, servers, router) =
        (if cf_ServerModeEnabled conf then
           (let (servers, router) = new_servers L z conf (cf_Servers conf) 0 router
            in (map_sum id SrcRemote
                  (NewRemote \<lparr>op_ListenAddress = cf_ServerBindAddress conf,
                     op_ServerHostMap = ServerHostMap (cf_Servers conf)\<rparr>), servers, router))
         else
           (let (servers, router) = new_servers L z conf [cf_Client conf] 0 router
            in (Inr (SrcLocal (NewLocal (cf_ConsoleLogPath conf))), servers, router)))
      in (case sources of
            Inl e \<Rightarrow> Inl e
          | Inr source \<Rightarrow>
              if servers = [] then Inl [errNoServersFound]
              else Inr \<lparr>mg_serverStates = servers, mg_logSource = source, mg_metaInFlight = False,
                        mg_config = conf\<rparr>, router))"

section \<open>Operations\<close>

text \<open>The clock gives the time at which each server is read.\<close>

definition Snapshots ::
  "(nat \<Rightarrow> time) \<Rightarrow> ('sid, 'f, 't, 'a, 'c) Manager \<Rightarrow> ('sid, 'f) Snapshot list" where
  "Snapshots clock m =
     map (\<lambda>(i, s). sv_Snapshot (clock i) s) (enumerate 0 (mg_serverStates m))"

text \<open>The servers are closed concurrently, each over its own connection; \<open>order\<close> is the order in which they
  get to it. Errors are only logged.\<close>

fun close_all :: "('c, 'w) rcon_lib \<Rightarrow> ('sid, 'f) serverState list \<Rightarrow> 'w \<Rightarrow> (go_error option list \<times> 'w) option" where
  "close_all R [] w = Some ([], w)"
| "close_all R (s # order) w =
     sv_close R s w \<bind> (\<lambda>(err, w). close_all R order w \<bind> (\<lambda>(errs, w). Some (err # errs, w)))"

definition Manager_Close ::
  "('c1, 'w) rcon_lib \<Rightarrow> ('sid, 'f, 't, 'a, 'c) Manager \<Rightarrow> ('sid, 'f) serverState list \<Rightarrow> 'w \<Rightarrow> 'w option" where
  "Manager_Close R m order w =
     (if mset order = mset (mg_serverStates m) then map_option snd (close_all R order w) else None)"

text \<open>Opening and starting the source, through the interface \<open>console.Source\<close>. The flag says whether a
  signal is sent on the stop channel.\<close>

definition source_Open ::
  "('a, 'c, 'w) net_lib \<Rightarrow> ('t, 'w) tail_lib \<Rightarrow> ('t, 'a, 'c) source \<Rightarrow> 'w \<Rightarrow>
     (go_error option \<times> bool) \<times> ('t, 'a, 'c) source \<times> 'w" where
  "source_Open N T source w =
     (case source of
        SrcLocal l \<Rightarrow> (let (res, l, w) = Local_Open T l w in (res, SrcLocal l, w))
      | SrcRemote l \<Rightarrow> (let (err, l, w) = Remote_Open N l w in ((err, False), SrcRemote l, w)))"

datatype (plugins only: code size) source_turns = LocalTurns "local_turn list" | UdpTurns "udp_turn list"

definition source_Start ::
  "'r receiver_fun \<Rightarrow> ('t, 'w) tail_lib \<Rightarrow> ('t, 'a, 'c) source \<Rightarrow> source_turns \<Rightarrow> 'r \<Rightarrow> 'w \<Rightarrow> ('r \<times> 'w) outcome" where
  "source_Start send T source turns r w =
     (case (source, turns) of
        (SrcLocal l, LocalTurns ts) \<Rightarrow> Local_Start send T l ts r w
      | (SrcRemote l, UdpTurns ts) \<Rightarrow> outcome_bind (Remote_Start send l ts new_counters r) (\<lambda>(_, r). Ok (r, w))
      | _ \<Rightarrow> Ok (r, w))"

definition Manager_Start ::
  "'r receiver_fun \<Rightarrow> ('a, 'c, 'w) net_lib \<Rightarrow> ('t, 'w) tail_lib \<Rightarrow> ('sid, 'f, 't, 'a, 'c) Manager \<Rightarrow> source_turns \<Rightarrow>
     'r \<Rightarrow> 'w \<Rightarrow> (go_error option \<times> ('sid, 'f, 't, 'a, 'c) Manager \<times> 'r \<times> 'w) outcome" where
  "Manager_Start send N T m turns r w =
     (let ((err, _), source, w) = source_Open N T (mg_logSource m) w;
          m = m\<lparr>mg_logSource := source\<rparr>
      in case err of
           Some e \<Rightarrow> Ok (Some e, m, r, w)
         | None \<Rightarrow> outcome_bind (source_Start send T source turns r w) (\<lambda>(r, w). Ok (None, m, r, w)))"

text \<open>The queue of profile updates: the ticker only logs and empties it.\<close>

datatype (plugins only: code size) 'sid meta_turn = MetaTick | MetaUpdate "'sid serverMetaUpdate" | MetaDone

fun metaUpdater :: "'sid meta_turn list \<Rightarrow> 'sid serverMetaUpdate list \<Rightarrow> 'sid serverMetaUpdate list" where
  "metaUpdater [] queue = queue"
| "metaUpdater (turn # turns) queue =
     (case turn of
        MetaTick \<Rightarrow> metaUpdater turns []
      | MetaUpdate u \<Rightarrow> metaUpdater turns (queue @ [u])
      | MetaDone \<Rightarrow> queue)"

text \<open>The flag is set on entry and cleared on return; everything in between is commented out.\<close>

definition updateMetaProfile :: "('sid, 'f, 't, 'a, 'c) Manager \<Rightarrow> ('sid, 'f, 't, 'a, 'c) Manager" where
  "updateMetaProfile m = (m\<lparr>mg_metaInFlight := True\<rparr>)\<lparr>mg_metaInFlight := False\<rparr>"

text \<open>A dump tick of every server at once: the servers share nothing, so each makes a tick of its own.\<close>

definition server_tick ::
  "'sid steamid_pkg \<Rightarrow> 'sid bd_Fetcher \<Rightarrow> ('sid, 'f) serverState \<Rightarrow> ('sid, 'f) serverState \<Rightarrow> bool" where
  "server_tick L B s s' \<longleftrightarrow> server_runs L B (s, BdStart, DpStart) (s', BdDone, DpDone)"

definition Manager_onDumpTick ::
  "'sid steamid_pkg \<Rightarrow> 'sid bd_Fetcher \<Rightarrow> ('sid, 'f, 't, 'a, 'c) Manager \<Rightarrow> ('sid, 'f, 't, 'a, 'c) Manager \<Rightarrow> bool" where
  "Manager_onDumpTick L B m m' \<longleftrightarrow>
     (\<exists>ss. list_all2 (server_tick L B) (mg_serverStates m) ss \<and> m' = m\<lparr>mg_serverStates := ss\<rparr>)"

section \<open>Routing\<close>

text \<open>The channels of the servers at an address.\<close>

fun address_channels :: "ServerConfig list \<Rightarrow> nat \<Rightarrow> string \<Rightarrow> nat list" where
  "address_channels [] ch hp = []"
| "address_channels (s # ss) ch hp =
     (if sc_Address s = hp then [ch, Suc ch] else []) @ address_channels ss (Suc (Suc ch)) hp"

lemma address_channels_none: "hp \<notin> sc_Address ` set ss \<Longrightarrow> address_channels ss ch hp = []"
  by (induction ss arbitrary: ch) auto

lemma new_servers_Cons:
  assumes "sc_Address s \<noteq> []"
  shows "snd (new_servers L z conf (s # ss) ch r) =
     snd (new_servers L z conf ss (Suc (Suc ch)) (listen_any (sc_Address s) (Suc ch) (listen_any (sc_Address s) ch r)))"
  using assms by (simp add: newServerState_def Let_def split: prod.split)

lemma new_servers_router:
  assumes "\<forall>s \<in> set servers. sc_Address s \<noteq> []"
  shows "type_handlers (snd (new_servers L z conf servers ch r)) hp ty = type_handlers r hp ty \<and>
     ro_readersAll (snd (new_servers L z conf servers ch r)) = ro_readersAll r \<and>
     any_handlers (snd (new_servers L z conf servers ch r)) hp = any_handlers r hp @ address_channels servers ch hp"
  using assms
proof (induction servers arbitrary: ch r)
  case Nil
  show ?case by simp
next
  case (Cons s ss)
  then show ?case
    by (simp add: new_servers_Cons any_handlers_listen_any del: new_servers.simps)
qed

lemma new_servers_states:
  "map sv_server (fst (new_servers L z conf servers ch r)) = servers"
  "map sv_incomingEvents (fst (new_servers L z conf servers ch r)) = map (\<lambda>i. Suc (ch + 2 * i)) [0..<length servers]"
  "length (fst (new_servers L z conf servers ch r)) = length servers"
proof (induction servers arbitrary: ch r)
  case (Cons s ss)
  { case 1 show ?case using Cons.IH(1) by (simp add: case_prod_beta Let_def newServerState_def)
  next
    case 2
    have "map (\<lambda>i. Suc (ch + 2 * i)) [0..<length (s # ss)] = Suc ch # map (\<lambda>i. Suc (Suc (Suc ch) + 2 * i)) [0..<length ss]"
      by (simp add: upt_conv_Cons map_Suc_upt [symmetric] del: upt_Suc)
    then show ?case using Cons.IH(2) by (simp add: case_prod_beta Let_def newServerState_def del: upt_Suc)
  next
    case 3 show ?case using Cons.IH(3) by (simp add: case_prod_beta Let_def) }
qed simp_all

lemma ServerHostMap_lookup:
  assumes "distinct (map sc_LogSecret servers)" "s \<in> set servers"
  shows "ServerHostMap servers (sc_LogSecret s) = Some (sc_Address s)"
proof -
  let ?f = "\<lambda>server m. m(sc_LogSecret server \<mapsto> sc_Address server)"
  have "fold ?f servers m (sc_LogSecret s) = Some (sc_Address s)" for m :: "int \<rightharpoonup> string"
    using assms
  proof (induction servers rule: rev_induct)
    case (snoc t ts)
    then have "s \<noteq> t \<Longrightarrow> sc_LogSecret s \<noteq> sc_LogSecret t" by (auto simp: image_iff)
    with snoc show ?case by (cases "s = t") auto
  qed simp
  then show ?thesis by (simp add: ServerHostMap_def)
qed

lemma address_channels_nth:
  assumes "distinct (map sc_Address servers)" "i < length servers"
  shows "address_channels servers ch (sc_Address (servers ! i)) = [ch + 2 * i, Suc (ch + 2 * i)]"
  using assms
proof (induction servers arbitrary: ch i)
  case (Cons s ss)
  show ?case
  proof (cases i)
    case 0
    with Cons.prems show ?thesis by (simp add: address_channels_none)
  next
    case (Suc j)
    with Cons.prems have "sc_Address (ss ! j) \<in> sc_Address ` set ss" by simp
    with Cons.prems have "sc_Address s \<noteq> sc_Address (ss ! j)" by auto
    with Suc Cons.prems Cons.IH [of j "Suc (Suc ch)"] show ?thesis by simp
  qed
qed simp

lemma NewManager_server:
  assumes "cf_ServerModeEnabled conf" "NewManager L z router conf = (Inr m, router')"
  shows "mg_serverStates m = fst (new_servers L z conf (cf_Servers conf) 0 router)"
    "router' = snd (new_servers L z conf (cf_Servers conf) 0 router)"
    "\<exists>l. mg_logSource m = SrcRemote l \<and> rm_ServerHostMap l = ServerHostMap (cf_Servers conf) \<and> rm_conn l = None"
  using assms by (auto simp: NewManager_def NewRemote_def Let_def split: prod.splits if_splits)

lemma NewManager_client:
  assumes "\<not> cf_ServerModeEnabled conf" "NewManager L z router conf = (Inr m, router')"
  shows "mg_serverStates m = fst (new_servers L z conf [cf_Client conf] 0 router)"
    "router' = snd (new_servers L z conf [cf_Client conf] 0 router)"
    "mg_logSource m = SrcLocal (NewLocal (cf_ConsoleLogPath conf))"
  using assms by (auto simp: NewManager_def Let_def simp del: new_servers.simps split: prod.splits if_splits)

text \<open>The errors of \<open>NewManager\<close>: a missing bind address, then a missing server; client mode has none.\<close>

lemma NewManager_errors:
  "fst (NewManager L z router conf :: ('sid, 'f, 't, 'a, 'c) Manager result \<times> Router) = Inl e \<longleftrightarrow>
     cf_ServerModeEnabled conf \<and>
     (if cf_ServerBindAddress conf = [] then e = [ErrConfig] else cf_Servers conf = [] \<and> e = [errNoServersFound])"
proof -
  have "fst (new_servers L z conf servers 0 router) = [] \<longleftrightarrow> servers = []" for servers
    using new_servers_states(3) [of L z conf servers 0 router] by (metis length_0_conv)
  then show ?thesis
    by (auto simp: NewManager_def NewRemote_def Let_def case_prod_beta simp del: new_servers.simps split: if_splits)
qed

lemma NewManager_ok:
  assumes "cf_ServerModeEnabled conf \<longrightarrow> cf_ServerBindAddress conf \<noteq> [] \<and> cf_Servers conf \<noteq> []"
  shows "\<exists>m router'. NewManager L z router conf = (Inr m :: ('sid, 'f, 't, 'a, 'c) Manager result, router')"
proof -
  let ?m = "NewManager L z router conf :: ('sid, 'f, 't, 'a, 'c) Manager result \<times> Router"
  have "fst ?m \<noteq> Inl e" for e using assms by (auto simp: NewManager_errors)
  then obtain m where "fst ?m = Inr m" by (cases "fst ?m") auto
  then show ?thesis by (metis prod.collapse)
qed

lemma NewRouter_recipients:
  "type_handlers NewRouter hp ty = []" "any_handlers NewRouter hp = []" "ro_readersAll NewRouter = []"
  by (simp_all add: type_handlers_def any_handlers_def NewRouter_def)

lemma servers_recipients:
  assumes "\<forall>s \<in> set servers. sc_Address s \<noteq> []"
  shows "recipients (snd (new_servers L z conf servers 0 NewRouter)) hp ty = address_channels servers 0 hp"
  using new_servers_router [OF assms, of L z conf 0 NewRouter hp ty]
  by (simp add: recipients_def NewRouter_recipients)

lemma line_event_fields [simp]:
  "ev_Raw (line_event L now hp line) = line" "ev_HostPort (line_event L now hp line) = hp"
  using parse_loop_ok [of L now line NewParser zero_Event]
  by (auto simp: line_event_def Parse_def zero_Event_def split: prod.splits)

text \<open>C5: in server mode, with servers of different addresses and different log secrets, a datagram with the
  secret of a server arrives as one event at the channels of that server, the black box's and its own,
  when they have room, and at the channels of no other server.\<close>

theorem Manager_routes:
  assumes "cf_ServerModeEnabled conf" "NewManager L z NewRouter conf = (Inr m, router)"
    and "distinct (map sc_LogSecret (cf_Servers conf))" "distinct (map sc_Address (cf_Servers conf))"
    and "\<forall>s \<in> set (cf_Servers conf). sc_Address s \<noteq> []"
    and "i < length (cf_Servers conf)" "secret = sc_LogSecret (cf_Servers conf ! i)"
    and "- (2 ^ 31) \<le> secret" "secret < 2 ^ 31" "length (log_packet secret text) \<le> buffer_size"
    and "has_room (cs (2 * i))" "has_room (cs (Suc (2 * i)))"
  shows "\<exists>l cs' e. mg_logSource m = SrcRemote l \<and>
     Remote_packet (\<lambda>now. Send L now router) l now (log_packet secret text) c cs = Ok (count_message secret c, cs') \<and>
     ev_Raw e = TrimSpace (''L '' @ text) \<and> ev_HostPort e = sc_Address (cf_Servers conf ! i) \<and>
     sv_incomingEvents (mg_serverStates m ! i) = Suc (2 * i) \<and>
     (\<forall>h. ch_buf (cs' h) = ch_buf (cs h) @ (if h \<in> {2 * i, Suc (2 * i)} then [e] else []))"
proof -
  let ?hp = "sc_Address (cf_Servers conf ! i)" and ?line = "TrimSpace (''L '' @ text)"
  let ?e = "line_event L now ?hp ?line" and ?cs = "Send L now router ?hp ?line cs"
  obtain l where l: "mg_logSource m = SrcRemote l" "rm_ServerHostMap l = ServerHostMap (cf_Servers conf)"
    using NewManager_server(3) [OF assms(1,2)] by blast
  have "cf_Servers conf ! i \<in> set (cf_Servers conf)" using assms(6) by simp
  from ServerHostMap_lookup [OF assms(3) this] have host: "rm_ServerHostMap l secret = Some ?hp"
    using l(2) assms(7) by simp
  have pkt: "Remote_packet (\<lambda>now. Send L now router) l now (log_packet secret text) c cs = Ok (count_message secret c, ?cs)"
    using Remote_packet_secret [OF assms(8,9,10), of "\<lambda>now. Send L now router" l now c cs] host by simp
  have "recipients router ?hp ty = [2 * i, Suc (2 * i)]" for ty
    using servers_recipients [OF assms(5), of L z conf ?hp ty] address_channels_nth [OF assms(4,6), of 0]
      NewManager_server(2) [OF assms(1,2)] by simp
  then have "ch_buf (?cs h) = ch_buf (cs h) @ (if h \<in> {2 * i, Suc (2 * i)} then [?e] else [])" for h
    using assms(11,12) by (simp add: Send_recipients offer_def)
  moreover have "sv_incomingEvents (mg_serverStates m ! i) = Suc (2 * i)"
    using new_servers_states(2,3) [of L z conf "cf_Servers conf" 0 NewRouter] assms(6)
      NewManager_server(1) [OF assms(1,2)] nth_map [of i "mg_serverStates m" sv_incomingEvents] by simp
  ultimately show ?thesis using l(1) pkt by (intro exI [of _ l] exI [of _ ?cs] exI [of _ ?e]) simp
qed

text \<open>C34: in client mode no line of the console log reaches the server state or its black box when the client's
  address is configured: the local source sends its lines without a host, the state listens to its address.\<close>

theorem Manager_client_deaf:
  assumes "\<not> cf_ServerModeEnabled conf" "NewManager L z NewRouter conf = (Inr m, router)"
    and "sc_Address (cf_Client conf) \<noteq> []"
    and "Manager_Start (\<lambda>now. Send L now router) N T m (LocalTurns turns) cs w = Ok (err, m', cs', w')"
  shows "cs' 0 = cs 0 \<and> cs' 1 = cs 1 \<and> map sv_incomingEvents (mg_serverStates m) = [1]"
proof -
  let ?hp = "sc_Address (cf_Client conf)"
  have "recipients router hp ty = (if hp = ?hp then [0, 1] else [])" for hp ty
    using servers_recipients [of "[cf_Client conf]" L z conf hp ty] assms(3) NewManager_client(2) [OF assms(1,2)]
    by (simp del: new_servers.simps)
  then have only: "only_for router ?hp 0" "only_for router ?hp 1" by (auto simp: only_for_def split: if_splits)
  obtain err1 b l w1 where op: "Local_Open T (NewLocal (cf_ConsoleLogPath conf)) w = ((err1, b), l, w1)" by (metis prod.exhaust)
  with assms(4) NewManager_client(3) [OF assms(1,2)]
  have "cs' = cs \<or> (\<exists>t. local_loop (\<lambda>now. Send L now router) T t turns cs w1 = (cs', w'))"
    by (auto simp: Manager_Start_def source_Open_def source_Start_def Local_Start_def outcome_bind_Ok_iff Let_def
        split: option.splits)
  then have "host_view router ?hp cs' = host_view router ?hp cs"
    using router.local_loop_view [OF assms(3), of router L T _ turns cs w1] by (metis fst_conv)
  from fun_cong [OF this] have "host_view router ?hp cs' k = host_view router ?hp cs k" for k .
  from this [of 0] this [of 1] only have "cs' 0 = cs 0" "cs' 1 = cs 1" by (simp_all add: host_view_def)
  moreover have "map sv_incomingEvents (mg_serverStates m) = [1]"
    using new_servers_states(2) [of L z conf "[cf_Client conf]" 0 NewRouter] NewManager_client(1) [OF assms(1,2)]
    by (simp del: new_servers.simps)
  ultimately show ?thesis by simp
qed

text \<open>A configuration with two servers for the witnesses.\<close>

definition demo_config :: "int Config" where
  "demo_config = (zero_Config num_sid)\<lparr>cf_ServerModeEnabled := True, cf_ServerBindAddress := ''0.0.0.0:1'',
     cf_Servers := [zero_ServerConfig\<lparr>sc_Address := ''a:1'', sc_LogSecret := 5\<rparr>,
                    zero_ServerConfig\<lparr>sc_Address := ''b:1'', sc_LogSecret := 7\<rparr>]\<rparr>"

lemma has_room_make_chan: "has_room (make_chan (Suc n))"
  by (simp add: has_room_def make_chan_def)

theorem Manager_routes_witness:
  "\<exists>m router l cs'. NewManager num_sid () NewRouter demo_config =
        ((Inr m :: (int, unit, unit, unit, unit) Manager result), router) \<and> mg_logSource m = SrcRemote l \<and>
     Remote_packet (\<lambda>now. Send num_sid now router) l 0 (log_packet 7 ''hi'') new_counters (\<lambda>_. make_chan (Suc 0)) =
        Ok (count_message 7 new_counters, cs') \<and>
     map (\<lambda>h. length (ch_buf (cs' h))) [0, 1, 2, 3] = [0, 0, 1, 1]"
proof -
  obtain m router where m: "NewManager num_sid () NewRouter demo_config =
      ((Inr m :: (int, unit, unit, unit, unit) Manager result), router)"
    using NewManager_ok [of demo_config num_sid "()" NewRouter] by (auto simp: demo_config_def)
  let ?P = "\<lambda>l cs' e. mg_logSource m = SrcRemote l \<and>
     Remote_packet (\<lambda>now. Send num_sid now router) l 0 (log_packet 7 ''hi'') new_counters (\<lambda>_. make_chan (Suc 0)) =
        Ok (count_message 7 new_counters, cs') \<and>
     ev_Raw e = TrimSpace (''L '' @ ''hi'') \<and> ev_HostPort e = sc_Address (cf_Servers demo_config ! 1) \<and>
     sv_incomingEvents (mg_serverStates m ! 1) = Suc (2 * 1) \<and>
     (\<forall>h. ch_buf (cs' h) = ch_buf (make_chan (Suc 0)) @ (if h \<in> {2 * 1, Suc (2 * 1)} then [e] else []))"
  have "\<exists>l cs' e. ?P l cs' e"
  proof (rule Manager_routes [OF _ m])
    show "length (log_packet 7 ''hi'') \<le> buffer_size"
      by (simp add: log_packet_def buffer_size_def Itoa_def show_pos.simps)
  qed (simp_all add: demo_config_def has_room_make_chan)
  then obtain l cs' e where P: "?P l cs' e" by blast
  then have "map (\<lambda>h. length (ch_buf (cs' h))) [0, 1, 2, 3] = [0, 0, 1, 1]" by (simp add: make_chan_def)
  with m P show ?thesis by (intro exI [of _ m] exI [of _ router] exI [of _ l] exI [of _ cs']) (simp only:)
qed

definition demo_tail :: "(string, unit) tail_lib" where
  "demo_tail = \<lparr>tl_TailFile = (\<lambda>p w. (Inr p, w)), tl_Filename = id, tl_Stop = (\<lambda>t w. w)\<rparr>"

definition demo_net :: "(unit, unit, unit) net_lib" where
  "demo_net = \<lparr>nl_ResolveUDPAddr = (\<lambda>_. Inr ()), nl_ListenUDP = (\<lambda>a w. (Inr (), w)), nl_CloseUDP = (\<lambda>c w. (None, w))\<rparr>"

theorem Manager_client_deaf_witness:
  "\<exists>m router cs'. NewManager num_sid () NewRouter ((zero_Config num_sid)\<lparr>cf_Client := zero_ServerConfig\<lparr>sc_Address := ''a:1''\<rparr>\<rparr>) =
        ((Inr m :: (int, unit, string, unit, unit) Manager result), router) \<and>
     Manager_Start (\<lambda>now. Send num_sid now router) demo_net demo_tail m (LocalTurns [LocalLine 0 (Some ''x connected'')])
        (\<lambda>_. make_chan 1) () = Ok (None, m\<lparr>mg_logSource := SrcLocal \<lparr>lo_tail = Some [], lo_filePath = []\<rparr>\<rparr>, cs', ()) \<and>
     cs' 0 = make_chan 1 \<and> cs' 1 = make_chan 1"
proof -
  let ?conf = "(zero_Config num_sid)\<lparr>cf_Client := zero_ServerConfig\<lparr>sc_Address := ''a:1''\<rparr>\<rparr>"
  let ?cs = "\<lambda>_. make_chan 1 :: int Event chan"
  have c: "\<not> cf_ServerModeEnabled ?conf" "cf_ConsoleLogPath ?conf = []" by (simp_all add: zero_Config_def)
  obtain m router where m: "NewManager num_sid () NewRouter ?conf =
      ((Inr m :: (int, unit, string, unit, unit) Manager result), router)"
    using NewManager_ok [of ?conf num_sid "()" NewRouter] c(1) by auto
  obtain cs' where s: "Manager_Start (\<lambda>now. Send num_sid now router) demo_net demo_tail m (LocalTurns [LocalLine 0 (Some ''x connected'')])
        ?cs () = Ok (None, m\<lparr>mg_logSource := SrcLocal \<lparr>lo_tail = Some [], lo_filePath = []\<rparr>\<rparr>, cs', ())"
    using NewManager_client(3) [OF c(1) m] c(2)
    by (simp add: Manager_Start_def source_Open_def source_Start_def Local_Open_def Local_Start_def NewLocal_def
        demo_tail_def Let_def)
  from Manager_client_deaf [OF c(1) m _ s] m s show ?thesis by (intro exI conjI) (assumption | simp)+
qed

end
