(* ===== verification/Network.thy ===== *)
theory Network
  imports Config Meta
begin

text \<open>
  internal/network: the country of a host (geoip), JSON queries and the public address (network.go), and
  the port mapping of the router (upnp). The resolver, the database, the HTTP client and the gateway
  clients are parameters.
\<close>

section \<open>The country of a host\<close>

record Record =
  rc_CountryISOCode :: string
  rc_CountryNames :: "string \<rightharpoonup> string"
  rc_CityNames :: "string \<rightharpoonup> string"

definition zero_Record :: Record where
  "zero_Record = \<lparr>rc_CountryISOCode = [], rc_CountryNames = Map.empty, rc_CityNames = Map.empty\<rparr>"

record 'ip geo_lib =
  gl_ParseAddr :: "string \<Rightarrow> 'ip result"
  gl_LookupHost :: "string \<Rightarrow> string list result"
  gl_Decode :: "'ip \<Rightarrow> Record \<Rightarrow> Record \<times> go_error option"   \<comment> \<open>fills the record it is given\<close>

text \<open>A resolver that succeeds with no address makes the index panic.\<close>

definition lookup_ip :: "'ip geo_lib \<Rightarrow> string \<Rightarrow> 'ip result outcome" where
  "lookup_ip G address =
     (case gl_ParseAddr G address of
        Inr ip \<Rightarrow> Ok (Inr ip)
      | Inl _ \<Rightarrow>
          (case gl_LookupHost G address of
             Inl e \<Rightarrow> Ok (Inl (errors_Join e [ErrInvalidIP]))
           | Inr [] \<Rightarrow> Panic
           | Inr (a # _) \<Rightarrow>
               (case gl_ParseAddr G a of
                  Inl e \<Rightarrow> Ok (Inl (errors_Join e [ErrInvalidIP]))
                | Inr ip \<Rightarrow> Ok (Inr ip))))"

definition Lookup :: "'ip geo_lib \<Rightarrow> string \<Rightarrow> (Record \<times> go_error option) outcome" where
  "Lookup G address =
     outcome_bind (lookup_ip G address) (\<lambda>res.
       case res of
         Inl e \<Rightarrow> Ok (zero_Record, Some e)
       | Inr ip \<Rightarrow>
           (case gl_Decode G ip zero_Record of
              (record, Some e) \<Rightarrow> Ok (record, Some (errors_Join e [ErrLookup]))
            | (record, None) \<Rightarrow> Ok (record, None)))"

lemma Lookup_error:
  assumes "Lookup G address = Ok (record, Some e)"
  shows "errors_Is e ErrInvalidIP \<or> errors_Is e ErrLookup"
  using assms
  by (auto simp: Lookup_def lookup_ip_def split: sum.splits list.splits prod.splits option.splits)

section \<open>JSON queries\<close>

definition ErrQueryIP :: sentinel where
  "ErrQueryIP = ErrForeign ''failed to query ip''"

definition FetchJSON ::
  "(string \<Rightarrow> string result) \<Rightarrow> (string \<Rightarrow> 'a result) \<Rightarrow> string \<Rightarrow> 'a result" where
  "FetchJSON get decode url =
     (case get url of
        Inl e \<Rightarrow> Inl (errors_Join e [ErrQueryIP])
      | Inr body \<Rightarrow>
          (case UnmarshalJSON decode body of
             Inl e \<Rightarrow> Inl (errors_Join e [ErrQueryIP])
           | Inr info \<Rightarrow> Inr info))"

record 'f IPInfo =
  ii_IP :: string
  ii_ASN :: string
  ii_Org :: string
  ii_ISP :: string
  ii_Country :: string
  ii_CountryCode :: string
  ii_City :: string
  ii_State :: string
  ii_Zipcode :: string
  ii_Latitude :: 'f
  ii_Longitude :: 'f
  ii_Timezone :: string
  ii_Localtime :: string
  ii_IsMobile :: bool
  ii_IsVPN :: bool
  ii_IsTor :: bool
  ii_IsProxy :: bool
  ii_IsDatacenter :: bool
  ii_RiskScore :: int

definition FetchIPInfo :: "(string \<Rightarrow> string result) \<Rightarrow> (string \<Rightarrow> 'f IPInfo result) \<Rightarrow> 'f IPInfo result" where
  "FetchIPInfo get decode = FetchJSON get decode ''https://api.ipquery.io/?format=json''"

lemma FetchJSON_spec:
  "FetchJSON get decode url = Inr v \<longleftrightarrow> (\<exists>body. get url = Inr body \<and> decode body = Inr v)"
  "FetchJSON get decode url = Inl e \<Longrightarrow> errors_Is e ErrQueryIP"
  by (auto simp: FetchJSON_def UnmarshalJSON_def split: sum.splits)

section \<open>Port mapping\<close>

record UPNPManager =
  up_externalPort :: int
  up_internalPort :: int

definition upnp_New :: "int \<Rightarrow> int \<Rightarrow> UPNPManager" where
  "upnp_New externalPort internalPort = \<lparr>up_externalPort = externalPort, up_internalPort = internalPort\<rparr>"

record Mapping =
  ma_RemoteHost :: string
  ma_ExternalPort :: int
  ma_Protocol :: string
  ma_InternalPort :: int
  ma_InternalClient :: string
  ma_Enabled :: bool
  ma_Description :: string
  ma_LeaseDuration :: int

text \<open>The three kinds of gateway clients are discovered concurrently: \<open>gw_order\<close> is the order in which the
  discoveries return, and the first error in it is the one reported.\<close>

datatype gateway = Ip1 | Ip2 | Ppp1

record ('k, 'w) gateway_lib =
  gw_clients :: "gateway \<Rightarrow> 'k list result"
  gw_order :: "gateway list"
  gw_GetExternalIPAddress :: "'k \<Rightarrow> 'w \<Rightarrow> string result \<times> 'w"
  gw_LocalAddr :: "'k \<Rightarrow> string"
  gw_AddPortMapping :: "'k \<Rightarrow> Mapping \<Rightarrow> 'w \<Rightarrow> go_error option \<times> 'w"

fun first_error :: "(gateway \<Rightarrow> 'k list result) \<Rightarrow> gateway list \<Rightarrow> go_error option" where
  "first_error clients [] = None"
| "first_error clients (g # gs) = (case clients g of Inl e \<Rightarrow> Some e | Inr _ \<Rightarrow> first_error clients gs)"

definition tasks_Wait :: "('k, 'w) gateway_lib \<Rightarrow> go_error option" where
  "tasks_Wait G = first_error (gw_clients G) (gw_order G)"

definition found :: "('k, 'w) gateway_lib \<Rightarrow> gateway \<Rightarrow> 'k list" where
  "found G g = (case gw_clients G g of Inl _ \<Rightarrow> [] | Inr ks \<Rightarrow> ks)"

definition findRouterClient :: "('k, 'w) gateway_lib \<Rightarrow> 'k result" where
  "findRouterClient G =
     (case tasks_Wait G of
        Some e \<Rightarrow> Inl e
      | None \<Rightarrow>
          if length (found G Ip2) = 1 then Inr (hd (found G Ip2))
          else if length (found G Ip1) = 1 then Inr (hd (found G Ip1))
          else if length (found G Ppp1) = 1 then Inr (hd (found G Ppp1))
          else Inl [ErrForeign ''multiple or no services found''])"

definition updateMapping :: "('k, 'w) gateway_lib \<Rightarrow> UPNPManager \<Rightarrow> 'w \<Rightarrow> go_error option \<times> 'w" where
  "updateMapping G u w =
     (case findRouterClient G of
        Inl e \<Rightarrow> (Some e, w)
      | Inr client \<Rightarrow>
          (case gw_GetExternalIPAddress G client w of
             (Inl e, w) \<Rightarrow> (Some e, w)
           | (Inr externalIP, w) \<Rightarrow>
               gw_AddPortMapping G client
                 \<lparr>ma_RemoteHost = [], ma_ExternalPort = up_externalPort u, ma_Protocol = ''UDP'',
                  ma_InternalPort = up_internalPort u, ma_InternalClient = gw_LocalAddr G client,
                  ma_Enabled = True, ma_Description = ''tf-tui'', ma_LeaseDuration = 3600\<rparr> w))"

text \<open>The loop: one update at the start and one per tick, with the gateways as they are found at that time;
  errors are only logged.\<close>

fun upnp_loop :: "('k, 'w) gateway_lib option list \<Rightarrow> UPNPManager \<Rightarrow> 'w \<Rightarrow> 'w" where
  "upnp_loop [] u w = w"
| "upnp_loop (None # turns) u w = w"   \<comment> \<open>the context is done\<close>
| "upnp_loop (Some G # turns) u w = upnp_loop turns u (snd (updateMapping G u w))"

definition upnp_Start :: "('k, 'w) gateway_lib \<Rightarrow> ('k, 'w) gateway_lib option list \<Rightarrow> UPNPManager \<Rightarrow> 'w \<Rightarrow> 'w" where
  "upnp_Start G turns u w = upnp_loop turns u (snd (updateMapping G u w))"

lemma tasks_Wait_None:
  assumes "set (gw_order G) = UNIV"
  shows "tasks_Wait (G :: ('k, 'w) gateway_lib) = None \<longleftrightarrow> (\<forall>g. \<exists>ks. gw_clients G g = Inr ks)"
proof -
  have "first_error clients gs = None \<longleftrightarrow> (\<forall>g \<in> set gs. \<exists>ks. clients g = Inr ks)" for clients :: "gateway \<Rightarrow> 'k list result" and gs
    by (induction gs) (auto split: sum.split)
  with assms show ?thesis by (simp add: tasks_Wait_def)
qed

text \<open>A mapping is requested only from a gateway that is the single one of its kind, and for the ports of the
  configuration, both 16-bit numbers.\<close>

lemma findRouterClient_single:
  assumes "findRouterClient G = Inr k" "set (gw_order G) = UNIV"
  shows "\<exists>g. gw_clients G g = Inr [k]"
proof -
  from assms have all: "\<forall>g. \<exists>ks. gw_clients G g = Inr ks"
    by (auto simp: findRouterClient_def tasks_Wait_None [OF assms(2), symmetric] split: option.splits)
  have one: "length (found G g) = 1 \<Longrightarrow> gw_clients G g = Inr [hd (found G g)]" for g
    using all by (metis found_def length_0_conv length_Suc_conv list.sel(1) One_nat_def sum.case(2))
  from assms(1) obtain g where "length (found G g) = 1" "k = hd (found G g)"
    by (auto simp: findRouterClient_def split: option.splits if_splits)
  with one show ?thesis by blast
qed

end
