(* ===== verification/Ui_Data.thy ===== *)
theory Ui_Data
  imports Config Meta Events_Parser
begin

text \<open>
  internal/ui: the data the user interface shows (player.go, server.go, ui.go) and the messages its models
  exchange (messages.go). A \<open>tea.Cmd\<close> is the list of the messages it produces, in the order the program
  delivers them; commands of the widget library, which only move cursors and blink, produce none of these.
  Floating point numbers are a type parameter with the operations of \<open>float_lib\<close>.
\<close>

section \<open>Players\<close>

record 'sid UIPlayer =
  up_SteamID :: 'sid
  up_Name :: string
  up_Ping :: int
  up_Score :: int
  up_Deaths :: int
  up_Connected :: bool
  up_Team :: Team
  up_Alive :: bool
  up_Health :: int
  up_Valid :: bool
  up_UserID :: int
  up_Bans :: "Ban list"
  up_CommunityBanned :: bool
  up_CommunityVisibilityState :: int
  up_CompetitiveTeams :: "LeaguePlayerTeamHistory list"
  up_DaysSinceLastBan :: int
  up_EconomyBan :: string
  up_Friends :: "SteamFriend list"
  up_LogsCount :: int
  up_NumberOfGameBans :: int
  up_NumberOfVacBans :: int
  up_PersonaName :: string
  up_ProfileState :: int
  up_RealName :: string
  up_TimeCreated :: int
  up_Address :: string
  up_Loss :: int
  up_Time :: int

definition zero_UIPlayer :: "'sid steamid_pkg \<Rightarrow> 'sid UIPlayer" where
  "zero_UIPlayer L = \<lparr>up_SteamID = sid_zero L, up_Name = [], up_Ping = 0, up_Score = 0, up_Deaths = 0,
     up_Connected = False, up_Team = 0, up_Alive = False, up_Health = 0, up_Valid = False, up_UserID = 0,
     up_Bans = [], up_CommunityBanned = False, up_CommunityVisibilityState = 0, up_CompetitiveTeams = [],
     up_DaysSinceLastBan = 0, up_EconomyBan = [], up_Friends = [], up_LogsCount = 0,
     up_NumberOfGameBans = 0, up_NumberOfVacBans = 0, up_PersonaName = [], up_ProfileState = 0,
     up_RealName = [], up_TimeCreated = 0, up_Address = [], up_Loss = 0, up_Time = 0\<rparr>"

fun TeamCount :: "'sid UIPlayer list \<Rightarrow> Team \<Rightarrow> int" where
  "TeamCount [] team = 0"
| "TeamCount (player # p) team = (if up_Team player = team then 1 else 0) + TeamCount p team"

text \<open>The collection gets the steam id that was searched for, not the player's.\<close>

definition FindFriends :: "'sid steamid_pkg \<Rightarrow> 'sid UIPlayer list \<Rightarrow> 'sid \<Rightarrow> 'sid list" where
  "FindFriends L p steamID =
     fold (\<lambda>player. fold (\<lambda>friend friends.
         if sf_SteamId friend = sid_String L steamID \<and> steamID \<notin> set friends then friends @ [steamID] else friends)
       (up_Friends player)) p []"

section \<open>Servers\<close>

record 'f float_lib =
  ff_of_int :: "int \<Rightarrow> 'f"
  ff_add :: "'f \<Rightarrow> 'f \<Rightarrow> 'f"
  ff_div :: "'f \<Rightarrow> 'f \<Rightarrow> 'f"
  ff_Compare :: "'f \<Rightarrow> 'f \<Rightarrow> int"     \<comment> \<open>\<open>cmp.Compare\<close>\<close>
  ff_less :: "'f \<Rightarrow> 'f \<Rightarrow> bool"
  ff_IsNaN :: "'f \<Rightarrow> bool"
  ff_format :: "nat \<Rightarrow> 'f \<Rightarrow> string"   \<comment> \<open>with so many digits after the point\<close>

record ('sid, 'f) UIServer =
  us_Hostname :: string
  us_Players :: "'sid UIPlayer list"
  us_Game :: string
  us_Region :: string
  us_Map :: string
  us_Ping :: 'f
  us_Tags :: "string list"
  us_LogSecret :: int

record ('sid, 'f) UISnapshot =
  un_HostPort :: string
  un_Server :: "('sid, 'f) UIServer"
  un_Status :: "('sid, 'f) Status"
  un_PluginsSM :: "GamePlugin list"
  un_PluginsMeta :: "GamePlugin list"
  un_CVars :: CVarList

definition zero_UIServer :: "'f \<Rightarrow> ('sid, 'f) UIServer" where
  "zero_UIServer z = \<lparr>us_Hostname = [], us_Players = [], us_Game = [], us_Region = [], us_Map = [],
     us_Ping = z, us_Tags = [], us_LogSecret = 0\<rparr>"

definition zero_UISnapshot :: "'f \<Rightarrow> ('sid, 'f) UISnapshot" where
  "zero_UISnapshot z = \<lparr>un_HostPort = [], un_Server = zero_UIServer z, un_Status = zero_Status z,
     un_PluginsSM = [], un_PluginsMeta = [], un_CVars = []\<rparr>"

definition status_of :: "('sid, 'f) UISnapshot \<Rightarrow> 'sid extra_Status" where
  "status_of s = ss_Status (un_Status s)"

definition AvgPing :: "'f float_lib \<Rightarrow> ('sid, 'f) UISnapshot \<Rightarrow> 'f" where
  "AvgPing F s =
     (let players = xs_Players (status_of s)
      in if length players = 0 then ff_of_int F 0
         else ff_div F (fold (\<lambda>player pings. ff_add F pings (ff_of_int F (xp_Ping player))) players (ff_of_int F 0))
                (ff_of_int F (int (length players))))"

definition clamp :: "'a::linorder \<Rightarrow> 'a \<Rightarrow> 'a \<Rightarrow> 'a" where
  "clamp v low high =
     (let (low, high) = (if high < low then (high, low) else (low, high)) in min high (max low v))"

text \<open>Go's division by a positive number truncates towards zero.\<close>

definition go_div :: "int \<Rightarrow> int \<Rightarrow> int" where
  "go_div a b = (if a < 0 then - (- a div b) else a div b)"

definition go_mod :: "int \<Rightarrow> int \<Rightarrow> int" where
  "go_mod a b = a - b * go_div a b"

section \<open>Messages\<close>

datatype contentView = viewMain | viewConfig | viewHelp

text \<open>\<open>type tabView int\<close>, with the tabs numbered from 0.\<close>

type_synonym tabView = int

definition tabServers :: tabView where "tabServers = 0"
definition tabPlayers :: tabView where "tabPlayers = 1"
definition tabBans :: tabView where "tabBans = 2"
definition tabBD :: tabView where "tabBD = 3"
definition tabComp :: tabView where "tabComp = 4"
definition tabChat :: tabView where "tabChat = 5"
definition tabConsole :: tabView where "tabConsole = 6"

lemmas tab_defs = tabServers_def tabPlayers_def tabBans_def tabBD_def tabComp_def tabChat_def tabConsole_def

datatype inputZone = zoneServers | zonePlayersRED | zonePlayersBLU | zoneConfig | zoneConsoleInput

datatype direction = up | down | left | right

datatype playerTableCol =
  colUID | colName | colScore | colDeaths | colPing | colMeta | colAddress | colLoss | colTime

text \<open>A mouse message: whether it is the release of the left button, whether it is the wheel, and the marked
  zones the pointer is in.\<close>

datatype (plugins only: code size) mouse = Wheel | Click bool "string list"

datatype (plugins only: code size) ('sid, 'f) msg =
    WindowSizeMsg int int                                \<comment> \<open>height, width\<close>
  | KeyMsg string
  | MouseMsg mouse
  | ViewPortMsg int int int                              \<comment> \<open>height of the content, height, width\<close>
  | SortPlayersMsg playerTableCol bool
  | SelectedPlayerMsg "'sid UIPlayer" string
  | TeamMsg Team
  | ClearStatusMessageMsg
  | StatusMsg string bool
  | ViewMsg contentView
  | TabMsg tabView
  | ConfigMsg "'sid Config"
  | SnapshotMsg "('sid, 'f) UISnapshot"
  | SnapshotsMsg "('sid, 'f) UISnapshot list"
  | SelectServerMsg "('sid, 'f) UISnapshot"
  | InputZoneMsg inputZone
  | CVarListMsg string CVarList
  | RCONCommandMsg string string
  | EventMsg "'sid Event"
  | QuitMsg
  | OtherMsg string                                      \<comment> \<open>of the widget library\<close>

type_synonym ('sid, 'f) cmd = "('sid, 'f) msg list"

section \<open>Counting\<close>

lemma TeamCount_length: "TeamCount ps team = int (length (filter (\<lambda>p. up_Team p = team) ps))"
  by (induction ps) simp_all

text \<open>The number of friends in game is never more than one, whoever has the player as a friend.\<close>

lemma FindFriends_at_most_one:
  "FindFriends L ps steamID =
     (if \<exists>p \<in> set ps. \<exists>f \<in> set (up_Friends p). sf_SteamId f = sid_String L steamID then [steamID] else [])"
proof -
  let ?hit = "\<lambda>friend :: SteamFriend. sf_SteamId friend = sid_String L steamID"
  let ?add = "\<lambda>friend friends. if ?hit friend \<and> steamID \<notin> set friends then friends @ [steamID] else friends"
  have found: "fold ?add fs [steamID] = [steamID]" for fs by (induction fs) simp_all
  have "fold ?add fs [] = (if \<exists>f \<in> set fs. ?hit f then [steamID] else [])" for fs
    by (induction fs) (simp_all add: found)
  moreover have "FindFriends L ps steamID = fold ?add (concat (map up_Friends ps)) []"
  proof -
    have "fold (\<lambda>player. fold ?add (up_Friends player)) qs acc = fold ?add (concat (map up_Friends qs)) acc" for qs acc
      by (induction qs arbitrary: acc) simp_all
    then show ?thesis by (simp only: FindFriends_def)
  qed
  ultimately show ?thesis by simp
qed

lemma clamp_bounds: "min low high \<le> clamp v low high \<and> clamp v low high \<le> max low high"
  by (auto simp: clamp_def min_def max_def)

end
