(* ===== verification/Ui_Players.thy ===== *)
theory Ui_Players
  imports Ui_Data Tf
begin

text \<open>
  internal/ui/table_player.go, table_player_data.go and the key map of config.go: the tables of the players of
  a team. \<open>zone.Mark\<close> and \<open>strings.ToLower\<close> are arguments; a mouse message carries the zones it is in.
\<close>

section \<open>Keys\<close>

text \<open>The keys of each binding. A binding without keys (\<open>start\<close>, \<open>stop\<close>) matches nothing.\<close>

record keymap =
  km_quit :: "string list"
  km_config :: "string list"
  km_chat :: "string list"
  km_up :: "string list"
  km_down :: "string list"
  km_left :: "string list"
  km_right :: "string list"
  km_accept :: "string list"
  km_back :: "string list"
  km_prevTab :: "string list"
  km_nextTab :: "string list"
  km_overview :: "string list"
  km_bans :: "string list"
  km_bd :: "string list"
  km_comp :: "string list"
  km_notes :: "string list"
  km_console :: "string list"
  km_help :: "string list"
  km_reset :: "string list"
  km_consoleInput :: "string list"
  km_consoleCancel :: "string list"

definition defaultKeyMap :: keymap where
  "defaultKeyMap = \<lparr>km_quit = [''q'', ''ctrl+c''], km_config = [''E''], km_chat = [''t''],
     km_up = [''up'', ''k''], km_down = [''down'', ''j''], km_left = [''left'', ''h''], km_right = [''right'', ''l''],
     km_accept = [''enter''], km_back = [''esc''], km_prevTab = [''shift tab''], km_nextTab = [''tab''],
     km_overview = [''o''], km_bans = [''b''], km_bd = [''d''], km_comp = [''c''], km_notes = [''n''],
     km_console = [[CHR 0x60]], km_help = [''h'', ''H''], km_reset = [''r''],
     km_consoleInput = [''return''], km_consoleCancel = [''esc'']\<rparr>"

definition Matches :: "string \<Rightarrow> string list \<Rightarrow> bool" where
  "Matches key binding \<longleftrightarrow> key \<in> set binding"

section \<open>Table data\<close>

definition IconBans :: string where "IconBans = [CHR 0xF0, CHR 0x9F, CHR 0x9B, CHR 0x91]"
definition IconVac :: string where "IconVac = [CHR 0xF0, CHR 0x9F, CHR 0x91, CHR 0xAE]"
definition IconComp :: string where "IconComp = [CHR 0xF0, CHR 0x9F, CHR 0x8F, CHR 0x81]"

record 'sid tablePlayerData =
  td_players :: "'sid UIPlayer list"
  td_zoneID :: string
  td_enabledColumns :: "playerTableCol list"
  td_sortColumn :: playerTableCol
  td_asc :: bool
  td_serverMode :: bool

definition defaultLocalColumns :: "playerTableCol list" where
  "defaultLocalColumns = [colMeta, colName, colScore, colDeaths, colPing]"

definition defaultServerColumns :: "playerTableCol list" where
  "defaultServerColumns = [colMeta, colName, colLoss, colPing, colAddress]"

definition newTablePlayerData ::
  "'sid steamid_pkg \<Rightarrow> string \<Rightarrow> bool \<Rightarrow> 'sid UIPlayer list \<Rightarrow> Team \<Rightarrow> playerTableCol list \<Rightarrow> 'sid tablePlayerData" where
  "newTablePlayerData L parentZoneID serverMode playersUpdate team cols =
     \<lparr>td_players = filter (\<lambda>p. sid_Valid L (up_SteamID p) \<and> up_Team p = team) playersUpdate,
      td_zoneID = parentZoneID,
      td_enabledColumns = (if length cols > 0 then cols else if serverMode then defaultServerColumns else defaultLocalColumns),
      td_sortColumn = colScore, td_asc = True, td_serverMode = serverMode\<rparr>"

fun header_of :: "playerTableCol \<Rightarrow> string \<times> string" where
  "header_of colUID = (''uid'', ''UID'')"
| "header_of colName = (''name'', ''Name'')"
| "header_of colScore = (''score'', ''Score'')"
| "header_of colDeaths = (''deaths'', ''Deaths'')"
| "header_of colPing = (''ping'', ''Ping'')"
| "header_of colMeta = (''meta'', ''Meta'')"
| "header_of colAddress = (''address'', ''Address'')"
| "header_of colLoss = (''loss'', ''Loss'')"
| "header_of colTime = (''time'', ''Time'')"

definition player_Headers :: "(string \<Rightarrow> string \<Rightarrow> string) \<Rightarrow> 'sid tablePlayerData \<Rightarrow> string list" where
  "player_Headers mark m =
     map (\<lambda>col. mark (td_zoneID m @ fst (header_of col)) (snd (header_of col))) (td_enabledColumns m)"

definition meta_weight :: "'sid UIPlayer \<Rightarrow> int" where
  "meta_weight p = int_of_uint64 (int (length (up_Bans p)) + up_NumberOfVacBans p)"

definition player_cmp ::
  "(string \<Rightarrow> string) \<Rightarrow> playerTableCol \<Rightarrow> 'sid UIPlayer \<Rightarrow> 'sid UIPlayer \<Rightarrow> int" where
  "player_cmp ToLower column a b =
     (case column of
        colUID \<Rightarrow> cmp_Compare (up_UserID a) (up_UserID b)
      | colName \<Rightarrow> cmp_Compare (ToLower (up_Name a)) (ToLower (up_Name b))
      | colScore \<Rightarrow> cmp_Compare (up_Score a) (up_Score b)
      | colDeaths \<Rightarrow> cmp_Compare (up_Deaths a) (up_Deaths b)
      | colPing \<Rightarrow> cmp_Compare (up_Ping a) (up_Ping b)
      | colAddress \<Rightarrow> cmp_Compare (up_Address a) (up_Address b)
      | colLoss \<Rightarrow> cmp_Compare (up_Loss a) (up_Loss b)
      | colTime \<Rightarrow> cmp_Compare (up_Time a) (up_Time b)
      | colMeta \<Rightarrow> cmp_Compare (meta_weight b) (meta_weight a))"

definition player_Sort ::
  "(string \<Rightarrow> string) \<Rightarrow> playerTableCol \<Rightarrow> bool \<Rightarrow> 'sid tablePlayerData \<Rightarrow> 'sid tablePlayerData" where
  "player_Sort ToLower column asc m =
     (let players = SortStableFunc (player_cmp ToLower column) (td_players m)
      in m\<lparr>td_sortColumn := column, td_asc := asc, td_players := (if asc then rev players else players)\<rparr>)"

definition metaColumn :: "'sid UIPlayer \<Rightarrow> string" where
  "metaColumn player =
     Join '' '' ((if length (up_Bans player) > 0 then [IconBans] else []) @
               (if up_NumberOfVacBans player > 0 then [IconVac] else []) @
               (if length (up_CompetitiveTeams player) > 0 then [IconComp] else []))"

definition player_cell ::
  "'sid steamid_pkg \<Rightarrow> (string \<Rightarrow> string \<Rightarrow> string) \<Rightarrow> string \<Rightarrow> playerTableCol \<Rightarrow> 'sid UIPlayer \<Rightarrow> string" where
  "player_cell L mark zoneID curCol player =
     (case curCol of
        colUID \<Rightarrow> Itoa (up_UserID player)
      | colName \<Rightarrow>
          (let name = up_Name player;
               name = (if name = [] then up_PersonaName player else name);
               name = (if name = [] then sid_String L (up_SteamID player) else name)
           in mark (zoneID @ sid_String L (up_SteamID player)) name)
      | colScore \<Rightarrow> Itoa (up_Score player)
      | colDeaths \<Rightarrow> Itoa (up_Deaths player)
      | colPing \<Rightarrow> Itoa (up_Ping player)
      | colMeta \<Rightarrow> metaColumn player
      | colAddress \<Rightarrow> hd (Split (CHR '':'') (up_Address player))
      | colLoss \<Rightarrow> Itoa (up_Loss player)
      | colTime \<Rightarrow> Itoa (up_Time player))"

definition player_At ::
  "'sid steamid_pkg \<Rightarrow> (string \<Rightarrow> string \<Rightarrow> string) \<Rightarrow> 'sid tablePlayerData \<Rightarrow> nat \<Rightarrow> nat \<Rightarrow> string" where
  "player_At L mark m row col =
     (if col \<ge> length (td_enabledColumns m) then ''oobcol''
      else if row \<ge> length (td_players m) then ''oobplr''
      else player_cell L mark (td_zoneID m) (td_enabledColumns m ! col) (td_players m ! row))"

definition player_Rows :: "'sid tablePlayerData \<Rightarrow> int" where
  "player_Rows m = int (length (td_players m))"

definition player_Columns :: "'sid tablePlayerData \<Rightarrow> int" where
  "player_Columns m = int (length (td_enabledColumns m))"

section \<open>The table\<close>

record 'sid tablePlayerModel =
  tp_id :: string
  tp_serverMode :: bool
  tp_tableWidth :: int
  tp_data :: "'sid tablePlayerData"
  tp_team :: Team
  tp_selectedTeam :: Team
  tp_selectedSteamID :: 'sid
  tp_height :: int
  tp_width :: int
  tp_selfSteamID :: 'sid
  tp_inputActive :: bool

definition newPlayerTableModel ::
  "'sid steamid_pkg \<Rightarrow> string \<Rightarrow> Team \<Rightarrow> 'sid \<Rightarrow> bool \<Rightarrow> 'sid tablePlayerModel" where
  "newPlayerTableModel L zoneID team selfSID serverMode =
     \<lparr>tp_id = zoneID, tp_serverMode = serverMode, tp_tableWidth = 0,
      tp_data = newTablePlayerData L zoneID serverMode [] team [], tp_team = team, tp_selectedTeam = RED,
      tp_selectedSteamID = sid_zero L, tp_height = 0, tp_width = 0, tp_selfSteamID = selfSID,
      tp_inputActive = False\<rparr>"

definition currentRow :: "'sid tablePlayerModel \<Rightarrow> nat option" where
  "currentRow m = first_index (\<lambda>p. up_SteamID p = tp_selectedSteamID m) (td_players (tp_data m))"

text \<open>\<open>-1\<close> where no row is selected.\<close>

definition currentRowIndex :: "'sid tablePlayerModel \<Rightarrow> int" where
  "currentRowIndex m = (case currentRow m of None \<Rightarrow> -1 | Some i \<Rightarrow> int i)"

definition currentPlayer :: "'sid tablePlayerModel \<Rightarrow> 'sid UIPlayer option" where
  "currentPlayer m =
     (if tp_selectedTeam m \<noteq> tp_team m then None
      else first_such (\<lambda>p. up_SteamID p = tp_selectedSteamID m) (td_players (tp_data m)))"

definition select_row :: "int \<Rightarrow> 'sid tablePlayerModel \<Rightarrow> 'sid tablePlayerModel" where
  "select_row i m = m\<lparr>tp_selectedSteamID := up_SteamID (td_players (tp_data m) ! nat i)\<rparr>"

definition moveSelection ::
  "direction \<Rightarrow> 'sid tablePlayerModel \<Rightarrow> 'sid tablePlayerModel \<times> ('sid, 'f) cmd" where
  "moveSelection dir m =
     (let row = currentRowIndex m; n = int (length (td_players (tp_data m)));
          after = (\<lambda>m. (m, if tp_selectedTeam m = tp_team m then
                             (case currentPlayer m of None \<Rightarrow> [] | Some player \<Rightarrow> [SelectedPlayerMsg player []])
                           else []))
      in case dir of
           up \<Rightarrow>
             after (if row < 0 \<and> n > 0 then select_row (n - 1) m
                    else if row = 0 then m
                    else if row - 1 \<ge> 0 \<and> max 0 (n - 1) > row - 1 then select_row (row - 1) m
                    else m)
         | down \<Rightarrow>
             after (if row < 0 \<and> n > 0 then select_row 0 m
                    else if row \<ge> n - 1 then m
                    else select_row (row + 1) m)
         | _ \<Rightarrow> (m, []))"

definition selectClosestPlayer ::
  "'sid steamid_pkg \<Rightarrow> 'sid tablePlayerModel \<Rightarrow> 'sid tablePlayerModel \<times> ('sid, 'f) cmd" where
  "selectClosestPlayer L m =
     (if tp_selectedTeam m \<noteq> tp_team m then (m, [])
      else
        let selectedPlayer =
              (case currentPlayer m of
                 None \<Rightarrow> if td_players (tp_data m) \<noteq> [] then td_players (tp_data m) ! 0 else zero_UIPlayer L
               | Some player \<Rightarrow> player);
            m' = m\<lparr>tp_selectedSteamID := up_SteamID selectedPlayer\<rparr>
        in (m', if \<not> sid_Equal L (tp_selectedSteamID m) (tp_selectedSteamID m')
                then [TeamMsg (tp_selectedTeam m'), SelectedPlayerMsg selectedPlayer []] else []))"

definition updatePlayers ::
  "'sid steamid_pkg \<Rightarrow> (string \<Rightarrow> string) \<Rightarrow> 'sid UIPlayer list \<Rightarrow> 'sid tablePlayerModel \<Rightarrow>
     'sid tablePlayerModel \<times> ('sid, 'f) cmd" where
  "updatePlayers L ToLower playersUpdate m =
     (let data = newTablePlayerData L (tp_id m) (tp_serverMode m) playersUpdate (tp_team m) []
      in selectClosestPlayer L (m\<lparr>tp_data := player_Sort ToLower (td_sortColumn data) (td_asc data) data\<rparr>))"

definition mark_columns :: "(string \<times> playerTableCol) list" where
  "mark_columns = [(''name'', colName), (''uid'', colUID), (''score'', colScore), (''meta'', colMeta),
     (''deaths'', colDeaths), (''ping'', colPing), (''address'', colAddress), (''loss'', colLoss), (''time'', colTime)]"

definition player_mouse ::
  "'sid steamid_pkg \<Rightarrow> (string \<Rightarrow> string) \<Rightarrow> mouse \<Rightarrow> 'sid tablePlayerModel \<Rightarrow> 'sid tablePlayerModel \<times> ('sid, 'f) cmd" where
  "player_mouse L ToLower mouse m =
     (case mouse of
        Wheel \<Rightarrow> (m, [])
      | Click released zones \<Rightarrow>
          if \<not> released then (m, [])
          else case first_such (\<lambda>item. tp_id m @ sid_String L (up_SteamID item) \<in> set zones) (td_players (tp_data m)) of
                 Some item \<Rightarrow>
                   (m\<lparr>tp_selectedSteamID := up_SteamID item, tp_selectedTeam := tp_team m\<rparr>,
                    [TeamMsg (tp_team m), SelectedPlayerMsg item []])
               | None \<Rightarrow>
                   (case first_such (\<lambda>(markID, col). tp_id m @ markID \<in> set zones) mark_columns of
                      Some (markID, col) \<Rightarrow>
                        (m\<lparr>tp_data := player_Sort ToLower col (\<not> td_asc (tp_data m)) (tp_data m)\<rparr>, [])
                    | None \<Rightarrow> (m, [])))"

definition player_Update ::
  "'sid steamid_pkg \<Rightarrow> (string \<Rightarrow> string) \<Rightarrow> ('sid, 'f) msg \<Rightarrow> 'sid tablePlayerModel \<Rightarrow>
     'sid tablePlayerModel \<times> ('sid, 'f) cmd" where
  "player_Update L ToLower msg m =
     (case msg of
        InputZoneMsg zone \<Rightarrow> (m\<lparr>tp_inputActive := tp_team m = RED \<and> zone = zonePlayersRED\<rparr>, [])
      | ConfigMsg config \<Rightarrow> (m\<lparr>tp_selfSteamID := cf_SteamID config\<rparr>, [])
      | ViewPortMsg _ height width \<Rightarrow>
          (m\<lparr>tp_width := width, tp_height := height,
             tp_tableWidth := (if go_mod width 2 \<noteq> 0 \<and> tp_team m = BLU then go_div width 2 + 1 else go_div width 2)\<rparr>, [])
      | SortPlayersMsg column asc \<Rightarrow> (m\<lparr>tp_data := player_Sort ToLower column asc (tp_data m)\<rparr>, [])
      | MouseMsg mouse \<Rightarrow> player_mouse L ToLower mouse m
      | KeyMsg key \<Rightarrow>
          if \<not> tp_inputActive m then (m, [])
          else if Matches key (km_up defaultKeyMap) then moveSelection up m
          else if Matches key (km_down defaultKeyMap) then moveSelection down m
          else (m, [])
      | SelectedPlayerMsg player _ \<Rightarrow> (m\<lparr>tp_selectedSteamID := up_SteamID player\<rparr>, [])
      | TeamMsg team \<Rightarrow> selectClosestPlayer L (m\<lparr>tp_selectedTeam := team\<rparr>)
      | SnapshotMsg snapshot \<Rightarrow> updatePlayers L ToLower (us_Players (un_Server snapshot)) m
      | _ \<Rightarrow> (m, []))"

text \<open>The test of \<open>View\<close> for the row of the user. The header is row -1; an index out of range panics.\<close>

definition isSelf :: "'sid steamid_pkg \<Rightarrow> 'sid tablePlayerModel \<Rightarrow> int \<Rightarrow> bool outcome" where
  "isSelf L m row =
     (let players = td_players (tp_data m)
      in if row \<ge> 0 \<and> int (length players) - 1 \<le> row then
           outcome_bind (index_at players row) (\<lambda>p. Ok (sid_Equal L (up_SteamID p) (tp_selfSteamID m)))
         else Ok False)"

fun col_width :: "playerTableCol \<Rightarrow> int" where
  "col_width colUID = 6"
| "col_width colName = 0"
| "col_width colScore = 7"
| "col_width colDeaths = 7"
| "col_width colPing = 5"
| "col_width colMeta = 8"
| "col_width colAddress = 15"
| "col_width colLoss = 5"
| "col_width colTime = 5"

section \<open>Sorting\<close>

interpretation player_order: comparison "player_cmp ToLower column"
proof (cases column)
  case colMeta
  then show "comparison (player_cmp ToLower column)"
    using by_key_desc.comparison_axioms [of meta_weight] by (simp add: player_cmp_def [abs_def])
qed (simp_all add: player_cmp_def [abs_def] by_key.comparison_axioms)

lemma player_Sort_order:
  "mset (td_players (player_Sort ToLower column asc m)) = mset (td_players m) \<and>
   sorted_wrt (\<lambda>a b. if asc then player_cmp ToLower column b a \<le> 0 else player_cmp ToLower column a b \<le> 0)
     (td_players (player_Sort ToLower column asc m))"
  using player_order.SortStableFunc_sorted [of ToLower column "td_players m"]
  by (simp add: player_Sort_def Let_def sorted_wrt_rev)

text \<open>C35: sorting a table by a column is the stable sort of the library by the value of that column, lowered for the name and
  negated for the number of bans, and then reversed when \<open>asc\<close> is true: every column but the bans ascends when \<open>asc\<close> is
  false and descends when it is true, and players with the same value keep their order or are reversed with the rest.\<close>

theorem player_Sort_sorted:
  "td_players (player_Sort ToLower column asc m) =
     (if asc then rev else id)
       ((case column of
           colUID \<Rightarrow> sort_key up_UserID
         | colName \<Rightarrow> sort_key (\<lambda>p. ToLower (up_Name p))
         | colScore \<Rightarrow> sort_key up_Score
         | colDeaths \<Rightarrow> sort_key up_Deaths
         | colPing \<Rightarrow> sort_key up_Ping
         | colMeta \<Rightarrow> sort_key (\<lambda>p. - int_of_uint64 (int (length (up_Bans p)) + up_NumberOfVacBans p))
         | colAddress \<Rightarrow> sort_key up_Address
         | colLoss \<Rightarrow> sort_key up_Loss
         | colTime \<Rightarrow> sort_key up_Time)
        (td_players m))"
proof -
  have meta: "cmp_Compare (meta_weight b) (meta_weight a) = cmp_Compare (- meta_weight a) (- meta_weight b)"
    for a b :: "'a UIPlayer" by (simp add: cmp_Compare_def)
  have w: "(\<lambda>p. - meta_weight p) = (\<lambda>p. - int_of_uint64 (int (length (up_Bans p)) + up_NumberOfVacBans p))"
    by (simp add: meta_weight_def fun_eq_iff)
  show ?thesis
    by (cases column)
      (simp_all add: player_Sort_def player_cmp_def [abs_def] Let_def meta SortStableFunc_sort_key w)
qed

text \<open>A snapshot of the server replaces the players of a table by the valid ones of its team, by descending
  score, whatever column the user had chosen to sort by.\<close>

lemma player_Update_Snapshot:
  fixes m :: "'sid tablePlayerModel"
  shows "td_players (tp_data (fst (player_Update L ToLower (SnapshotMsg snapshot) m))) =
     rev (sort_key up_Score
       (filter (\<lambda>p. sid_Valid L (up_SteamID p) \<and> up_Team p = tp_team m) (us_Players (un_Server snapshot))))"
proof -
  have data: "tp_data (fst (selectClosestPlayer L m')) = tp_data m'" for m' :: "'sid tablePlayerModel"
    by (simp add: selectClosestPlayer_def Let_def)
  have "player_cmp ToLower colScore = (\<lambda>a b :: 'sid UIPlayer. cmp_Compare (up_Score a) (up_Score b))"
    by (simp add: player_cmp_def fun_eq_iff)
  then show ?thesis
    by (simp add: player_Update_def updatePlayers_def data Let_def player_Sort_def newTablePlayerData_def SortStableFunc_sort_key)
qed

section \<open>Moving the selection\<close>

lemma currentRow_lt: "currentRow m = Some i \<Longrightarrow> i < length (td_players (tp_data m))"
  by (auto simp: currentRow_def dest: first_index_SomeD)

lemma first_index_distinct:
  assumes "distinct (map f xs)" "i < length xs"
  shows "first_index (\<lambda>x. f x = f (xs ! i)) xs = Some i"
proof (cases "first_index (\<lambda>x. f x = f (xs ! i)) xs")
  case None
  with assms(2) show ?thesis by (auto simp: first_index_None_iff)
next
  case (Some j)
  from first_index_SomeD [OF this] have "j < length xs" "f (xs ! j) = f (xs ! i)" by auto
  with assms Some show ?thesis using nth_eq_iff_index_eq [of "map f xs" j i] by simp
qed

lemma select_row_currentRow:
  assumes "distinct (map up_SteamID (td_players (tp_data m)))" "0 \<le> i" "i < int (length (td_players (tp_data m)))"
  shows "currentRowIndex (select_row i m) = i"
  using first_index_distinct [OF assms(1), of "nat i"] assms(2,3)
  by (simp add: currentRowIndex_def currentRow_def select_row_def nat_less_iff)

text \<open>In a table of different players, moving down selects the next row and moving up the previous one, stopping
  at the ends; with nothing selected they select the first and the last row. The rows never change.\<close>

theorem moveSelection_row:
  fixes m :: "'sid tablePlayerModel" and dir :: direction
  assumes "distinct (map up_SteamID (td_players (tp_data m)))" "td_players (tp_data m) \<noteq> []"
  shows "(let rows = td_players (tp_data m); n = int (length rows); row = currentRowIndex m;
            moved = fst (moveSelection dir m :: _ \<times> ('sid, 'f) cmd)
          in td_players (tp_data moved) = rows \<and>
             currentRowIndex moved =
               (case dir of down \<Rightarrow> min (n - 1) (row + 1) | up \<Rightarrow> if row < 0 then n - 1 else max 0 (row - 1) | _ \<Rightarrow> row))"
proof -
  let ?n = "int (length (td_players (tp_data m)))"
  have n: "?n > 0" using assms(2) by simp
  have r: "- 1 \<le> currentRowIndex m" "currentRowIndex m < ?n"
    using currentRow_lt [of m] n by (auto simp: currentRowIndex_def split: option.split)
  note row = select_row_currentRow [OF assms(1)]
  have d: "currentRowIndex (fst (moveSelection down m :: _ \<times> ('sid, 'f) cmd)) = min (?n - 1) (currentRowIndex m + 1)"
  proof (cases "currentRowIndex m < 0")
    case True
    with r have "currentRowIndex m = -1" by simp
    with n row [of 0] show ?thesis by (simp add: moveSelection_def Let_def)
  qed (use n r row [of 0] row [of "currentRowIndex m + 1"] in \<open>auto simp: moveSelection_def Let_def\<close>)
  have u: "currentRowIndex (fst (moveSelection up m :: _ \<times> ('sid, 'f) cmd)) = (if currentRowIndex m < 0 then ?n - 1 else max 0 (currentRowIndex m - 1))"
    using n r row [of "?n - 1"] row [of "currentRowIndex m - 1"] by (auto simp: moveSelection_def Let_def)
  have "td_players (tp_data (fst (moveSelection dir m :: _ \<times> ('sid, 'f) cmd))) = td_players (tp_data m)"
    by (cases dir) (simp_all add: moveSelection_def Let_def select_row_def)
  moreover have "moveSelection left m = (m, [] :: ('sid, 'f) cmd)" "moveSelection right m = (m, [] :: ('sid, 'f) cmd)"
    by (simp_all add: moveSelection_def)
  ultimately show ?thesis using d u by (cases dir) (simp_all add: Let_def)
qed

theorem moveSelection_row_witness:
  "currentRowIndex (fst (moveSelection down ((newPlayerTableModel num_sid [] RED 0 False)\<lparr>tp_data :=
     (newTablePlayerData num_sid [] False [] RED [])\<lparr>td_players :=
        [zero_UIPlayer num_sid\<lparr>up_SteamID := 1\<rparr>, zero_UIPlayer num_sid\<lparr>up_SteamID := 2\<rparr>]\<rparr>,
     tp_selectedSteamID := 1\<rparr>) :: _ \<times> (int, unit) cmd)) = 1"
proof -
  let ?m = "(newPlayerTableModel num_sid [] RED 0 False)\<lparr>tp_data :=
     (newTablePlayerData num_sid [] False [] RED [])\<lparr>td_players :=
        [zero_UIPlayer num_sid\<lparr>up_SteamID := 1\<rparr>, zero_UIPlayer num_sid\<lparr>up_SteamID := 2\<rparr>]\<rparr>, tp_selectedSteamID := 1\<rparr>"
  have "currentRowIndex ?m = 0" by (simp add: currentRowIndex_def currentRow_def)
  moreover have "distinct (map up_SteamID (td_players (tp_data ?m)))" "td_players (tp_data ?m) \<noteq> []" by simp_all
  ultimately show ?thesis using moveSelection_row [where 'f = unit, of ?m down] by (simp add: Let_def)
qed

section \<open>Input\<close>

definition player_run ::
  "'sid steamid_pkg \<Rightarrow> (string \<Rightarrow> string) \<Rightarrow> ('sid, 'f) msg list \<Rightarrow> 'sid tablePlayerModel \<Rightarrow> 'sid tablePlayerModel" where
  "player_run L ToLower msgs m = fold (\<lambda>msg m. fst (player_Update L ToLower msg m)) msgs m"

lemma player_Update_frame:
  "tp_team (fst (player_Update L ToLower msg m)) = tp_team m"
  "tp_inputActive (fst (player_Update L ToLower msg m)) =
     (case msg of InputZoneMsg zone \<Rightarrow> tp_team m = RED \<and> zone = zonePlayersRED | _ \<Rightarrow> tp_inputActive m)"
  by (auto simp: player_Update_def player_mouse_def updatePlayers_def selectClosestPlayer_def moveSelection_def
      select_row_def Let_def split: msg.split mouse.split option.split direction.split)

text \<open>The keyboard never moves the selection in the table of the BLU team: whatever messages it has received, a
  key leaves it as it is.\<close>

theorem player_keys_BLU:
  fixes msgs :: "('sid, 'f) msg list"
  shows "player_Update L ToLower (KeyMsg key) (player_run L ToLower msgs (newPlayerTableModel L zoneID BLU selfSID serverMode)) =
     (player_run L ToLower msgs (newPlayerTableModel L zoneID BLU selfSID serverMode), [])"
proof -
  let ?m = "newPlayerTableModel L zoneID BLU selfSID serverMode"
  have "tp_team (player_run L ToLower ms ?m) = BLU \<and> \<not> tp_inputActive (player_run L ToLower ms ?m)" for ms :: "('sid, 'f) msg list"
  proof (induction ms rule: rev_induct)
    case Nil
    show ?case by (simp add: player_run_def newPlayerTableModel_def)
  next
    case (snoc msg ms)
    then show ?case by (auto simp: player_run_def player_Update_frame team_defs split: msg.split)
  qed
  then show ?thesis by (simp add: player_Update_def)
qed

end
