(* ===== verification/Ui_Servers.thy ===== *)
theory Ui_Servers
  imports Ui_Players
begin

text \<open>
  internal/ui/table_servers.go and table_servers_data.go: the table of the servers, and the flags of
  styles/flags.go.
\<close>

section \<open>Flags\<close>

definition flag_codes_ac :: "string list" where
  "flag_codes_ac =
     [''ad'', ''ae'', ''af'', ''ag'', ''ai'', ''al'', ''am'', ''ao'', ''aq'', ''ar'', ''as'', ''at'',
      ''au'', ''aw'', ''ax'', ''az'', ''ba'', ''bb'', ''bd'', ''be'', ''bf'', ''bg'', ''bh'', ''bi'',
      ''bj'', ''bl'', ''bm'', ''bn'', ''bo'', ''bq'', ''br'', ''bs'', ''bt'', ''bv'', ''bw'', ''by'',
      ''bz'', ''ca'', ''cc'', ''cd'', ''cf'', ''cg'', ''ch'', ''ci'', ''ck'', ''cl'', ''cm'', ''cn'',
      ''co'', ''cr'', ''cu'', ''cv'', ''cw'', ''cx'', ''cy'', ''cz'']"

definition flag_codes_dg :: "string list" where
  "flag_codes_dg =
     [''de'', ''dj'', ''dk'', ''dm'', ''do'', ''dz'', ''ec'', ''ee'', ''eg'', ''eh'', ''er'', ''es'',
      ''et'', ''fi'', ''fj'', ''fk'', ''fm'', ''fo'', ''fr'', ''ga'', ''gb'', ''gd'', ''ge'', ''gf'',
      ''gg'', ''gh'', ''gi'', ''gl'', ''gm'', ''gn'', ''gp'', ''gq'', ''gr'', ''gs'', ''gt'', ''gu'',
      ''gw'', ''gy'']"

definition flag_codes_hl :: "string list" where
  "flag_codes_hl =
     [''hk'', ''hm'', ''hn'', ''hr'', ''ht'', ''hu'', ''id'', ''ie'', ''il'', ''im'', ''in'', ''io'',
      ''iq'', ''ir'', ''is'', ''it'', ''je'', ''jm'', ''jo'', ''jp'', ''ke'', ''kg'', ''kh'', ''ki'',
      ''km'', ''kn'', ''kp'', ''kr'', ''kw'', ''ky'', ''kz'', ''la'', ''lb'', ''lc'', ''li'', ''lk'',
      ''lr'', ''ls'', ''lt'', ''lu'', ''lv'', ''ly'']"

definition flag_codes_mo :: "string list" where
  "flag_codes_mo =
     [''ma'', ''mc'', ''md'', ''me'', ''mf'', ''mg'', ''mh'', ''mk'', ''ml'', ''mm'', ''mn'', ''mo'',
      ''mp'', ''mq'', ''mr'', ''ms'', ''mt'', ''mu'', ''mv'', ''mw'', ''mx'', ''my'', ''mz'', ''na'',
      ''nc'', ''ne'', ''nf'', ''ng'', ''ni'', ''nl'', ''no'', ''np'', ''nr'', ''nu'', ''nz'', ''om'']"

definition flag_codes_ps :: "string list" where
  "flag_codes_ps =
     [''pa'', ''pe'', ''pf'', ''pg'', ''ph'', ''pk'', ''pl'', ''pm'', ''pn'', ''pr'', ''ps'', ''pt'',
      ''pw'', ''py'', ''qa'', ''re'', ''ro'', ''rs'', ''ru'', ''rw'', ''sa'', ''sb'', ''sc'', ''sd'',
      ''se'', ''sg'', ''sh'', ''si'', ''sj'', ''sk'', ''sl'', ''sm'', ''sn'', ''so'', ''sr'', ''ss'',
      ''st'', ''sv'', ''sx'', ''sy'', ''sz'']"

definition flag_codes_tz :: "string list" where
  "flag_codes_tz =
     [''tc'', ''td'', ''tf'', ''tg'', ''th'', ''tj'', ''tk'', ''tl'', ''tm'', ''tn'', ''to'', ''tr'',
      ''tt'', ''tv'', ''tw'', ''tz'', ''ua'', ''ug'', ''um'', ''us'', ''uy'', ''uz'', ''va'', ''vc'',
      ''ve'', ''vg'', ''vi'', ''vn'', ''vu'', ''wf'', ''ws'', ''ye'', ''yt'', ''za'', ''zm'', ''zw'']"

definition flag_codes :: "string list" where
  "flag_codes = flag_codes_ac @ flag_codes_dg @ flag_codes_hl @ flag_codes_mo @ flag_codes_ps @ flag_codes_tz"

text \<open>Every case of the switch returns the flag of its code: the two regional indicator symbols of the letters,
  each four bytes of UTF-8.\<close>

definition regional :: "char \<Rightarrow> string" where
  "regional c = [CHR 0xF0, CHR 0x9F, CHR 0x87, char_of (0xA6 + (of_char c - 97) :: nat)]"

definition Flag :: "(string \<Rightarrow> string) \<Rightarrow> string \<Rightarrow> string" where
  "Flag ToLower cc =
     (if ToLower cc \<in> set flag_codes then concat (map regional (ToLower cc)) else concat (map regional ''xk''))"

section \<open>Durations\<close>

text \<open>\<open>time.Duration.String\<close>: the fraction loses its trailing zeros.\<close>

definition dur_frac :: "nat \<Rightarrow> int \<Rightarrow> string" where
  "dur_frac prec v =
     (let ds = Itoa (v mod 10 ^ prec);
          ds = replicate (prec - length ds) (CHR ''0'') @ ds;
          ds = rev (dropWhile (\<lambda>c. c = CHR ''0'') (rev ds))
      in if ds = [] then [] else CHR ''.'' # ds)"

definition Duration_String :: "int \<Rightarrow> string" where
  "Duration_String d =
     (let u = \<bar>d\<bar>; s = u div 1000000000; m = s div 60; h = m div 60;
          text =
            (if u = 0 then ''0s''
             else if u < 1000 then Itoa u @ ''ns''
             else if u < 1000000 then Itoa (u div 1000) @ dur_frac 3 u @ [CHR 0xC2, CHR 0xB5, CHR ''s'']
             else if u < 1000000000 then Itoa (u div 1000000) @ dur_frac 6 u @ ''ms''
             else (if h > 0 then Itoa h @ ''h'' else []) @ (if m > 0 then Itoa (m mod 60) @ ''m'' else []) @
                  Itoa (s mod 60) @ dur_frac 9 u @ ''s'')
      in (if d < 0 then ''-'' else []) @ text)"

section \<open>Table data\<close>

datatype serverTableCol =
  colServerName | colServerMap | colServerRegion | colServerPlayers | colServerPing | colServerUptime |
  colServerCPU | colServerFPS | colServerInRate | colServerOutRate | colServerConnects

definition defaultServerTableColumns :: "serverTableCol list" where
  "defaultServerTableColumns = [colServerRegion, colServerName, colServerMap, colServerPlayers, colServerPing,
     colServerUptime, colServerCPU, colServerFPS, colServerInRate, colServerOutRate, colServerConnects]"

record ('sid, 'f) serverTableData =
  sd_zoneID :: string
  sd_servers :: "('sid, 'f) UISnapshot list"
  sd_enabledColumns :: "serverTableCol list"
  sd_sortColumn :: serverTableCol
  sd_asc :: bool

definition newTableServerData ::
  "string \<Rightarrow> ('sid, 'f) UISnapshot list \<Rightarrow> serverTableCol list \<Rightarrow> ('sid, 'f) serverTableData" where
  "newTableServerData parentZoneID data cols =
     \<lparr>sd_zoneID = parentZoneID, sd_servers = data,
      sd_enabledColumns = (if length cols > 0 then cols else defaultServerTableColumns),
      sd_sortColumn = colServerName, sd_asc = True\<rparr>"

definition server_header_of :: "serverTableCol \<Rightarrow> string \<times> string" where
  "server_header_of col =
     (case col of
        colServerName \<Rightarrow> (''server'', ''Server'')
      | colServerRegion \<Rightarrow> (''cc'', ''CC'')
      | colServerMap \<Rightarrow> (''map'', ''Map'')
      | colServerPlayers \<Rightarrow> (''players'', ''Players'')
      | colServerPing \<Rightarrow> (''ping'', ''AvgPing'')
      | colServerUptime \<Rightarrow> (''up'', ''Up'')
      | colServerFPS \<Rightarrow> (''fps'', ''FPS'')
      | colServerCPU \<Rightarrow> (''cpu'', ''CPU %'')
      | colServerInRate \<Rightarrow> (''rate_in'', ''In KB/s'')
      | colServerOutRate \<Rightarrow> (''rate_out'', ''Out KB/s'')
      | colServerConnects \<Rightarrow> (''conns'', ''Conns''))"

definition server_Headers :: "(string \<Rightarrow> string \<Rightarrow> string) \<Rightarrow> ('sid, 'f) serverTableData \<Rightarrow> string list" where
  "server_Headers mark m =
     map (\<lambda>col. mark (sd_zoneID m @ fst (server_header_of col)) (snd (server_header_of col))) (sd_enabledColumns m)"

definition server_cmp ::
  "'f float_lib \<Rightarrow> (string \<Rightarrow> string) \<Rightarrow> serverTableCol \<Rightarrow> ('sid, 'f) UISnapshot \<Rightarrow> ('sid, 'f) UISnapshot \<Rightarrow> int" where
  "server_cmp F ToLower column a b =
     (let stats = (\<lambda>s. ss_Stats (un_Status s))
      in case column of
           colServerName \<Rightarrow> cmp_Compare (ToLower (xs_ServerName (status_of a))) (ToLower (xs_ServerName (status_of b)))
         | colServerRegion \<Rightarrow> cmp_Compare (ToLower (us_Region (un_Server a))) (ToLower (us_Region (un_Server b)))
         | colServerMap \<Rightarrow> cmp_Compare (ToLower (xs_Map (status_of a))) (ToLower (xs_Map (status_of b)))
         | colServerPlayers \<Rightarrow> cmp_Compare (length (us_Players (un_Server a))) (length (xs_Players (status_of b)))
         | colServerPing \<Rightarrow> ff_Compare F (us_Ping (un_Server a)) (us_Ping (un_Server b))
         | colServerUptime \<Rightarrow> cmp_Compare (st_Uptime (stats a)) (st_Uptime (stats b))
         | colServerFPS \<Rightarrow> ff_Compare F (st_FPS (stats a)) (st_FPS (stats b))
         | colServerCPU \<Rightarrow> ff_Compare F (st_CPU (stats a)) (st_CPU (stats b))
         | colServerInRate \<Rightarrow> ff_Compare F (st_InKBs (stats a)) (st_InKBs (stats b))
         | colServerOutRate \<Rightarrow> ff_Compare F (st_OutKBs (stats a)) (st_OutKBs (stats b))
         | colServerConnects \<Rightarrow> cmp_Compare (st_Connects (stats a)) (st_Connects (stats b)))"

definition server_Sort ::
  "'f float_lib \<Rightarrow> (string \<Rightarrow> string) \<Rightarrow> serverTableCol \<Rightarrow> bool \<Rightarrow> ('sid, 'f) serverTableData \<Rightarrow> ('sid, 'f) serverTableData" where
  "server_Sort F ToLower column asc m =
     (let servers = SortStableFunc (server_cmp F ToLower column) (sd_servers m)
      in m\<lparr>sd_sortColumn := column, sd_asc := asc, sd_servers := (if asc then rev servers else servers)\<rparr>)"

definition normalizeMapName :: "string \<Rightarrow> string" where
  "normalizeMapName input =
     (if \<not> HasPrefix input ''workshop/'' then input
      else hd (Split (CHR ''.'') (fst (CutPrefix input ''workshop/''))))"

definition server_cell ::
  "'f float_lib \<Rightarrow> (string \<Rightarrow> string) \<Rightarrow> (string \<Rightarrow> string \<Rightarrow> string) \<Rightarrow> string \<Rightarrow> serverTableCol \<Rightarrow>
     ('sid, 'f) UISnapshot \<Rightarrow> string" where
  "server_cell F ToLower mark zoneID curCol snapshot =
     (let stats = ss_Stats (un_Status snapshot); positive = (\<lambda>v. ff_less F (ff_of_int F 0) v)
      in case curCol of
           colServerName \<Rightarrow> mark (zoneID @ un_HostPort snapshot) (xs_ServerName (status_of snapshot))
         | colServerRegion \<Rightarrow>
             mark (zoneID @ us_Region (un_Server snapshot))
               (Flag ToLower (if us_Region (un_Server snapshot) = ''none'' then [] else us_Region (un_Server snapshot)))
         | colServerMap \<Rightarrow> normalizeMapName (xs_Map (status_of snapshot))
         | colServerPlayers \<Rightarrow> Itoa (xs_PlayersCount (status_of snapshot)) @ ''/'' @ Itoa (xs_PlayersMax (status_of snapshot))
         | colServerFPS \<Rightarrow> (if positive (st_FPS stats) then ff_format F 2 (st_FPS stats) else [])
         | colServerCPU \<Rightarrow> (if positive (st_CPU stats) then ff_format F 2 (st_CPU stats) else [])
         | colServerInRate \<Rightarrow> ff_format F 2 (st_InKBs stats) @ '' KBs''
         | colServerOutRate \<Rightarrow> ff_format F 2 (st_OutKBs stats)
         | colServerConnects \<Rightarrow> Itoa (st_Connects stats)
         | colServerPing \<Rightarrow>
             (let avg = AvgPing F snapshot
              in if ff_IsNaN F avg \<or> avg = ff_of_int F 0 then [] else ff_format F 0 avg @ ''ms'')
         | colServerUptime \<Rightarrow> Duration_String (int_of_uint64 (st_Uptime stats * 1000000000)))"

definition server_At ::
  "'f float_lib \<Rightarrow> (string \<Rightarrow> string) \<Rightarrow> (string \<Rightarrow> string \<Rightarrow> string) \<Rightarrow> ('sid, 'f) serverTableData \<Rightarrow> nat \<Rightarrow> nat \<Rightarrow> string" where
  "server_At F ToLower mark m row col =
     (if col \<ge> length (sd_enabledColumns m) then ''oobcol''
      else if row \<ge> length (sd_servers m) then ''oobrow''
      else server_cell F ToLower mark (sd_zoneID m) (sd_enabledColumns m ! col) (sd_servers m ! row))"

definition server_Rows :: "('sid, 'f) serverTableData \<Rightarrow> int" where
  "server_Rows m = int (length (sd_servers m))"

definition server_Columns :: "('sid, 'f) serverTableData \<Rightarrow> int" where
  "server_Columns m = int (length (sd_enabledColumns m))"

section \<open>The table\<close>

text \<open>Of the viewport the model has its size.\<close>

record ('sid, 'f) serverTableModel =
  sm_zoneID :: string
  sm_viewportSize :: "int \<times> int"
  sm_data :: "('sid, 'f) serverTableData"
  sm_selectedsServer :: string
  sm_width :: int
  sm_contentHeight :: int
  sm_inputActive :: bool

definition newServerTableModel :: "string \<Rightarrow> ('sid, 'f) serverTableModel" where
  "newServerTableModel zoneID =
     \<lparr>sm_zoneID = zoneID, sm_viewportSize = (1, 1), sm_data = newTableServerData zoneID [] defaultServerTableColumns,
      sm_selectedsServer = [], sm_width = 0, sm_contentHeight = 0, sm_inputActive = False\<rparr>"

definition server_marks :: "(string \<times> serverTableCol) list" where
  "server_marks = [(''n'', colServerName), (''m'', colServerMap), (''r'', colServerRegion), (''pl'', colServerPlayers),
     (''pi'', colServerPing), (''u'', colServerUptime), (''cp'', colServerCPU), (''f'', colServerFPS),
     (''i'', colServerInRate), (''o'', colServerOutRate), (''co'', colServerConnects)]"

definition server_mouse ::
  "'f float_lib \<Rightarrow> (string \<Rightarrow> string) \<Rightarrow> mouse \<Rightarrow> ('sid, 'f) serverTableModel \<Rightarrow> ('sid, 'f) serverTableModel \<times> ('sid, 'f) cmd" where
  "server_mouse F ToLower mouse m =
     (case mouse of
        Wheel \<Rightarrow> (m, [])
      | Click released zones \<Rightarrow>
          if \<not> released then (m, [])
          else case first_such (\<lambda>item. sm_zoneID m @ un_HostPort item \<in> set zones) (sd_servers (sm_data m)) of
                 Some item \<Rightarrow> (m, [SelectServerMsg item, InputZoneMsg zoneServers])
               | None \<Rightarrow>
                   (case first_such (\<lambda>(markID, col). sm_zoneID m @ markID \<in> set zones) server_marks of
                      Some (markID, col) \<Rightarrow>
                        (m\<lparr>sm_data := server_Sort F ToLower col (\<not> sd_asc (sm_data m)) (sm_data m)\<rparr>, [])
                    | None \<Rightarrow> (m, [])))"

text \<open>The servers of a new list of snapshots, and the snapshot of the selected one among them.\<close>

definition server_snapshots ::
  "'f float_lib \<Rightarrow> (string \<Rightarrow> string) \<Rightarrow> ('sid, 'f) UISnapshot list \<Rightarrow> ('sid, 'f) serverTableModel \<Rightarrow>
     ('sid, 'f) serverTableModel \<times> ('sid, 'f) cmd" where
  "server_snapshots F ToLower snaps m =
     (let data = newTableServerData (sm_zoneID m) snaps [];
          data = server_Sort F ToLower (sd_sortColumn data) (sd_asc data) data;
          m = m\<lparr>sm_data := data\<rparr>
      in if sd_servers data = [] then (m, [])
         else
           let m = (if sm_selectedsServer m = [] then m\<lparr>sm_selectedsServer := un_HostPort (sd_servers data ! 0)\<rparr> else m)
           in (m, case first_such (\<lambda>s. sm_selectedsServer m = un_HostPort s) (sd_servers data) of
                    None \<Rightarrow> [] | Some s \<Rightarrow> [SelectServerMsg s]))"

definition server_Update ::
  "'f float_lib \<Rightarrow> (string \<Rightarrow> string) \<Rightarrow> ('sid, 'f) msg \<Rightarrow> ('sid, 'f) serverTableModel \<Rightarrow>
     ('sid, 'f) serverTableModel \<times> ('sid, 'f) cmd" where
  "server_Update F ToLower msg m =
     (case msg of
        InputZoneMsg zone \<Rightarrow> (m\<lparr>sm_inputActive := zone = zoneServers\<rparr>, [])
      | ViewPortMsg viewport height width \<Rightarrow>
          (m\<lparr>sm_width := width, sm_contentHeight := min viewport (go_div height 2),
             sm_viewportSize := (width, min viewport (go_div height 2) - 2)\<rparr>, [])
      | SnapshotsMsg snaps \<Rightarrow> server_snapshots F ToLower snaps m
      | SelectServerMsg server \<Rightarrow> (m\<lparr>sm_selectedsServer := un_HostPort server\<rparr>, [])
      | MouseMsg mouse \<Rightarrow> server_mouse F ToLower mouse m
      | _ \<Rightarrow> (m, []))"

definition server_currentRowIndex :: "('sid, 'f) serverTableModel \<Rightarrow> nat" where
  "server_currentRowIndex m =
     (case first_index (\<lambda>s. un_HostPort s = sm_selectedsServer m) (sd_servers (sm_data m)) of None \<Rightarrow> 0 | Some i \<Rightarrow> i)"

definition server_col_width :: "serverTableCol \<Rightarrow> int" where
  "server_col_width col =
     (case col of
        colServerName \<Rightarrow> 0 | colServerRegion \<Rightarrow> 4 | colServerMap \<Rightarrow> 25 | colServerPlayers \<Rightarrow> 8 | colServerPing \<Rightarrow> 10
      | colServerUptime \<Rightarrow> 10 | colServerCPU \<Rightarrow> 6 | colServerFPS \<Rightarrow> 6 | colServerInRate \<Rightarrow> 12
      | colServerOutRate \<Rightarrow> 12 | colServerConnects \<Rightarrow> 6)"

section \<open>Flags are told apart\<close>

definition country_code :: "string \<Rightarrow> bool" where
  "country_code cc \<longleftrightarrow> length cc = 2 \<and> list_all (\<lambda>c. 97 \<le> (of_char c :: nat) \<and> (of_char c :: nat) \<le> 122) cc"

lemma flag_codes_country: "list_all country_code flag_codes"
  by (simp add: flag_codes_def flag_codes_ac_def flag_codes_dg_def flag_codes_hl_def flag_codes_mo_def
      flag_codes_ps_def flag_codes_tz_def country_code_def)

lemma regional_inject:
  assumes "97 \<le> (of_char c :: nat)" "(of_char c :: nat) \<le> 122" "97 \<le> (of_char d :: nat)" "(of_char d :: nat) \<le> 122"
  shows "regional c = regional d \<longleftrightarrow> c = d"
proof
  assume "regional c = regional d"
  then have "(of_char (char_of (0xA6 + (of_char c - 97) :: nat)) :: nat) = of_char (char_of (0xA6 + (of_char d - 97) :: nat))"
    by (simp add: regional_def)
  then have "of_char c = (of_char d :: nat)" using assms by (simp del: char_of_quasi_inj)
  then show "c = d" by simp
qed simp

text \<open>The flag of a known country code determines the code, in lower case; every other region, the unknown one
  included, has the flag of Kosovo, which is no flag of a known code.\<close>

theorem Flag_inject:
  assumes "ToLower a \<in> set flag_codes"
  shows "Flag ToLower a = Flag ToLower b \<longleftrightarrow> ToLower a = ToLower b"
proof -
  have two: "concat (map regional x) = concat (map regional y) \<longleftrightarrow> x = y" if xy: "country_code x" "country_code y" for x y
  proof -
    obtain p q r s where "x = [p, q]" "y = [r, s]"
      using xy by (auto simp: country_code_def length_Suc_conv eval_nat_numeral)
    moreover from this have "(regional p @ regional q = regional r @ regional s) \<longleftrightarrow> regional p = regional r \<and> regional q = regional s"
      by (simp add: regional_def)
    ultimately show ?thesis using xy by (simp add: country_code_def regional_inject)
  qed
  have xk: "country_code ''xk''" "''xk'' \<notin> set flag_codes"
    by (simp_all add: country_code_def flag_codes_def flag_codes_ac_def flag_codes_dg_def flag_codes_hl_def
        flag_codes_mo_def flag_codes_ps_def flag_codes_tz_def)
  have known: "country_code cc" if "cc \<in> set flag_codes" for cc
    using flag_codes_country that by (simp add: list_all_iff)
  show ?thesis using assms two [OF known [OF assms] known] two [OF known [OF assms] xk(1)] xk(2) by (auto simp: Flag_def)
qed

theorem Flag_inject_witness: "Flag id ''de'' \<noteq> Flag id ''fr''"
  using Flag_inject [of id "''de''" "''fr''"] by (simp add: flag_codes_def flag_codes_dg_def)

section \<open>Sorting\<close>

text \<open>A comparison of floating point numbers is one that \<open>cmp.Compare\<close> promises to be.\<close>

lemma comparison_of: "comparison cmp \<Longrightarrow> comparison (\<lambda>a b. cmp (f a) (f b))"
  by (auto simp: comparison_def)

lemma server_cmp_comparison:
  assumes "comparison (ff_Compare F)" "column \<noteq> colServerPlayers"
  shows "comparison (server_cmp F ToLower column)"
proof -
  note float = comparison_of [OF assms(1)]
  from assms(2) show ?thesis
    by (cases column) (simp_all add: server_cmp_def [abs_def] Let_def by_key.comparison_axioms float)
qed

text \<open>Sorting the servers keeps them and puts them in the order of the column, descending when \<open>asc\<close> is set, for
  every column but the number of players.\<close>

theorem server_Sort_sorted:
  assumes "comparison (ff_Compare F)" "column \<noteq> colServerPlayers"
  shows "mset (sd_servers (server_Sort F ToLower column asc m)) = mset (sd_servers m) \<and>
     sorted_wrt (\<lambda>a b. if asc then server_cmp F ToLower column b a \<le> 0 else server_cmp F ToLower column a b \<le> 0)
       (sd_servers (server_Sort F ToLower column asc m))"
  using comparison.SortStableFunc_sorted [OF server_cmp_comparison [OF assms], of ToLower "sd_servers m"]
  by (simp add: server_Sort_def Let_def sorted_wrt_rev)

text \<open>Integers as floating point numbers, for the witnesses.\<close>

definition int_float :: "int float_lib" where
  "int_float = \<lparr>ff_of_int = id, ff_add = (+), ff_div = (div), ff_Compare = cmp_Compare, ff_less = (<),
     ff_IsNaN = (\<lambda>_. False), ff_format = (\<lambda>n v. Itoa v)\<rparr>"

theorem server_Sort_sorted_witness:
  "mset (sd_servers (server_Sort int_float id colServerFPS True
      (newTableServerData [] [zero_UISnapshot 0, zero_UISnapshot 0] [] :: (int, int) serverTableData))) =
     {#zero_UISnapshot 0, zero_UISnapshot 0#}"
proof -
  have "comparison (ff_Compare int_float)"
    using by_key.comparison_axioms [of "\<lambda>x :: int. x"] by (simp add: int_float_def)
  from server_Sort_sorted [OF this, of colServerFPS id True "newTableServerData [] [zero_UISnapshot 0, zero_UISnapshot 0] [] :: (int, int) serverTableData"]
  show ?thesis by (simp add: newTableServerData_def)
qed

text \<open>The number of players of one server is compared with the players of the other's status: with a status from a
  failed query, which has no players, the comparison puts each of two servers after the other.\<close>

lemma server_players_cmp_asymmetric:
  "\<exists>a b :: (int, int) UISnapshot. 0 < server_cmp F ToLower colServerPlayers a b \<and> 0 < server_cmp F ToLower colServerPlayers b a"
proof -
  let ?s = "(zero_UISnapshot 0 :: (int, int) UISnapshot)\<lparr>un_Server := (zero_UIServer 0)\<lparr>us_Players := [zero_UIPlayer num_sid]\<rparr>\<rparr>"
  have "0 < server_cmp F ToLower colServerPlayers ?s ?s"
    by (simp add: server_cmp_def Let_def cmp_Compare_def status_of_def zero_UISnapshot_def zero_Status_def zero_extra_Status_def)
  then show ?thesis by blast
qed

section \<open>Clicks\<close>

text \<open>Clicking the header of a column never sorts the servers: the headers are marked with other names than the
  ones the table looks for. The only effect a click on a header can have is to select a server whose address
  has that name.\<close>

theorem server_header_click:
  assumes "\<forall>s \<in> set (sd_servers (sm_data m)). un_HostPort s \<noteq> fst (server_header_of col)"
  shows "server_Update F ToLower (MouseMsg (Click released [sm_zoneID m @ fst (server_header_of col)])) m = (m, [])"
proof -
  have "first_such (\<lambda>item. sm_zoneID m @ un_HostPort item \<in> set [sm_zoneID m @ fst (server_header_of col)]) (sd_servers (sm_data m)) = None"
    using assms by (simp add: first_such_None_iff)
  moreover have "first_such (\<lambda>(markID, c). sm_zoneID m @ markID \<in> set [sm_zoneID m @ fst (server_header_of col)]) server_marks = None"
    by (cases col) (simp_all add: server_marks_def server_header_of_def)
  ultimately show ?thesis by (simp add: server_Update_def server_mouse_def)
qed

theorem server_header_click_witness:
  "server_Update int_float id (MouseMsg (Click True [''z'' @ ''fps''])) (newServerTableModel ''z'' :: (int, int) serverTableModel) =
     (newServerTableModel ''z'', [])"
  using server_header_click [of "newServerTableModel ''z'' :: (int, int) serverTableModel" colServerFPS int_float id True]
  by (simp add: newServerTableModel_def newTableServerData_def server_header_of_def)

section \<open>The selected server\<close>

text \<open>A new list of snapshots keeps the selected server selected, wherever the sort puts it: the table asks for
  its snapshot and its row is the current one.\<close>

theorem server_snapshots_selected:
  assumes "sm_selectedsServer m = h" "h \<noteq> []" "\<exists>s \<in> set snaps. un_HostPort s = h"
  shows "\<exists>s m'. server_Update F ToLower (SnapshotsMsg snaps) m = (m', [SelectServerMsg s]) \<and> s \<in> set snaps \<and>
     un_HostPort s = h \<and> sm_selectedsServer m' = h \<and>
     un_HostPort (sd_servers (sm_data m') ! server_currentRowIndex m') = h"
proof -
  let ?data = "server_Sort F ToLower colServerName True (newTableServerData (sm_zoneID m) snaps [])"
  have set: "set (sd_servers ?data) = set snaps" by (simp add: server_Sort_def newTableServerData_def Let_def)
  then obtain s where s: "first_such (\<lambda>s. h = un_HostPort s) (sd_servers ?data) = Some s"
    using assms(3) by (cases "first_such (\<lambda>s. h = un_HostPort s) (sd_servers ?data)") (auto simp: first_such_None_iff)
  from first_such_SomeD [OF s] set have in_snaps: "s \<in> set snaps" "un_HostPort s = h" by auto
  have "sd_servers ?data \<noteq> []" using set in_snaps by auto
  then have u: "server_Update F ToLower (SnapshotsMsg snaps) m = (m\<lparr>sm_data := ?data\<rparr>, [SelectServerMsg s])"
    using assms(1,2) s by (simp add: server_Update_def server_snapshots_def Let_def newTableServerData_def)
  obtain i where i: "first_index (\<lambda>s. un_HostPort s = h) (sd_servers ?data) = Some i"
    using set in_snaps by (cases "first_index (\<lambda>s. un_HostPort s = h) (sd_servers ?data)") (auto simp: first_index_None_iff)
  with first_index_SomeD [OF i] have "un_HostPort (sd_servers ?data ! server_currentRowIndex (m\<lparr>sm_data := ?data\<rparr>)) = h"
    using assms(1) by (simp add: server_currentRowIndex_def)
  with u in_snaps assms(1) show ?thesis by (intro exI [of _ s] exI [of _ "m\<lparr>sm_data := ?data\<rparr>"]) simp
qed

theorem server_snapshots_selected_witness:
  "\<exists>s m'. server_Update int_float id (SnapshotsMsg [zero_UISnapshot 0, (zero_UISnapshot 0)\<lparr>un_HostPort := ''b:1''\<rparr>])
      ((newServerTableModel [])\<lparr>sm_selectedsServer := ''b:1''\<rparr> :: (int, int) serverTableModel) = (m', [SelectServerMsg s]) \<and>
     un_HostPort s = ''b:1''"
  using server_snapshots_selected [of "(newServerTableModel [])\<lparr>sm_selectedsServer := ''b:1''\<rparr> :: (int, int) serverTableModel" "''b:1''"
     "[zero_UISnapshot 0, (zero_UISnapshot 0)\<lparr>un_HostPort := ''b:1''\<rparr>]" int_float id]
  by fastforce

end
