(* ===== verification/Ui_Panels.thy ===== *)
theory Ui_Panels
  imports Ui_Servers
begin

text \<open>
  internal/ui: the panels around the tables. Status bar, help, chat, console log and command line, player
  notes, player and server details, bans, bot list and league history. The widgets of the library (text
  inputs, viewports, lists) are parameters or reduced to the values the program gives them; \<open>render\<close> turns
  a row into styled text.
\<close>

section \<open>Text inputs\<close>

record ('sid, 'f, 'ti) input_lib =
  il_New :: 'ti
  il_Update :: "('sid, 'f) msg \<Rightarrow> 'ti \<Rightarrow> 'ti"
  il_SetValue :: "string \<Rightarrow> 'ti \<Rightarrow> 'ti"
  il_Value :: "'ti \<Rightarrow> string"
  il_Err :: "'ti \<Rightarrow> go_error option"
  il_Validate :: "(string \<Rightarrow> go_error option) \<Rightarrow> 'ti \<Rightarrow> 'ti"   \<comment> \<open>sets the validation function\<close>
  il_Focus :: "'ti \<Rightarrow> 'ti"
  il_Blur :: "'ti \<Rightarrow> 'ti"
  il_Focused :: "'ti \<Rightarrow> bool"
  il_SetSuggestions :: "string list \<Rightarrow> 'ti \<Rightarrow> 'ti"

text \<open>What the program relies on: a new input is empty, the empty value can be set, and the focus and the
  suggestions do not touch the value.\<close>

definition input_laws :: "('sid, 'f, 'ti) input_lib \<Rightarrow> bool" where
  "input_laws I \<longleftrightarrow>
     il_Value I (il_New I) = [] \<and> (\<forall>t. il_Value I (il_SetValue I [] t) = []) \<and>
     (\<forall>t. il_Value I (il_Focus I t) = il_Value I t) \<and> (\<forall>t. il_Value I (il_Blur I t) = il_Value I t) \<and>
     (\<forall>ss t. il_Value I (il_SetSuggestions I ss t) = il_Value I t) \<and> (\<forall>v t. il_Value I (il_Validate I v t) = il_Value I t)"

section \<open>Status bar\<close>

record ('sid, 'f) statusBarModel =
  sb_width :: int
  sb_hostname :: string
  sb_mapName :: string
  sb_statusMsg :: string
  sb_statusError :: bool
  sb_snapshot :: "('sid, 'f) UISnapshot"
  sb_version :: string
  sb_serverMode :: bool

definition newStatusBarModel :: "'f \<Rightarrow> string \<Rightarrow> bool \<Rightarrow> ('sid, 'f) statusBarModel" where
  "newStatusBarModel z version serverMode =
     \<lparr>sb_width = 0, sb_hostname = [], sb_mapName = [], sb_statusMsg = [], sb_statusError = False,
      sb_snapshot = zero_UISnapshot z, sb_version = version, sb_serverMode = serverMode\<rparr>"

text \<open>A status message asks for a message that clears it, which arrives after \<open>clearMessageTimeout\<close>.\<close>

definition status_Update ::
  "('sid, 'f) msg \<Rightarrow> ('sid, 'f) statusBarModel \<Rightarrow> ('sid, 'f) statusBarModel \<times> ('sid, 'f) cmd" where
  "status_Update msg m =
     (case msg of
        SelectServerMsg server \<Rightarrow> (m\<lparr>sb_snapshot := server\<rparr>, [])
      | StatusMsg message err \<Rightarrow> (m\<lparr>sb_statusMsg := message, sb_statusError := err\<rparr>, [ClearStatusMessageMsg])
      | ClearStatusMessageMsg \<Rightarrow> (m\<lparr>sb_statusError := False, sb_statusMsg := []\<rparr>, [])
      | ViewPortMsg _ _ width \<Rightarrow> (m\<lparr>sb_width := width\<rparr>, [])
      | EventMsg event \<Rightarrow>
          (case ev_Data event of
             HostnameEvent hostname \<Rightarrow> (m\<lparr>sb_hostname := hostname\<rparr>, [])
           | MapEvent mapName \<Rightarrow> (m\<lparr>sb_mapName := mapName\<rparr>, [])
           | _ \<Rightarrow> (m, []))
      | _ \<Rightarrow> (m, []))"

text \<open>The text on the right: the message, and whether it is an error, or the host name.\<close>

definition status_text :: "('sid, 'f) statusBarModel \<Rightarrow> string \<times> bool" where
  "status_text m = (if sb_statusMsg m \<noteq> [] then (sb_statusMsg m, sb_statusError m) else (sb_hostname m, False))"

section \<open>Help\<close>

record helpModel =
  hp_view :: contentView
  hp_configPath :: string
  hp_cachePath :: string
  hp_buildVersion :: string
  hp_buildDate :: string
  hp_buildCommit :: string

definition newHelpModel :: "string \<Rightarrow> string \<Rightarrow> string \<Rightarrow> string \<Rightarrow> string \<Rightarrow> helpModel" where
  "newHelpModel buildVersion buildDate buildCommit configPath cachePath =
     \<lparr>hp_view = viewMain, hp_configPath = configPath, hp_cachePath = cachePath, hp_buildVersion = buildVersion,
      hp_buildDate = buildDate, hp_buildCommit = buildCommit\<rparr>"

definition help_Update :: "('sid, 'f) msg \<Rightarrow> helpModel \<Rightarrow> helpModel \<times> ('sid, 'f) cmd" where
  "help_Update msg m =
     (case msg of
        KeyMsg key \<Rightarrow>
          if Matches key (km_back defaultKeyMap) \<and> hp_view m = viewHelp
          then (m\<lparr>hp_view := viewMain\<rparr>, [ViewMsg viewMain]) else (m, [])
      | ViewMsg view \<Rightarrow> (m\<lparr>hp_view := view\<rparr>, [])
      | _ \<Rightarrow> (m, []))"

section \<open>Chat\<close>

record 'sid ChatRow =
  cr_steamID :: 'sid
  cr_name :: string
  cr_createdOn :: time
  cr_message :: string
  cr_team :: Team
  cr_dead :: bool

text \<open>The maps are nil in the zero value: reading a nil map finds nothing, writing to it panics.\<close>

record 'sid chatModel =
  cm_players :: "'sid UIPlayer list"
  cm_ready :: bool
  cm_rows :: "(string \<rightharpoonup> 'sid ChatRow list) option"
  cm_rowsRendered :: "(string \<rightharpoonup> string) option"
  cm_selectedsServer :: string
  cm_width :: int

definition newChatModel :: "'sid chatModel" where
  "newChatModel = \<lparr>cm_players = [], cm_ready = False, cm_rows = None, cm_rowsRendered = None,
     cm_selectedsServer = [], cm_width = 0\<rparr>"

definition chat_row :: "'sid steamid_pkg \<Rightarrow> 'sid Event \<Rightarrow> 'sid MsgEvent \<Rightarrow> 'sid chatModel \<Rightarrow> 'sid ChatRow" where
  "chat_row L event evt m =
     \<lparr>cr_steamID = me_PlayerSID evt, cr_name = me_Player evt, cr_createdOn = ev_Timestamp event,
      cr_message = me_Message evt,
      cr_team = (case first_such (\<lambda>p. sid_Equal L (up_SteamID p) (me_PlayerSID evt)) (cm_players m) of
                   None \<Rightarrow> UNASSIGNED | Some p \<Rightarrow> up_Team p),
      cr_dead = me_Dead evt\<rparr>"

definition chat_event ::
  "'sid steamid_pkg \<Rightarrow> (string \<Rightarrow> 'sid ChatRow \<Rightarrow> string) \<Rightarrow> 'sid Event \<Rightarrow> 'sid MsgEvent \<Rightarrow> 'sid chatModel \<Rightarrow> 'sid chatModel outcome" where
  "chat_event L render event evt m =
     (let row = chat_row L event evt m; h = ev_HostPort event
      in case (cm_rows m, cm_rowsRendered m) of
           (Some rows, Some rendered) \<Rightarrow>
             Ok (m\<lparr>cm_rows := Some (rows(h \<mapsto> (case rows h of None \<Rightarrow> [] | Some rs \<Rightarrow> rs) @ [row])),
                   cm_rowsRendered := Some (rendered(h \<mapsto> render (case rendered h of None \<Rightarrow> [] | Some s \<Rightarrow> s) row))\<rparr>)
         | _ \<Rightarrow> Panic)"

definition chat_Update ::
  "'sid steamid_pkg \<Rightarrow> (string \<Rightarrow> 'sid ChatRow \<Rightarrow> string) \<Rightarrow> ('sid, 'f) msg \<Rightarrow> 'sid chatModel \<Rightarrow> 'sid chatModel outcome" where
  "chat_Update L render msg m =
     (case msg of
        SelectServerMsg server \<Rightarrow> Ok (m\<lparr>cm_selectedsServer := un_HostPort server\<rparr>)
      | ViewPortMsg _ _ width \<Rightarrow> Ok (m\<lparr>cm_width := width, cm_ready := True\<rparr>)
      | SnapshotMsg snapshot \<Rightarrow> Ok (m\<lparr>cm_players := us_Players (un_Server snapshot)\<rparr>)
      | EventMsg event \<Rightarrow>
          if ev_Type event \<noteq> EvMsg then Ok m
          else (case ev_Data event of MsgData evt \<Rightarrow> chat_event L render event evt m | _ \<Rightarrow> Ok m)
      | _ \<Rightarrow> Ok m)"

section \<open>Console\<close>

record LogRow =
  lr_Content :: string
  lr_CreatedOn :: time
  lr_EventType :: EventType

record ('sid, 'f, 'ti) consoleModel =
  co_rowsRendered :: "string \<rightharpoonup> string"
  co_rowsCount :: "string \<rightharpoonup> int"
  co_cvarList :: "string \<rightharpoonup> CVarList"
  co_width :: int
  co_filterNoisy :: bool
  co_selectedServer :: "('sid, 'f) UISnapshot"
  co_input :: 'ti
  co_inputActive :: bool

definition newConsoleModel :: "'f \<Rightarrow> ('sid, 'f, 'ti) input_lib \<Rightarrow> ('sid, 'f, 'ti) consoleModel" where
  "newConsoleModel z I =
     \<lparr>co_rowsRendered = Map.empty, co_rowsCount = Map.empty, co_cvarList = Map.empty, co_width = 0,
      co_filterNoisy = False, co_selectedServer = zero_UISnapshot z, co_input = il_New I, co_inputActive = False\<rparr>"

definition noisy_prefixes :: "string list" where
  "noisy_prefixes = [''# '', ''version '', ''steamid '', ''players '', ''map '', ''account '', ''edicts '']"

text \<open>The part of a line that the console shows, if it shows any.\<close>

definition log_body :: "bool \<Rightarrow> string \<Rightarrow> string option" where
  "log_body filterNoisy raw =
     (let parts = SplitN2 raw '': ''
      in if length parts \<noteq> 2 then None
         else if parts ! 1 = [] then None
         else if filterNoisy \<and> list_ex (HasPrefix (parts ! 1)) noisy_prefixes then None
         else Some (parts ! 1))"

text \<open>\<open>safe\<close> is \<open>safeString\<close>, which trims the characters that are not graphic; \<open>render\<close> is \<open>LogRow.Render\<close> for a
  width.\<close>

definition onLogs ::
  "(string \<Rightarrow> string) \<Rightarrow> (int \<Rightarrow> LogRow \<Rightarrow> string) \<Rightarrow> time \<Rightarrow> 'sid Event \<Rightarrow> ('sid, 'f, 'ti) consoleModel \<Rightarrow> ('sid, 'f, 'ti) consoleModel" where
  "onLogs safe render now event m =
     (case log_body (co_filterNoisy m) (ev_Raw event) of
        None \<Rightarrow> m
      | Some body \<Rightarrow>
          let h = ev_HostPort event;
              newRow = \<lparr>lr_Content = safe body, lr_CreatedOn = now, lr_EventType = ev_Type event\<rparr>;
              prev = (case co_rowsRendered m h of None \<Rightarrow> [] | Some s \<Rightarrow> s);
              count = (case co_rowsCount m h of None \<Rightarrow> 0 | Some n \<Rightarrow> n)
          in m\<lparr>co_rowsRendered := (co_rowsRendered m)(h \<mapsto> prev @ [nl] @ render (co_width m - 10) newRow),
               co_rowsCount := (co_rowsCount m)(h \<mapsto> int_of_uint64 (count + 1))\<rparr>)"

definition focus_input :: "('sid, 'f, 'ti) input_lib \<Rightarrow> ('sid, 'f, 'ti) consoleModel \<Rightarrow> ('sid, 'f, 'ti) consoleModel" where
  "focus_input I m =
     (if co_inputActive m \<and> \<not> il_Focused I (co_input m) then m\<lparr>co_input := il_Focus I (co_input m)\<rparr> else m)"

definition console_Update ::
  "('sid, 'f, 'ti) input_lib \<Rightarrow> (string \<Rightarrow> string) \<Rightarrow> (string \<Rightarrow> string) \<Rightarrow> (int \<Rightarrow> LogRow \<Rightarrow> string) \<Rightarrow> time \<Rightarrow>
     ('sid, 'f) msg \<Rightarrow> ('sid, 'f, 'ti) consoleModel \<Rightarrow> ('sid, 'f, 'ti) consoleModel \<times> ('sid, 'f) cmd" where
  "console_Update I ToLower safe render now msg m =
     (let m = (if co_inputActive m then m\<lparr>co_input := il_SetValue I [] (il_Update I msg (co_input m))\<rparr> else m)
      in case msg of
           KeyMsg key \<Rightarrow>
             if Matches key (km_accept defaultKeyMap) \<and> il_Value I (co_input m) \<noteq> []
             then (m, [RCONCommandMsg (un_HostPort (co_selectedServer m)) (il_Value I (co_input m))]) else (m, [])
         | TabMsg tab \<Rightarrow>
             (if tab = tabConsole then focus_input I (m\<lparr>co_inputActive := True\<rparr>) else m, [])
         | InputZoneMsg zone \<Rightarrow> (focus_input I (m\<lparr>co_inputActive := zone = zoneConsoleInput\<rparr>), [])
         | SelectServerMsg server \<Rightarrow>
             (let m = m\<lparr>co_selectedServer := server\<rparr>
              in (case co_cvarList m (un_HostPort server) of
                    None \<Rightarrow> m
                  | Some cvars \<Rightarrow> m\<lparr>co_input := il_SetSuggestions I (CVarList_Names (CVarList_Filter ToLower cvars [])) (co_input m)\<rparr>, []))
         | ViewPortMsg _ _ width \<Rightarrow> (m\<lparr>co_width := width\<rparr>, [])
         | EventMsg event \<Rightarrow> (onLogs safe render now event m, [])
         | CVarListMsg hostPort cvars \<Rightarrow> (m\<lparr>co_cvarList := (co_cvarList m)(hostPort \<mapsto> cvars)\<rparr>, [])
         | _ \<Rightarrow> (m, []))"

section \<open>Notes\<close>

record 'sid notesModel =
  nm_player :: "'sid UIPlayer"
  nm_text :: string
  nm_width :: int
  nm_height :: int

definition newNotesModel :: "'sid steamid_pkg \<Rightarrow> 'sid notesModel" where
  "newNotesModel L = \<lparr>nm_player = zero_UIPlayer L, nm_text = ''A note...'', nm_width = 0, nm_height = 10\<rparr>"

definition notes_Update :: "('sid, 'f) msg \<Rightarrow> 'sid notesModel \<Rightarrow> 'sid notesModel" where
  "notes_Update msg m =
     (case msg of
        ViewPortMsg viewport _ width \<Rightarrow> m\<lparr>nm_width := width, nm_height := viewport\<rparr>
      | SelectedPlayerMsg player notes \<Rightarrow> m\<lparr>nm_player := player, nm_text := notes\<rparr>
      | _ \<Rightarrow> m)"

section \<open>Player details\<close>

record 'sid detailPanelModel =
  dm_links :: "UserLink list"
  dm_players :: "'sid UIPlayer list"
  dm_player :: "'sid UIPlayer"
  dm_width :: int
  dm_height :: int
  dm_contentViewPortHeight :: int
  dm_ready :: bool

definition newDetailPanelModel :: "'sid steamid_pkg \<Rightarrow> UserLink list \<Rightarrow> 'sid detailPanelModel" where
  "newDetailPanelModel L links =
     \<lparr>dm_links = links, dm_players = [], dm_player = zero_UIPlayer L, dm_width = 0, dm_height = 0,
      dm_contentViewPortHeight = 0, dm_ready = False\<rparr>"

definition detail_Update :: "('sid, 'f) msg \<Rightarrow> 'sid detailPanelModel \<Rightarrow> 'sid detailPanelModel" where
  "detail_Update msg m =
     (case msg of
        ConfigMsg config \<Rightarrow> m\<lparr>dm_links := cf_Links config\<rparr>
      | SnapshotMsg snapshot \<Rightarrow> m\<lparr>dm_players := us_Players (un_Server snapshot)\<rparr>
      | ViewPortMsg viewport height width \<Rightarrow>
          (let m = m\<lparr>dm_width := width, dm_height := height\<rparr>
           in if \<not> dm_ready m then m\<lparr>dm_ready := True\<rparr> else m\<lparr>dm_contentViewPortHeight := viewport\<rparr>)
      | SelectedPlayerMsg player _ \<Rightarrow> m\<lparr>dm_player := player\<rparr>
      | _ \<Rightarrow> m)"

text \<open>The leagues in the order of their first team, and the league id of the first ETF2L team.\<close>

fun find_leagues :: "LeaguePlayerTeamHistory list \<Rightarrow> string list \<Rightarrow> int \<Rightarrow> string list \<times> int" where
  "find_leagues [] leagues etf2lID = (leagues, etf2lID)"
| "find_leagues (team # teams) leagues etf2lID =
     (if lh_League team \<notin> set leagues
      then find_leagues teams (leagues @ [lh_League team]) (if lh_League team = ''etf2l'' then lh_LeagueId team else etf2lID)
      else find_leagues teams leagues etf2lID)"

definition league_row :: "string \<Rightarrow> int \<Rightarrow> string \<Rightarrow> (string \<times> string) list" where
  "league_row sid etf2lID league =
     (if league = ''rgl'' then [(''RGL Profile'', ''https://rgl.gg/Public/PlayerProfile?p='' @ sid)]
      else if league = ''ugc'' then [(''UGC Profile'', ''https://www.ugcleague.com/players_page.cfm?player_id='' @ sid)]
      else if league = ''etf2l'' \<and> etf2lID > 0 then
        [(''ETF2L Profile'', ''https://etf2l.org/forum/user/'' @ Itoa etf2lID @ ''/'')]
      else [])"

text \<open>The rows of the panel, label and value. \<open>age\<close> is \<open>humanize.RelTime\<close> from a Unix time to now.\<close>

definition detail_rows :: "'sid steamid_pkg \<Rightarrow> (int \<Rightarrow> string) \<Rightarrow> 'sid detailPanelModel \<Rightarrow> (string \<times> string) list" where
  "detail_rows L age m =
     (let p = dm_player m; sid = sid_String L (up_SteamID p);
          (leagues, etf2lID) = find_leagues (up_CompetitiveTeams p) [] 0
      in if \<not> sid_Valid L (up_SteamID p) then []
         else [(''SteamID'', sid), (''Steam Profile'', ''https://steamcommunity.com/profiles/'' @ sid)] @
           map (\<lambda>link. (ul_Name link, Generate L link (up_SteamID p))) (dm_links m) @
           concat (map (league_row sid etf2lID) leagues) @
           (if up_TimeCreated p > 0 then [(''Acct. Age'', age (up_TimeCreated p))] else []) @
           (if up_EconomyBan p \<noteq> ''none'' \<and> up_EconomyBan p \<noteq> [] then [(''Econ Ban'', up_EconomyBan p)] else []) @
           (if up_CommunityBanned p then [(''Comm Ban'', ''true'')] else []) @
           (if up_NumberOfVacBans p > 0 then
              [(''Vac Bans'', Itoa (up_NumberOfVacBans p) @ '' ('' @ Itoa (up_DaysSinceLastBan p) @ '' days)'')] else []) @
           (if up_NumberOfGameBans p > 0 then [(''Game Bans'', Itoa (up_NumberOfGameBans p))] else []) @
           (if up_LogsCount p > 0 then [(''Logs.tf'', Itoa (up_LogsCount p))] else []) @
           [(''Friends (Steam)'', Itoa (int (length (up_Friends p)))),
            (''Friends (In Game)'', Itoa (int (length (FindFriends L (dm_players m) (up_SteamID p)))))])"

section \<open>Server details\<close>

text \<open>The lists show the plugins and variables of the snapshot the panel had, not of the one that arrives.\<close>

record ('sid, 'f) serverDetailPanelModel =
  sp_snapshot :: "('sid, 'f) UISnapshot"
  sp_width :: int
  sp_viewportSize :: "int \<times> int"
  sp_listSM :: "GamePlugin list"
  sp_listMeta :: "GamePlugin list"
  sp_listCvar :: CVarList
  sp_listSizes :: "(int \<times> int) list"
  sp_ready :: bool

definition newServerDetailPanel :: "'f \<Rightarrow> ('sid, 'f) serverDetailPanelModel" where
  "newServerDetailPanel z =
     \<lparr>sp_snapshot = zero_UISnapshot z, sp_width = 0, sp_viewportSize = (0, 0), sp_listSM = [], sp_listMeta = [],
      sp_listCvar = [], sp_listSizes = [(2, 2), (2, 2), (2, 2)], sp_ready = False\<rparr>"

text \<open>The product is exact in floating point for every size of a screen, and no multiple of a hundredth rounds up
  to an integer.\<close>

definition calcPct :: "int \<Rightarrow> int \<Rightarrow> int" where
  "calcPct sz percent = sz * percent div 100"

definition resize :: "int \<Rightarrow> int \<Rightarrow> ('sid, 'f) serverDetailPanelModel \<Rightarrow> ('sid, 'f) serverDetailPanelModel" where
  "resize width height m =
     m\<lparr>sp_viewportSize := (calcPct width 50, go_div height 2),
       sp_listSizes := [(calcPct width 15, go_div height 3), (calcPct width 15, go_div height 2), (calcPct width 20, go_div height 2)]\<rparr>"

definition server_detail_Update ::
  "('sid, 'f) msg \<Rightarrow> ('sid, 'f) serverDetailPanelModel \<Rightarrow> ('sid, 'f) serverDetailPanelModel" where
  "server_detail_Update msg m =
     (case msg of
        SelectServerMsg server \<Rightarrow>
          m\<lparr>sp_listSM := un_PluginsSM (sp_snapshot m), sp_listMeta := un_PluginsMeta (sp_snapshot m),
            sp_listCvar := un_CVars (sp_snapshot m), sp_snapshot := server\<rparr>
      | ViewPortMsg viewport _ width \<Rightarrow> (resize width viewport (m\<lparr>sp_width := width\<rparr>))\<lparr>sp_ready := True\<rparr>
      | _ \<Rightarrow> m)"

definition server_detail_rows :: "('sid, 'f) serverDetailPanelModel \<Rightarrow> (string \<times> string) list" where
  "server_detail_rows m =
     [(''Game Tags'', Join '', '' (xs_Tags (status_of (sp_snapshot m)))),
      (''EDicts'', Join '', '' (map Itoa (xs_Edicts (status_of (sp_snapshot m))))),
      (''Game'', us_Game (un_Server (sp_snapshot m)))]"

section \<open>Bans, bot lists and leagues\<close>

definition IconCheck :: string where "IconCheck = [CHR 0xE2, CHR 0x9C, CHR 0x85]"

record 'sid tableBansModel =
  tb_player :: "'sid UIPlayer"
  tb_rows :: "string list list"
  tb_width :: int
  tb_height :: int
  tb_ready :: bool
  tb_contentViewPortHeight :: int

definition newTableBansModel :: "'sid steamid_pkg \<Rightarrow> 'sid tableBansModel" where
  "newTableBansModel L = \<lparr>tb_player = zero_UIPlayer L, tb_rows = [], tb_width = 0, tb_height = 0, tb_ready = False,
     tb_contentViewPortHeight = 0\<rparr>"

text \<open>\<open>DateTime\<close> formats a time.\<close>

definition bans_Update :: "(int \<Rightarrow> string) \<Rightarrow> ('sid, 'f) msg \<Rightarrow> 'sid tableBansModel \<Rightarrow> 'sid tableBansModel" where
  "bans_Update DateTime msg m =
     (case msg of
        ViewPortMsg viewport height width \<Rightarrow>
          (let m = m\<lparr>tb_width := width, tb_height := height\<rparr>
           in if \<not> tb_ready m then m\<lparr>tb_ready := True\<rparr> else m\<lparr>tb_contentViewPortHeight := viewport\<rparr>)
      | SelectedPlayerMsg player _ \<Rightarrow>
          m\<lparr>tb_player := player,
            tb_rows := map (\<lambda>ban. [bn_SiteName ban, DateTime (bn_CreatedOn ban),
                                  if \<not> bn_Permanent ban then [] else IconCheck, bn_Reason ban]) (up_Bans player)\<rparr>
      | _ \<Rightarrow> m)"

definition ban_width :: "int \<Rightarrow> nat \<Rightarrow> int" where
  "ban_width width col =
     (if col = 0 then 20 else if col = 1 then 23 else if col = 2 then 6 else if col = 3 then width - 20 - 23 - 6 - 2 else 0)"

record tableBDModel =
  bd_rows :: "string list list"
  bd_tableHeight :: int
  bd_width :: int

definition newTableBDModel :: tableBDModel where
  "newTableBDModel = \<lparr>bd_rows = [], bd_tableHeight = 0, bd_width = 0\<rparr>"

text \<open>The list of matches is never filled.\<close>

definition bd_Update :: "('sid, 'f) msg \<Rightarrow> tableBDModel \<Rightarrow> tableBDModel" where
  "bd_Update msg m =
     (case msg of
        ViewPortMsg _ _ width \<Rightarrow> m\<lparr>bd_width := width\<rparr>
      | SelectedPlayerMsg _ _ \<Rightarrow> m\<lparr>bd_rows := [], bd_tableHeight := 0\<rparr>
      | _ \<Rightarrow> m)"

record 'sid tableCompModel =
  tc_player :: "'sid UIPlayer"
  tc_rows :: "string list list"
  tc_tableHeight :: int
  tc_width :: int
  tc_height :: int
  tc_ready :: bool

definition newTableCompModel :: "'sid steamid_pkg \<Rightarrow> 'sid tableCompModel" where
  "newTableCompModel L = \<lparr>tc_player = zero_UIPlayer L, tc_rows = [], tc_tableHeight = 0, tc_width = 0,
     tc_height = 0, tc_ready = False\<rparr>"

text \<open>The time one team was joined is compared with the time the other was left.\<close>

definition team_cmp :: "LeaguePlayerTeamHistory \<Rightarrow> LeaguePlayerTeamHistory \<Rightarrow> int" where
  "team_cmp a b = cmp_Compare (lh_JoinedTeam a) (lh_LeftTeam b)"

definition comp_row :: "(int \<Rightarrow> string) \<Rightarrow> LeaguePlayerTeamHistory \<Rightarrow> string list" where
  "comp_row DateOnly team =
     [lh_League team, lh_SeasonName team,
      if lh_JoinedTeam team \<noteq> zero_time then DateOnly (lh_JoinedTeam team) else [],
      if lh_LeftTeam team \<noteq> zero_time then DateOnly (lh_LeftTeam team) else [],
      lh_Format team, lh_DivisionName team, lh_TeamName team]"

definition comp_Update :: "(int \<Rightarrow> string) \<Rightarrow> ('sid, 'f) msg \<Rightarrow> 'sid tableCompModel \<Rightarrow> 'sid tableCompModel" where
  "comp_Update DateOnly msg m =
     (case msg of
        ViewPortMsg viewport height width \<Rightarrow>
          m\<lparr>tc_width := width, tc_height := height, tc_tableHeight := viewport - 2, tc_ready := True\<rparr>
      | SelectedPlayerMsg player _ \<Rightarrow>
          (let teams = rev (SortStableFunc team_cmp (up_CompetitiveTeams player))
           in m\<lparr>tc_player := player\<lparr>up_CompetitiveTeams := teams\<rparr>, tc_rows := map (comp_row DateOnly) teams\<rparr>)
      | _ \<Rightarrow> m)"

section \<open>The command line of the console\<close>

definition console_run ::
  "('sid, 'f, 'ti) input_lib \<Rightarrow> (string \<Rightarrow> string) \<Rightarrow> (string \<Rightarrow> string) \<Rightarrow> (int \<Rightarrow> LogRow \<Rightarrow> string) \<Rightarrow>
     (time \<times> ('sid, 'f) msg) list \<Rightarrow> ('sid, 'f, 'ti) consoleModel \<Rightarrow> ('sid, 'f, 'ti) consoleModel" where
  "console_run I ToLower safe render msgs m =
     fold (\<lambda>(now, msg) m. fst (console_Update I ToLower safe render now msg m)) msgs m"

lemma onLogs_input [simp]: "co_input (onLogs safe render now event m) = co_input m"
  by (simp add: onLogs_def Let_def split: option.split)

lemma console_Update_empty:
  assumes "input_laws I" "il_Value I (co_input m) = []"
  shows "il_Value I (co_input (fst (console_Update I ToLower safe render now msg m))) = []"
    and "snd (console_Update I ToLower safe render now msg m) = []"
  using assms by (auto simp: console_Update_def focus_input_def input_laws_def Let_def split: msg.split option.split)

text \<open>C37: the console never sends a command to a server, whatever is typed and selected: its input is emptied after
  every message before the enter key reads it.\<close>

theorem console_never_sends:
  assumes "input_laws I"
  shows "snd (console_Update I ToLower safe render now msg (console_run I ToLower safe render msgs (newConsoleModel z I))) = []"
proof -
  have "il_Value I (co_input (console_run I ToLower safe render msgs (newConsoleModel z I))) = []"
  proof (induction msgs rule: rev_induct)
    case Nil
    then show ?case using assms by (simp add: console_run_def newConsoleModel_def input_laws_def)
  next
    case (snoc tm msgs)
    then show ?case using console_Update_empty(1) [OF assms] by (simp add: console_run_def split: prod.split)
  qed
  then show ?thesis by (rule console_Update_empty(2) [OF assms])
qed

text \<open>An input that is its value and its focus, which appends the keys it receives.\<close>

definition demo_input :: "(int, int, string \<times> bool) input_lib" where
  "demo_input = \<lparr>il_New = ([], False), il_Update = (\<lambda>msg (v, f). (case msg of KeyMsg k \<Rightarrow> v @ k | _ \<Rightarrow> v, f)),
     il_SetValue = (\<lambda>v (_, f). (v, f)), il_Value = fst, il_Err = (\<lambda>_. None), il_Validate = (\<lambda>_ t. t),
     il_Focus = (\<lambda>(v, _). (v, True)), il_Blur = (\<lambda>(v, _). (v, False)), il_Focused = snd, il_SetSuggestions = (\<lambda>_ t. t)\<rparr>"

lemma demo_input_laws: "input_laws demo_input"
  by (auto simp: input_laws_def demo_input_def)

theorem console_never_sends_witness:
  "snd (console_Update demo_input id id (\<lambda>_ _. []) 0 (KeyMsg ''enter'')
     (console_run demo_input id id (\<lambda>_ _. []) [(0, TabMsg tabConsole), (0, KeyMsg ''s'')] (newConsoleModel 0 demo_input))) = []"
  by (rule console_never_sends [OF demo_input_laws])

section \<open>The log of the console\<close>

definition shown :: "string \<Rightarrow> (time \<times> ('sid, 'f) msg) list \<Rightarrow> nat" where
  "shown h msgs =
     length (filter (\<lambda>(now, msg). case msg of EventMsg e \<Rightarrow> ev_HostPort e = h \<and> log_body False (ev_Raw e) \<noteq> None | _ \<Rightarrow> False) msgs)"

lemma console_Update_counts:
  fixes m :: "('sid, 'f, 'ti) consoleModel"
  assumes "\<not> co_filterNoisy m"
  shows "\<not> co_filterNoisy (fst (console_Update I ToLower safe render now msg m))"
    and "co_rowsCount (fst (console_Update I ToLower safe render now msg m)) h =
      (if shown h [(now, msg)] = 0 then co_rowsCount m h
       else Some (int_of_uint64 ((case co_rowsCount m h of None \<Rightarrow> 0 | Some n \<Rightarrow> n) + 1)))"
  using assms
  by (auto simp: console_Update_def focus_input_def onLogs_def shown_def Let_def split: msg.split option.split)

text \<open>The console counts, per server, the lines that have a text after a colon and a blank, and no others.\<close>

theorem console_counts:
  assumes "shown h msgs < 2 ^ 63"
  shows "(case co_rowsCount (console_run I ToLower safe render msgs (newConsoleModel z I)) h of None \<Rightarrow> 0 | Some n \<Rightarrow> n) =
     int (shown h msgs)"
proof -
  let ?run = "\<lambda>msgs. console_run I ToLower safe render msgs (newConsoleModel z I)"
  have "\<not> co_filterNoisy (?run msgs) \<and> (case co_rowsCount (?run msgs) h of None \<Rightarrow> 0 | Some n \<Rightarrow> n) = int (shown h msgs)"
    using assms
  proof (induction msgs rule: rev_induct)
    case Nil
    show ?case by (simp add: console_run_def newConsoleModel_def shown_def)
  next
    case (snoc tm msgs)
    obtain now msg where tm: "tm = (now, msg)" by force
    have s: "shown h (msgs @ [tm]) = shown h msgs + shown h [tm]" "shown h [tm] \<le> 1" by (simp_all add: shown_def)
    with snoc have IH: "\<not> co_filterNoisy (?run msgs)" "(case co_rowsCount (?run msgs) h of None \<Rightarrow> 0 | Some n \<Rightarrow> n) = int (shown h msgs)"
      by simp_all
    have "int_of_uint64 (int (shown h msgs) + 1) = int (shown h msgs) + 1" if "shown h [tm] = 1"
      using that s snoc.prems by (simp add: int_of_uint64_def)
    with IH s show ?case
      using console_Update_counts [OF IH(1), of I ToLower safe render now msg] tm
      by (auto simp: console_run_def split: option.splits if_splits)
  qed
  then show ?thesis by blast
qed

theorem console_counts_witness:
  "(case co_rowsCount (console_run demo_input id id (\<lambda>_ _. [])
      [(0, EventMsg (zero_Event\<lparr>ev_HostPort := ''a:1'', ev_Raw := ''L x: hi''\<rparr>))] (newConsoleModel 0 demo_input)) ''a:1'' of
      None \<Rightarrow> 0 | Some n \<Rightarrow> n) = 1"
proof -
  let ?msgs = "[(0, EventMsg (zero_Event\<lparr>ev_HostPort := ''a:1'', ev_Raw := ''L x: hi''\<rparr>))] :: (time \<times> (int, int) msg) list"
  have "shown ''a:1'' ?msgs = 1" by (simp add: shown_def log_body_def SplitN2_def Index.simps)
  with console_counts [of "''a:1''" ?msgs demo_input id id "\<lambda>_ _. []" 0] show ?thesis by simp
qed

section \<open>Panels that lag or fail\<close>

text \<open>The lists of the server panel are those of the snapshot before the one it shows.\<close>

lemma server_detail_lags:
  "let m' = server_detail_Update (SelectServerMsg s2) (server_detail_Update (SelectServerMsg s1) m)
   in sp_snapshot m' = s2 \<and> sp_listSM m' = un_PluginsSM s1 \<and> sp_listMeta m' = un_PluginsMeta s1 \<and> sp_listCvar m' = un_CVars s1"
  by (simp add: server_detail_Update_def Let_def)

lemma chat_Update_rows: "chat_Update L render msg m = Ok m' \<Longrightarrow> cm_rows m = None \<Longrightarrow> cm_rows m' = None"
  by (auto simp: chat_Update_def chat_event_def Let_def split: msg.splits EventData.splits if_splits)

lemma chat_Update_message:
  "cm_rows m = None \<Longrightarrow> ev_Type e = EvMsg \<Longrightarrow> ev_Data e = MsgData evt \<Longrightarrow> chat_Update L render (EventMsg e) m = Panic"
  by (simp add: chat_Update_def chat_event_def Let_def)

lemma chat_Update_ok:
  "(\<And>e. msg = EventMsg e \<Longrightarrow> ev_Type e \<noteq> EvMsg) \<Longrightarrow> \<exists>m'. chat_Update L render msg m = Ok m'"
  by (cases msg) (auto simp: chat_Update_def)

end
