(* ===== verification/Ui_Config.thy ===== *)
theory Ui_Config
  imports Ui_Panels Go_Path
begin

text \<open>
  internal/ui/text_input.go, widgets.go and the form of config.go: text inputs that validate what is typed and
  the view in which the configuration is changed and saved. \<open>url.Parse\<close>, \<open>os.Stat\<close> and the writer of the
  configuration are parameters.
\<close>

section \<open>Validators\<close>

datatype inputValidator = urlValidator bool | pathValidator | steamIDValidator

record 'sid os_lib =
  ol_sid :: "'sid steamid_pkg"
  ol_urlParse :: "string \<Rightarrow> go_error option"
  ol_Stat :: "string \<Rightarrow> go_error option"
  ol_UserHomeDir :: "string result"

definition validate :: "'sid os_lib \<Rightarrow> inputValidator \<Rightarrow> string \<Rightarrow> go_error option" where
  "validate S validator value =
     (case validator of
        urlValidator emptyOk \<Rightarrow>
          if value = [] then (if emptyOk then None else Some [errInvalidURL])
          else (case ol_urlParse S value of None \<Rightarrow> None | Some e \<Rightarrow> Some (errors_Join e [errInvalidURL]))
      | pathValidator \<Rightarrow>
          if value = [] then Some [errFilePath]
          else (case ol_Stat S value of None \<Rightarrow> None | Some e \<Rightarrow> Some (errors_Join e [errConfigValue]))
      | steamIDValidator \<Rightarrow>
          if \<not> sid_Valid (ol_sid S) (sid_New_string (ol_sid S) value) then Some [errSteamIDInvalid] else None)"

fun validate_all :: "'sid os_lib \<Rightarrow> inputValidator list \<Rightarrow> string \<Rightarrow> go_error option" where
  "validate_all S [] s = None"
| "validate_all S (validator # validators) s =
     (case validate S validator s of Some e \<Rightarrow> Some e | None \<Rightarrow> validate_all S validators s)"

section \<open>Inputs\<close>

text \<open>The value is set before the validation function, so that it is not validated.\<close>

definition newTextInputModel :: "('sid, 'f, 'ti) input_lib \<Rightarrow> string \<Rightarrow> 'ti" where
  "newTextInputModel I value = il_SetValue I value (il_New I)"

record 'ti validatingTextInputModel =
  vi_label :: string
  vi_input :: 'ti
  vi_active :: bool

definition newValidatingTextInputModel ::
  "('sid, 'f, 'ti) input_lib \<Rightarrow> 'sid os_lib \<Rightarrow> string \<Rightarrow> string \<Rightarrow> inputValidator list \<Rightarrow> 'ti validatingTextInputModel" where
  "newValidatingTextInputModel I S label value validators =
     (let input = newTextInputModel I value
      in \<lparr>vi_label = label,
          vi_input = (if length validators > 0 then il_Validate I (validate_all S validators) input else input),
          vi_active = False\<rparr>)"

definition vi_Update :: "('sid, 'f, 'ti) input_lib \<Rightarrow> ('sid, 'f) msg \<Rightarrow> 'ti validatingTextInputModel \<Rightarrow> 'ti validatingTextInputModel" where
  "vi_Update I msg m = m\<lparr>vi_input := il_Update I msg (vi_input m)\<rparr>"

definition vi_focus :: "('sid, 'f, 'ti) input_lib \<Rightarrow> 'ti validatingTextInputModel \<Rightarrow> 'ti validatingTextInputModel" where
  "vi_focus I m = m\<lparr>vi_input := il_Focus I (vi_input m)\<rparr>"

definition vi_blur :: "('sid, 'f, 'ti) input_lib \<Rightarrow> 'ti validatingTextInputModel \<Rightarrow> 'ti validatingTextInputModel" where
  "vi_blur I m = m\<lparr>vi_input := il_Blur I (vi_input m)\<rparr>"

section \<open>The form\<close>

definition fieldSteamID :: int where "fieldSteamID = 0"
definition fieldConsoleLogPath :: int where "fieldConsoleLogPath = 1"
definition fieldTFAPIBaseURL :: int where "fieldTFAPIBaseURL = 2"
definition fieldSave :: int where "fieldSave = 3"

lemmas field_defs = fieldSteamID_def fieldConsoleLogPath_def fieldTFAPIBaseURL_def fieldSave_def

record ('sid, 'ti) configModel =
  cg_fields :: "'ti validatingTextInputModel list"
  cg_focusIndex :: int
  cg_config :: "'sid Config"
  cg_activeView :: contentView
  cg_width :: int
  cg_height :: int
  cg_inputActive :: bool

definition newConfigModal ::
  "('sid, 'f, 'ti) input_lib \<Rightarrow> 'sid os_lib \<Rightarrow> 'sid Config \<Rightarrow> ('sid, 'ti) configModel" where
  "newConfigModal I S config0 =
     (let homedir = (case ol_UserHomeDir S of Inl _ \<Rightarrow> ''/'' | Inr h \<Rightarrow> h);
          logPath = path_Join [homedir, ''.steam/steam/steamapps/common/Team Fortress 2/tf''];
          config = (if cf_ConsoleLogPath config0 = [] then config0\<lparr>cf_ConsoleLogPath := logPath\<rparr> else config0)
      in \<lparr>cg_fields =
            [newValidatingTextInputModel I S ''Steam ID'' (sid_String (ol_sid S) (cf_SteamID config)) [steamIDValidator],
             newValidatingTextInputModel I S ''Path to console.log'' (cf_ConsoleLogPath config) [pathValidator],
             newValidatingTextInputModel I S ''TF-API Base URL'' (cf_APIBaseURL config) [urlValidator False]],
          cg_focusIndex = fieldSteamID, cg_config = config, cg_activeView = viewConfig, cg_width = 0,
          cg_height = 0, cg_inputActive = False\<rparr>)"

definition changeInput ::
  "('sid, 'f, 'ti) input_lib \<Rightarrow> direction \<Rightarrow> ('sid, 'ti) configModel \<Rightarrow> ('sid, 'ti) configModel" where
  "changeInput I dir m =
     (if dir \<in> {up, down} then
        let focusIndex = (if dir = up then cg_focusIndex m - 1 else cg_focusIndex m + 1)
        in m\<lparr>cg_focusIndex := focusIndex,
             cg_fields := map (\<lambda>(i, f). if int i = focusIndex then vi_focus I f else vi_blur I f) (enumerate 0 (cg_fields m))\<rparr>
      else m)"

text \<open>The value of the field with an index, and the configuration the form describes.\<close>

definition field_value :: "('sid, 'f, 'ti) input_lib \<Rightarrow> ('sid, 'ti) configModel \<Rightarrow> int \<Rightarrow> string" where
  "field_value I m i = il_Value I (vi_input (cg_fields m ! nat i))"

definition form_config :: "('sid, 'f, 'ti) input_lib \<Rightarrow> 'sid os_lib \<Rightarrow> ('sid, 'ti) configModel \<Rightarrow> 'sid Config" where
  "form_config I S m =
     (cg_config m)\<lparr>cf_SteamID := sid_New_string (ol_sid S) (field_value I m fieldSteamID),
        cf_ConsoleLogPath := field_value I m fieldConsoleLogPath, cf_APIBaseURL := field_value I m fieldTFAPIBaseURL\<rparr>"

text \<open>The writer \<open>Write\<close> works on a world; \<open>text\<close> is the message of an error.\<close>

definition config_save ::
  "('sid, 'f, 'ti) input_lib \<Rightarrow> 'sid os_lib \<Rightarrow> ('sid Config \<Rightarrow> 'w \<Rightarrow> go_error option \<times> 'w) \<Rightarrow> (go_error \<Rightarrow> string) \<Rightarrow>
     ('sid, 'ti) configModel \<Rightarrow> 'w \<Rightarrow> ('sid, 'ti) configModel \<times> ('sid, 'f) cmd \<times> 'w" where
  "config_save I S Write text m w =
     (if list_ex (\<lambda>f. il_Err I (vi_input f) \<noteq> None) (cg_fields m)
      then (m, [StatusMsg ''Config is not valid, cannot save'' True], w)
      else
        case Write (form_config I S m) w of
          (Some e, w) \<Rightarrow> (m, [StatusMsg (text e) True], w)
        | (None, w) \<Rightarrow>
            (m\<lparr>cg_config := form_config I S m\<rparr>,
             [ConfigMsg (form_config I S m), StatusMsg ''Saved config'' False, ViewMsg viewMain], w))"

definition config_key ::
  "('sid, 'f, 'ti) input_lib \<Rightarrow> 'sid os_lib \<Rightarrow> ('sid Config \<Rightarrow> 'w \<Rightarrow> go_error option \<times> 'w) \<Rightarrow> (go_error \<Rightarrow> string) \<Rightarrow>
     string \<Rightarrow> ('sid, 'ti) configModel \<Rightarrow> 'w \<Rightarrow> ('sid, 'ti) configModel \<times> ('sid, 'f) cmd \<times> 'w" where
  "config_key I S Write text key m w =
     (if cg_activeView m \<noteq> viewConfig then (m, [], w)
      else if Matches key (km_back defaultKeyMap) then (m\<lparr>cg_activeView := viewMain\<rparr>, [ViewMsg viewMain], w)
      else if Matches key (km_up defaultKeyMap) then
        (if 0 < cg_focusIndex m \<and> cg_focusIndex m \<le> fieldSave then changeInput I up m else m, [], w)
      else if Matches key (km_down defaultKeyMap) then
        (if 0 \<le> cg_focusIndex m \<and> cg_focusIndex m < fieldSave then changeInput I down m else m, [], w)
      else if Matches key (km_accept defaultKeyMap) then
        (if cg_focusIndex m \<in> {fieldSteamID, fieldConsoleLogPath, fieldTFAPIBaseURL} then (changeInput I down m, [], w)
         else if cg_focusIndex m = fieldSave then config_save I S Write text m w
         else (m, [], w))
      else (m, [], w))"

definition config_Update ::
  "('sid, 'f, 'ti) input_lib \<Rightarrow> 'sid os_lib \<Rightarrow> ('sid Config \<Rightarrow> 'w \<Rightarrow> go_error option \<times> 'w) \<Rightarrow> (go_error \<Rightarrow> string) \<Rightarrow>
     ('sid, 'f) msg \<Rightarrow> ('sid, 'ti) configModel \<Rightarrow> 'w \<Rightarrow> ('sid, 'ti) configModel \<times> ('sid, 'f) cmd \<times> 'w" where
  "config_Update I S Write text msg m w =
     (let m = m\<lparr>cg_fields := map (vi_Update I msg) (cg_fields m)\<rparr>
      in case msg of
           InputZoneMsg zone \<Rightarrow> (m\<lparr>cg_inputActive := zone = zoneConfig\<rparr>, [], w)
         | ViewMsg view \<Rightarrow>
             (let m = m\<lparr>cg_activeView := view\<rparr>
              in if view = viewConfig
                 then m\<lparr>cg_fields := (cg_fields m)[0 := vi_focus I (cg_fields m ! 0)]\<rparr> else m, [], w)
         | WindowSizeMsg height width \<Rightarrow> (m\<lparr>cg_width := width, cg_height := height\<rparr>, [], w)
         | KeyMsg key \<Rightarrow> config_key I S Write text key m w
         | _ \<Rightarrow> (m, [], w))"

section \<open>The invariant of the form\<close>

definition config_inv :: "('sid, 'ti) configModel \<Rightarrow> bool" where
  "config_inv m \<longleftrightarrow> length (cg_fields m) = 3 \<and> 0 \<le> cg_focusIndex m \<and> cg_focusIndex m \<le> fieldSave"

lemma newConfigModal_inv: "config_inv (newConfigModal I S config)"
  by (simp add: newConfigModal_def config_inv_def Let_def field_defs)

lemma changeInput_fields [simp]:
  "length (cg_fields (changeInput I dir m)) = length (cg_fields m)"
  "cg_config (changeInput I dir m) = cg_config m"
  "cg_activeView (changeInput I dir m) = cg_activeView m"
  "cg_focusIndex (changeInput I dir m) = (if dir = up then cg_focusIndex m - 1 else if dir = down then cg_focusIndex m + 1 else cg_focusIndex m)"
  by (auto simp: changeInput_def Let_def)

lemma config_save_frame [simp]:
  "cg_fields (fst (config_save I S Write text m w)) = cg_fields m"
  "cg_focusIndex (fst (config_save I S Write text m w)) = cg_focusIndex m"
  "cg_activeView (fst (config_save I S Write text m w)) = cg_activeView m"
  by (auto simp: config_save_def split: prod.split option.split)

lemma config_key_inv:
  "config_inv m \<Longrightarrow> config_inv (fst (config_key I S Write text key m w))"
  by (auto simp: config_key_def config_inv_def field_defs)

text \<open>The form always has its three fields and the focus on one of them or on the button: no index of the code is
  out of range.\<close>

lemma config_Update_inv:
  assumes "config_inv m"
  shows "config_inv (fst (config_Update I S Write text msg m w))"
proof -
  have inv: "config_inv (m\<lparr>cg_fields := map (vi_Update I msg) (cg_fields m)\<rparr>)" using assms by (simp add: config_inv_def)
  show ?thesis
  proof (cases msg)
    case (KeyMsg key)
    with config_key_inv [OF inv] show ?thesis by (simp add: config_Update_def)
  qed (use inv in \<open>simp_all add: config_Update_def config_inv_def Let_def\<close>)
qed

text \<open>Saving an invalid form writes nothing; saving a valid one writes the configuration with the three values
  of the form and everything else as it was, and only when that succeeds is it announced and kept.\<close>

theorem config_save_spec:
  assumes "cg_activeView m = viewConfig" "cg_focusIndex m = fieldSave"
  shows "config_key I S Write text ''enter'' m w =
     (if list_ex (\<lambda>f. il_Err I (vi_input f) \<noteq> None) (cg_fields m)
      then (m, [StatusMsg ''Config is not valid, cannot save'' True], w)
      else let cfg = (cg_config m)\<lparr>cf_SteamID := sid_New_string (ol_sid S) (field_value I m 0),
                        cf_ConsoleLogPath := field_value I m 1, cf_APIBaseURL := field_value I m 2\<rparr>
           in case Write cfg w of
                (Some e, w') \<Rightarrow> (m, [StatusMsg (text e) True], w')
              | (None, w') \<Rightarrow> (m\<lparr>cg_config := cfg\<rparr>, [ConfigMsg cfg, StatusMsg ''Saved config'' False, ViewMsg viewMain], w'))"
  using assms
  by (simp add: config_key_def config_save_def form_config_def Matches_def defaultKeyMap_def field_defs Let_def
      split: prod.split option.split)

definition demo_os :: "int os_lib" where
  "demo_os = \<lparr>ol_sid = num_sid, ol_urlParse = (\<lambda>_. None), ol_Stat = (\<lambda>_. None), ol_UserHomeDir = Inr ''/''\<rparr>"

theorem config_save_spec_witness:
  "let m = (newConfigModal demo_input demo_os (zero_Config num_sid))\<lparr>cg_focusIndex := fieldSave\<rparr>
   in snd (snd (config_key demo_input demo_os (\<lambda>c w. (None, cf_ConsoleLogPath c # w)) (\<lambda>_. []) ''enter'' m [])) =
        [path_Join [''/'', ''.steam/steam/steamapps/common/Team Fortress 2/tf'']]"
proof -
  let ?m = "(newConfigModal demo_input demo_os (zero_Config num_sid))\<lparr>cg_focusIndex := fieldSave\<rparr>"
  have p: "cg_activeView ?m = viewConfig" "cg_focusIndex ?m = fieldSave" by (simp_all add: newConfigModal_def Let_def)
  show ?thesis
    unfolding Let_def
    by (subst config_save_spec [OF p])
      (simp add: newConfigModal_def newValidatingTextInputModel_def newTextInputModel_def demo_input_def demo_os_def
        field_value_def zero_Config_def Let_def)
qed

section \<open>What the form writes\<close>

text \<open>The form over a list of messages, with a writer that keeps what it is given and fails as it likes.\<close>

definition config_run ::
  "('sid, 'f, 'ti) input_lib \<Rightarrow> 'sid os_lib \<Rightarrow> ('sid Config \<Rightarrow> go_error option) \<Rightarrow> (go_error \<Rightarrow> string) \<Rightarrow> ('sid, 'f) msg list \<Rightarrow>
     ('sid, 'ti) configModel \<times> 'sid Config list \<Rightarrow> ('sid, 'ti) configModel \<times> 'sid Config list" where
  "config_run I S fails text msgs mw =
     foldl (\<lambda>(m, w) msg. let (m, c, w) = config_Update I S (\<lambda>c w. (fails c, w @ [c])) text msg m w in (m, w)) mw msgs"

lemma config_run_snoc:
  "config_run I S fails text (msgs @ [msg]) mw =
     (case config_run I S fails text msgs mw of (m, w) \<Rightarrow>
        case config_Update I S (\<lambda>c w. (fails c, w @ [c])) text msg m w of (m', c, w') \<Rightarrow> (m', w'))"
  by (simp add: config_run_def split: prod.split)

text \<open>The value the form shows under a label.\<close>

definition shown_value :: "('sid, 'f, 'ti) input_lib \<Rightarrow> ('sid, 'ti) configModel \<Rightarrow> string \<Rightarrow> string" where
  "shown_value I m label =
     (case first_such (\<lambda>f. vi_label f = label) (cg_fields m) of None \<Rightarrow> [] | Some f \<Rightarrow> il_Value I (vi_input f))"

text \<open>Configurations that differ in the three fields of the form only.\<close>

definition form_of :: "'sid Config \<Rightarrow> 'sid Config \<Rightarrow> bool" where
  "form_of conf c \<longleftrightarrow>
     conf\<lparr>cf_SteamID := cf_SteamID c, cf_ConsoleLogPath := cf_ConsoleLogPath c, cf_APIBaseURL := cf_APIBaseURL c\<rparr> = c"

lemma form_of_form_config:
  "form_of conf (cg_config m) \<Longrightarrow>
   form_config I S m = conf\<lparr>cf_SteamID := sid_New_string (ol_sid S) (field_value I m fieldSteamID),
     cf_ConsoleLogPath := field_value I m fieldConsoleLogPath, cf_APIBaseURL := field_value I m fieldTFAPIBaseURL\<rparr>"
  by (cases conf; cases "cg_config m") (simp add: form_of_def form_config_def)

text \<open>What the form keeps: its three labelled fields, and the configuration of the start but for their values.\<close>

definition field_labels :: "('sid, 'ti) configModel \<Rightarrow> string list" where
  "field_labels m = map vi_label (cg_fields m)"

definition form_labels :: "string list" where
  "form_labels = [''Steam ID'', ''Path to console.log'', ''TF-API Base URL'']"

lemma labels_3: "field_labels m = form_labels \<Longrightarrow> \<exists>a b c. cg_fields m = [a, b, c] \<and> vi_label a = ''Steam ID'' \<and>
    vi_label b = ''Path to console.log'' \<and> vi_label c = ''TF-API Base URL''"
  by (auto simp: field_labels_def form_labels_def)

lemma shown_fields:
  assumes "field_labels m = form_labels"
  shows "shown_value I m ''Steam ID'' = field_value I m fieldSteamID"
    "shown_value I m ''Path to console.log'' = field_value I m fieldConsoleLogPath"
    "shown_value I m ''TF-API Base URL'' = field_value I m fieldTFAPIBaseURL"
  using labels_3 [OF assms] by (auto simp: shown_value_def field_value_def field_defs)

lemma changeInput_labels: "map vi_label (cg_fields (changeInput I dir m)) = map vi_label (cg_fields m)"
  by (rule nth_equalityI) (auto simp: changeInput_def Let_def vi_focus_def vi_blur_def nth_enumerate_eq)

lemma config_key_labels: "map vi_label (cg_fields (fst (config_key I S Write text key m w))) = map vi_label (cg_fields m)"
  by (simp add: config_key_def changeInput_labels)

lemma vi_Update_labels: "map vi_label (map (vi_Update I msg) fs) = map vi_label fs"
  by (simp add: vi_Update_def comp_def)

lemma config_Update_labels:
  assumes "config_Update I S Write text msg m w = (m', c, w')"
  shows "field_labels m' = field_labels m"
proof (cases msg)
  case (KeyMsg key)
  then show ?thesis
    using assms config_key_labels [of I S Write "text" key "m\<lparr>cg_fields := map (vi_Update I msg) (cg_fields m)\<rparr>" w]
    by (simp add: config_Update_def field_labels_def vi_Update_labels del: map_map)
next
  case (ViewMsg view)
  have "map vi_label (fs[0 := vi_focus I (fs ! 0)]) = map vi_label fs" for fs
    by (cases fs) (simp_all add: vi_focus_def)
  with ViewMsg assms show ?thesis
    by (auto simp: config_Update_def field_labels_def Let_def vi_Update_labels simp del: map_map)
qed (use assms in \<open>auto simp: config_Update_def field_labels_def Let_def vi_Update_labels simp del: map_map\<close>)

text \<open>One message: either nothing is written, or the enter key wrote what the form then shows.\<close>

lemma config_save_writes:
  assumes "config_save I S (\<lambda>c w. (fails c, w @ [c])) text m w = (m', c, w')" "form_of conf (cg_config m)"
  shows "form_of conf (cg_config m') \<and> cg_fields m' = cg_fields m \<and>
    (w' = w \<or> w' = w @ [form_config I S m] \<and> (\<forall>f \<in> set (cg_fields m). il_Err I (vi_input f) = None))"
proof (cases "list_ex (\<lambda>f. il_Err I (vi_input f) \<noteq> None) (cg_fields m)")
  case True
  with assms show ?thesis by (simp add: config_save_def)
next
  case False
  then have valid: "\<forall>f \<in> set (cg_fields m). il_Err I (vi_input f) = None" by (auto simp: list_ex_iff)
  have "form_of conf (form_config I S m)"
    unfolding form_of_form_config [OF assms(2)] by (simp add: form_of_def)
  with assms False valid show ?thesis
    by (cases "fails (form_config I S m)") (auto simp: config_save_def)
qed

lemma config_key_writes:
  assumes "config_key I S (\<lambda>c w. (fails c, w @ [c])) text key m w = (m', c, w')" "form_of conf (cg_config m)"
  shows "form_of conf (cg_config m') \<and>
    (w' = w \<or> key = ''enter'' \<and> cg_fields m' = cg_fields m \<and> w' = w @ [form_config I S m] \<and>
      (\<forall>f \<in> set (cg_fields m). il_Err I (vi_input f) = None))"
proof (cases "cg_activeView m = viewConfig \<and> Matches key (km_accept defaultKeyMap) \<and> cg_focusIndex m = fieldSave")
  case True
  then have key: "key = ''enter''" by (simp add: Matches_def defaultKeyMap_def)
  with True assms(1) have "config_save I S (\<lambda>c w. (fails c, w @ [c])) text m w = (m', c, w')"
    by (simp add: config_key_def Matches_def defaultKeyMap_def field_defs)
  from config_save_writes [OF this assms(2)] key show ?thesis by blast
next
  case False
  with assms show ?thesis by (auto simp: config_key_def split: if_splits)
qed

lemma config_Update_writes:
  assumes "config_Update I S (\<lambda>c w. (fails c, w @ [c])) text msg m w = (m', c, w')" "form_of conf (cg_config m)"
    "field_labels m = form_labels"
  shows "form_of conf (cg_config m') \<and>
    (w' = w \<or> msg = KeyMsg ''enter'' \<and> w' = w @ [conf
       \<lparr>cf_SteamID := sid_New_string (ol_sid S) (shown_value I m' ''Steam ID''),
        cf_ConsoleLogPath := shown_value I m' ''Path to console.log'',
        cf_APIBaseURL := shown_value I m' ''TF-API Base URL''\<rparr>] \<and>
       (\<forall>f \<in> set (cg_fields m'). il_Err I (vi_input f) = None))"
proof (cases msg)
  case (KeyMsg key)
  let ?m = "m\<lparr>cg_fields := map (vi_Update I msg) (cg_fields m)\<rparr>"
  have k: "config_key I S (\<lambda>c w. (fails c, w @ [c])) text key ?m w = (m', c, w')"
    using KeyMsg assms(1) by (simp add: config_Update_def)
  have f: "form_of conf (cg_config ?m)" using assms(2) by simp
  have labels: "field_labels m' = form_labels" using config_Update_labels [OF assms(1)] assms(3) by simp
  have "form_config I S ?m = conf\<lparr>cf_SteamID := sid_New_string (ol_sid S) (shown_value I m' ''Steam ID''),
        cf_ConsoleLogPath := shown_value I m' ''Path to console.log'',
        cf_APIBaseURL := shown_value I m' ''TF-API Base URL''\<rparr>" if "cg_fields m' = cg_fields ?m"
    unfolding form_of_form_config [OF f] shown_fields [OF labels] field_value_def that ..
  with config_key_writes [OF k f] KeyMsg show ?thesis by metis
qed (use assms in \<open>auto simp: config_Update_def Let_def\<close>)

text \<open>C36: whatever messages the form gets, also configurations that were changed elsewhere in the meantime, it only
  writes when enter is pressed and no field is invalid, and what it writes is the configuration the program was
  started with, with the steam id, the log path and the API URL that the form shows under their labels at that moment.\<close>

theorem form_writes_startup_config:
  assumes "c \<in> set (snd (config_run I S fails text msgs (newConfigModal I S conf, [])))"
  shows "\<exists>before after m.
     msgs = before @ [KeyMsg ''enter''] @ after \<and>
     m = fst (config_run I S fails text (before @ [KeyMsg ''enter'']) (newConfigModal I S conf, [])) \<and>
     (\<forall>f \<in> set (cg_fields m). il_Err I (vi_input f) = None) \<and>
     c = conf\<lparr>cf_SteamID := sid_New_string (ol_sid S) (shown_value I m ''Steam ID''),
              cf_ConsoleLogPath := shown_value I m ''Path to console.log'',
              cf_APIBaseURL := shown_value I m ''TF-API Base URL''\<rparr>"
proof -
  let ?run = "\<lambda>msgs. config_run I S fails text msgs (newConfigModal I S conf, [])"
  let ?good = "\<lambda>before c. (\<forall>f \<in> set (cg_fields (fst (?run before))). il_Err I (vi_input f) = None) \<and>
     c = conf\<lparr>cf_SteamID := sid_New_string (ol_sid S) (shown_value I (fst (?run before)) ''Steam ID''),
              cf_ConsoleLogPath := shown_value I (fst (?run before)) ''Path to console.log'',
              cf_APIBaseURL := shown_value I (fst (?run before)) ''TF-API Base URL''\<rparr>"
  have "form_of conf (cg_config (fst (?run msgs))) \<and> field_labels (fst (?run msgs)) = form_labels \<and>
    (\<forall>c \<in> set (snd (?run msgs)). \<exists>before after. msgs = before @ [KeyMsg ''enter''] @ after \<and> ?good (before @ [KeyMsg ''enter'']) c)" for msgs
  proof (induction msgs rule: rev_induct)
    case Nil
    show ?case
      by (auto simp: config_run_def newConfigModal_def form_of_def field_labels_def form_labels_def newValidatingTextInputModel_def Let_def)
  next
    case (snoc msg msgs)
    obtain m w where r: "?run msgs = (m, w)" by (cases "?run msgs")
    obtain m' cmds w' where u: "config_Update I S (\<lambda>c w. (fails c, w @ [c])) text msg m w = (m', cmds, w')"
      by (rule prod_cases3)
    from r u have r': "?run (msgs @ [msg]) = (m', w')" by (simp add: config_run_snoc)
    have 1: "form_of conf (cg_config m)" "field_labels m = form_labels"
      "\<forall>c \<in> set w. \<exists>before after. msgs = before @ [KeyMsg ''enter''] @ after \<and> ?good (before @ [KeyMsg ''enter'']) c"
      using snoc.IH r by simp_all
    have "\<exists>before after. msgs @ [msg] = before @ [KeyMsg ''enter''] @ after \<and> ?good (before @ [KeyMsg ''enter'']) c" if "c \<in> set w'" for c
    proof (cases "c \<in> set w")
      case True
      with 1(3) obtain before after where "msgs = before @ [KeyMsg ''enter''] @ after" "?good (before @ [KeyMsg ''enter'']) c" by blast
      then show ?thesis by (intro exI [of _ before] exI [of _ "after @ [msg]"]) simp
    next
      case False
      with config_Update_writes [OF u 1(1,2)] that have "msg = KeyMsg ''enter''" and "?good (msgs @ [msg]) c" unfolding r' by auto
      then show ?thesis by (intro exI [of _ msgs] exI [of _ "[]"]) simp
    qed
    with config_Update_writes [OF u 1(1,2)] config_Update_labels [OF u] 1(2) show ?case unfolding r' by simp
  qed
  with assms show ?thesis by blast
qed

theorem form_writes_startup_config_witness:
  "let cs = snd (config_run demo_input demo_os (\<lambda>_. None) (\<lambda>_. []) (replicate 4 (KeyMsg ''enter''))
       (newConfigModal demo_input demo_os ((zero_Config num_sid)\<lparr>cf_UpdateFreqMs := 5\<rparr>), []))
   in length cs = 1 \<and> (\<forall>c \<in> set cs. cf_UpdateFreqMs c = 5)"
proof -
  let ?conf = "(zero_Config num_sid)\<lparr>cf_UpdateFreqMs := 5\<rparr>"
  let ?cs = "snd (config_run demo_input demo_os (\<lambda>_. None) (\<lambda>_. []) (replicate 4 (KeyMsg ''enter''))
       (newConfigModal demo_input demo_os ?conf, []))"
  have "length ?cs = 1" by code_simp
  moreover have "cf_UpdateFreqMs c = 5" if "c \<in> set ?cs" for c
    using form_writes_startup_config [OF that] by auto
  ultimately show ?thesis by (simp add: Let_def)
qed

end
