(* ===== verification/Ui_Root.thy ===== *)
theory Ui_Root
  imports Ui_Config
begin

text \<open>
  internal/ui/tabs.go and root.go: the tabs and the root model, which handles the keys of the program and hands
  every message to all the other models. \<open>ui_env\<close> collects what the models take from outside.
\<close>

section \<open>Tabs\<close>

record tabsModel =
  tm_selectedTab :: tabView
  tm_width :: int
  tm_id :: string

definition IconServers :: string where "IconServers = [CHR 0xF0, CHR 0x9F, CHR 0x8C, CHR 0x8D]"
definition IconPlayers :: string where "IconPlayers = [CHR 0xF0, CHR 0x9F, CHR 0x91, CHR 0xA5]"
definition IconBD :: string where
  "IconBD = [CHR 0xF0, CHR 0x9F, CHR 0x95, CHR 0xB5, CHR 0xEF, CHR 0xB8, CHR 0x8F]"
definition IconChat :: string where "IconChat = [CHR 0xF0, CHR 0x9F, CHR 0x8C, CHR 0xAE]"
definition IconConsole :: string where "IconConsole = [CHR 0xF0, CHR 0x9F, CHR 0x90, CHR 0xA4]"

text \<open>The labels of the tabs, by which their zones are named.\<close>

definition tab_labels :: "(string \<times> tabView) list" where
  "tab_labels = [(IconServers @ '' Servers'', tabServers), (IconPlayers @ '' Players'', tabPlayers),
     (IconBans @ '' Bans'', tabBans), (IconBD @ '' Bot Det.'', tabBD), (IconComp @ '' Comp'', tabComp),
     (IconChat @ '' Chat'', tabChat), (IconConsole @ '' Console'', tabConsole)]"

definition newTabsModel :: tabsModel where
  "newTabsModel = \<lparr>tm_selectedTab = tabServers, tm_width = 0, tm_id = []\<rparr>"

definition tab_key :: "string \<Rightarrow> tabView \<Rightarrow> tabView option" where
  "tab_key key selected =
     (if Matches key (km_nextTab defaultKeyMap) then Some (if selected + 1 > tabConsole then tabServers else selected + 1)
      else if Matches key (km_prevTab defaultKeyMap) then Some (if selected - 1 < tabServers then tabConsole else selected - 1)
      else if Matches key (km_overview defaultKeyMap) then Some tabServers
      else if Matches key (km_bans defaultKeyMap) then Some tabBans
      else if Matches key (km_comp defaultKeyMap) then Some tabComp
      else if Matches key (km_chat defaultKeyMap) then Some tabChat
      else None)"

definition tabs_Update :: "('sid, 'f) msg \<Rightarrow> tabsModel \<Rightarrow> tabsModel \<times> ('sid, 'f) cmd" where
  "tabs_Update msg m =
     (case msg of
        MouseMsg mouse \<Rightarrow>
          (case mouse of
             Wheel \<Rightarrow> (m, [])
           | Click released zones \<Rightarrow>
               if \<not> released then (m, [])
               else case first_such (\<lambda>(label, tab). tm_id m @ label \<in> set zones) tab_labels of
                      None \<Rightarrow> (m, [])
                    | Some (label, tab) \<Rightarrow> (m\<lparr>tm_selectedTab := tab\<rparr>, [TabMsg tab]))
      | ViewPortMsg _ _ width \<Rightarrow> (m\<lparr>tm_width := width\<rparr>, [])
      | KeyMsg key \<Rightarrow>
          (case tab_key key (tm_selectedTab m) of
             None \<Rightarrow> (m, [])
           | Some tab \<Rightarrow> (m\<lparr>tm_selectedTab := tab\<rparr>, [TabMsg tab]))
      | _ \<Rightarrow> (m, []))"

section \<open>The root model\<close>

record ('sid, 'f, 'ti) rootModel =
  rt_currentView :: contentView
  rt_previousView :: contentView
  rt_height :: int
  rt_width :: int
  rt_activeTab :: tabView
  rt_console :: "('sid, 'f, 'ti) consoleModel"
  rt_detail :: "'sid detailPanelModel"
  rt_serverDetail :: "('sid, 'f) serverDetailPanelModel"
  rt_bans :: "'sid tableBansModel"
  rt_comp :: "'sid tableCompModel"
  rt_bd :: tableBDModel
  rt_servers :: "('sid, 'f) serverTableModel"
  rt_config :: "('sid, 'ti) configModel"
  rt_help :: helpModel
  rt_notes :: "'sid notesModel"
  rt_tabs :: tabsModel
  rt_status :: "('sid, 'f) statusBarModel"
  rt_chat :: "'sid chatModel"
  rt_red :: "'sid tablePlayerModel"
  rt_blu :: "'sid tablePlayerModel"
  rt_footerHeight :: int
  rt_headerHeight :: int
  rt_serverMode :: bool

record ('sid, 'f, 'ti, 'w) ui_env =
  ue_os :: "'sid os_lib"
  ue_zero :: 'f
  ue_float :: "'f float_lib"
  ue_input :: "('sid, 'f, 'ti) input_lib"
  ue_ToLower :: "string \<Rightarrow> string"
  ue_safe :: "string \<Rightarrow> string"
  ue_renderLog :: "int \<Rightarrow> LogRow \<Rightarrow> string"
  ue_renderChat :: "string \<Rightarrow> 'sid ChatRow \<Rightarrow> string"
  ue_DateTime :: "int \<Rightarrow> string"
  ue_DateOnly :: "int \<Rightarrow> string"
  ue_Write :: "'sid Config \<Rightarrow> 'w \<Rightarrow> go_error option \<times> 'w"
  ue_text :: "go_error \<Rightarrow> string"
  ue_prefixes :: "string \<times> string \<times> string"   \<comment> \<open>the zone prefixes of the two player tables and the servers\<close>

abbreviation ue_L :: "('sid, 'f, 'ti, 'w) ui_env \<Rightarrow> 'sid steamid_pkg" where
  "ue_L E \<equiv> ol_sid (ue_os E)"

definition newRootModel ::
  "('sid, 'f, 'ti, 'w) ui_env \<Rightarrow> 'sid Config \<Rightarrow> bool \<Rightarrow> string \<Rightarrow> string \<Rightarrow> string \<Rightarrow> string \<Rightarrow> string \<Rightarrow> ('sid, 'f, 'ti) rootModel" where
  "newRootModel E userConfig doSetup buildVersion buildDate buildCommit configPath cachePath =
     (let (z1, z2, z3) = ue_prefixes E; mode = cf_ServerModeEnabled userConfig
      in \<lparr>rt_currentView = (if doSetup then viewConfig else viewMain), rt_previousView = viewMain, rt_height = 0, rt_width = 0,
          rt_activeTab = tabServers, rt_console = newConsoleModel (ue_zero E) (ue_input E),
          rt_detail = newDetailPanelModel (ue_L E) (cf_Links userConfig),
          rt_serverDetail = newServerDetailPanel (ue_zero E), rt_bans = newTableBansModel (ue_L E),
          rt_comp = newTableCompModel (ue_L E), rt_bd = newTableBDModel, rt_servers = newServerTableModel z3,
          rt_config = newConfigModal (ue_input E) (ue_os E) userConfig,
          rt_help = newHelpModel buildVersion buildDate buildCommit configPath cachePath,
          rt_notes = newNotesModel (ue_L E), rt_tabs = newTabsModel,
          rt_status = newStatusBarModel (ue_zero E) buildVersion mode, rt_chat = newChatModel,
          rt_red = newPlayerTableModel (ue_L E) z1 RED (cf_SteamID userConfig) mode,
          rt_blu = newPlayerTableModel (ue_L E) z2 BLU (cf_SteamID userConfig) mode,
          rt_footerHeight = 1, rt_headerHeight = 1, rt_serverMode = mode\<rparr>)"

definition isInitialized :: "('sid, 'f, 'ti) rootModel \<Rightarrow> bool" where
  "isInitialized m \<longleftrightarrow> rt_height m \<noteq> 0 \<and> rt_width m \<noteq> 0"

text \<open>Every model gets the message, in this order; a panic in one ends the program.\<close>

definition propagate ::
  "('sid, 'f, 'ti, 'w) ui_env \<Rightarrow> time \<Rightarrow> ('sid, 'f) msg \<Rightarrow> ('sid, 'f, 'ti) rootModel \<Rightarrow> 'w \<Rightarrow>
     (('sid, 'f, 'ti) rootModel \<times> ('sid, 'f) cmd \<times> 'w) outcome" where
  "propagate E now msg m w =
     (let (red, c1) = player_Update (ue_L E) (ue_ToLower E) msg (rt_red m);
          (blu, c2) = player_Update (ue_L E) (ue_ToLower E) msg (rt_blu m);
          (help, c4) = help_Update msg (rt_help m);
          (tabs, c6) = tabs_Update msg (rt_tabs m);
          (console, c9) = console_Update (ue_input E) (ue_ToLower E) (ue_safe E) (ue_renderLog E) now msg (rt_console m);
          (status, c10) = status_Update msg (rt_status m)
      in outcome_bind (chat_Update (ue_L E) (ue_renderChat E) msg (rt_chat m)) (\<lambda>chat.
           let (config, c12, w) = config_Update (ue_input E) (ue_os E) (ue_Write E) (ue_text E) msg (rt_config m) w;
               (servers, c14) = server_Update (ue_float E) (ue_ToLower E) msg (rt_servers m)
           in Ok (m\<lparr>rt_red := red, rt_blu := blu, rt_bans := bans_Update (ue_DateTime E) msg (rt_bans m), rt_help := help,
                    rt_detail := detail_Update msg (rt_detail m), rt_tabs := tabs, rt_notes := notes_Update msg (rt_notes m),
                    rt_comp := comp_Update (ue_DateOnly E) msg (rt_comp m), rt_console := console, rt_status := status,
                    rt_chat := chat, rt_config := config, rt_bd := bd_Update msg (rt_bd m), rt_servers := servers,
                    rt_serverDetail := server_detail_Update msg (rt_serverDetail m)\<rparr>,
                  c1 @ c2 @ c4 @ c6 @ c9 @ c10 @ c12 @ c14, w)))"

text \<open>What the root does with a key: the model, and a command that ends the update, if any.\<close>

definition toggle_view :: "contentView \<Rightarrow> ('sid, 'f, 'ti) rootModel \<Rightarrow> ('sid, 'f, 'ti) rootModel" where
  "toggle_view view m =
     (if rt_currentView m = view then m\<lparr>rt_currentView := rt_previousView m\<rparr>
      else m\<lparr>rt_previousView := rt_currentView m, rt_currentView := view\<rparr>)"

definition root_key :: "string \<Rightarrow> ('sid, 'f, 'ti) rootModel \<Rightarrow> ('sid, 'f, 'ti) rootModel \<times> ('sid, 'f) msg option" where
  "root_key key m =
     (if Matches key (km_quit defaultKeyMap) then (m, if rt_currentView m \<noteq> viewMain then None else Some QuitMsg)
      else if Matches key (km_help defaultKeyMap) then (toggle_view viewHelp m, None)
      else if Matches key (km_config defaultKeyMap) then (toggle_view viewConfig m, None)
      else if Matches key (km_left defaultKeyMap) then (m, Some (TeamMsg RED))
      else if Matches key (km_right defaultKeyMap) then (m, Some (TeamMsg BLU))
      else (m, None))"

definition root_Update ::
  "('sid, 'f, 'ti, 'w) ui_env \<Rightarrow> time \<Rightarrow> ('sid, 'f) msg \<Rightarrow> ('sid, 'f, 'ti) rootModel \<Rightarrow> 'w \<Rightarrow>
     (('sid, 'f, 'ti) rootModel \<times> ('sid, 'f) cmd \<times> 'w) outcome" where
  "root_Update E now msg m w =
     (if \<not> isInitialized m \<and> (\<forall>h wd. msg \<noteq> WindowSizeMsg h wd) then Ok (m, [], w)
      else case msg of
             WindowSizeMsg height width \<Rightarrow>
               Ok (m\<lparr>rt_height := height, rt_width := width\<rparr>,
                   [ViewPortMsg (height - rt_headerHeight m - rt_footerHeight m) height width], w)
           | TabMsg tab \<Rightarrow> propagate E now msg (m\<lparr>rt_activeTab := tab\<rparr>) w
           | ViewMsg view \<Rightarrow> propagate E now msg (m\<lparr>rt_currentView := view\<rparr>) w
           | KeyMsg key \<Rightarrow>
               (case root_key key m of
                  (m, Some c) \<Rightarrow> Ok (m, [c], w)
                | (m, None) \<Rightarrow> propagate E now msg m w)
           | _ \<Rightarrow> propagate E now msg m w)"

section \<open>Tabs stay in range\<close>

definition tab_ok :: "tabView \<Rightarrow> bool" where
  "tab_ok tab \<longleftrightarrow> tabServers \<le> tab \<and> tab \<le> tabConsole"

lemma tab_key_ok: "tab_ok selected \<Longrightarrow> tab_key key selected = Some tab \<Longrightarrow> tab_ok tab"
  by (auto simp: tab_key_def tab_ok_def tab_defs split: if_splits)

lemma tabs_Update_ok:
  assumes "tab_ok (tm_selectedTab m)" "tabs_Update msg m = (m', cmd)"
  shows "tab_ok (tm_selectedTab m') \<and> (\<forall>tab. TabMsg tab \<in> set cmd \<longrightarrow> tab = tm_selectedTab m')"
proof -
  have labels: "tab_ok tab" if "first_such P tab_labels = Some (label, tab)" for P label tab
    using first_such_SomeD [OF that] by (auto simp: tab_labels_def tab_ok_def tab_defs)
  from assms show ?thesis
    by (auto simp: tabs_Update_def split: msg.splits mouse.splits option.splits if_splits dest: tab_key_ok labels)
qed

lemma next_tab: "tab_key ''tab'' t = Some (if t + 1 > 6 then 0 else t + 1)"
  by (simp add: tab_key_def Matches_def defaultKeyMap_def tab_defs)

section \<open>Delivering a message to all models\<close>

lemma propagate_Ok:
  assumes "propagate E now msg m w = Ok (m', c, w')"
  shows "rt_currentView m' = rt_currentView m" "rt_previousView m' = rt_previousView m"
    "rt_help m' = fst (help_Update msg (rt_help m))"
    "rt_config m' = fst (config_Update (ue_input E) (ue_os E) (ue_Write E) (ue_text E) msg (rt_config m) w)"
    "chat_Update (ue_L E) (ue_renderChat E) msg (rt_chat m) = Ok (rt_chat m')"
    "w' = snd (snd (config_Update (ue_input E) (ue_os E) (ue_Write E) (ue_text E) msg (rt_config m) w))"
    "set c = set (snd (player_Update (ue_L E) (ue_ToLower E) msg (rt_red m))) \<union>
       set (snd (player_Update (ue_L E) (ue_ToLower E) msg (rt_blu m))) \<union> set (snd (help_Update msg (rt_help m))) \<union>
       set (snd (tabs_Update msg (rt_tabs m))) \<union>
       set (snd (console_Update (ue_input E) (ue_ToLower E) (ue_safe E) (ue_renderLog E) now msg (rt_console m))) \<union>
       set (snd (status_Update msg (rt_status m))) \<union>
       set (fst (snd (config_Update (ue_input E) (ue_os E) (ue_Write E) (ue_text E) msg (rt_config m) w))) \<union>
       set (snd (server_Update (ue_float E) (ue_ToLower E) msg (rt_servers m)))"
  using assms by (auto simp: propagate_def case_prod_beta Let_def outcome_bind_Ok_iff)

lemma propagate_no_panic:
  "chat_Update (ue_L E) (ue_renderChat E) msg (rt_chat m) = Ok chat \<Longrightarrow> \<exists>m' c w'. propagate E now msg m w = Ok (m', c, w')"
  by (simp add: propagate_def case_prod_beta Let_def)

lemma propagate_panic:
  "chat_Update (ue_L E) (ue_renderChat E) msg (rt_chat m) = Panic \<Longrightarrow> propagate E now msg m w = Panic"
  by (simp add: propagate_def case_prod_beta Let_def)

text \<open>The messages that change the view or end the program.\<close>

definition is_view :: "('sid, 'f) msg \<Rightarrow> bool" where
  "is_view msg = (case msg of ViewMsg _ \<Rightarrow> True | QuitMsg \<Rightarrow> True | _ \<Rightarrow> False)"

lemma is_view_simps [simp]:
  "is_view (ViewMsg v)" "is_view QuitMsg" "\<not> is_view (TeamMsg t)" "\<not> is_view (SelectedPlayerMsg p n)"
  "\<not> is_view (TabMsg tab)" "\<not> is_view ClearStatusMessageMsg" "\<not> is_view (StatusMsg s b)" "\<not> is_view (ConfigMsg conf)"
  "\<not> is_view (SelectServerMsg server)" "\<not> is_view (InputZoneMsg zone)" "\<not> is_view (RCONCommandMsg host command)"
  "\<not> is_view (ViewPortMsg i j k)"
  by (simp_all add: is_view_def)

lemma is_view_cases: "is_view x \<Longrightarrow> (\<exists>v. x = ViewMsg v) \<or> x = QuitMsg"
  by (cases x) (simp_all add: is_view_def)

lemma player_cmds_no_view:
  "x \<in> set (snd (moveSelection dir p)) \<Longrightarrow> \<not> is_view x"
  "x \<in> set (snd (selectClosestPlayer L p)) \<Longrightarrow> \<not> is_view x"
  "x \<in> set (snd (player_mouse L ToLower mouse p)) \<Longrightarrow> \<not> is_view x"
proof -
  have after: "x \<in> set (if c then (case q of None \<Rightarrow> [] | Some pl \<Rightarrow> [SelectedPlayerMsg pl []]) else []) \<Longrightarrow> \<not> is_view x" for c q
    by (cases c; cases q; simp)
  show "\<not> is_view x" if "x \<in> set (snd (moveSelection dir p))"
  proof (cases dir)
    case up
    with that show ?thesis unfolding moveSelection_def Let_def by (simp only: direction.case snd_conv) (rule after)
  next
    case down
    with that show ?thesis unfolding moveSelection_def Let_def by (simp only: direction.case snd_conv) (rule after)
  qed (use that in \<open>simp_all add: moveSelection_def\<close>)
  show "x \<in> set (snd (selectClosestPlayer L p)) \<Longrightarrow> \<not> is_view x"
    by (auto simp: selectClosestPlayer_def Let_def split: if_splits)
  show "x \<in> set (snd (player_mouse L ToLower mouse p)) \<Longrightarrow> \<not> is_view x"
    by (cases mouse) (auto simp: player_mouse_def split: option.splits if_splits)
qed

lemma no_view_cmds:
  "x \<in> set (snd (player_Update L ToLower msg p)) \<Longrightarrow> \<not> is_view x"
  "x \<in> set (snd (tabs_Update msg t)) \<Longrightarrow> \<not> is_view x"
  "x \<in> set (snd (console_Update I ToLower safe render now msg cm)) \<Longrightarrow> \<not> is_view x"
  "x \<in> set (snd (status_Update msg sb)) \<Longrightarrow> \<not> is_view x"
  "x \<in> set (snd (server_Update F ToLower msg s)) \<Longrightarrow> \<not> is_view x"
proof -
  show "x \<in> set (snd (player_Update L ToLower msg p)) \<Longrightarrow> \<not> is_view x"
    by (cases msg) (auto simp: player_Update_def updatePlayers_def Let_def split: if_splits dest: player_cmds_no_view)
  show "x \<in> set (snd (tabs_Update msg t)) \<Longrightarrow> \<not> is_view x"
    by (auto simp: tabs_Update_def split: msg.splits mouse.splits option.splits if_splits)
  show "x \<in> set (snd (console_Update I ToLower safe render now msg cm)) \<Longrightarrow> \<not> is_view x"
    by (auto simp: console_Update_def Let_def split: msg.splits if_splits)
  show "x \<in> set (snd (status_Update msg sb)) \<Longrightarrow> \<not> is_view x"
    by (auto simp: status_Update_def split: msg.splits EventData.splits)
  show "x \<in> set (snd (server_Update F ToLower msg s)) \<Longrightarrow> \<not> is_view x"
    by (auto simp: server_Update_def server_mouse_def server_snapshots_def Let_def
        split: msg.splits mouse.splits option.splits if_splits)
qed

lemma propagate_view_cmds:
  assumes "propagate E now msg m w = Ok (m', c, w')" "x \<in> set c" "is_view x"
  shows "x \<in> set (snd (help_Update msg (rt_help m))) \<or>
     x \<in> set (fst (snd (config_Update (ue_input E) (ue_os E) (ue_Write E) (ue_text E) msg (rt_config m) w)))"
  using assms(2,3) unfolding propagate_Ok(7) [OF assms(1)] by (auto dest: no_view_cmds)

lemma config_Update_view:
  "cg_activeView (fst (config_Update I S Write text msg m w)) =
     (case msg of ViewMsg v \<Rightarrow> v
      | KeyMsg key \<Rightarrow> if cg_activeView m = viewConfig \<and> key = ''esc'' then viewMain else cg_activeView m
      | _ \<Rightarrow> cg_activeView m)"
  by (auto simp: config_Update_def config_key_def Matches_def defaultKeyMap_def Let_def split: msg.split)

lemma config_Update_cmds:
  assumes "x \<in> set (fst (snd (config_Update I S Write text msg m w)))" "is_view x"
  shows "x = ViewMsg viewMain \<and> cg_activeView m = viewConfig \<and> (\<exists>key. msg = KeyMsg key \<and> key \<in> {''esc'', ''enter''})"
  using assms
  by (auto simp: config_Update_def config_key_def config_save_def Matches_def defaultKeyMap_def Let_def
      split: msg.splits if_splits prod.splits option.splits)

lemma help_Update_view:
  "hp_view (fst (help_Update msg m)) =
     (case msg of ViewMsg v \<Rightarrow> v | KeyMsg key \<Rightarrow> if hp_view m = viewHelp \<and> key = ''esc'' then viewMain else hp_view m | _ \<Rightarrow> hp_view m)"
  by (auto simp: help_Update_def Matches_def defaultKeyMap_def split: msg.split)

lemma help_Update_cmds:
  "x \<in> set (snd (help_Update msg m)) \<Longrightarrow> x = ViewMsg viewMain \<and> hp_view m = viewHelp \<and> msg = KeyMsg ''esc''"
  by (auto simp: help_Update_def Matches_def defaultKeyMap_def split: msg.splits if_splits)

section \<open>The views as a machine of their own\<close>

text \<open>The view shown, the one before, and the views the form and the help believe to be shown.\<close>

type_synonym views = "contentView \<times> contentView \<times> contentView \<times> contentView"

definition views_of :: "('sid, 'f, 'ti) rootModel \<Rightarrow> views" where
  "views_of m = (rt_currentView m, rt_previousView m, cg_activeView (rt_config m), hp_view (rt_help m))"

fun toggled :: "contentView \<Rightarrow> contentView \<times> contentView \<Rightarrow> contentView \<times> contentView" where
  "toggled view (cur, prev) = (if cur = view then (prev, prev) else (view, cur))"

fun views_key :: "string \<Rightarrow> views \<Rightarrow> views" where
  "views_key key (cur, prev, form, help) =
     (if key = ''h'' \<or> key = ''H'' then (let (c, p) = toggled viewHelp (cur, prev) in (c, p, form, help))
      else if key = ''E'' then (let (c, p) = toggled viewConfig (cur, prev) in (c, p, form, help))
      else if key = ''esc'' then (cur, prev, if form = viewConfig then viewMain else form, if help = viewHelp then viewMain else help)
      else (cur, prev, form, help))"

lemma root_key_cases:
  "root_key key m =
     (if key = ''q'' \<or> key = ''ctrl+c'' then (m, if rt_currentView m \<noteq> viewMain then None else Some QuitMsg)
      else if key = ''h'' \<or> key = ''H'' then (toggle_view viewHelp m, None)
      else if key = ''E'' then (toggle_view viewConfig m, None)
      else if key = ''left'' then (m, Some (TeamMsg RED))
      else if key = ''right'' \<or> key = ''l'' then (m, Some (TeamMsg BLU))
      else (m, None))"
  by (auto simp: root_key_def Matches_def defaultKeyMap_def)

lemma toggle_view_views:
  "views_of (toggle_view view m) =
     (let (c, p) = toggled view (rt_currentView m, rt_previousView m) in (c, p, cg_activeView (rt_config m), hp_view (rt_help m)))"
  by (simp add: views_of_def toggle_view_def)

lemma propagate_views:
  assumes "propagate E now msg m w = Ok (m', c, w')"
  shows "views_of m' = (rt_currentView m, rt_previousView m,
    (case msg of ViewMsg v \<Rightarrow> v
     | KeyMsg key \<Rightarrow> if cg_activeView (rt_config m) = viewConfig \<and> key = ''esc'' then viewMain else cg_activeView (rt_config m)
     | _ \<Rightarrow> cg_activeView (rt_config m)),
    (case msg of ViewMsg v \<Rightarrow> v
     | KeyMsg key \<Rightarrow> if hp_view (rt_help m) = viewHelp \<and> key = ''esc'' then viewMain else hp_view (rt_help m)
     | _ \<Rightarrow> hp_view (rt_help m)))"
  unfolding views_of_def propagate_Ok(1-4) [OF assms] config_Update_view help_Update_view by (rule refl)

lemma key_apart: "''h'' \<noteq> ''esc''" "''H'' \<noteq> ''esc''" "''E'' \<noteq> ''esc''" by simp_all

lemma propagate_key_views:
  assumes "propagate E now (KeyMsg key) (fst (root_key key m)) w = Ok (m', c, w')"
  shows "views_of m' = views_key key (views_of m)"
proof -
  consider "key = ''h'' \<or> key = ''H''" | "key = ''E''" | "key \<noteq> ''h''" "key \<noteq> ''H''" "key \<noteq> ''E''" by blast
  then show ?thesis
  proof cases
    case 1
    then have "fst (root_key key m) = toggle_view viewHelp m" and "key \<noteq> ''esc''" by (auto simp: root_key_cases)
    with 1 propagate_views [OF assms] show ?thesis by (simp add: views_of_def toggle_view_def)
  next
    case 2
    then have "fst (root_key key m) = toggle_view viewConfig m" and "key \<noteq> ''esc''" by (simp_all add: root_key_cases)
    with 2 propagate_views [OF assms] show ?thesis by (simp add: views_of_def toggle_view_def)
  next
    case 3
    then have e: "fst (root_key key m) = m" by (simp add: root_key_cases)
    from 3 show ?thesis unfolding propagate_views [OF assms] unfolding e views_of_def by simp
  qed
qed

lemma root_key_stop:
  "snd (root_key key m) = Some x \<Longrightarrow> fst (root_key key m) = m \<and> views_key key (views_of m) = views_of m \<and>
     (is_view x \<longrightarrow> rt_currentView m = viewMain)"
proof -
  assume s: "snd (root_key key m) = Some x"
  have "key = ''q'' \<or> key = ''ctrl+c'' \<or> key = ''left'' \<or> key = ''right'' \<or> key = ''l''"
    using s unfolding root_key_cases by (auto split: if_split_asm)
  then show ?thesis using s
    by (elim disjE) (auto simp: root_key_cases views_of_def split: if_split_asm)
qed

lemma propagate_key_returns: "\<exists>m' c w'. propagate E now (KeyMsg key) m w = Ok (m', c, w')"
  by (rule propagate_no_panic [of _ _ _ "rt_chat m"]) (simp add: chat_Update_def)

text \<open>C24: what a key does to the views of the interface is what the abstract machine of the four views does; the
  interface goes on after every key.\<close>

theorem root_views:
  assumes "isInitialized m"
  shows "\<exists>m' c w'. root_Update E now (KeyMsg key) m w = Ok (m', c, w') \<and> views_of m' = views_key key (views_of m)"
proof (cases "snd (root_key key m)")
  case None
  obtain m' c w' where p: "propagate E now (KeyMsg key) (fst (root_key key m)) w = Ok (m', c, w')"
    using propagate_key_returns [of E now key "fst (root_key key m)" w] by blast
  with None assms have "root_Update E now (KeyMsg key) m w = Ok (m', c, w')"
    by (simp add: root_Update_def case_prod_beta)
  with propagate_key_views [OF p] show ?thesis by blast
next
  case (Some c)
  with root_key_stop [OF Some] assms have "root_Update E now (KeyMsg key) m w = Ok (m, [c], w)"
    by (simp add: root_Update_def case_prod_beta)
  with root_key_stop [OF Some] show ?thesis by simp
qed

section \<open>Runs of the interface\<close>

text \<open>
  The interface takes messages from outside (keys, the mouse, the window, the application) and the messages its
  own commands produce, which are delivered in any order. A panic ends the run.
\<close>

definition external :: "('sid, 'f) msg \<Rightarrow> bool" where
  "external msg =
     (case msg of
        WindowSizeMsg _ _ \<Rightarrow> True | KeyMsg _ \<Rightarrow> True | MouseMsg _ \<Rightarrow> True | ConfigMsg _ \<Rightarrow> True | SnapshotMsg _ \<Rightarrow> True
      | SnapshotsMsg _ \<Rightarrow> True | EventMsg _ \<Rightarrow> True | OtherMsg _ \<Rightarrow> True | TeamMsg _ \<Rightarrow> True | _ \<Rightarrow> False)"

inductive ui_step ::
  "('sid, 'f, 'ti, 'w) ui_env \<Rightarrow> ('sid, 'f, 'ti) rootModel \<times> ('sid, 'f) msg list \<times> 'w \<Rightarrow>
     ('sid, 'f, 'ti) rootModel \<times> ('sid, 'f) msg list \<times> 'w \<Rightarrow> bool" for E where
  outside: "external msg \<Longrightarrow> root_Update E now msg m w = Ok (m', c, w') \<Longrightarrow> ui_step E (m, q, w) (m', q @ c, w')"
| pending: "msg \<in> set q \<Longrightarrow> msg \<noteq> QuitMsg \<Longrightarrow> root_Update E now msg m w = Ok (m', c, w') \<Longrightarrow>
    ui_step E (m, q, w) (m', remove1 msg q @ c, w')"

abbreviation ui_runs ::
  "('sid, 'f, 'ti, 'w) ui_env \<Rightarrow> ('sid, 'f, 'ti) rootModel \<times> ('sid, 'f) msg list \<times> 'w \<Rightarrow>
     ('sid, 'f, 'ti) rootModel \<times> ('sid, 'f) msg list \<times> 'w \<Rightarrow> bool" where
  "ui_runs E \<equiv> (ui_step E)\<^sup>*\<^sup>*"

definition trapped :: "views \<Rightarrow> bool" where
  "trapped v = (case v of (cur, prev, form, help) \<Rightarrow>
     cur \<noteq> viewMain \<and> prev \<noteq> viewMain \<and> form \<noteq> viewConfig \<and> help \<noteq> viewHelp)"

lemma trapped_key: "trapped v \<Longrightarrow> trapped (views_key key v)"
  by (cases v) (auto simp: trapped_def)

lemma trapped_toggle: "trapped (views_of m) \<Longrightarrow> view \<noteq> viewMain \<Longrightarrow> trapped (views_of (toggle_view view m))"
  by (simp add: trapped_def views_of_def toggle_view_def)

lemma trapped_propagate:
  assumes "trapped (views_of m)" "propagate E now msg m w = Ok (m', c, w')" "\<not> is_view msg"
  shows "trapped (views_of m') \<and> (\<forall>x \<in> set c. \<not> is_view x)"
proof
  have g: "cg_activeView (rt_config m) \<noteq> viewConfig" "hp_view (rt_help m) \<noteq> viewHelp"
    using assms(1) by (simp_all add: trapped_def views_of_def)
  from g assms(3) have "views_of m' = views_of m"
    unfolding propagate_views [OF assms(2)] by (cases msg) (simp_all add: views_of_def)
  with assms(1) show "trapped (views_of m')" by simp
  show "\<forall>x \<in> set c. \<not> is_view x"
  proof (intro ballI notI)
    fix x assume "x \<in> set c" "is_view x"
    from propagate_view_cmds [OF assms(2) this] g show False
      using config_Update_cmds [OF _ \<open>is_view x\<close>] help_Update_cmds by fastforce
  qed
qed

lemma root_Update_other:
  assumes "isInitialized m" "\<not> is_view msg" "\<forall>h wd. msg \<noteq> WindowSizeMsg h wd" "\<forall>t. msg \<noteq> TabMsg t" "\<forall>k. msg \<noteq> KeyMsg k"
  shows "root_Update E now msg m w = propagate E now msg m w"
proof -
  have "\<forall>v. msg \<noteq> ViewMsg v" using assms(2) by auto
  with assms(1,3-5) show ?thesis unfolding root_Update_def by (cases msg) simp_all
qed

lemma trapped_Update:
  assumes tr: "trapped (views_of m)" and u: "root_Update E now msg m w = Ok (m', c, w')" and v: "\<not> is_view msg"
  shows "trapped (views_of m') \<and> (\<forall>x \<in> set c. \<not> is_view x)"
proof -
  have cur: "rt_currentView m \<noteq> viewMain" using tr by (simp add: trapped_def views_of_def)
  consider (early) "\<not> isInitialized m" "\<forall>h wd. msg \<noteq> WindowSizeMsg h wd" | (size) h wd where "msg = WindowSizeMsg h wd"
    | (tab) t where "isInitialized m" "msg = TabMsg t" | (key) k where "isInitialized m" "msg = KeyMsg k"
    | (other) "root_Update E now msg m w = propagate E now msg m w"
    using root_Update_other [of m msg E now w] v by blast
  then show ?thesis
  proof cases
    case early
    with tr u show ?thesis by (simp add: root_Update_def)
  next
    case size
    with u have "m' = m\<lparr>rt_height := h, rt_width := wd\<rparr>" "c = [ViewPortMsg (h - rt_headerHeight m - rt_footerHeight m) h wd]"
      by (simp_all add: root_Update_def)
    with tr show ?thesis by (simp add: views_of_def)
  next
    case tab
    with u have p: "propagate E now msg (m\<lparr>rt_activeTab := t\<rparr>) w = Ok (m', c, w')" by (simp add: root_Update_def)
    show ?thesis by (rule trapped_propagate [OF _ p v]) (use tr in \<open>simp add: views_of_def\<close>)
  next
    case key
    show ?thesis
    proof (cases "snd (root_key k m)")
      case None
      with key u have p: "propagate E now (KeyMsg k) (fst (root_key k m)) w = Ok (m', c, w')"
        by (simp add: root_Update_def case_prod_beta)
      have "trapped (views_of m')" unfolding propagate_key_views [OF p] by (rule trapped_key [OF tr])
      moreover have "trapped (views_of (fst (root_key k m)))"
        using trapped_toggle [OF tr] tr by (simp add: root_key_cases)
      ultimately show ?thesis using trapped_propagate [OF _ p] by (simp add: is_view_def)
    next
      case (Some x)
      with root_key_stop [OF Some] key u have "m' = m" "c = [x]" by (simp_all add: root_Update_def case_prod_beta)
      with root_key_stop [OF Some] cur tr show ?thesis by auto
    qed
  next
    case other
    with u have "propagate E now msg m w = Ok (m', c, w')" by simp
    from trapped_propagate [OF tr this v] show ?thesis .
  qed
qed

section \<open>The views the interface cannot leave\<close>

definition stuck :: "('sid, 'f, 'ti) rootModel \<times> ('sid, 'f) msg list \<times> 'w \<Rightarrow> bool" where
  "stuck s = (case s of (m, q, w) \<Rightarrow> trapped (views_of m) \<and> filter is_view q = [])"

lemma ui_step_stuck:
  assumes "ui_step E s s'" "stuck s"
  shows "stuck s'"
  using assms(1)
proof cases
  case (outside msg now m w m' c w' q)
  from outside(3) have "\<not> is_view msg" by (cases msg) (simp_all add: external_def is_view_def)
  with trapped_Update [OF _ outside(4) this] outside(1,2) assms(2) show ?thesis by (auto simp: stuck_def filter_empty_conv)
next
  case (pending msg q now m w m' c w')
  from pending(1,3) assms(2) have "\<not> is_view msg" by (auto simp: stuck_def filter_empty_conv)
  with trapped_Update [OF _ pending(5) this] pending(1,2) assms(2) show ?thesis
    by (auto simp: stuck_def filter_empty_conv dest: set_remove1_subset [THEN subsetD])
qed

interpretation trap: step_invariant "ui_step E" stuck
  by unfold_locales (rule ui_step_stuck)

lemma propagate_size:
  "propagate E now msg m w = Ok (m', c, w') \<Longrightarrow> isInitialized m' = isInitialized m"
  by (auto simp: propagate_def case_prod_beta Let_def outcome_bind_Ok_iff isInitialized_def)

lemma propagate_view_filter:
  assumes "propagate E now msg m w = Ok (m', c, w')"
  shows "filter is_view c = filter is_view (snd (help_Update msg (rt_help m))) @
    filter is_view (fst (snd (config_Update (ue_input E) (ue_os E) (ue_Write E) (ue_text E) msg (rt_config m) w)))"
proof -
  have none: "filter is_view (snd (player_Update L ToLower msg p)) = []" "filter is_view (snd (tabs_Update msg t)) = []"
    "filter is_view (snd (console_Update I ToLower safe render now msg cm)) = []"
    "filter is_view (snd (status_Update msg sb)) = []" "filter is_view (snd (server_Update F ToLower msg s)) = []"
    for L ToLower and p :: "'a tablePlayerModel" and t I safe render and cm :: "('a, 'b, 'c) consoleModel" and sb F s
    by (auto simp: filter_empty_conv dest: no_view_cmds)
  from assms show ?thesis
    by (auto simp: propagate_def case_prod_beta Let_def outcome_bind_Ok_iff none)
qed

text \<open>A key that neither leaves the form nor the help, nor ends the program, moves the views alone.\<close>

lemma key_step:
  assumes "isInitialized m" "snd (root_key key m) = None" "cg_activeView (rt_config m) \<noteq> viewConfig"
    "hp_view (rt_help m) \<noteq> viewHelp"
  shows "\<exists>m' c w'. ui_step E (m, q, w) (m', q @ c, w') \<and> isInitialized m' \<and> views_of m' = views_key key (views_of m) \<and>
    filter is_view c = []"
proof -
  let ?r = "fst (root_key key m)"
  obtain m' c w' where p: "propagate E 0 (KeyMsg key) ?r w = Ok (m', c, w')"
    using propagate_key_returns [of E 0 key ?r w] by blast
  with assms(1,2) have u: "root_Update E 0 (KeyMsg key) m w = Ok (m', c, w')" by (simp add: root_Update_def case_prod_beta)
  have same: "rt_config ?r = rt_config m" "rt_help ?r = rt_help m" "isInitialized ?r = isInitialized m"
    by (simp_all add: root_key_cases toggle_view_def isInitialized_def)
  have "filter is_view c = []"
    unfolding filter_empty_conv
  proof (intro ballI notI)
    fix x assume x: "x \<in> set c" "is_view x"
    from propagate_view_cmds [OF p x] show False
      using config_Update_cmds [OF _ x(2)] help_Update_cmds assms(3,4) unfolding same by fastforce
  qed
  moreover have "ui_step E (m, q, w) (m', q @ c, w')"
    by (rule ui_step.outside [OF _ u]) (simp add: external_def)
  ultimately show ?thesis
    using propagate_key_views [OF p] propagate_size [OF p] same assms(1) by blast
qed

lemma new_views:
  "views_of (newRootModel E conf doSetup v d g p cp) = (if doSetup then viewConfig else viewMain, viewMain, viewConfig, viewMain)"
  by (simp add: views_of_def newRootModel_def newConfigModal_def newHelpModel_def Let_def case_prod_beta)

text \<open>The first \<open>esc\<close> closes the form that is not shown.\<close>

lemma first_esc:
  assumes "isInitialized m" "views_of m = (cur, viewMain, viewConfig, viewMain)" "filter is_view q = []"
  shows "\<exists>m' q' w'. ui_runs E (m, q, w) (m', q', w') \<and> isInitialized m' \<and>
    views_of m' = (viewMain, viewMain, viewMain, viewMain) \<and> filter is_view q' = []"
proof -
  have f: "cg_activeView (rt_config m) = viewConfig" "hp_view (rt_help m) \<noteq> viewHelp"
    using assms(2) by (simp_all add: views_of_def)
  have k: "root_key ''esc'' m = (m, None)" by (simp add: root_key_cases)
  obtain m1 c1 w1 where p: "propagate E 0 (KeyMsg ''esc'') m w = Ok (m1, c1, w1)"
    using propagate_key_returns [of E 0 "''esc''" m w] by blast
  with assms(1) k have "root_Update E 0 (KeyMsg ''esc'') m w = Ok (m1, c1, w1)" by (simp add: root_Update_def)
  from ui_step.outside [OF _ this] have s1: "ui_step E (m, q, w) (m1, q @ c1, w1)" by (simp add: external_def)
  have v1: "views_of m1 = (cur, viewMain, viewMain, viewMain)"
    using propagate_key_views [of E 0 "''esc''" m w m1 c1 w1] p k assms(2) by simp
  have c1: "filter is_view c1 = [ViewMsg viewMain]"
    unfolding propagate_view_filter [OF p] using f
    by (simp add: help_Update_def config_Update_def config_key_def Matches_def defaultKeyMap_def)
  let ?m = "m1\<lparr>rt_currentView := viewMain\<rparr>" and ?v = "ViewMsg viewMain :: ('a, 'b) msg"
  obtain m2 c2 w2 where p2: "propagate E 0 ?v ?m w1 = Ok (m2, c2, w2)"
    using propagate_no_panic [of E ?v ?m "rt_chat ?m" 0 w1] by (auto simp: chat_Update_def)
  have i1: "isInitialized m1" using propagate_size [OF p] assms(1) by simp
  with p2 have u2: "root_Update E 0 ?v m1 w1 = Ok (m2, c2, w2)" by (simp add: root_Update_def)
  have "?v \<in> set (filter is_view (q @ c1))" by (simp add: c1)
  then have "?v \<in> set (q @ c1)" by simp
  then have s2: "ui_step E (m1, q @ c1, w1) (m2, remove1 ?v (q @ c1) @ c2, w2)" by (rule ui_step.pending [OF _ _ u2]) simp
  have "views_of m2 = (viewMain, viewMain, viewMain, viewMain)"
    using v1 unfolding propagate_views [OF p2] by (simp add: views_of_def)
  moreover have "filter is_view c2 = []"
    unfolding propagate_view_filter [OF p2] by (simp add: help_Update_def config_Update_def Let_def)
  moreover have "isInitialized m2" using propagate_size [OF p2] i1 by (simp add: isInitialized_def)
  moreover have "ui_runs E (m, q, w) (m2, remove1 ?v (q @ c1) @ c2, w2)" using s1 s2 by (rule converse_rtranclp_into_rtranclp [OF _ r_into_rtranclp])
  moreover have "filter is_view (remove1 ?v (q @ c1)) = []" by (simp only: filter_remove1 filter_append c1 assms(3)) simp
  ultimately show ?thesis by (intro exI conjI) (assumption, simp_all only: filter_append append_Nil)
qed

lemma main_to_trap:
  assumes "isInitialized m" "views_of m = (viewMain, viewMain, viewMain, viewMain)" "filter is_view q = []"
  shows "\<exists>m' q' w'. ui_runs E (m, q, w) (m', q', w') \<and> trapped (views_of m') \<and> filter is_view q' = []"
proof -
  have step: "\<exists>m' q' w'. ui_runs E (m, q, w) (m', q', w') \<and> isInitialized m' \<and> views_of m' = views_key key v \<and> filter is_view q' = []"
    if "isInitialized m" "views_of m = v" "fst (snd (snd v)) \<noteq> viewConfig" "snd (snd (snd v)) \<noteq> viewHelp" "filter is_view q = []"
      "key = ''E'' \<or> key = ''h''" for m :: "('a, 'b, 'c) rootModel" and q w v key
  proof -
    have "snd (root_key key m) = None" using that(6) by (auto simp: root_key_cases)
    from key_step [OF that(1) this, of E q w] that(2-5)
    obtain m' c w' where "ui_step E (m, q, w) (m', q @ c, w')" "isInitialized m'" "views_of m' = views_key key v" "filter is_view c = []"
      by (auto simp: views_of_def)
    with that(5) show ?thesis by (intro exI [of _ m'] exI [of _ "q @ c"] exI [of _ w']) auto
  qed
  obtain m1 q1 w1 where 1: "ui_runs E (m, q, w) (m1, q1, w1)" "isInitialized m1"
    "views_of m1 = (viewConfig, viewMain, viewMain, viewMain)" "filter is_view q1 = []"
    using step [OF assms(1,2) _ _ assms(3), of "''E''" w] by auto
  obtain m2 q2 w2 where 2: "ui_runs E (m1, q1, w1) (m2, q2, w2)" "isInitialized m2"
    "views_of m2 = (viewHelp, viewConfig, viewMain, viewMain)" "filter is_view q2 = []"
    using step [OF 1(2,3) _ _ 1(4), of "''h''" w1] by auto
  obtain m3 q3 w3 where 3: "ui_runs E (m2, q2, w2) (m3, q3, w3)" "isInitialized m3"
    "views_of m3 = (viewConfig, viewHelp, viewMain, viewMain)" "filter is_view q3 = []"
    using step [OF 2(2,3) _ _ 2(4), of "''E''" w2] by auto
  obtain m4 q4 w4 where 4: "ui_runs E (m3, q3, w3) (m4, q4, w4)"
    "views_of m4 = (viewHelp, viewHelp, viewMain, viewMain)" "filter is_view q4 = []"
    using step [OF 3(2,3) _ _ 3(4), of "''E''" w3] by auto
  have "trapped (views_of m4)" unfolding 4(2) by (simp add: trapped_def)
  with 4(3) 1(1) 2(1) 3(1) 4(1) show ?thesis by (meson rtranclp_trans)
qed

text \<open>C9: from every freshly started interface some sequence of keys leads to a state from which no sequence of keys,
  clicks, snapshots, events or delivered commands shows the main view again or ends the program (\<open>esc\<close>, \<open>E\<close>,
  \<open>h\<close>, \<open>E\<close>, \<open>E\<close>): the two views keep each other as the previous one, the quit key works in the main
  view only, and the models of the form and the help were told that the main view is shown.\<close>

theorem ui_can_trap:
  "\<exists>s. ui_runs E (newRootModel E conf doSetup v d g p cp, [], w) s \<and>
     (\<forall>m q w. ui_runs E s (m, q, w) \<longrightarrow> rt_currentView m \<noteq> viewMain \<and> QuitMsg \<notin> set q)"
proof -
  let ?m = "newRootModel E conf doSetup v d g p cp"
  let ?m1 = "?m\<lparr>rt_height := 2, rt_width := 2\<rparr>" and ?q = "[ViewPortMsg (2 - rt_headerHeight ?m - rt_footerHeight ?m) 2 2]"
  have "root_Update E 0 (WindowSizeMsg 2 2) ?m w = Ok (?m1, ?q, w)" by (simp add: root_Update_def)
  from ui_step.outside [OF _ this, of "[]"] have s: "ui_runs E (?m, [], w) (?m1, ?q, w)" by (simp add: external_def r_into_rtranclp)
  have "isInitialized ?m1" by (simp add: isInitialized_def)
  moreover have "views_of ?m1 = (if doSetup then viewConfig else viewMain, viewMain, viewConfig, viewMain)"
    using new_views [of E conf doSetup v d g p cp] by (simp add: views_of_def)
  moreover have "filter is_view ?q = []" by simp
  ultimately obtain m2 q2 w2 where 2: "ui_runs E (?m1, ?q, w) (m2, q2, w2)" "isInitialized m2"
    "views_of m2 = (viewMain, viewMain, viewMain, viewMain)" "filter is_view q2 = []"
    using first_esc [of ?m1 _ ?q E w] by blast
  from main_to_trap [OF 2(2-4), of E w2] obtain m3 q3 w3 where 3: "ui_runs E (m2, q2, w2) (m3, q3, w3)" "trapped (views_of m3)"
    "filter is_view q3 = []" by blast
  have "ui_runs E (?m, [], w) (m3, q3, w3)" by (rule rtranclp_trans [OF rtranclp_trans [OF s 2(1)] 3(1)])
  moreover have "rt_currentView m \<noteq> viewMain \<and> QuitMsg \<notin> set q" if "ui_runs E (m3, q3, w3) (m, q, w)" for m q w
    using trap.runs_inv [OF that] 3(2,3) by (auto simp: stuck_def trapped_def views_of_def filter_empty_conv)
  ultimately show ?thesis by blast
qed

section \<open>The first chat line\<close>

lemma root_Update_chat:
  assumes "root_Update E now msg m w = Ok (m', c, w')"
  shows "rt_chat m' = rt_chat m \<or> chat_Update (ue_L E) (ue_renderChat E) msg (rt_chat m) = Ok (rt_chat m')"
proof -
  have k: "rt_chat (fst (root_key key m)) = rt_chat m" for key by (simp add: root_key_cases toggle_view_def)
  have p: "propagate E now msg r w = Ok (m', c, w') \<Longrightarrow> rt_chat r = rt_chat m \<Longrightarrow> ?thesis" for r
    using propagate_Ok(5) [of E now msg r w m' c w'] by simp
  show ?thesis
  proof (cases msg)
    case (KeyMsg key)
    with assms k [of key] p [of "fst (root_key key m)"] show ?thesis
      by (auto simp: root_Update_def case_prod_beta split: if_splits option.splits)
  next
    case (TabMsg tab)
    with assms p [of "m\<lparr>rt_activeTab := tab\<rparr>"] show ?thesis by (auto simp: root_Update_def split: if_splits)
  next
    case (ViewMsg view)
    with assms p [of "m\<lparr>rt_currentView := view\<rparr>"] show ?thesis by (auto simp: root_Update_def split: if_splits)
  next
    case (WindowSizeMsg h wd)
    with assms show ?thesis by (auto simp: root_Update_def)
  qed (use assms p [of m] in \<open>simp_all add: root_Update_def split: if_split_asm\<close>)
qed

interpretation no_rows: step_invariant "ui_step E" "\<lambda>s. cm_rows (rt_chat (fst s)) = None"
proof unfold_locales
  fix s s' :: "('a, 'b, 'c) rootModel \<times> ('a, 'b) msg list \<times> 'd"
  assume "ui_step E s s'" and rows: "cm_rows (rt_chat (fst s)) = None"
  then show "cm_rows (rt_chat (fst s')) = None"
    by cases (use rows in \<open>auto dest!: root_Update_chat dest: chat_Update_rows\<close>)
qed

text \<open>The chat panel never gets the map its rows are stored in: in every reachable state of an interface with a
  window, the first chat message of the game panics, whatever the server, the player and the text.\<close>

lemma root_chat_panics:
  assumes "ui_runs E (newRootModel E conf doSetup v d g p cp, [], w) (m, q, w')" "isInitialized m"
    "ev_Type e = EvMsg" "ev_Data e = MsgData evt"
  shows "root_Update E now (EventMsg e) m w' = Panic"
proof -
  have "cm_rows (rt_chat (newRootModel E conf doSetup v d g p cp)) = None"
    by (simp add: newRootModel_def newChatModel_def Let_def case_prod_beta)
  with no_rows.runs_inv [OF assms(1)] have "cm_rows (rt_chat m) = None" by simp
  then have "propagate E now (EventMsg e) m w' = Panic" by (intro propagate_panic chat_Update_message [OF _ assms(3,4)])
  with assms(2) show ?thesis by (simp add: root_Update_def)
qed

section \<open>Applications at concrete inputs\<close>

definition demo_env :: "(int, int, string \<times> bool, string list) ui_env" where
  "demo_env = \<lparr>ue_os = demo_os, ue_zero = 0, ue_float = int_float, ue_input = demo_input, ue_ToLower = id, ue_safe = id,
     ue_renderLog = (\<lambda>_. lr_Content), ue_renderChat = (\<lambda>s r. s @ cr_message r), ue_DateTime = (\<lambda>_. []), ue_DateOnly = (\<lambda>_. []),
     ue_Write = (\<lambda>c w. (None, cf_ConsoleLogPath c # w)), ue_text = (\<lambda>_. []), ue_prefixes = (''a'', ''b'', ''c'')\<rparr>"

abbreviation demo_root :: "int Config \<Rightarrow> (int, int, string \<times> bool) rootModel" where
  "demo_root conf \<equiv> newRootModel demo_env conf False [] [] [] [] []"

abbreviation demo_sized :: "int Config \<Rightarrow> (int, int, string \<times> bool) rootModel" where
  "demo_sized conf \<equiv> (demo_root conf)\<lparr>rt_height := 24, rt_width := 80\<rparr>"

lemma demo_initialized: "isInitialized (demo_sized conf)"
  by (simp add: isInitialized_def)

lemma demo_window: "ui_runs demo_env (demo_root conf, [], []) (demo_sized conf, [ViewPortMsg 22 24 80], [])"
proof -
  have "rt_headerHeight (demo_root conf) = 1" "rt_footerHeight (demo_root conf) = 1"
    by (simp_all add: newRootModel_def case_prod_beta Let_def)
  then have "root_Update demo_env 0 (WindowSizeMsg 24 80) (demo_root conf) [] =
      Ok (demo_sized conf, [ViewPortMsg 22 24 80], [])"
    by (simp add: root_Update_def)
  from ui_step.outside [OF _ this, of "[]"] show ?thesis by (simp add: external_def r_into_rtranclp)
qed

theorem root_views_witness:
  "\<exists>m' c w'. root_Update demo_env 0 (KeyMsg ''h'') (demo_sized (zero_Config num_sid)) [] = Ok (m', c, w') \<and>
     views_of m' = (viewHelp, viewMain, viewConfig, viewMain)"
proof -
  have "views_of (demo_sized (zero_Config num_sid)) = (viewMain, viewMain, viewConfig, viewMain)"
    using new_views [of demo_env _ False] by (simp add: views_of_def)
  with root_views [OF demo_initialized [of "zero_Config num_sid"], of demo_env 0 "''h''" "[]"] show ?thesis by simp
qed

theorem ui_can_trap_witness:
  "\<exists>m q w. ui_runs demo_env (demo_root (zero_Config num_sid), [], []) (m, q, w) \<and> rt_currentView m \<noteq> viewMain"
  using ui_can_trap [of demo_env "zero_Config num_sid" False "[]" "[]" "[]" "[]" "[]" "[]"] by auto

end
