(* ===== verification/Ui_View.thy ===== *)
theory Ui_View
  imports Ui_Root
begin

text \<open>
  internal/ui: the views. The terminal library is the record \<open>view_lib\<close>: it renders a text in a style, joins and
  measures texts, and draws tables, viewports and widgets. A style is named by the variable of ui/styles/styles.go that
  holds it, with the settings the view adds. A \<open>view_lib\<close> is the library at the time of one drawing: how wide a viewport or
  a list is and how far it is scrolled belongs to it, and a viewport is a function of its panel's name, its height and
  its content.
\<close>

section \<open>The terminal library\<close>

datatype (plugins only: code size) style =
    NamedStyle string | StyleWidth int style | StyleHeight int style | StyleSet string style

datatype (plugins only: code size) position = PosTop | PosLeft | PosCenter

text \<open>A table: its width, which is 0 when it was not set, its height if it was set, the headers, the rows and the style of
  every cell, for the header and for each row.\<close>

record table_spec =
  ts_Width :: int
  ts_Height :: "int option"
  ts_Headers :: "string list"
  ts_Rows :: "string list list"
  ts_Styles :: "style list list"

record 'ti view_lib =
  vl_Render :: "style \<Rightarrow> string \<Rightarrow> string"
  vl_JoinVertical :: "position \<Rightarrow> string list \<Rightarrow> string"
  vl_JoinHorizontal :: "position \<Rightarrow> string list \<Rightarrow> string"
  vl_Width :: "string \<Rightarrow> int"
  vl_Height :: "string \<Rightarrow> int"
  vl_Place :: "int \<Rightarrow> int \<Rightarrow> position \<Rightarrow> position \<Rightarrow> string \<Rightarrow> string"
  vl_Mark :: "string \<Rightarrow> string \<Rightarrow> string"
  vl_Scan :: "string \<Rightarrow> string"
  vl_Table :: "table_spec \<Rightarrow> string"
  vl_Viewport :: "string \<Rightarrow> int \<Rightarrow> string \<Rightarrow> string"
  vl_InputView :: "'ti \<Rightarrow> string"
  vl_InputErr :: "'ti \<Rightarrow> string option"
  vl_TextareaView :: "string \<Rightarrow> string"
  vl_PluginList :: "string \<Rightarrow> GamePlugin list \<Rightarrow> string"
  vl_CVarList :: "CVarList \<Rightarrow> string"
  vl_HelpView :: "(string \<times> string) list \<Rightarrow> string"
  vl_Wordwrap :: "string \<Rightarrow> int \<Rightarrow> string"
  vl_TimeOnly :: "time \<Rightarrow> string"

definition renderTitleBar :: "'ti view_lib \<Rightarrow> int \<Rightarrow> string \<Rightarrow> string" where
  "renderTitleBar V width = vl_Render V
     (StyleSet ''Foreground(ColourStrange)'' (StyleSet ''Background(Black)'' (StyleSet ''AlignHorizontal(Center)''
       (StyleSet ''Bold(false)'' (StyleWidth (width - 2) (NamedStyle []))))))"

definition DetailRow :: "'ti view_lib \<Rightarrow> string \<times> string \<Rightarrow> string" where
  "DetailRow V row = vl_JoinHorizontal V PosTop
     [vl_Render V (NamedStyle ''PanelLabel'') (fst row @ '' ''), vl_Render V (NamedStyle ''PanelValue'') (snd row)]"

text \<open>The style of a row by its parity, and the styles of the header, whose row is -1, and of all rows of a table.\<close>

definition striped :: "string \<Rightarrow> string \<Rightarrow> int \<Rightarrow> style" where
  "striped evens odds row = NamedStyle (if row mod 2 = 0 then evens else odds)"

definition table_styles :: "(int \<Rightarrow> nat \<Rightarrow> style) \<Rightarrow> nat \<Rightarrow> nat \<Rightarrow> style list list" where
  "table_styles f rows cols = map (\<lambda>row. map (f row) [0..<cols]) (map (\<lambda>r. int r - 1) [0..<Suc rows])"

section \<open>Tabs, status bar and help\<close>

definition tabs_View :: "'ti view_lib \<Rightarrow> tabsModel \<Rightarrow> string" where
  "tabs_View V m = vl_Render V (StyleWidth (tm_width m) (NamedStyle ''TabContainer''))
     (vl_JoinHorizontal V PosTop
       (map (\<lambda>(label, tab). vl_Mark V (tm_id m @ label)
          (vl_Render V (NamedStyle (if tab = tm_selectedTab m then ''TabsActive'' else ''TabsInactive'')) label)) tab_labels))"

text \<open>\<open>%3d\<close>.\<close>

definition pad3 :: "int \<Rightarrow> string" where
  "pad3 n = (let s = Itoa n in replicate (3 - length s) (CHR '' '') @ s)"

definition status_View :: "'f float_lib \<Rightarrow> 'ti view_lib \<Rightarrow> ('sid, 'f) statusBarModel \<Rightarrow> string" where
  "status_View F V m =
     (let stats = ss_Stats (un_Status (sb_snapshot m)); players = us_Players (un_Server (sb_snapshot m));
          render = (\<lambda>style. vl_Render V (NamedStyle style)); f = ff_format F 2;
          args =
            (if \<not> sb_serverMode m then
               [render ''StatusRedTeam'' (pad3 (TeamCount players RED)), render ''StatusBluTeam'' (pad3 (TeamCount players BLU))]
             else
               [if ff_less F (st_FPS stats) (ff_of_int F 66)
                then vl_Render V (StyleSet ''Underline(true)'' (NamedStyle ''StatusError'')) (''FPS '' @ f (st_FPS stats))
                else render ''StatusBluTeam'' (''FPS '' @ f (st_FPS stats) @ ''  ''),
                render ''StatusRedTeam'' (''CPU '' @ f (st_CPU stats) @ ''  ''),
                render ''StatusMessage'' (''In/Out kb/s '' @ f (st_InKBs stats) @ ''/'' @ f (st_OutKBs stats)),
                render ''StatusRedTeam'' (''Up '' @ Itoa (st_Uptime stats)),
                render ''StatusMap'' (''steam://run/440//+connect%20'' @ un_HostPort (sb_snapshot m))]);
          status = render (if sb_statusMsg m = [] then ''StatusHostname''
                           else if sb_statusError m then ''StatusError'' else ''StatusMessage'') (fst (status_text m))
      in vl_Render V (StyleSet ''Background(Black)'' (StyleWidth (sb_width m) (NamedStyle [])))
           (vl_JoinHorizontal V PosTop (args @
              [render ''StatusVersion'' (sb_version m), render ''StatusHelp'' ''h Help'', status,
               render ''StatusMap'' (sb_mapName m)])))"

text \<open>The key and the description of the bindings in the three columns; \<open>start\<close> and \<open>stop\<close> have none.\<close>

definition help_columns :: "(string \<times> string) list list" where
  "help_columns =
     [[(''E'', ''Conf''), ([], []), ([], []), (''r'', ''reset''), (''q'', ''Quit''), (''h'', ''Help''), (''enter'', ''Select'')],
      [(''o'', ''Overview''), (''b'', ''Bans''), (''d'', ''Bot Detector''), (''c'', ''Comp''), (''t'', ''Chat''),
       ([CHR 0x60], ''Console'')],
      [(''tab'', ''Next Tab''), ([CHR 0xE2, CHR 0x86, CHR 0x91], ''Up''), ([CHR 0xE2, CHR 0x86, CHR 0x93], ''Down''),
       ([CHR 0xE2, CHR 0x86, CHR 0x90], ''RED''), ([CHR 0xE2, CHR 0x86, CHR 0x92], ''BLU'')]]"

definition help_View :: "'ti view_lib \<Rightarrow> helpModel \<Rightarrow> string" where
  "help_View V m =
     (let helpContent = vl_JoinHorizontal V PosTop (map (\<lambda>col. vl_Render V (NamedStyle ''HelpBox'') (vl_HelpView V col)) help_columns);
          content = vl_JoinVertical V PosCenter (helpContent # map (DetailRow V)
            [(''Version'', hp_buildVersion m), (''Commit'', take 8 (hp_buildCommit m)), (''Date'', hp_buildDate m),
             (''Config Path'', hp_configPath m), (''Cache Path'', hp_cachePath m)])
      in vl_Place V (vl_Width V content) (vl_Height V content) PosCenter PosCenter content)"

section \<open>Tables\<close>

text \<open>The style of a cell of the player table. The column is compared by its place in the table and not by the column that
  is shown there.\<close>

definition player_cell_style :: "'sid steamid_pkg \<Rightarrow> 'sid tablePlayerModel \<Rightarrow> int \<Rightarrow> nat \<Rightarrow> style outcome" where
  "player_cell_style L m row col =
     outcome_bind (isSelf L m row) (\<lambda>self. outcome_bind (index_at (td_enabledColumns (tp_data m)) (int col)) (\<lambda>mappedCol.
       let width = StyleWidth (col_width mappedCol);
           isName = (col = 1); isMeta = (col = 5)
       in Ok (if row = -1 then
                (if tp_team m = RED then width (NamedStyle ''HeaderStyleRed'')
                 else if col = 1 then width (NamedStyle ''HeaderStyleBlu'') else NamedStyle ''HeaderStyleBlu'')
              else if \<not> isMeta \<and> row = currentRowIndex m \<and> tp_team m = tp_selectedTeam m then
                width (NamedStyle
                  (if isName \<and> self then ''PlayerTableRowSelf''
                   else if tp_team m = RED then (if isName then ''SelectedCellStyleNameRed'' else ''SelectedCellStyleRed'')
                   else (if isName then ''SelectedCellStyleNameBlu'' else ''SelectedCellStyleBlu'')))
              else if isName then width (NamedStyle ''PlayerTableRow'')
              else width (striped ''PlayerTableRow'' ''PlayerTableRowOdd'' row))))"

text \<open>The library asks for the style of every cell, of the header, which is row -1, and of the rows. A style function that
  panics ends the drawing.\<close>

fun outcomes :: "'a outcome list \<Rightarrow> 'a list outcome" where
  "outcomes [] = Ok []"
| "outcomes (x # xs) = outcome_bind x (\<lambda>a. outcome_bind (outcomes xs) (\<lambda>as. Ok (a # as)))"

definition cell_styles :: "(int \<Rightarrow> nat \<Rightarrow> style outcome) \<Rightarrow> nat \<Rightarrow> nat \<Rightarrow> style list list outcome" where
  "cell_styles f rows cols =
     outcomes (map (\<lambda>row. outcomes (map (f row) [0..<cols])) (map (\<lambda>r. int r - 1) [0..<Suc rows]))"

definition player_View :: "'sid steamid_pkg \<Rightarrow> 'ti view_lib \<Rightarrow> 'sid tablePlayerModel \<Rightarrow> string outcome" where
  "player_View L V m =
     (let data = tp_data m; cols = length (td_enabledColumns data); rows = length (td_players data)
      in outcome_bind (cell_styles (player_cell_style L m) rows cols)
           (\<lambda>styles. Ok (vl_Table V
              \<lparr>ts_Width = tp_tableWidth m, ts_Height = None, ts_Headers = player_Headers (vl_Mark V) data,
               ts_Rows = map (\<lambda>r. map (\<lambda>c. player_At L (vl_Mark V) data r c) [0..<cols]) [0..<rows],
               ts_Styles = styles\<rparr>)))"

definition server_cell_style :: "('sid, 'f) serverTableModel \<Rightarrow> int \<Rightarrow> nat \<Rightarrow> style outcome" where
  "server_cell_style m row col =
     outcome_bind (index_at (sd_enabledColumns (sm_data m)) (int col)) (\<lambda>mappedCol.
       let width = StyleWidth (server_col_width mappedCol)
       in Ok (if row = -1 then NamedStyle ''HeaderStyleBlu''
              else if int (server_currentRowIndex m) = row \<and> col \<noteq> 0 then width (NamedStyle ''SelectedCellStyleNameBlu'')
              else width (striped ''PlayerTableRow'' ''PlayerTableRowOdd'' row)))"

definition server_View ::
  "'f float_lib \<Rightarrow> (string \<Rightarrow> string) \<Rightarrow> 'ti view_lib \<Rightarrow> ('sid, 'f) serverTableModel \<Rightarrow> string outcome" where
  "server_View F ToLower V m =
     (let data = sm_data m; cols = length (sd_enabledColumns data); rows = length (sd_servers data)
      in outcome_bind (cell_styles (server_cell_style m) rows cols)
           (\<lambda>styles. Ok (vl_Viewport V ''servers'' (snd (sm_viewportSize m))
              (vl_Table V
                 \<lparr>ts_Width = sm_width m, ts_Height = None, ts_Headers = server_Headers (vl_Mark V) data,
                  ts_Rows = map (\<lambda>r. map (\<lambda>c. server_At F ToLower (vl_Mark V) data r c) [0..<cols]) [0..<rows],
                  ts_Styles = styles\<rparr>))))"

text \<open>The tables of bans, of bot lists and of teams.\<close>

definition plain_cell_style :: "string \<Rightarrow> (nat \<Rightarrow> int) \<Rightarrow> int \<Rightarrow> nat \<Rightarrow> style" where
  "plain_cell_style heading width row col =
     StyleWidth (width col) (if row = -1 then NamedStyle heading else striped ''TableRowValuesEven'' ''TableRowValuesOdd'' row)"

definition plain_table ::
  "'ti view_lib \<Rightarrow> int option \<Rightarrow> string list \<Rightarrow> string list list \<Rightarrow> string \<Rightarrow> (nat \<Rightarrow> int) \<Rightarrow> string" where
  "plain_table V height headers rows heading width =
     vl_Table V \<lparr>ts_Width = 0, ts_Height = height, ts_Headers = headers, ts_Rows = rows,
       ts_Styles = table_styles (plain_cell_style heading width) (length rows) (length headers)\<rparr>"

definition IconNoBans :: string where "IconNoBans = [CHR 0xF0, CHR 0x9F, CHR 0x8D, CHR 0x95]"
definition IconNoComp :: string where "IconNoComp = [CHR 0xF0, CHR 0x9F, CHR 0x8D, CHR 0xA3]"

definition bans_Render :: "'ti view_lib \<Rightarrow> int \<Rightarrow> 'sid tableBansModel \<Rightarrow> string" where
  "bans_Render V height m =
     (let content =
            (if up_Bans (tb_player m) = []
             then vl_Render V (StyleWidth (tb_width m) (NamedStyle ''InfoMessage'')) (''No bans found '' @ IconNoBans)
             else plain_table V None [''Site'', ''Date'', ''Perm'', ''Reason''] (tb_rows m) ''BanTableHeading'' (ban_width (tb_width m)))
      in vl_Viewport V ''bans'' height (vl_JoinVertical V PosLeft [renderTitleBar V (tb_width m) ''Bans'', content]))"

text \<open>The headers name the last name second and the attributes fourth, the widths are those of the order of the
  constants.\<close>

definition bd_width_of :: "int \<Rightarrow> nat \<Rightarrow> int" where
  "bd_width_of width col =
     (if col = 0 then 20 else if col = 1 then 30 else if col = 2 then 20 else if col = 3 then 10
      else if col = 4 then width - 20 - 10 - 30 - 20 - 2 else 0)"

definition bd_Render :: "'ti view_lib \<Rightarrow> int \<Rightarrow> tableBDModel \<Rightarrow> string" where
  "bd_Render V height m =
     vl_JoinVertical V PosTop
       [renderTitleBar V (bd_width m) ''Bot Detector Matches'',
        plain_table V (Some height) [''List Name'', ''Last Name'', ''Last Seen'', ''Attributes'', ''Proof''] (bd_rows m)
          ''BanTableHeading'' (bd_width_of (bd_width m))]"

text \<open>The table of teams is drawn when a player is selected, with the width of that time; \<open>content\<close> is what was drawn
  last.\<close>

definition comp_width :: "int \<Rightarrow> nat \<Rightarrow> int" where
  "comp_width width col =
     (if col = 0 then 16 else if col = 1 then 30 else if col \<in> {2, 3, 4} then 12 else if col = 5 then 15
      else if col = 6 then width - 16 - 30 - 12 - 12 - 12 - 15 - 4 else 0)"

definition comp_content :: "'ti view_lib \<Rightarrow> 'sid tableCompModel \<Rightarrow> string" where
  "comp_content V m =
     (if up_CompetitiveTeams (tc_player m) = []
      then vl_Render V (StyleWidth (tc_width m) (NamedStyle ''InfoMessage'')) (''No league history found '' @ IconNoComp)
      else vl_Table V
        \<lparr>ts_Width = 0, ts_Height = (if tc_ready m then Some (tc_tableHeight m) else None),
         ts_Headers = [''League'', ''Competition'', ''Joined'', ''Left'', ''Format'', ''Division'', ''Team Name''],
         ts_Rows = tc_rows m,
         ts_Styles = table_styles (\<lambda>row col. StyleWidth (comp_width (tc_width m) col)
            (if row = -1 then StyleSet ''Padding(0)'' (NamedStyle ''HeaderStyleRed'')
             else striped ''TableRowValuesEven'' ''TableRowValuesOdd'' row)) (length (tc_rows m)) 7\<rparr>)"

definition comp_Render :: "'ti view_lib \<Rightarrow> string \<Rightarrow> int \<Rightarrow> 'sid tableCompModel \<Rightarrow> string" where
  "comp_Render V content height m =
     (let titlebar = renderTitleBar V (tc_width m) ''League History''
      in vl_JoinVertical V PosLeft [titlebar, vl_Viewport V ''comp'' (height - vl_Height V titlebar) content])"

section \<open>Chat, console and notes\<close>

definition IconDead :: string where "IconDead = [CHR 0xF0, CHR 0x9F, CHR 0x92, CHR 0x80]"

text \<open>A team that is none of the four has no name.\<close>

definition ChatRow_View :: "'ti view_lib \<Rightarrow> 'sid ChatRow \<Rightarrow> string" where
  "ChatRow_View V r =
     (let name = (if cr_team r = RED then vl_Render V (NamedStyle ''ChatNameRed'') (cr_name r)
                  else if cr_team r = BLU then vl_Render V (NamedStyle ''ChatNameBlu'') (cr_name r)
                  else if cr_team r = UNASSIGNED \<or> cr_team r = SPEC then vl_Render V (NamedStyle ''ChatNameOther'') (cr_name r)
                  else []);
          msg = (if cr_dead r then IconDead @ '' '' @ cr_message r else cr_message r)
      in vl_JoinHorizontal V PosTop
           [vl_Render V (NamedStyle ''ChatTime'') (vl_TimeOnly V (cr_createdOn r)), name,
            vl_Render V (NamedStyle ''ChatMessage'') msg])"

text \<open>Reading a nil map gives the empty string.\<close>

definition chat_View :: "'ti view_lib \<Rightarrow> int \<Rightarrow> 'sid chatModel \<Rightarrow> string" where
  "chat_View V height m =
     (let titleBar = renderTitleBar V (cm_width m) ''Game Chat'';
          rows = (case cm_rowsRendered m of
                    None \<Rightarrow> []
                  | Some rendered \<Rightarrow> (case rendered (cm_selectedsServer m) of None \<Rightarrow> [] | Some s \<Rightarrow> s))
      in vl_JoinVertical V PosLeft [titleBar, vl_Viewport V ''chat'' (height - vl_Height V titleBar) rows])"

fun log_style :: "EventType \<Rightarrow> string option" where
  "log_style EvMsg = Some ''ConsoleMsg''"
| "log_style EvConnect = Some ''ConsoleConnect''"
| "log_style EvDisconnect = Some ''ConsoleDisconnect''"
| "log_style EvAddress = Some ''ConsoleAddress''"
| "log_style EvHostname = Some ''ConsoleHostname''"
| "log_style EvStatusID = Some ''ConsoleStatusID''"
| "log_style EvMap = Some ''ConsoleMap''"
| "log_style EvTags = Some ''ConsoleTags''"
| "log_style EvKill = Some ''ConsoleKill''"
| "log_style EvStats = Some ''ConsoleKill''"
| "log_style EvVersion = None"
| "log_style EvAny = Some ''ConsoleOther''"

definition LogRow_Render :: "'ti view_lib \<Rightarrow> int \<Rightarrow> LogRow \<Rightarrow> string" where
  "LogRow_Render V width r =
     (let timeStamp = vl_Render V (NamedStyle ''ConsoleTime'') ('' '' @ vl_TimeOnly V (lr_CreatedOn r) @ '' '');
          body = '' '' @ TrimSpace (vl_Wordwrap V (lr_Content r) (width - vl_Width V timeStamp - 2)) @ '' '';
          body = (case log_style (lr_EventType r) of None \<Rightarrow> body | Some style \<Rightarrow> vl_Render V (NamedStyle style) body)
      in vl_JoinHorizontal V PosTop [timeStamp, body])"

text \<open>The title is a bar only when there are rows. The zone of the input is named \<open>zone\<close>.\<close>

definition console_Render :: "'ti view_lib \<Rightarrow> string \<Rightarrow> int \<Rightarrow> ('sid, 'f, 'ti) consoleModel \<Rightarrow> string" where
  "console_Render V zone height m =
     (let host = un_HostPort (co_selectedServer m);
          rendered = (case co_rowsRendered m host of None \<Rightarrow> [] | Some s \<Rightarrow> s);
          count = (case co_rowsCount m host of None \<Rightarrow> 0 | Some n \<Rightarrow> n);
          content = (if rendered = [] then ''<<< Start of logs >>>'' @ [nl] else rendered);
          title = (if rendered = [] then ''Console Log''
                   else renderTitleBar V (co_width m) (''Console Log: '' @ Itoa count @ '' Messages''));
          input = vl_Mark V zone (vl_InputView V (co_input m))
      in vl_JoinVertical V PosLeft
           [title, vl_Viewport V ''console'' (height - vl_Height V title - vl_Height V input) content, input])"

definition notes_View :: "'ti view_lib \<Rightarrow> 'sid notesModel \<Rightarrow> string" where
  "notes_View V m = vl_JoinVertical V PosTop
     [renderTitleBar V (nm_width m) ''Player Notes (doesnt work)'', vl_TextareaView V (nm_text m)]"

section \<open>Details and the form\<close>

definition detail_Render ::
  "'sid steamid_pkg \<Rightarrow> 'ti view_lib \<Rightarrow> (int \<Rightarrow> string) \<Rightarrow> int \<Rightarrow> 'sid detailPanelModel \<Rightarrow> string" where
  "detail_Render L V age height m =
     (if \<not> sid_Valid L (up_SteamID (dm_player m)) then []
      else (let titleBar = renderTitleBar V (dm_width m) ''Player Overview''
            in vl_JoinVertical V PosTop [titleBar, [],
                 vl_Viewport V ''detail'' (height - vl_Height V titleBar)
                   (vl_JoinVertical V PosTop (map (DetailRow V) (detail_rows L age m)))]))"

definition server_detail_Render :: "'ti view_lib \<Rightarrow> int \<Rightarrow> ('sid, 'f) serverDetailPanelModel \<Rightarrow> string" where
  "server_detail_Render V height m =
     (let titleBar = renderTitleBar V (sp_width m) (''Server Overview: '' @ xs_ServerName (status_of (sp_snapshot m)));
          bottomViews = vl_JoinHorizontal V PosTop
            [vl_Viewport V ''server'' (height - vl_Height V titleBar)
               (vl_JoinVertical V PosTop (map (DetailRow V) (server_detail_rows m))),
             vl_PluginList V ''Metamod Plugins'' (sp_listMeta m), vl_PluginList V ''Sourcemod Plugins'' (sp_listSM m),
             vl_CVarList V (sp_listCvar m)]
      in vl_Render V (StyleWidth (sp_width m) (NamedStyle [])) (vl_JoinVertical V PosTop [titleBar, bottomViews]))"

text \<open>The lines of the plugin and variable lists; \<open>selected\<close> is the item under the cursor.\<close>

definition plugin_item :: "'ti view_lib \<Rightarrow> bool \<Rightarrow> GamePlugin \<Rightarrow> string" where
  "plugin_item V selected item =
     (let str = ''#'' @ Itoa (gp_Index item) @ '': '' @ gp_Name item @ '' ''
      in vl_Render V (NamedStyle ''PluginItem'') (if selected then vl_Render V (NamedStyle ''SelectedCellStyleRed'') str else str))"

definition cvar_item :: "'ti view_lib \<Rightarrow> bool \<Rightarrow> CVar \<Rightarrow> string" where
  "cvar_item V selected item =
     (let str = cv_Name item @ '': '' @ cv_Value item @ '' ''
      in vl_Render V (NamedStyle ''PluginItem'') (if selected then vl_Render V (NamedStyle ''SelectedCellStyleRed'') str else str))"

definition vi_View :: "'ti view_lib \<Rightarrow> 'ti validatingTextInputModel \<Rightarrow> string" where
  "vi_View V m =
     (let errRow = (case vl_InputErr V (vi_input m) of
                      None \<Rightarrow> []
                    | Some err \<Rightarrow> vl_Render V (StyleSet ''Foreground(Red)'' (NamedStyle [])) (''Validation Error: '' @ err))
      in vl_JoinHorizontal V PosTop
           [vl_Render V (NamedStyle ''HelpStyle'') (vi_label m @ '': ''),
            vl_JoinVertical V PosTop [vl_InputView V (vi_input m), errRow]])"

definition config_View :: "'ti view_lib \<Rightarrow> ('sid, 'ti) configModel \<Rightarrow> string outcome" where
  "config_View V m =
     outcome_bind (outcomes (map (index_at (cg_fields m)) [fieldSteamID, fieldConsoleLogPath, fieldTFAPIBaseURL])) (\<lambda>shown.
       let fields = map (vi_View V) shown @
             [if cg_focusIndex m = fieldSave then vl_Render V (StyleSet ''Foreground(Accent)'' (NamedStyle [])) ''[ Submit ]''
              else ''[ '' @ vl_Render V (NamedStyle ''BlurredStyle'') ''Submit'' @ '' ]'']
       in Ok (vl_Render V (StyleSet ''Align(Left)'' (StyleWidth (cg_width m) (NamedStyle []))) (vl_JoinVertical V PosTop fields)))"

section \<open>The root\<close>

text \<open>What the views take from the environment: the age of an account, the zone of the console input, and the drawn table of
  teams.\<close>

record view_args =
  va_age :: "int \<Rightarrow> string"
  va_inputZone :: string
  va_compContent :: string

definition lower_panel ::
  "('sid, 'f, 'ti, 'w) ui_env \<Rightarrow> 'ti view_lib \<Rightarrow> view_args \<Rightarrow> int \<Rightarrow> ('sid, 'f, 'ti) rootModel \<Rightarrow> string" where
  "lower_panel E V X height m =
     (let tab = rt_activeTab m
      in if tab = tabServers then server_detail_Render V height (rt_serverDetail m)
         else if tab = tabPlayers then detail_Render (ue_L E) V (va_age X) height (rt_detail m)
         else if tab = tabBans then bans_Render V height (rt_bans m)
         else if tab = tabBD then bd_Render V height (rt_bd m)
         else if tab = tabComp then comp_Render V (va_compContent X) height (rt_comp m)
         else if tab = tabChat then chat_View V height (rt_chat m)
         else if tab = tabConsole then console_Render V (va_inputZone X) height (rt_console m)
         else [])"

definition upper_panel ::
  "('sid, 'f, 'ti, 'w) ui_env \<Rightarrow> 'ti view_lib \<Rightarrow> ('sid, 'f, 'ti) rootModel \<Rightarrow> string outcome" where
  "upper_panel E V m =
     (if rt_serverMode m \<and> rt_activeTab m = tabServers
      then server_View (ue_float E) (ue_ToLower E) V (rt_servers m)
      else outcome_bind (player_View (ue_L E) V (rt_red m)) (\<lambda>red.
             outcome_bind (player_View (ue_L E) V (rt_blu m)) (\<lambda>blu. Ok (vl_JoinHorizontal V PosTop [red, blu]))))"

definition root_View ::
  "('sid, 'f, 'ti, 'w) ui_env \<Rightarrow> 'ti view_lib \<Rightarrow> view_args \<Rightarrow> ('sid, 'f, 'ti) rootModel \<Rightarrow> string outcome" where
  "root_View E V X m =
     (let container = (\<lambda>style. vl_Render V (StyleWidth (rt_width m) (NamedStyle style)));
          footer = container ''FooterContainerStyle'' (vl_JoinVertical V PosTop [status_View (ue_float E) V (rt_status m)]);
          hdr = container ''HeaderContainerStyle'' (tabs_View V (rt_tabs m));
          ftr = container ''FooterContainerStyle'' footer;
          contentViewPortHeight = rt_height m - vl_Height V hdr - vl_Height V ftr
      in outcome_bind
           (case rt_currentView m of
              viewConfig \<Rightarrow> config_View V (rt_config m)
            | viewHelp \<Rightarrow> Ok (help_View V (rt_help m))
            | viewMain \<Rightarrow> outcome_bind (upper_panel E V m) (\<lambda>upper.
                Ok (vl_JoinVertical V PosTop
                      [upper, lower_panel E V X (contentViewPortHeight - vl_Height V upper - 2) m])))
           (\<lambda>content.
              Ok (vl_Scan V (vl_JoinVertical V PosLeft
                    [hdr, vl_Render V (StyleHeight contentViewPortHeight (NamedStyle ''ContentContainerStyle'')) content, ftr]))))"

end
