(* ===== verification/Ui_Tabs.thy ===== *)
theory Ui_Tabs
  imports Ui_View
begin

text \<open>
  First, drawing the screen: in the states the interface reaches no index of a view is out of range. Then the tab that is
  highlighted and the panel that is shown. A change of the tab is a message of the tab bar to the root,
  so the two differ until it is delivered. Delivered in order they agree again; the terminal library delivers the
  messages of commands in any order, and then they can stay different.
\<close>

section \<open>No view panics\<close>

lemma outcomes_Ok: "(\<And>x. x \<in> set xs \<Longrightarrow> x \<noteq> Panic) \<Longrightarrow> outcomes xs \<noteq> Panic"
proof (induction xs)
  case (Cons x xs)
  then show ?case by (cases x; cases "outcomes xs") auto
qed simp

lemma outcome_Ok_iff: "x \<noteq> Panic \<longleftrightarrow> (\<exists>a. x = Ok a)"
  by (cases x) simp_all

lemma cell_styles_Ok:
  assumes "\<And>row col. - 1 \<le> row \<Longrightarrow> row < int rows \<Longrightarrow> col < cols \<Longrightarrow> f row col \<noteq> Panic"
  shows "\<exists>styles. cell_styles f rows cols = Ok styles"
proof -
  have "outcomes (map (\<lambda>row. outcomes (map (f row) [0..<cols])) (map (\<lambda>r. int r - 1) [0..<Suc rows])) \<noteq> Panic"
  proof (rule outcomes_Ok)
    fix x assume "x \<in> set (map (\<lambda>row. outcomes (map (f row) [0..<cols])) (map (\<lambda>r. int r - 1) [0..<Suc rows]))"
    then obtain row where row: "x = outcomes (map (f row) [0..<cols])" "- 1 \<le> row" "row < int rows" by auto
    show "x \<noteq> Panic" unfolding row(1) by (rule outcomes_Ok) (use assms [OF row(2,3)] in auto)
  qed
  then show ?thesis unfolding cell_styles_def outcome_Ok_iff .
qed

lemma player_View_Ok: "\<exists>view. player_View L V m = Ok view"
proof -
  have "\<exists>styles. cell_styles (player_cell_style L m) (length (td_players (tp_data m))) (length (td_enabledColumns (tp_data m))) = Ok styles"
    by (rule cell_styles_Ok) (simp add: player_cell_style_def isSelf_def index_at_Ok Let_def)
  then show ?thesis by (auto simp: player_View_def Let_def)
qed

lemma server_View_Ok: "\<exists>view. server_View F ToLower V m = Ok view"
proof -
  have "\<exists>styles. cell_styles (server_cell_style m) (length (sd_servers (sm_data m))) (length (sd_enabledColumns (sm_data m))) = Ok styles"
    by (rule cell_styles_Ok) (simp add: server_cell_style_def index_at_Ok Let_def)
  then show ?thesis by (auto simp: server_View_def Let_def)
qed

lemma config_View_Ok: "config_inv m \<Longrightarrow> \<exists>view. config_View V m = Ok view"
  by (simp add: config_View_def config_inv_def index_at_Ok field_defs Let_def)

text \<open>The form keeps its three fields in every reachable state.\<close>

lemma root_Update_config:
  assumes "root_Update E now msg m w = Ok (m', c, w')" "config_inv (rt_config m)"
  shows "config_inv (rt_config m')"
proof -
  have k: "rt_config (fst (root_key key m)) = rt_config m" for key by (simp add: root_key_cases toggle_view_def)
  have p: "propagate E now msg r w = Ok (m', c, w') \<Longrightarrow> rt_config r = rt_config m \<Longrightarrow> ?thesis" for r
    using propagate_Ok(4) [of E now msg r w m' c w'] config_Update_inv assms(2) by simp
  show ?thesis
  proof (cases msg)
    case (KeyMsg key)
    with assms k [of key] p [of "fst (root_key key m)"] show ?thesis
      by (auto simp: root_Update_def case_prod_beta split: if_splits option.splits)
  next
    case (TabMsg tab)
    with assms p [of "m\<lparr>rt_activeTab := tab\<rparr>"] show ?thesis by (auto simp: root_Update_def split: if_splits)
  next
    case (ViewMsg view)
    with assms p [of "m\<lparr>rt_currentView := view\<rparr>"] show ?thesis by (auto simp: root_Update_def split: if_splits)
  next
    case (WindowSizeMsg h wd)
    with assms show ?thesis by (auto simp: root_Update_def)
  qed (use assms p [of m] in \<open>simp_all add: root_Update_def split: if_split_asm\<close>)
qed

interpretation form_fields: step_invariant "ui_step E" "\<lambda>s. config_inv (rt_config (fst s))"
proof unfold_locales
  fix s s' :: "('a, 'b, 'c) rootModel \<times> ('a, 'b) msg list \<times> 'd"
  assume "ui_step E s s'" "config_inv (rt_config (fst s))"
  then show "config_inv (rt_config (fst s'))" by cases (auto dest: root_Update_config)
qed

text \<open>C39: in every state an interface reaches from its start, whatever messages it got and in whatever order, drawing the
  screen panics nowhere: not at the players the style of a cell indexes by its row, which is -1 for the header, not at
  the columns it indexes, and not at the fields of the form.\<close>

theorem root_View_total:
  assumes "ui_runs E (newRootModel E conf doSetup v d g p cp, [], w) (m, q, w')"
  shows "\<exists>screen. root_View E V X m = Ok screen"
proof -
  have "config_inv (rt_config (newRootModel E conf doSetup v d g p cp))"
    by (simp add: newRootModel_def newConfigModal_inv case_prod_beta Let_def)
  with form_fields.runs_inv [OF assms] have "config_inv (rt_config m)" by simp
  from config_View_Ok [OF this, of V] obtain form where "config_View V (rt_config m) = Ok form" ..
  moreover obtain red blu servers where "player_View (ue_L E) V (rt_red m) = Ok red"
    "player_View (ue_L E) V (rt_blu m) = Ok blu" "server_View (ue_float E) (ue_ToLower E) V (rt_servers m) = Ok servers"
    using player_View_Ok server_View_Ok by metis
  ultimately show ?thesis by (simp add: root_View_def upper_panel_def Let_def split: contentView.split)
qed

theorem root_View_total_witness:
  "\<exists>screen. root_View demo_env
     \<lparr>vl_Render = \<lambda>_ s. s, vl_JoinVertical = \<lambda>_. concat, vl_JoinHorizontal = \<lambda>_. concat, vl_Width = \<lambda>s. int (length s),
       vl_Height = \<lambda>_. 1, vl_Place = \<lambda>_ _ _ _ s. s, vl_Mark = \<lambda>_ s. s, vl_Scan = \<lambda>s. s, vl_Table = \<lambda>t. concat (concat (ts_Rows t)),
       vl_Viewport = \<lambda>_ _ s. s, vl_InputView = fst, vl_InputErr = \<lambda>_. None, vl_TextareaView = \<lambda>s. s,
       vl_PluginList = \<lambda>s _. s, vl_CVarList = \<lambda>_. [], vl_HelpView = \<lambda>_. [], vl_Wordwrap = \<lambda>s _. s, vl_TimeOnly = \<lambda>_. []\<rparr>
     \<lparr>va_age = \<lambda>_. [], va_inputZone = [], va_compContent = []\<rparr> (demo_sized (zero_Config num_sid)) = Ok screen"
  by (rule root_View_total [OF demo_window])

section \<open>Who changes the tab\<close>

text \<open>The messages that decide on the tab: the announcements of the tab bar, and the size of the window, before which
  the root handles nothing.\<close>

definition steers :: "('sid, 'f) msg \<Rightarrow> bool" where
  "steers msg = (case msg of TabMsg _ \<Rightarrow> True | WindowSizeMsg _ _ \<Rightarrow> True | _ \<Rightarrow> False)"

lemma steers_simps [simp]:
  "steers (TabMsg tab)" "steers (WindowSizeMsg i j)" "\<not> steers (ViewMsg v)" "\<not> steers QuitMsg" "\<not> steers (TeamMsg t)"
  "\<not> steers (SelectedPlayerMsg p n)" "\<not> steers ClearStatusMessageMsg" "\<not> steers (StatusMsg s b)"
  "\<not> steers (ConfigMsg conf)" "\<not> steers (SelectServerMsg server)" "\<not> steers (InputZoneMsg zone)"
  "\<not> steers (RCONCommandMsg host command)" "\<not> steers (ViewPortMsg i j k)"
  by (simp_all add: steers_def)

lemma player_cmds_no_tab:
  "x \<in> set (snd (moveSelection dir p)) \<Longrightarrow> \<not> steers x"
  "x \<in> set (snd (selectClosestPlayer L p)) \<Longrightarrow> \<not> steers x"
  "x \<in> set (snd (player_mouse L ToLower mouse p)) \<Longrightarrow> \<not> steers x"
proof -
  have after: "x \<in> set (if c then (case q of None \<Rightarrow> [] | Some pl \<Rightarrow> [SelectedPlayerMsg pl []]) else []) \<Longrightarrow> \<not> steers x" for c q
    by (cases c; cases q; simp)
  show "\<not> steers x" if "x \<in> set (snd (moveSelection dir p))"
  proof (cases dir)
    case up
    with that show ?thesis unfolding moveSelection_def Let_def by (simp only: direction.case snd_conv) (rule after)
  next
    case down
    with that show ?thesis unfolding moveSelection_def Let_def by (simp only: direction.case snd_conv) (rule after)
  qed (use that in \<open>simp_all add: moveSelection_def\<close>)
  show "x \<in> set (snd (selectClosestPlayer L p)) \<Longrightarrow> \<not> steers x"
    by (auto simp: selectClosestPlayer_def Let_def split: if_splits)
  show "x \<in> set (snd (player_mouse L ToLower mouse p)) \<Longrightarrow> \<not> steers x"
    by (cases mouse) (auto simp: player_mouse_def split: option.splits if_splits)
qed

lemma no_tab_cmds:
  "x \<in> set (snd (player_Update L ToLower msg p)) \<Longrightarrow> \<not> steers x"
  "x \<in> set (snd (help_Update msg h)) \<Longrightarrow> \<not> steers x"
  "x \<in> set (snd (console_Update I ToLower safe render now msg cm)) \<Longrightarrow> \<not> steers x"
  "x \<in> set (snd (status_Update msg sb)) \<Longrightarrow> \<not> steers x"
  "x \<in> set (fst (snd (config_Update I S Write text msg cg w))) \<Longrightarrow> \<not> steers x"
  "x \<in> set (snd (server_Update F ToLower msg s)) \<Longrightarrow> \<not> steers x"
proof -
  show "x \<in> set (snd (player_Update L ToLower msg p)) \<Longrightarrow> \<not> steers x"
    by (cases msg) (auto simp: player_Update_def updatePlayers_def Let_def split: if_splits dest: player_cmds_no_tab)
  show "x \<in> set (snd (help_Update msg h)) \<Longrightarrow> \<not> steers x" by (auto dest: help_Update_cmds)
  show "x \<in> set (snd (console_Update I ToLower safe render now msg cm)) \<Longrightarrow> \<not> steers x"
    by (auto simp: console_Update_def Let_def split: msg.splits if_splits)
  show "x \<in> set (snd (status_Update msg sb)) \<Longrightarrow> \<not> steers x"
    by (auto simp: status_Update_def split: msg.splits EventData.splits)
  show "x \<in> set (fst (snd (config_Update I S Write text msg cg w))) \<Longrightarrow> \<not> steers x"
    by (auto simp: config_Update_def config_key_def config_save_def Matches_def defaultKeyMap_def Let_def
      split: msg.splits if_splits prod.splits option.splits)
  show "x \<in> set (snd (server_Update F ToLower msg s)) \<Longrightarrow> \<not> steers x"
    by (auto simp: server_Update_def server_mouse_def server_snapshots_def Let_def
        split: msg.splits mouse.splits option.splits if_splits)
qed

lemma propagate_tabs:
  assumes "propagate E now msg m w = Ok (m', c, w')"
  shows "rt_tabs m' = fst (tabs_Update msg (rt_tabs m))" "rt_activeTab m' = rt_activeTab m"
    "filter steers c = filter steers (snd (tabs_Update msg (rt_tabs m)))"
proof -
  have none: "filter steers (snd (player_Update L ToLower msg p)) = []" "filter steers (snd (help_Update msg h)) = []"
    "filter steers (snd (console_Update I ToLower safe render now msg cm)) = []"
    "filter steers (snd (status_Update msg sb)) = []"
    "filter steers (fst (snd (config_Update I S Write prt msg cg w))) = []"
    "filter steers (snd (server_Update F ToLower msg s)) = []"
    for L ToLower and p :: "'a tablePlayerModel" and h I safe render and cm :: "('a, 'b, 'c) consoleModel" and sb F s
      and S Write prt cg and w :: 'd
    by (auto simp: filter_empty_conv dest: no_tab_cmds)
  from assms show "rt_tabs m' = fst (tabs_Update msg (rt_tabs m))" "rt_activeTab m' = rt_activeTab m"
    "filter steers c = filter steers (snd (tabs_Update msg (rt_tabs m)))"
    by (auto simp: propagate_def case_prod_beta Let_def outcome_bind_Ok_iff none)
qed

text \<open>One update of the root: the tab bar and its message, and the tab that is shown.\<close>

lemma tabs_Update_cmd:
  "tabs_Update msg t = (t', c) \<Longrightarrow> c = [] \<and> tm_selectedTab t' = tm_selectedTab t \<or> c = [TabMsg (tm_selectedTab t')]"
  by (auto simp: tabs_Update_def split: msg.splits mouse.splits option.splits if_splits)

lemma propagate_tab_cmds:
  assumes "propagate E now msg m w = Ok (m', c, w')"
  shows "rt_activeTab m' = rt_activeTab m \<and>
    (filter steers c = [] \<and> tm_selectedTab (rt_tabs m') = tm_selectedTab (rt_tabs m) \<or>
     filter steers c = [TabMsg (tm_selectedTab (rt_tabs m'))] \<and> \<not> steers msg) \<and>
    (tab_ok (tm_selectedTab (rt_tabs m)) \<longrightarrow> tab_ok (tm_selectedTab (rt_tabs m')))"
proof -
  obtain t c1 where t: "tabs_Update msg (rt_tabs m) = (t, c1)" by force
  have "c1 = []" if "steers msg" using t that by (cases msg) (auto simp: tabs_Update_def steers_def)
  with t propagate_tabs [OF assms] tabs_Update_cmd [OF t] tabs_Update_ok [OF _ t] show ?thesis by auto
qed

text \<open>One update of the root: the tab that is shown, the tab that is highlighted and the message between them.\<close>

lemma root_Update_tab:
  assumes "root_Update E now msg m w = Ok (m', c, w')"
  shows "rt_activeTab m' = (case msg of TabMsg tab \<Rightarrow> if isInitialized m then tab else rt_activeTab m | _ \<Rightarrow> rt_activeTab m) \<and>
    (filter steers c = [] \<and> tm_selectedTab (rt_tabs m') = tm_selectedTab (rt_tabs m) \<or>
     filter steers c = [TabMsg (tm_selectedTab (rt_tabs m'))] \<and> \<not> steers msg \<and> isInitialized m) \<and>
    (tab_ok (tm_selectedTab (rt_tabs m)) \<longrightarrow> tab_ok (tm_selectedTab (rt_tabs m'))) \<and>
    isInitialized m' = (case msg of WindowSizeMsg h wd \<Rightarrow> h \<noteq> 0 \<and> wd \<noteq> 0 | _ \<Rightarrow> isInitialized m)"
proof (cases "isInitialized m \<or> (\<exists>h wd. msg = WindowSizeMsg h wd)")
  case False
  with assms show ?thesis by (cases msg) (auto simp: root_Update_def)
next
  case True
  have k: "rt_tabs (fst (root_key key m)) = rt_tabs m" "rt_activeTab (fst (root_key key m)) = rt_activeTab m"
    "isInitialized (fst (root_key key m)) = isInitialized m" for key
    by (simp_all add: root_key_cases toggle_view_def isInitialized_def)
  have p: "rt_activeTab m' = rt_activeTab r \<and>
    (filter steers c = [] \<and> tm_selectedTab (rt_tabs m') = tm_selectedTab (rt_tabs m) \<or>
     filter steers c = [TabMsg (tm_selectedTab (rt_tabs m'))] \<and> \<not> steers msg) \<and>
    (tab_ok (tm_selectedTab (rt_tabs m)) \<longrightarrow> tab_ok (tm_selectedTab (rt_tabs m'))) \<and> isInitialized m' = isInitialized r"
    if "propagate E now msg r w = Ok (m', c, w')" "rt_tabs r = rt_tabs m" for r
    using propagate_tab_cmds [OF that(1)] propagate_size [OF that(1)] that(2) by simp
  show ?thesis
  proof (cases msg)
    case (KeyMsg key)
    with True have i: "isInitialized m" by simp
    show ?thesis
    proof (cases "snd (root_key key m)")
      case None
      with assms KeyMsg i have "propagate E now msg (fst (root_key key m)) w = Ok (m', c, w')"
        by (simp add: root_Update_def case_prod_beta)
      from p [OF this] k [of key] i KeyMsg show ?thesis by simp
    next
      case (Some x)
      with assms KeyMsg i have "m' = fst (root_key key m)" "c = [x]" by (simp_all add: root_Update_def case_prod_beta)
      moreover from Some have "\<not> steers x" by (auto simp: root_key_def split: if_splits)
      ultimately show ?thesis using k [of key] i KeyMsg by simp
    qed
  next
    case (TabMsg tab)
    with assms True p [of "m\<lparr>rt_activeTab := tab\<rparr>"] show ?thesis by (auto simp: root_Update_def isInitialized_def)
  next
    case (ViewMsg view)
    with assms True p [of "m\<lparr>rt_currentView := view\<rparr>"] show ?thesis by (auto simp: root_Update_def isInitialized_def)
  next
    case (WindowSizeMsg h wd)
    with assms show ?thesis by (auto simp: root_Update_def isInitialized_def)
  qed (use assms True p [of m] in \<open>simp_all add: root_Update_def\<close>)
qed

section \<open>Messages delivered in order\<close>

text \<open>The runs in which the messages of commands are delivered in the order they were produced, in a window of at
  least one row and column.\<close>

inductive ui_fifo_step ::
  "('sid, 'f, 'ti, 'w) ui_env \<Rightarrow> ('sid, 'f, 'ti) rootModel \<times> ('sid, 'f) msg list \<times> 'w \<Rightarrow>
     ('sid, 'f, 'ti) rootModel \<times> ('sid, 'f) msg list \<times> 'w \<Rightarrow> bool" for E where
  outside: "external msg \<Longrightarrow> (\<And>h wd. msg = WindowSizeMsg h wd \<Longrightarrow> 0 < h \<and> 0 < wd) \<Longrightarrow>
    root_Update E now msg m w = Ok (m', c, w') \<Longrightarrow> ui_fifo_step E (m, q, w) (m', q @ c, w')"
| pending: "msg \<noteq> QuitMsg \<Longrightarrow> root_Update E now msg m w = Ok (m', c, w') \<Longrightarrow> ui_fifo_step E (m, msg # q, w) (m', q @ c, w')"

text \<open>The highlighted tab is the last one announced, or the one that is shown when no announcement is left.\<close>

definition tabs_ok :: "bool \<Rightarrow> int \<Rightarrow> int \<Rightarrow> ('sid, 'f) msg list \<Rightarrow> bool" where
  "tabs_ok initialized active selected pending \<longleftrightarrow>
     (initialized \<or> pending = []) \<and> tab_ok active \<and> tab_ok selected \<and>
     (\<forall>msg \<in> set pending. \<exists>tab. msg = TabMsg tab \<and> tab_ok tab) \<and>
     (if pending = [] then active = selected else last pending = TabMsg selected)"

definition tabs_inv :: "('sid, 'f, 'ti) rootModel \<times> ('sid, 'f) msg list \<times> 'w \<Rightarrow> bool" where
  "tabs_inv s \<longleftrightarrow>
     (case s of (m, q, _) \<Rightarrow>
        tabs_ok (isInitialized m) (rt_activeTab m) (tm_selectedTab (rt_tabs m)) (filter steers q))"

lemma tabs_ok_initialized: "tabs_ok i active selected p \<Longrightarrow> (i \<Longrightarrow> i') \<Longrightarrow> tabs_ok i' active selected p"
  by (auto simp: tabs_ok_def)

lemma tabs_ok_announce:
  "tabs_ok i active selected p \<Longrightarrow> tab_ok tab \<Longrightarrow> i' \<Longrightarrow> tabs_ok i' active tab (p @ [TabMsg tab])"
  by (auto simp: tabs_ok_def)

lemma tabs_ok_deliver:
  "tabs_ok i active selected (msg # p) \<Longrightarrow>
   \<exists>tab. msg = TabMsg tab \<and> i \<and> tabs_ok i tab selected p"
  by (auto simp: tabs_ok_def split: if_splits)

text \<open>What an update that leaves the shown tab does to the pair and the announcements.\<close>

lemma tabs_ok_update:
  assumes "root_Update E now msg m w = Ok (m', c, w')"
    and "tabs_ok (isInitialized m) active (tm_selectedTab (rt_tabs m)) p" "isInitialized m \<Longrightarrow> isInitialized m'"
  shows "tabs_ok (isInitialized m') active (tm_selectedTab (rt_tabs m')) (p @ filter steers c)"
proof -
  note u = root_Update_tab [OF assms(1)]
  from assms(2) have "tab_ok (tm_selectedTab (rt_tabs m))" by (simp add: tabs_ok_def)
  with u have s: "tab_ok (tm_selectedTab (rt_tabs m'))" by simp
  from u consider "filter steers c = []" "tm_selectedTab (rt_tabs m') = tm_selectedTab (rt_tabs m)"
    | "filter steers c = [TabMsg (tm_selectedTab (rt_tabs m'))]" "isInitialized m" by auto
  then show ?thesis
  proof cases
    case 1
    with assms(2,3) show ?thesis by (simp add: tabs_ok_initialized)
  next
    case 2
    with tabs_ok_announce [OF assms(2) s assms(3)] show ?thesis by simp
  qed
qed

lemma ui_fifo_step_inv:
  assumes "ui_fifo_step E s s'" "tabs_inv s"
  shows "tabs_inv s'"
  using assms(1)
proof cases
  case (outside msg now m w m' c w' q)
  note u = root_Update_tab [OF outside(5)]
  have "\<forall>tab. msg \<noteq> TabMsg tab" using outside(3) by (auto simp: external_def)
  then have active: "rt_activeTab m' = rt_activeTab m" using u by (cases msg) simp_all
  have "isInitialized m'" if "isInitialized m"
    using u outside(4) that by (cases msg) auto
  from tabs_ok_update [OF outside(5) _ this] active assms(2) outside(1,2)
  show ?thesis by (simp add: tabs_inv_def)
next
  case (pending msg now m w m' c w' q)
  note u = root_Update_tab [OF pending(4)]
  show ?thesis
  proof (cases "steers msg")
    case True
    with assms(2) pending(1)
    have "tabs_ok (isInitialized m) (rt_activeTab m) (tm_selectedTab (rt_tabs m)) (msg # filter steers q)"
      by (simp add: tabs_inv_def)
    then obtain tab where "msg = TabMsg tab" "isInitialized m"
      "tabs_ok (isInitialized m) tab (tm_selectedTab (rt_tabs m)) (filter steers q)"
      using tabs_ok_deliver by blast
    with tabs_ok_update [OF pending(4) this(3)] u pending(2) show ?thesis by (simp add: tabs_inv_def)
  next
    case False
    then have same: "rt_activeTab m' = rt_activeTab m" "isInitialized m' = isInitialized m"
      using u by (cases msg; simp)+
    with tabs_ok_update [OF pending(4), of "rt_activeTab m" "filter steers q"] False assms(2) pending(1,2)
    show ?thesis by (simp add: tabs_inv_def)
  qed
qed

interpretation in_order: step_invariant "ui_fifo_step E" tabs_inv
  by unfold_locales (rule ui_fifo_step_inv)

lemma new_tabs [simp]:
  "rt_tabs (newRootModel E conf doSetup v d g p cp) = newTabsModel"
  "rt_activeTab (newRootModel E conf doSetup v d g p cp) = tm_selectedTab newTabsModel"
  by (simp_all add: newRootModel_def newTabsModel_def case_prod_beta Let_def)

lemma new_tab_ok: "tab_ok (tm_selectedTab newTabsModel)"
  by (simp add: newTabsModel_def tab_ok_def tab_defs)

text \<open>C38: when the messages of commands are delivered in order, the panel that is shown and the tab that is highlighted
  are always tabs of the bar, and they are the same tab whenever no announcement of a tab is under way.\<close>

theorem tabs_agree_in_order:
  assumes "(ui_fifo_step E)\<^sup>*\<^sup>* (newRootModel E conf doSetup v d g p cp, [], w) (m, q, w')"
  shows "tab_ok (rt_activeTab m) \<and> tab_ok (tm_selectedTab (rt_tabs m)) \<and>
    ((\<forall>tab. TabMsg tab \<notin> set q) \<longrightarrow> rt_activeTab m = tm_selectedTab (rt_tabs m))"
proof -
  have "tabs_inv (newRootModel E conf doSetup v d g p cp, [], w)"
    using new_tab_ok by (simp add: tabs_inv_def tabs_ok_def)
  from in_order.runs_inv [OF assms this]
  have inv: "tabs_ok (isInitialized m) (rt_activeTab m) (tm_selectedTab (rt_tabs m)) (filter steers q)"
    by (simp add: tabs_inv_def)
  have "filter steers q = []" if "\<forall>tab. TabMsg tab \<notin> set q"
    using inv that by (auto simp: tabs_ok_def filter_empty_conv)
  with inv show ?thesis by (auto simp: tabs_ok_def)
qed

section \<open>Messages delivered in any order\<close>

text \<open>Several messages one after the other, and all the commands they lead to.\<close>

fun root_updates ::
  "('sid, 'f, 'ti, 'w) ui_env \<Rightarrow> (time \<times> ('sid, 'f) msg) list \<Rightarrow> ('sid, 'f, 'ti) rootModel \<Rightarrow> 'w \<Rightarrow>
     (('sid, 'f, 'ti) rootModel \<times> ('sid, 'f) cmd \<times> 'w) outcome" where
  "root_updates E [] m w = Ok (m, [], w)"
| "root_updates E ((now, msg) # msgs) m w =
     outcome_bind (root_Update E now msg m w) (\<lambda>(m, c, w).
       outcome_bind (root_updates E msgs m w) (\<lambda>(m', c', w'). Ok (m', c @ c', w')))"

text \<open>The tab after the last one is the first one.\<close>

definition following :: "tabView \<Rightarrow> tabView" where
  "following tab = (if tab = tabConsole then tabServers else tab + 1)"

lemma following_ok: "tab_ok tab \<Longrightarrow> tab_ok (following tab) \<and> following tab \<noteq> tab"
  by (auto simp: following_def tab_ok_def tab_defs)

lemma next_following: "tab_ok tab \<Longrightarrow> tab_key ''tab'' tab = Some (following tab)"
  by (auto simp: next_tab following_def tab_ok_def tab_defs)

lemma tab_key_step:
  assumes "isInitialized m" "tab_ok (tm_selectedTab (rt_tabs m))"
  shows "\<exists>m' c w'. root_Update E now (KeyMsg ''tab'') m w = Ok (m', c, w') \<and> isInitialized m' \<and>
    rt_activeTab m' = rt_activeTab m \<and> tm_selectedTab (rt_tabs m') = following (tm_selectedTab (rt_tabs m)) \<and>
    filter steers c = [TabMsg (following (tm_selectedTab (rt_tabs m)))]"
proof -
  have k: "root_key ''tab'' m = (m, None)" by (simp add: root_key_cases)
  obtain m' c w' where p: "propagate E now (KeyMsg ''tab'') m w = Ok (m', c, w')"
    using propagate_no_panic [of E "KeyMsg ''tab''" m "rt_chat m" now w] by (auto simp: chat_Update_def)
  with k assms(1) have u: "root_Update E now (KeyMsg ''tab'') m w = Ok (m', c, w')" by (simp add: root_Update_def)
  from propagate_tabs [OF p] assms(2) root_Update_tab [OF u] assms(1) u show ?thesis
    by (simp add: tabs_Update_def next_following)
qed

lemma tab_deliver_step:
  assumes "isInitialized m"
  shows "\<exists>m' c w'. root_Update E now (TabMsg tab) m w = Ok (m', c, w') \<and> isInitialized m' \<and>
    rt_activeTab m' = tab \<and> rt_tabs m' = rt_tabs m \<and> filter steers c = []"
proof -
  let ?m = "m\<lparr>rt_activeTab := tab\<rparr>"
  obtain m' c w' where p: "propagate E now (TabMsg tab) ?m w = Ok (m', c, w')"
    using propagate_no_panic [of E "TabMsg tab" ?m "rt_chat ?m" now w] by (auto simp: chat_Update_def)
  with assms have u: "root_Update E now (TabMsg tab) m w = Ok (m', c, w')" by (simp add: root_Update_def)
  from propagate_tabs [OF p] root_Update_tab [OF u] assms u show ?thesis by (simp add: tabs_Update_def)
qed

lemma tab_deliver_two:
  assumes "isInitialized m"
  shows "\<exists>m' c w'. root_updates E [(t1, TabMsg tab1), (t2, TabMsg tab2)] m w = Ok (m', c, w') \<and> filter steers c = [] \<and>
    rt_activeTab m' = tab2 \<and> rt_tabs m' = rt_tabs m"
proof -
  obtain m1 c1 w1 where 1: "root_Update E t1 (TabMsg tab1) m w = Ok (m1, c1, w1)" "isInitialized m1" "rt_tabs m1 = rt_tabs m"
    "filter steers c1 = []" using tab_deliver_step [OF assms, of E t1 tab1 w] by blast
  obtain m2 c2 w2 where "root_Update E t2 (TabMsg tab2) m1 w1 = Ok (m2, c2, w2)" "rt_activeTab m2 = tab2" "rt_tabs m2 = rt_tabs m1"
    "filter steers c2 = []" using tab_deliver_step [OF 1(2), of E t2 tab2 w1] by blast
  with 1 show ?thesis by simp
qed

text \<open>C12: the two announcements of two presses of the tab key decide by their order. In every interface with a window the
  presses announce the next tab and the one after it, and the bar highlights the last one. Delivered in this order
  the announcements lead to the panel of the highlighted tab; delivered in the other order they lead to the panel
  before it, and no announcement is left that would change it.\<close>

theorem tabs_can_disagree:
  assumes "isInitialized m" "tab_ok (tm_selectedTab (rt_tabs m))"
  shows "let tab1 = following (tm_selectedTab (rt_tabs m)); tab2 = following tab1
    in tab1 \<noteq> tab2 \<and>
       (\<exists>m2 c w2. root_updates E [(t1, KeyMsg ''tab''), (t2, KeyMsg ''tab'')] m w = Ok (m2, c, w2) \<and>
          filter steers c = [TabMsg tab1, TabMsg tab2] \<and> rt_activeTab m2 = rt_activeTab m \<and>
          (\<exists>m' c' w'. root_updates E [(t3, TabMsg tab1), (t4, TabMsg tab2)] m2 w2 = Ok (m', c', w') \<and> filter steers c' = [] \<and>
             tm_selectedTab (rt_tabs m') = tab2 \<and> rt_activeTab m' = tab2) \<and>
          (\<exists>m' c' w'. root_updates E [(t3, TabMsg tab2), (t4, TabMsg tab1)] m2 w2 = Ok (m', c', w') \<and> filter steers c' = [] \<and>
             tm_selectedTab (rt_tabs m') = tab2 \<and> rt_activeTab m' = tab1))"
proof -
  let ?tab1 = "following (tm_selectedTab (rt_tabs m))"
  let ?tab2 = "following ?tab1"
  note ok = following_ok [OF assms(2)]
  obtain m1 c1 w1 where 1: "root_Update E t1 (KeyMsg ''tab'') m w = Ok (m1, c1, w1)" "isInitialized m1"
    "rt_activeTab m1 = rt_activeTab m" "tm_selectedTab (rt_tabs m1) = ?tab1" "filter steers c1 = [TabMsg ?tab1]"
    using tab_key_step [OF assms, of E t1 w] by blast
  obtain m2 c2 w2 where 2: "root_Update E t2 (KeyMsg ''tab'') m1 w1 = Ok (m2, c2, w2)" "isInitialized m2"
    "rt_activeTab m2 = rt_activeTab m1" "tm_selectedTab (rt_tabs m2) = ?tab2" "filter steers c2 = [TabMsg ?tab2]"
    using tab_key_step [OF 1(2), of E t2 w1] ok 1(4) by auto
  have run: "root_updates E [(t1, KeyMsg ''tab''), (t2, KeyMsg ''tab'')] m w = Ok (m2, c1 @ c2, w2)"
    using 1(1) 2(1) by simp
  have announced: "filter steers (c1 @ c2) = [TabMsg ?tab1, TabMsg ?tab2]" "rt_activeTab m2 = rt_activeTab m"
    using 1 2 by simp_all
  have order: "\<exists>m' c' w'. root_updates E [(t3, TabMsg tab), (t4, TabMsg tab')] m2 w2 = Ok (m', c', w') \<and> filter steers c' = [] \<and>
      tm_selectedTab (rt_tabs m') = ?tab2 \<and> rt_activeTab m' = tab'" for tab tab'
    using tab_deliver_two [OF 2(2), of E t3 tab t4 tab' w2] 2(4) by metis
  have neq: "?tab1 \<noteq> ?tab2" using following_ok [of ?tab1] ok by auto
  show ?thesis unfolding Let_def
    by (rule conjI [OF neq], rule exI [of _ m2], rule exI [of _ "c1 @ c2"], rule exI [of _ w2])
      (intro conjI run announced order)
qed

text \<open>The fresh interface of the demonstration, whose bar highlights the servers.\<close>

theorem tabs_can_disagree_witness:
  "\<exists>m c w m' c' w'.
     root_updates demo_env [(1, KeyMsg ''tab''), (2, KeyMsg ''tab'')] (demo_sized (zero_Config num_sid)) [] = Ok (m, c, w) \<and>
     filter steers c = [TabMsg tabPlayers, TabMsg tabBans] \<and>
     root_updates demo_env [(3, TabMsg tabBans), (4, TabMsg tabPlayers)] m w = Ok (m', c', w') \<and> filter steers c' = [] \<and>
     tm_selectedTab (rt_tabs m') = tabBans \<and> rt_activeTab m' = tabPlayers"
proof -
  have i: "tab_ok (tm_selectedTab (rt_tabs (demo_sized (zero_Config num_sid))))" using new_tab_ok by simp
  have t: "following (tm_selectedTab newTabsModel) = tabPlayers" "following tabPlayers = tabBans"
    by (simp_all add: following_def newTabsModel_def tab_defs)
  from tabs_can_disagree [OF demo_initialized i, of demo_env 1 2 "[]" 3 4] show ?thesis
    by (auto simp: t Let_def simp del: root_updates.simps)
qed

text \<open>The size of the view port and the tab key make no model but the tab bar announce anything.\<close>

lemma quiet_cmds:
  assumes "propagate E now msg m w = Ok (m', c, w')" "msg = ViewPortMsg i j k \<or> msg = KeyMsg ''tab''"
  shows "set c = set (snd (tabs_Update msg (rt_tabs m)))"
proof -
  have "\<not> Matches ''tab'' (km_up defaultKeyMap)" "\<not> Matches ''tab'' (km_down defaultKeyMap)"
    "\<not> Matches ''tab'' (km_back defaultKeyMap)" "\<not> Matches ''tab'' (km_accept defaultKeyMap)"
    by (simp_all add: Matches_def defaultKeyMap_def)
  with assms(2) show ?thesis unfolding propagate_Ok(7) [OF assms(1)]
    by (elim disjE) (simp_all add: player_Update_def help_Update_def console_Update_def status_Update_def config_Update_def
        config_key_def server_Update_def Let_def)
qed

lemma demo_fifo_window:
  "\<exists>m w. (ui_fifo_step demo_env)\<^sup>*\<^sup>* (demo_root conf, [], []) (m, [], w) \<and> isInitialized m \<and>
     rt_tabs m = newTabsModel\<lparr>tm_width := 80\<rparr>"
proof -
  let ?m = "demo_sized conf" and ?v = "ViewPortMsg 22 24 80"
  have "rt_headerHeight (demo_root conf) = 1" "rt_footerHeight (demo_root conf) = 1"
    by (simp_all add: newRootModel_def case_prod_beta Let_def)
  then have "root_Update demo_env 0 (WindowSizeMsg 24 80) (demo_root conf) [] = Ok (?m, [?v], [])"
    by (simp add: root_Update_def)
  from ui_fifo_step.outside [OF _ _ this, of "[]"]
  have s1: "ui_fifo_step demo_env (demo_root conf, [], []) (?m, [?v], [])" by (simp add: external_def)
  obtain m c w where p: "propagate demo_env 0 ?v ?m [] = Ok (m, c, w)"
    using propagate_no_panic [of demo_env ?v ?m "rt_chat ?m\<lparr>cm_width := 80, cm_ready := True\<rparr>" 0 "[]"] by (auto simp: chat_Update_def)
  then have u: "root_Update demo_env 0 ?v ?m [] = Ok (m, c, w)" using demo_initialized by (simp add: root_Update_def)
  from quiet_cmds [OF p] have "c = []" by (simp add: tabs_Update_def)
  with ui_fifo_step.pending [OF _ u, of "[]"] have "ui_fifo_step demo_env (?m, [?v], []) (m, [], w)" by simp
  moreover have "isInitialized m" using root_Update_tab [OF u] demo_initialized by simp
  moreover have "rt_tabs m = newTabsModel\<lparr>tm_width := 80\<rparr>" using propagate_tabs [OF p] by (simp add: tabs_Update_def)
  ultimately show ?thesis using s1 by (meson converse_rtranclp_into_rtranclp r_into_rtranclp)
qed

text \<open>The size of the window, the tab key and the delivery of what they announce.\<close>

lemma demo_fifo_tab:
  "\<exists>m q w. (ui_fifo_step demo_env)\<^sup>*\<^sup>* (demo_root conf, [], []) (m, q, w) \<and> filter steers q = [] \<and>
     tm_selectedTab (rt_tabs m) = tabPlayers"
proof -
  obtain m w where 1: "(ui_fifo_step demo_env)\<^sup>*\<^sup>* (demo_root conf, [], []) (m, [], w)" "isInitialized m"
    "rt_tabs m = newTabsModel\<lparr>tm_width := 80\<rparr>" using demo_fifo_window by blast
  let ?key = "KeyMsg ''tab''"
  obtain m1 c1 w1 where p: "propagate demo_env 0 ?key m w = Ok (m1, c1, w1)"
    using propagate_no_panic [of demo_env ?key m "rt_chat m" 0 w] by (auto simp: chat_Update_def)
  have "root_key ''tab'' m = (m, None)" by (simp add: root_key_cases)
  with p 1(2) have u: "root_Update demo_env 0 ?key m w = Ok (m1, c1, w1)" by (simp add: root_Update_def)
  have t: "tm_selectedTab (rt_tabs m1) = 1" "filter steers c1 = [TabMsg 1]" "set c1 = {TabMsg 1}"
    using propagate_tabs [OF p] quiet_cmds [OF p] 1(3) by (simp_all add: tabs_Update_def next_tab newTabsModel_def tab_defs)
  from t(3) have "filter steers c1 = c1" by (auto simp: filter_id_conv)
  with t(2) have c1: "c1 = [TabMsg 1]" by simp
  from ui_fifo_step.outside [OF _ _ u, of "[]"] c1
  have s1: "ui_fifo_step demo_env (m, [], w) (m1, [TabMsg 1], w1)" by (simp add: external_def)
  have i1: "isInitialized m1" using root_Update_tab [OF u] 1(2) by simp
  let ?m = "m1\<lparr>rt_activeTab := 1\<rparr>"
  obtain m2 c2 w2 where p2: "propagate demo_env 0 (TabMsg 1) ?m w1 = Ok (m2, c2, w2)"
    using propagate_no_panic [of demo_env "TabMsg 1" ?m "rt_chat ?m" 0 w1] by (auto simp: chat_Update_def)
  with i1 have u2: "root_Update demo_env 0 (TabMsg 1) m1 w1 = Ok (m2, c2, w2)" by (simp add: root_Update_def)
  from ui_fifo_step.pending [OF _ u2, of "[]"] have "ui_fifo_step demo_env (m1, [TabMsg 1], w1) (m2, c2, w2)" by simp
  moreover have "tm_selectedTab (rt_tabs m2) = tabPlayers" "filter steers c2 = []"
    using propagate_tabs [OF p2] t(1) by (simp_all add: tabs_Update_def tab_defs)
  ultimately show ?thesis using 1(1) s1 by (meson rtranclp.rtrancl_into_rtrancl)
qed

text \<open>The run of the demonstration interface in which the tab key is pressed once ends with the players shown.\<close>

theorem tabs_agree_in_order_witness:
  "\<exists>m q w. (ui_fifo_step demo_env)\<^sup>*\<^sup>* (demo_root (zero_Config num_sid), [], []) (m, q, w) \<and>
     tm_selectedTab (rt_tabs m) = tabPlayers \<and> rt_activeTab m = tabPlayers"
proof -
  obtain m q w where r: "(ui_fifo_step demo_env)\<^sup>*\<^sup>* (demo_root (zero_Config num_sid), [], []) (m, q, w)"
    "filter steers q = []" "tm_selectedTab (rt_tabs m) = tabPlayers" using demo_fifo_tab by blast
  from r(2) have "\<forall>tab. TabMsg tab \<notin> set q" by (auto simp: filter_empty_conv)
  with tabs_agree_in_order [OF r(1)] r show ?thesis by auto
qed

end
