(* ===== verification/App.thy ===== *)
theory App
  imports Manager Network Ui_Root Store Cache Bd "HOL-Library.Sublist"
begin

text \<open>
  internal/cmd/tf-tui/app.go and main.go: the container that joins the parts of the program. Its goroutines
  share the unbuffered channel \<open>uiUpdates\<close>: the main loop and \<open>logEventUpdater\<close> each hold at most one message
  they are sending on it, which \<open>uiSender\<close> takes and hands to the interface. \<open>app_do\<close> is one action of one
  goroutine, a run is a list of actions in the order they happen.
\<close>

section \<open>The application\<close>

text \<open>The interface is known by the messages sent to it; nil before it is created.\<close>

record ('sid, 'f, 't, 'a, 'c) App =
  ap_ui :: "('sid, 'f) msg list option"
  ap_config :: "'sid Config"
  ap_state :: "('sid, 'f, 't, 'a, 'c) Manager"
  ap_router :: Router

definition app_New ::
  "'sid Config \<Rightarrow> ('sid, 'f, 't, 'a, 'c) Manager \<Rightarrow> Router \<Rightarrow> ('sid, 'f, 't, 'a, 'c) App" where
  "app_New conf states router = \<lparr>ap_ui = None, ap_config = conf, ap_state = states, ap_router = router\<rparr>"

definition ui_Send :: "('sid, 'f) msg \<Rightarrow> ('sid, 'f, 't, 'a, 'c) App \<Rightarrow> ('sid, 'f, 't, 'a, 'c) App" where
  "ui_Send msg app = app\<lparr>ap_ui := map_option (\<lambda>sent. sent @ [msg]) (ap_ui app)\<rparr>"

text \<open>A command of the console of the interface, for a server of the configuration; its errors are logged.\<close>

definition onRCONCommand ::
  "('c1, 'w) rcon_lib \<Rightarrow> ('sid, 'f, 't, 'a, 'c) App \<Rightarrow> string \<Rightarrow> string \<Rightarrow> 'w \<Rightarrow> 'w option" where
  "onRCONCommand R app hostPort command w =
     (case first_such (\<lambda>server. hostPort = sc_Address server) (cf_Servers (ap_config app)) of
        None \<Rightarrow> Some w
      | Some server \<Rightarrow> map_option snd (Exec R (New (sc_Address server) (sc_Password server)) command True w))"

text \<open>The snapshots for the interface. Fields of the server the program does not fill are zero.\<close>

definition ui_Player :: "'sid Player \<Rightarrow> 'sid UIPlayer" where
  "ui_Player player =
     \<lparr>up_SteamID = pl_SteamID player, up_Name = pl_Name player, up_Ping = pl_Ping player, up_Score = pl_Score player,
      up_Deaths = pl_Deaths player, up_Connected = pl_Connected player, up_Team = pl_Team player,
      up_Alive = pl_Alive player, up_Health = pl_Health player, up_Valid = pl_Valid player,
      up_UserID = pl_UserID player, up_Bans = mp_Bans (pl_Meta player),
      up_CommunityBanned = mp_CommunityBanned (pl_Meta player),
      up_CommunityVisibilityState = mp_CommunityVisibilityState (pl_Meta player),
      up_CompetitiveTeams = mp_CompetitiveTeams (pl_Meta player),
      up_DaysSinceLastBan = mp_DaysSinceLastBan (pl_Meta player), up_EconomyBan = mp_EconomyBan (pl_Meta player),
      up_Friends = mp_Friends (pl_Meta player), up_LogsCount = mp_LogsCount (pl_Meta player),
      up_NumberOfGameBans = mp_NumberOfGameBans (pl_Meta player),
      up_NumberOfVacBans = mp_NumberOfVacBans (pl_Meta player), up_PersonaName = mp_PersonaName (pl_Meta player),
      up_ProfileState = mp_ProfileState (pl_Meta player), up_RealName = mp_RealName (pl_Meta player),
      up_TimeCreated = mp_TimeCreated (pl_Meta player), up_Address = pl_Address player, up_Loss = pl_Loss player,
      up_Time = pl_Time player\<rparr>"

definition ui_Snapshot :: "'f \<Rightarrow> ('sid, 'f) Snapshot \<Rightarrow> ('sid, 'f) UISnapshot" where
  "ui_Snapshot z snap =
     (let status = ss_Status (sn_Status snap)
      in \<lparr>un_HostPort = sn_HostPort snap,
          un_Server = (zero_UIServer z)\<lparr>us_Hostname := xs_ServerName status, us_Map := xs_Map status,
            us_Region := sn_Region snap, us_Tags := xs_Tags status, us_Players := map ui_Player (sn_Players snap)\<rparr>,
          un_Status = sn_Status snap, un_PluginsSM = sn_PluginsSM snap, un_PluginsMeta = sn_PluginsMeta snap,
          un_CVars = sn_CVars snap\<rparr>)"

text \<open>
  The slice sent first is sorted in place by the table of the servers, so that its first entry may be any of the
  snapshots when it is read for the second message: \<open>first\<close> is the index it had.
\<close>

definition updateUIState ::
  "'f \<Rightarrow> (nat \<Rightarrow> time) \<Rightarrow> nat \<Rightarrow> ('sid, 'f, 't, 'a, 'c) App \<Rightarrow> ('sid, 'f, 't, 'a, 'c) App" where
  "updateUIState z clock first app =
     (if ap_ui app = None then app
      else let uiSnaps = map (ui_Snapshot z) (Snapshots clock (ap_state app));
               app = ui_Send (SnapshotsMsg uiSnaps) app
           in if length uiSnaps > 0 then ui_Send (SnapshotMsg (uiSnaps ! first)) app else app)"

definition createUI :: "('sid, 'f, 't, 'a, 'c) App \<Rightarrow> ('sid, 'f, 't, 'a, 'c) App" where
  "createUI app = (if ap_ui app = None then app\<lparr>ap_ui := Some []\<rparr> else app)"

section \<open>The goroutines\<close>

text \<open>The messages that are being sent on \<open>uiUpdates\<close>, the channels of the router, and whether \<open>Start\<close> is
  still running. \<open>events\<close> numbers the channel of \<open>logEventUpdater\<close>.\<close>

record ('sid, 'f, 't, 'a, 'c, 'w) app_state =
  as_app :: "('sid, 'f, 't, 'a, 'c) App"
  as_chans :: "'sid Event chans"
  as_events :: nat
  as_main :: "('sid, 'f) msg option"
  as_log :: "('sid, 'f) msg option"
  as_world :: 'w
  as_running :: bool

text \<open>What \<open>Start\<close> does before its loop: the channel for the log events, registered for all hosts.\<close>

definition app_Start ::
  "nat \<Rightarrow> ('sid, 'f, 't, 'a, 'c) App \<Rightarrow> 'sid Event chans \<Rightarrow> 'w \<Rightarrow> ('sid, 'f, 't, 'a, 'c, 'w) app_state" where
  "app_Start eventChan app cs w =
     \<lparr>as_app = app\<lparr>ap_router := ListenFor [] eventChan [EvAny] (ap_router app)\<rparr>,
      as_chans = cs(eventChan := make_chan 10), as_events = eventChan, as_main = None, as_log = None,
      as_world = w, as_running = True\<rparr>"

text \<open>The state collector runs in a goroutine of its own: an address in use ends the program.\<close>

definition EADDRINUSE :: sentinel where
  "EADDRINUSE = ErrForeign ''address already in use''"

definition start_states ::
  "'r receiver_fun \<Rightarrow> ('a, 'c, 'w) net_lib \<Rightarrow> ('t, 'w) tail_lib \<Rightarrow> ('sid, 'f, 't, 'a, 'c) App \<Rightarrow> source_turns \<Rightarrow>
     'r \<Rightarrow> 'w \<Rightarrow> (('sid, 'f, 't, 'a, 'c) App \<times> 'r \<times> 'w) outcome" where
  "start_states send N T app turns r w =
     outcome_bind (Manager_Start send N T (ap_state app) turns r w) (\<lambda>(err, m, r, w).
       case err of
         Some e \<Rightarrow> if errors_Is e EADDRINUSE then Panic else Ok (app\<lparr>ap_state := m\<rparr>, r, w)
       | None \<Rightarrow> Ok (app\<lparr>ap_state := m\<rparr>, r, w))"

text \<open>The ports \<open>Start\<close> has mapped, if any.\<close>

definition upnp_ports :: "'sid Config \<Rightarrow> (int \<times> int) option" where
  "upnp_ports conf =
     (if cf_ServerModeEnabled conf \<and> cf_ServerUPNPEnabled conf then Some (UPNPPortMapping conf) else None)"

datatype (plugins only: code size) ('sid, 'f, 't, 'a, 'c) app_act =
    Line time string string                       \<comment> \<open>a source sends a line of a host to the router\<close>
  | LogRecv | LogSend                             \<comment> \<open>\<open>logEventUpdater\<close>, the second with \<open>uiSender\<close>\<close>
  | ConfRecv "'sid Config" | MainSend             \<comment> \<open>the main loop, the second with \<open>uiSender\<close>\<close>
  | ParentRecv string string                      \<comment> \<open>the main loop: a command of the interface\<close>
  | StateTick "nat \<Rightarrow> time" nat                   \<comment> \<open>\<open>stateSyncer\<close>\<close>
  | Collect "('sid, 'f, 't, 'a, 'c) Manager"      \<comment> \<open>the state collector has changed its servers\<close>
  | CreateUI | Done

definition app_do ::
  "'sid steamid_pkg \<Rightarrow> 'f \<Rightarrow> ('c1, 'w) rcon_lib \<Rightarrow> ('sid, 'f, 't, 'a, 'c) app_act \<Rightarrow>
     ('sid, 'f, 't, 'a, 'c, 'w) app_state \<Rightarrow> ('sid, 'f, 't, 'a, 'c, 'w) app_state option" where
  "app_do L z R act s =
     (if \<not> as_running s then None
      else case act of
        Line now hostPort line \<Rightarrow> Some (s\<lparr>as_chans := Send L now (ap_router (as_app s)) hostPort line (as_chans s)\<rparr>)
      | LogRecv \<Rightarrow>
          (case (as_log s, ch_buf (as_chans s (as_events s))) of
             (None, evt # buf) \<Rightarrow>
               Some (s\<lparr>as_log := Some (EventMsg evt),
                       as_chans := (as_chans s)(as_events s := (as_chans s (as_events s))\<lparr>ch_buf := buf\<rparr>)\<rparr>)
           | _ \<Rightarrow> None)
      | LogSend \<Rightarrow> map_option (\<lambda>msg. s\<lparr>as_log := None, as_app := ui_Send msg (as_app s)\<rparr>) (as_log s)
      | ConfRecv conf \<Rightarrow> if as_main s = None then Some (s\<lparr>as_main := Some (ConfigMsg conf)\<rparr>) else None
      | MainSend \<Rightarrow> map_option (\<lambda>msg. s\<lparr>as_main := None, as_app := ui_Send msg (as_app s)\<rparr>) (as_main s)
      | ParentRecv hostPort command \<Rightarrow>
          if as_main s = None
          then map_option (\<lambda>w. s\<lparr>as_world := w\<rparr>) (onRCONCommand R (as_app s) hostPort command (as_world s)) else None
      | StateTick clock first \<Rightarrow>
          if first < max 1 (length (mg_serverStates (ap_state (as_app s))))
          then Some (s\<lparr>as_app := updateUIState z clock first (as_app s)\<rparr>) else None
      | Collect states \<Rightarrow> Some (s\<lparr>as_app := (as_app s)\<lparr>ap_state := states\<rparr>\<rparr>)
      | CreateUI \<Rightarrow> Some (s\<lparr>as_app := createUI (as_app s)\<rparr>)
      | Done \<Rightarrow> if as_main s = None then Some (s\<lparr>as_running := False\<rparr>) else None)"

fun app_run ::
  "'sid steamid_pkg \<Rightarrow> 'f \<Rightarrow> ('c1, 'w) rcon_lib \<Rightarrow> ('sid, 'f, 't, 'a, 'c) app_act list \<Rightarrow>
     ('sid, 'f, 't, 'a, 'c, 'w) app_state \<Rightarrow> ('sid, 'f, 't, 'a, 'c, 'w) app_state option" where
  "app_run L z R [] s = Some s"
| "app_run L z R (act # acts) s = app_do L z R act s \<bind> app_run L z R acts"

section \<open>The events the interface gets\<close>

definition events_in :: "('sid, 'f) msg list \<Rightarrow> 'sid Event list" where
  "events_in msgs = List.map_filter (\<lambda>msg. case msg of EventMsg e \<Rightarrow> Some e | _ \<Rightarrow> None) msgs"

lemma events_in_simps [simp]:
  "events_in [] = []" "events_in (xs @ ys) = events_in xs @ events_in ys" "events_in (EventMsg e # xs) = e # events_in xs"
  "events_in (ConfigMsg c # xs) = events_in xs" "events_in (SnapshotsMsg ss # xs) = events_in xs"
  "events_in (SnapshotMsg snap # xs) = events_in xs"
  by (simp_all add: events_in_def map_filter_def)

definition ui_events :: "('sid, 'f, 't, 'a, 'c, 'w) app_state \<Rightarrow> 'sid Event list" where
  "ui_events s = events_in (case ap_ui (as_app s) of None \<Rightarrow> [] | Some sent \<Rightarrow> sent)"

text \<open>With the event being sent and those in the channel.\<close>

definition log_seen :: "('sid, 'f, 't, 'a, 'c, 'w) app_state \<Rightarrow> 'sid Event list" where
  "log_seen s = ui_events s @ events_in (case as_log s of None \<Rightarrow> [] | Some msg \<Rightarrow> [msg]) @ ch_buf (as_chans s (as_events s))"

definition lines_of :: "'sid steamid_pkg \<Rightarrow> ('sid, 'f, 't, 'a, 'c) app_act list \<Rightarrow> 'sid Event list" where
  "lines_of L acts = List.map_filter (\<lambda>act. case act of Line now hp line \<Rightarrow> Some (line_event L now hp line) | _ \<Rightarrow> None) acts"

lemma lines_of_Cons: "lines_of L (act # acts) = lines_of L [act] @ lines_of L acts"
  by (simp add: lines_of_def map_filter_def)

text \<open>What holds between the actions: the channel is registered once, for every line, it is the one made with ten
  slots, the main loop only sends configurations and \<open>logEventUpdater\<close> only events.\<close>

definition app_ok :: "('sid, 'f, 't, 'a, 'c, 'w) app_state \<Rightarrow> bool" where
  "app_ok s \<longleftrightarrow>
     (\<forall>hp ty. count_list (recipients (ap_router (as_app s)) hp ty) (as_events s) = 1) \<and>
     ch_cap (as_chans s (as_events s)) = 10 \<and>
     (\<forall>msg. as_main s = Some msg \<longrightarrow> (\<exists>conf. msg = ConfigMsg conf)) \<and>
     (\<forall>msg. as_log s = Some msg \<longrightarrow> (\<exists>e. msg = EventMsg e))"

lemma app_frame [simp]:
  "ap_router (ui_Send msg app) = ap_router app" "ap_router (updateUIState z clock first app) = ap_router app"
  "ap_router (createUI app) = ap_router app" "ap_ui (ui_Send msg app) = map_option (\<lambda>sent. sent @ [msg]) (ap_ui app)"
  by (simp_all add: ui_Send_def updateUIState_def createUI_def Let_def)

lemma enumerate_Nil: "enumerate n xs = [] \<longleftrightarrow> xs = []"
  by (cases xs) simp_all

lemma updateUIState_ui:
  "ap_ui (updateUIState z clock first app) =
     map_option (\<lambda>sent. sent @ SnapshotsMsg (map (ui_Snapshot z) (Snapshots clock (ap_state app))) #
       (if mg_serverStates (ap_state app) = [] then []
        else [SnapshotMsg (map (ui_Snapshot z) (Snapshots clock (ap_state app)) ! first)])) (ap_ui app)"
  by (cases "ap_ui app") (auto simp: updateUIState_def Let_def Snapshots_def enumerate_Nil)

lemma Send_once:
  assumes "count_list (recipients r hp (ev_Type (line_event L now hp line))) h = 1"
  shows "Send L now r hp line cs h =
     (cs h)\<lparr>ch_buf := ch_buf (cs h) @ (if 0 < free_slots (cs h) then [line_event L now hp line] else [])\<rparr>"
  using assms by (auto simp: Send_recipients fold_offer min_def Suc_le_eq)

lemma app_do_ok:
  assumes "app_do L z R act s = Some s'" "app_ok s"
  shows "app_ok s' \<and> as_events s' = as_events s \<and> subseq (log_seen s') (log_seen s @ lines_of L [act])"
proof (cases act)
  case (Line now hp line)
  let ?h = "as_events s"
  from Line assms(1) have s': "s' = s\<lparr>as_chans := Send L now (ap_router (as_app s)) hp line (as_chans s)\<rparr>"
    by (simp add: app_do_def split: if_splits)
  have "count_list (recipients (ap_router (as_app s)) hp (ev_Type (line_event L now hp line))) ?h = 1"
    using assms(2) by (simp add: app_ok_def)
  from Send_once [OF this, of "as_chans s"] s' assms(2) Line show ?thesis
    by (auto simp: app_ok_def log_seen_def ui_events_def lines_of_def map_filter_def)
next
  case LogRecv
  with assms show ?thesis
    by (auto simp: app_do_def app_ok_def log_seen_def ui_events_def lines_of_def map_filter_def
        split: if_splits option.splits list.splits)
next
  case LogSend
  with assms show ?thesis
    by (cases "ap_ui (as_app s)")
      (auto simp: app_do_def app_ok_def log_seen_def ui_events_def lines_of_def map_filter_def split: if_splits)
next
  case MainSend
  with assms show ?thesis
    by (cases "ap_ui (as_app s)")
      (auto simp: app_do_def app_ok_def log_seen_def ui_events_def lines_of_def map_filter_def split: if_splits)
next
  case (StateTick clock first)
  with assms show ?thesis
    by (cases "ap_ui (as_app s)")
      (auto simp: app_do_def app_ok_def log_seen_def ui_events_def lines_of_def map_filter_def updateUIState_ui split: if_splits)
next
  case CreateUI
  with assms show ?thesis
    by (cases "ap_ui (as_app s)")
      (auto simp: app_do_def app_ok_def log_seen_def ui_events_def lines_of_def map_filter_def createUI_def split: if_splits)
qed (use assms in \<open>auto simp: app_do_def app_ok_def log_seen_def ui_events_def lines_of_def map_filter_def split: if_splits\<close>)

lemma app_run_ok:
  assumes "app_run L z R acts s = Some s'" "app_ok s"
  shows "app_ok s' \<and> as_events s' = as_events s \<and> subseq (log_seen s') (log_seen s @ lines_of L acts)"
  using assms
proof (induction acts arbitrary: s)
  case Nil
  then show ?case by (simp add: lines_of_def map_filter_def)
next
  case (Cons act acts)
  from Cons.prems(1) obtain s1 where s1: "app_do L z R act s = Some s1" "app_run L z R acts s1 = Some s'"
    by (auto simp: bind_eq_Some_conv)
  note one = app_do_ok [OF s1(1) Cons.prems(2)]
  with Cons.IH [OF s1(2)] have rest: "app_ok s' \<and> as_events s' = as_events s \<and> subseq (log_seen s') (log_seen s1 @ lines_of L acts)"
    by simp
  have "subseq (log_seen s1 @ lines_of L acts) ((log_seen s @ lines_of L [act]) @ lines_of L acts)"
    by (rule list_emb_append_mono) (use one in simp_all)
  with rest have "subseq (log_seen s') ((log_seen s @ lines_of L [act]) @ lines_of L acts)"
    using subseq_order.trans by blast
  with rest show ?case by (simp add: lines_of_Cons [of L act acts])
qed

lemma ListenFor_recipients:
  "set (recipients (ListenFor hp h tys r) hp' ty) \<subseteq> insert h (set (recipients r hp' ty))"
proof (induction tys arbitrary: r)
  case (Cons a tys)
  have one: "set (recipients (listen_type hp h a r) hp' ty) \<subseteq> insert h (set (recipients r hp' ty))"
    "set (recipients (listen_any hp h r) hp' ty) \<subseteq> insert h (set (recipients r hp' ty))"
    "set (recipients (r\<lparr>ro_readersAll := ro_readersAll r @ [h]\<rparr>) hp' ty) \<subseteq> insert h (set (recipients r hp' ty))"
    by (auto simp: recipients_def type_handlers_listen_type any_handlers_listen_any split: if_splits)
  show ?case
    using Cons.IH [of "listen_type hp h a r"] Cons.IH [of "r\<lparr>ro_readersAll := ro_readersAll r @ [h]\<rparr>"] one by simp blast
qed auto

lemma new_servers_recipients:
  "k \<in> set (recipients (snd (new_servers L z conf servers ch r)) hp ty) \<Longrightarrow>
     k < ch + 2 * length servers \<or> k \<in> set (recipients r hp ty)"
proof (induction servers arbitrary: ch r)
  case (Cons s ss)
  let ?r = "ListenFor (sc_Address s) (Suc ch) [EvAny] (ListenFor (sc_Address s) ch [EvAny] r)"
  have "snd (new_servers L z conf (s # ss) ch r) = snd (new_servers L z conf ss (Suc (Suc ch)) ?r)"
    by (simp add: newServerState_def Let_def split: prod.split)
  with Cons.prems Cons.IH [of "Suc (Suc ch)" ?r] consider "k < Suc (Suc ch) + 2 * length ss" | "k \<in> set (recipients ?r hp ty)"
    by auto
  then show ?case
  proof cases
    case 2
    with ListenFor_recipients [of "sc_Address s" "Suc ch" "[EvAny]" "ListenFor (sc_Address s) ch [EvAny] r" hp ty]
      ListenFor_recipients [of "sc_Address s" ch "[EvAny]" r hp ty]
    have "k = Suc ch \<or> k = ch \<or> k \<in> set (recipients r hp ty)" by blast
    then show ?thesis by auto
  qed simp
qed simp

lemma NewManager_recipients:
  assumes "NewManager L z NewRouter conf = (Inr m, router)" "k \<in> set (recipients router hp ty)"
  shows "k < 2 * length (mg_serverStates m)"
proof -
  obtain servers where s: "mg_serverStates m = fst (new_servers L z conf servers 0 NewRouter)"
    "router = snd (new_servers L z conf servers 0 NewRouter)"
    using NewManager_server(1,2) [OF _ assms(1)] NewManager_client(1,2) [OF _ assms(1)] by blast
  with assms(2) new_servers_recipients [of k L z conf servers 0 NewRouter hp ty] new_servers_states(3) [of L z conf servers 0 NewRouter]
  show ?thesis by (simp add: recipients_def NewRouter_recipients)
qed

lemma app_Start_ok:
  assumes "NewManager L z NewRouter conf = (Inr m, router)" "2 * length (mg_serverStates m) \<le> eventChan"
  shows "app_ok (app_Start eventChan (app_New conf m router) cs w)"
proof -
  have "eventChan \<notin> set (recipients router hp ty)" for hp ty
    using NewManager_recipients [OF assms(1)] assms(2) by (meson linorder_not_le)
  then show ?thesis
    by (auto simp: app_ok_def app_Start_def app_New_def make_chan_def recipients_def count_list_0_iff)
qed

text \<open>C2: whatever the goroutines of the program do and in which order, the interface gets the log events in the order
  their lines were sent to the router, each at most once; of all hosts, and also the lines no pattern matches.\<close>

theorem app_log_in_order:
  fixes s :: "('sid, 'f, 't, 'a, 'c, 'w) app_state"
  assumes "NewManager L z NewRouter conf = (Inr m, router)" "2 * length (mg_serverStates m) \<le> eventChan"
    and "app_run L z R acts (app_Start eventChan (app_New conf m router) cs w) = Some s"
  shows "subseq (ui_events s) (lines_of L acts)"
proof -
  let ?s = "app_Start eventChan (app_New conf m router) cs w :: ('sid, 'f, 't, 'a, 'c, 'w) app_state"
  have "log_seen ?s = []" by (simp add: log_seen_def ui_events_def app_Start_def app_New_def make_chan_def)
  with app_run_ok [OF assms(3) app_Start_ok [OF assms(1,2)]] have "subseq (log_seen s) (lines_of L acts)" by simp
  then show ?thesis unfolding log_seen_def by (rule subseq_order.trans [rotated]) (rule prefix_imp_subseq, simp)
qed

lemma idle_line_arrives:
  assumes "app_ok s" "as_running s" "as_log s = None" "ch_buf (as_chans s (as_events s)) = []" "ap_ui (as_app s) = Some sent"
  shows "\<exists>s'. app_run L z R [Line now hp line, LogRecv, LogSend] s = Some s' \<and>
     ap_ui (as_app s') = Some (sent @ [EventMsg (line_event L now hp line)])"
proof -
  let ?r = "ap_router (as_app s)" and ?h = "as_events s"
  have "count_list (recipients ?r hp (ev_Type (line_event L now hp line))) ?h = 1" "0 < free_slots (as_chans s ?h)"
    using assms(1,4) by (simp_all add: app_ok_def free_slots_def)
  with assms(4) have "ch_buf (Send L now ?r hp line (as_chans s) ?h) = [line_event L now hp line]"
    by (simp add: Send_once)
  with assms(2,3,5) show ?thesis by (simp add: app_do_def)
qed

text \<open>C8: one chat line ends the interface. Once the interface is created and no event is under way, a chat line of any
  host, player and text reaches it as an event on which its model panics, in every state the interface can reach
  with a window.\<close>

theorem chat_line_ends_ui:
  fixes s :: "('sid, 'f, 't, 'a, 'c, 'w) app_state" and E :: "('sid, 'f, 'ti, 'v) ui_env"
  assumes "NewManager L z NewRouter conf = (Inr m, router)" "2 * length (mg_serverStates m) \<le> eventChan"
    and "app_run L z R acts (app_Start eventChan (app_New conf m router) cs w) = Some s"
    and "as_running s" "ap_ui (as_app s) = Some sent" "as_log s = None" "ch_buf (as_chans s (as_events s)) = []"
    and "plain_name '':'' n" "plain_name ''killed'' (chat_text n text)" "text \<noteq> []"
      "\<not> HasPrefix text teamPrefix" "\<not> HasPrefix text deadTeamPrefix" "\<not> HasPrefix text deadPrefix"
  shows "\<exists>s' e. app_run L z R [Line now hp (chat_text n text), LogRecv, LogSend] s = Some s' \<and>
     ap_ui (as_app s') = Some (sent @ [EventMsg e]) \<and>
     (\<forall>r q u. ui_runs E (newRootModel E conf False ver date commit cpath cachePath, [], u0) (r, q, u) \<longrightarrow> isInitialized r \<longrightarrow>
        root_Update E t (EventMsg e) r u = Panic)"
proof -
  let ?e = "line_event L now hp (chat_text n text)"
  have "app_ok s" using app_run_ok [OF assms(3) app_Start_ok [OF assms(1,2)]] by simp
  from idle_line_arrives [OF this assms(4,6,7,5), of L z R now hp "chat_text n text"]
  obtain s' where "app_run L z R [Line now hp (chat_text n text), LogRecv, LogSend] s = Some s'"
    "ap_ui (as_app s') = Some (sent @ [EventMsg ?e])" by blast
  moreover have "ev_Type ?e = EvMsg" "\<exists>evt. ev_Data ?e = MsgData evt"
    using Parse_chat_line [OF assms(8-13), of L now] by (simp_all add: line_event_def)
  ultimately show ?thesis using root_chat_panics [of E conf False ver date commit cpath cachePath u0 _ _ _ ?e _ t] by blast
qed

section \<open>Starting the program\<close>

text \<open>
  main.go: what \<open>run\<close> acquires before it starts the application, and releases when it returns. What comes from
  outside is \<open>main_env\<close>: the environment, the failures of the operating system, what viper reads, the
  constructor of the generated API client, the database, and what a session of the application does.
\<close>

record ('sid, 'f, 't, 'a, 'c, 'w) main_env =
  mn_PROFILE :: string
  mn_Create :: "string \<Rightarrow> go_error option"
  mn_StartCPUProfile :: "go_error option"
  mn_ConfigHome :: string
  mn_ConfigFile :: "string \<Rightarrow> string result"        \<comment> \<open>\<open>xdg.ConfigFile\<close>\<close>
  mn_faults :: os_faults
  mn_os :: os_env
  mn_ReadInConfig :: read_outcome
  mn_Unmarshal :: "'sid Config result"
  mn_NewClientWithResponses :: "string \<Rightarrow> go_error option"
  mn_db :: "'w db_lib"
  mn_migrate :: "'w mig_lib"
  mn_OpenFile :: "string \<Rightarrow> string result"
  mn_session :: "('sid, 'f, 't, 'a, 'c) App \<Rightarrow> 'w \<Rightarrow> 'w"

definition errApp :: sentinel where
  "errApp = ErrForeign ''application error''"

text \<open>\<open>config.Path\<close> panics; \<open>config.LoggerInit\<close> creates the log file.\<close>

definition config_Path :: "(string \<Rightarrow> string result) \<Rightarrow> string \<Rightarrow> string outcome" where
  "config_Path ConfigFile name =
     (case ConfigFile (path_Join [ConfigDirName, name]) of Inl _ \<Rightarrow> Panic | Inr fullPath \<Rightarrow> Ok fullPath)"

definition LoggerInit :: "os_faults \<Rightarrow> string \<Rightarrow> string \<Rightarrow> go_error option" where
  "LoggerInit flt configHome logPath =
     (if of_create flt (path_Join [configHome, ConfigDirName, logPath])
      then Some (errors_Join (os_error ''create'') [errLoggerInit]) else None)"

datatype (plugins only: code size) main_resource =
    ProfileFile | CPUProfile | LogFile | Database | DebugConsole
datatype (plugins only: code size) main_act = Acquire main_resource | RunApp | Release main_resource

type_synonym 'w run_result = "go_error option \<times> main_act list \<times> 'w"

text \<open>A resource that is acquired before the rest of the function runs, and the rest of the function under a
  deferred release. The two are separate, as in the code: an acquisition that no \<open>defer\<close> follows stays in the
  list of acts without its release.\<close>

definition acquired :: "main_resource \<Rightarrow> 'w run_result \<Rightarrow> 'w run_result" where
  "acquired res rest = (case rest of (err, acts, w) \<Rightarrow> (err, Acquire res # acts, w))"

definition deferred :: "main_resource \<Rightarrow> ('w \<Rightarrow> 'w) \<Rightarrow> 'w run_result \<Rightarrow> 'w run_result" where
  "deferred res close rest = (case rest of (err, acts, w) \<Rightarrow> (err, acts @ [Release res], close w))"

definition app_fails :: "go_error \<Rightarrow> 'w \<Rightarrow> 'w run_result" where
  "app_fails e w = (Some (errors_Join e [errApp]), [], w)"

definition run_app ::
  "('sid, 'f, 't, 'a, 'c, 'w) main_env \<Rightarrow> 'sid Config \<Rightarrow> ('sid, 'f, 't, 'a, 'c) Manager \<Rightarrow> Router \<Rightarrow> 'w \<Rightarrow> 'w run_result" where
  "run_app E userConfig states router w =
     (let session = (None, [RunApp], mn_session E (app_New userConfig states router) w)
      in if cf_Debug userConfig then
           (case Debug_Open (mn_OpenFile E) (NewDebug ''testdata/console.log'') of
              (Some errDebug, _) \<Rightarrow> app_fails errDebug w
            | (None, _) \<Rightarrow> acquired DebugConsole (deferred DebugConsole id session))
         else session)"

definition run_states ::
  "'sid steamid_pkg \<Rightarrow> 'f \<Rightarrow> ('sid, 'f, 't, 'a, 'c, 'w) main_env \<Rightarrow> 'sid Config \<Rightarrow> 'w \<Rightarrow> 'w run_result" where
  "run_states L z E userConfig w =
     (case NewManager L z NewRouter userConfig of
        (Inl errStates, _) \<Rightarrow> app_fails errStates w
      | (Inr states, router) \<Rightarrow> run_app E userConfig states router w)"

definition run_services ::
  "'sid steamid_pkg \<Rightarrow> 'f \<Rightarrow> ('sid, 'f, 't, 'a, 'c, 'w) main_env \<Rightarrow> 'sid Config \<Rightarrow> 'w \<Rightarrow> 'w run_result outcome" where
  "run_services L z E userConfig w =
     (case cache_New (mn_faults E) (mn_os E) of
        Inl errCache \<Rightarrow> Ok (app_fails errCache w)
      | Inr _ \<Rightarrow>
     (case mn_NewClientWithResponses E (cf_APIBaseURL userConfig) of
        Some errClient \<Rightarrow> Ok (app_fails errClient w)
      | None \<Rightarrow>
          outcome_bind (config_Path (mn_ConfigFile E) DefaultDBName) (\<lambda>dbPath.
            case store_Open (mn_db E) (mn_migrate E) dbPath True w of
              (Some errDB, w) \<Rightarrow> Ok (app_fails errDB w)
            | (None, w) \<Rightarrow> Ok (acquired Database
                (deferred Database (\<lambda>w. snd (db_Close (mn_db E) w)) (run_states L z E userConfig w))))))"

definition run_config ::
  "'sid steamid_pkg \<Rightarrow> 'f \<Rightarrow> ('sid, 'f, 't, 'a, 'c, 'w) main_env \<Rightarrow> 'w \<Rightarrow> 'w run_result outcome" where
  "run_config L z E w =
     (if of_mkdir (mn_faults E) (path_Join [mn_ConfigHome E, ConfigDirName]) then Ok (app_fails (os_error ''mkdir'') w)
      else outcome_bind (defaultConsoleLogPath (mn_os E)) (\<lambda>_.
           outcome_bind (config_Path (mn_ConfigFile E) []) (\<lambda>_.
             case Loader_Read L (mn_ReadInConfig E) (mn_Unmarshal E) of
               Inl errConfig \<Rightarrow> Ok (Some (errors_Join [errApp] errConfig), [], w)
             | Inr userConfig \<Rightarrow>
                 (case LoggerInit (mn_faults E) (mn_ConfigHome E) DefaultLogName of
                    Some errLogger \<Rightarrow> Ok (app_fails errLogger w)
                  | None \<Rightarrow> outcome_bind (run_services L z E userConfig w) (\<lambda>rest. Ok (acquired LogFile (deferred LogFile id rest)))))))"

definition main_run ::
  "'sid steamid_pkg \<Rightarrow> 'f \<Rightarrow> ('sid, 'f, 't, 'a, 'c, 'w) main_env \<Rightarrow> 'w \<Rightarrow> 'w run_result outcome" where
  "main_run L z E w =
     (if mn_PROFILE E = [] then run_config L z E w
      else case mn_Create E (mn_PROFILE E) of
             Some err \<Rightarrow> Ok (app_fails err w)
           | None \<Rightarrow>
               (case mn_StartCPUProfile E of
                  Some errStart \<Rightarrow> Ok (acquired ProfileFile (app_fails errStart w))
                | None \<Rightarrow> outcome_bind (run_config L z E w) (\<lambda>rest.
                    Ok (acquired ProfileFile (acquired CPUProfile (deferred CPUProfile id rest))))))"

text \<open>A result that releases what it acquired, with resources of a given list.\<close>

definition balanced :: "main_resource list \<Rightarrow> 'w run_result \<Rightarrow> bool" where
  "balanced avail res = (case res of (err, acts, w) \<Rightarrow>
     (\<exists>rs. subseq rs avail \<and> acts = map Acquire rs @ (if err = None then [RunApp] else []) @ map Release (rev rs)) \<and>
     (\<forall>e. err = Some e \<longrightarrow> errors_Is e errApp))"

lemma balanced_fails [simp]: "balanced avail (app_fails e w)"
  by (auto simp: balanced_def app_fails_def intro: exI [of _ "[]"])

lemma balanced_acquired: "balanced avail res \<Longrightarrow> balanced (r # avail) (acquired r (deferred r close res))"
proof -
  assume b: "balanced avail res"
  obtain err acts w where res: "res = (err, acts, w)" by (cases res)
  with b obtain rs where "subseq rs avail" "acts = map Acquire rs @ (if err = None then [RunApp] else []) @ map Release (rev rs)"
    "\<forall>e. err = Some e \<longrightarrow> errors_Is e errApp" by (auto simp: balanced_def)
  then show ?thesis by (auto simp: res balanced_def acquired_def deferred_def intro!: exI [of _ "r # rs"])
qed

lemma balanced_skip: "balanced avail res \<Longrightarrow> balanced (r # avail) res"
  by (auto simp: balanced_def split: prod.splits)

lemma balanced_session: "balanced avail (None, [RunApp], w)"
  by (auto simp: balanced_def intro: exI [of _ "[]"])

lemma balanced_error: "balanced avail (Some (errors_Join [errApp] e), [], w)"
  by (auto simp: balanced_def intro: exI [of _ "[]"])

lemma balanced_app: "balanced [DebugConsole] (run_app E userConfig states router w)"
  by (auto simp: run_app_def Let_def balanced_session intro: balanced_acquired split: prod.split option.split)

lemma balanced_states: "balanced [DebugConsole] (run_states L z E userConfig w)"
  by (auto simp: run_states_def intro: balanced_app split: prod.split sum.split)

lemma balanced_services:
  "run_services L z E userConfig w = Ok res \<Longrightarrow> balanced [Database, DebugConsole] res"
  by (auto simp: run_services_def outcome_bind_Ok_iff case_prod_beta intro: balanced_acquired balanced_states
      split: sum.splits option.splits)

lemma balanced_config:
  "run_config L z E w = Ok res \<Longrightarrow> balanced [LogFile, Database, DebugConsole] res"
  by (auto simp: run_config_def outcome_bind_Ok_iff intro: balanced_acquired balanced_services balanced_error
      split: if_splits sum.splits option.splits)

text \<open>The profile file, which is created before everything else.\<close>

definition opens_profile :: "('sid, 'f, 't, 'a, 'c, 'w) main_env \<Rightarrow> bool" where
  "opens_profile E \<longleftrightarrow> mn_PROFILE E \<noteq> [] \<and> mn_Create E (mn_PROFILE E) = None"

lemma main_run_profile:
  assumes run: "main_run L z E w = Ok res"
  obtains rest where "balanced [CPUProfile, LogFile, Database, DebugConsole] rest"
    "res = (if opens_profile E then acquired ProfileFile rest else rest)"
proof (cases "opens_profile E")
  case False
  then consider "run_config L z E w = Ok res" | e where "res = app_fails e w"
    using run by (auto simp: main_run_def opens_profile_def split: if_splits)
  with False that show thesis by (metis balanced_config balanced_fails balanced_skip)
next
  case True
  then consider rest where "run_config L z E w = Ok rest" "res = acquired ProfileFile (acquired CPUProfile (deferred CPUProfile id rest))"
    | e where "res = acquired ProfileFile (app_fails e w)"
    using run by (cases "mn_StartCPUProfile E") (simp_all add: main_run_def opens_profile_def outcome_bind_Ok_iff, blast+)
  with True that show thesis by (metis balanced_acquired balanced_config balanced_fails)
qed

text \<open>C25: what the program has done when it returns. It has released every resource it acquired, in the reverse
  order, except the profile file, which it creates first (when \<open>PROFILE\<close> names a file that can be created) and
  never closes; it has run the application between the acquisitions and the releases if and only if it reports no
  error; and every error it reports is an application error.\<close>

theorem main_run_releases:
  assumes "main_run L z E w = Ok (err, acts, w')"
  shows "(\<exists>rs. subseq rs [CPUProfile, LogFile, Database, DebugConsole] \<and>
      acts = (if mn_PROFILE E \<noteq> [] \<and> mn_Create E (mn_PROFILE E) = None then [Acquire ProfileFile] else []) @
        map Acquire rs @ (if err = None then [RunApp] else []) @ map Release (rev rs)) \<and>
    (\<forall>e. err = Some e \<longrightarrow> errors_Is e errApp)"
proof -
  from assms obtain rest where b: "balanced [CPUProfile, LogFile, Database, DebugConsole] rest"
    and res: "(err, acts, w') = (if opens_profile E then acquired ProfileFile rest else rest)" by (rule main_run_profile)
  obtain e0 as0 w0 where rest: "rest = (e0, as0, w0)" by (cases rest)
  show ?thesis using b res unfolding rest balanced_def acquired_def opens_profile_def by (auto split: if_splits)
qed

section \<open>From the servers to the tables\<close>

lemma Snapshots_nth: "i < length (mg_serverStates m) \<Longrightarrow> Snapshots clock m ! i = sv_Snapshot (clock i) (mg_serverStates m ! i)"
  by (simp add: Snapshots_def nth_enumerate_eq)

text \<open>C10: a tick of the state syncer sends the snapshots of all servers in their order, and then the snapshot of one of
  them; a player table that gets it shows the valid players of its team on that server, by descending score.\<close>

theorem tick_shows_players:
  fixes app :: "('sid, 'f, 't, 'a, 'c) App" and table :: "'sid tablePlayerModel"
  assumes "ap_ui app = Some sent" "i < length (mg_serverStates (ap_state app))"
  shows "\<exists>snaps snap. ap_ui (updateUIState z clock i app) = Some (sent @ [SnapshotsMsg snaps, SnapshotMsg snap]) \<and>
     map un_HostPort snaps = map (\<lambda>s. sc_Address (sv_server s)) (mg_serverStates (ap_state app)) \<and>
     td_players (tp_data (fst (player_Update L ToLower (SnapshotMsg snap) table))) =
       rev (sort_key up_Score (filter (\<lambda>p. sid_Valid L (up_SteamID p) \<and> up_Team p = tp_team table)
         (map ui_Player (sv_players (mg_serverStates (ap_state app) ! i)))))"
proof -
  let ?snaps = "map (ui_Snapshot z) (Snapshots clock (ap_state app))"
  have len: "length (Snapshots clock (ap_state app)) = length (mg_serverStates (ap_state app))" by (simp add: Snapshots_def)
  have "us_Players (un_Server (?snaps ! i)) = map ui_Player (sv_players (mg_serverStates (ap_state app) ! i))"
    using assms(2) by (simp add: len Snapshots_nth ui_Snapshot_def sv_Snapshot_def Let_def)
  moreover have "map un_HostPort ?snaps = map (\<lambda>s. sc_Address (sv_server s)) (mg_serverStates (ap_state app))"
    by (rule nth_equalityI) (simp_all add: len Snapshots_nth ui_Snapshot_def sv_Snapshot_def Let_def)
  ultimately show ?thesis
    using assms by (intro exI [of _ ?snaps] exI [of _ "?snaps ! i"]) (auto simp: updateUIState_ui player_Update_Snapshot)
qed

section \<open>Applications at concrete inputs\<close>

lemma demo_manager:
  "\<exists>m router. NewManager num_sid (0 :: int) NewRouter demo_config = ((Inr m :: (int, int, unit, unit, unit) Manager result), router) \<and>
     length (mg_serverStates m) = 2"
proof -
  obtain m router where m: "NewManager num_sid 0 NewRouter demo_config =
      ((Inr m :: (int, int, unit, unit, unit) Manager result), router)"
    using NewManager_ok [of demo_config num_sid 0 NewRouter] by (auto simp: demo_config_def)
  then have "length (mg_serverStates m) = 2"
    using new_servers_states(3) [of num_sid "0 :: int" demo_config "cf_Servers demo_config" 0 NewRouter] NewManager_server(1) [OF _ m]
    by (simp add: demo_config_def)
  with m show ?thesis by blast
qed

type_synonym demo_manager_t = "(int, int, unit, unit, unit) Manager"

abbreviation demo_start :: "demo_manager_t \<Rightarrow> Router \<Rightarrow> (int, int, unit, unit, unit, (string \<times> int) list) app_state" where
  "demo_start m router \<equiv> app_Start 4 (app_New demo_config m router) (\<lambda>_. make_chan 0) []"

abbreviation demo_shown :: "demo_manager_t \<Rightarrow> Router \<Rightarrow> (int, int, unit, unit, unit, (string \<times> int) list) app_state" where
  "demo_shown m router \<equiv> (demo_start m router)\<lparr>as_app := (as_app (demo_start m router))\<lparr>ap_ui := Some []\<rparr>\<rparr>"

lemma demo_created: "app_run num_sid 0 script_rcon [CreateUI] (demo_start m router) = Some (demo_shown m router)"
  by (simp add: app_do_def createUI_def app_Start_def app_New_def)

theorem app_log_in_order_witness:
  "\<exists>m router s. NewManager num_sid 0 NewRouter demo_config = (Inr m, router) \<and>
     app_run num_sid 0 script_rcon [CreateUI, Line 5 ''a:1'' ''hello'', LogRecv, LogSend] (demo_start m router) = Some s \<and>
     subseq (ui_events s) [line_event num_sid 5 ''a:1'' ''hello'']"
proof -
  obtain m :: demo_manager_t and router where m: "NewManager num_sid 0 NewRouter demo_config = (Inr m, router)"
    "length (mg_serverStates m) = 2" using demo_manager by blast
  then have le: "2 * length (mg_serverStates m) \<le> 4" by simp
  have "app_ok (demo_shown m router)"
    using app_run_ok [OF demo_created app_Start_ok [OF m(1) le]] by blast
  from idle_line_arrives [OF this, of "[]" num_sid 0 script_rcon 5 "''a:1''" "''hello''"]
  obtain s where s: "app_run num_sid 0 script_rcon [Line 5 ''a:1'' ''hello'', LogRecv, LogSend] (demo_shown m router) = Some s"
    by (auto simp: app_Start_def make_chan_def simp del: app_run.simps)
  then have run: "app_run num_sid 0 script_rcon [CreateUI, Line 5 ''a:1'' ''hello'', LogRecv, LogSend] (demo_start m router) = Some s"
    using demo_created [of m router] by (simp add: bind_eq_Some_conv)
  from app_log_in_order [OF m(1) le run] have "subseq (ui_events s) [line_event num_sid 5 ''a:1'' ''hello'']"
    by (simp add: lines_of_def map_filter_def)
  with m(1) run show ?thesis by blast
qed

theorem chat_line_ends_ui_witness:
  "\<exists>m router s' e. NewManager num_sid 0 NewRouter demo_config = (Inr m, router) \<and>
     app_run num_sid 0 script_rcon [CreateUI] (demo_start m router) = Some (demo_shown m router) \<and>
     app_run num_sid 0 script_rcon [Line 5 ''a:1'' (chat_text ''bob'' ''hello''), LogRecv, LogSend] (demo_shown m router) = Some s' \<and>
     ap_ui (as_app s') = Some [EventMsg e] \<and> root_Update demo_env 6 (EventMsg e) (demo_sized demo_config) [] = Panic"
proof -
  obtain m :: demo_manager_t and router where m: "NewManager num_sid 0 NewRouter demo_config = (Inr m, router)"
    "length (mg_serverStates m) = 2" using demo_manager by blast
  then have le: "2 * length (mg_serverStates m) \<le> 4" by simp
  have plain: "plain_name '':'' ''bob''" "plain_name ''killed'' (chat_text ''bob'' ''hello'')" by code_simp+
  have "\<exists>s' e. app_run num_sid 0 script_rcon [Line 5 ''a:1'' (chat_text ''bob'' ''hello''), LogRecv, LogSend] (demo_shown m router) = Some s' \<and>
     ap_ui (as_app s') = Some ([] @ [EventMsg e]) \<and>
     (\<forall>r q u. ui_runs demo_env (demo_root demo_config, [], []) (r, q, u) \<longrightarrow> isInitialized r \<longrightarrow>
        root_Update demo_env 6 (EventMsg e) r u = Panic)"
    by (rule chat_line_ends_ui [OF m(1) le demo_created])
      (simp_all add: plain app_Start_def make_chan_def teamPrefix_def deadTeamPrefix_def deadPrefix_def)
  then obtain s' e where "app_run num_sid 0 script_rcon [Line 5 ''a:1'' (chat_text ''bob'' ''hello''), LogRecv, LogSend] (demo_shown m router) = Some s'"
    "ap_ui (as_app s') = Some [EventMsg e]" "root_Update demo_env 6 (EventMsg e) (demo_sized demo_config) [] = Panic"
    using demo_window [of demo_config] demo_initialized [of demo_config] by auto
  with m(1) demo_created [of m router] show ?thesis by blast
qed

definition demo_app :: "(int, int, unit, unit, unit) App" where
  "demo_app =
     (app_New demo_config
        \<lparr>mg_serverStates =
           [(fst (newServerState num_sid 0 demo_config zero_ServerConfig 0 1 NewRouter))\<lparr>sv_players :=
              [(new_Player 1)\<lparr>pl_Name := ''lo'', pl_Team := RED, pl_Score := 2\<rparr>,
               (new_Player 2)\<lparr>pl_Name := ''blu'', pl_Team := BLU\<rparr>,
               (new_Player 3)\<lparr>pl_Name := ''hi'', pl_Team := RED, pl_Score := 9\<rparr>]\<rparr>],
         mg_logSource = SrcLocal (NewLocal []), mg_metaInFlight = False, mg_config = demo_config\<rparr> NewRouter)
     \<lparr>ap_ui := Some []\<rparr>"

theorem tick_shows_players_witness:
  "\<exists>snaps snap. ap_ui (updateUIState 0 (\<lambda>_. 0) 0 demo_app) = Some [SnapshotsMsg snaps, SnapshotMsg snap] \<and>
     map up_Name (td_players (tp_data (fst (player_Update num_sid id (SnapshotMsg snap)
       (newPlayerTableModel num_sid ''z'' RED 0 True))))) = [''hi'', ''lo'']"
proof -
  let ?table = "newPlayerTableModel num_sid ''z'' RED 0 True"
  have "map up_Name (rev (sort_key up_Score (filter (\<lambda>p. sid_Valid num_sid (up_SteamID p) \<and> up_Team p = tp_team ?table)
      (map ui_Player (sv_players (mg_serverStates (ap_state demo_app) ! 0)))))) = [''hi'', ''lo'']"
    by code_simp
  with tick_shows_players [of demo_app "[]" 0 0 "\<lambda>_. 0" num_sid id ?table] show ?thesis
    by (auto simp: demo_app_def app_New_def simp del: map_map)
qed

definition demo_db :: "nat db_lib" where
  "demo_db = \<lparr>db_Open = (\<lambda>p w. (None, Suc w)), db_Exec = (\<lambda>q a w. (None, w)), db_Ping = (\<lambda>w. (None, w)),
     db_Close = (\<lambda>w. (None, w - 1))\<rparr>"

definition demo_main :: "(int, int, unit, unit, unit, nat) main_env" where
  "demo_main = \<lparr>mn_PROFILE = [], mn_Create = (\<lambda>_. None), mn_StartCPUProfile = None, mn_ConfigHome = ''/c'',
     mn_ConfigFile = Inr, mn_faults = no_faults,
     mn_os = \<lparr>oe_CACHE_DIR = None, oe_CacheHome = ''/h'', oe_UserHomeDir = None, oe_GOOS = ''linux'', oe_UserName = None\<rparr>,
     mn_ReadInConfig = ReadOk, mn_Unmarshal = Inr (zero_Config num_sid), mn_NewClientWithResponses = (\<lambda>_. None),
     mn_db = demo_db,
     mn_migrate = \<lparr>mg_Driver = (\<lambda>w. (None, w)), mg_Source = (\<lambda>w. (None, w)), mg_Instance = (\<lambda>w. (None, w)), mg_Run = (\<lambda>_ w. (None, w))\<rparr>,
     mn_OpenFile = Inr, mn_session = (\<lambda>_ w. w)\<rparr>"

text \<open>A run with a profile: the list of acts has no \<open>Release ProfileFile\<close>.\<close>

theorem main_run_releases_witness:
  "\<exists>acts. main_run num_sid 0 (demo_main\<lparr>mn_PROFILE := ''cpu.prof''\<rparr>) 0 = Ok (None, acts, 0) \<and>
     (\<exists>rs. subseq rs [CPUProfile, LogFile, Database, DebugConsole] \<and>
        acts = [Acquire ProfileFile] @ map Acquire rs @ [RunApp] @ map Release (rev rs)) \<and>
     Release ProfileFile \<notin> set acts"
proof -
  let ?acts = "[Acquire ProfileFile, Acquire CPUProfile, Acquire LogFile, Acquire Database, RunApp,
    Release Database, Release LogFile, Release CPUProfile]"
  have run: "main_run num_sid 0 (demo_main\<lparr>mn_PROFILE := ''cpu.prof''\<rparr>) 0 = Ok (None, ?acts, 0)" by code_simp
  have profile: "mn_PROFILE (demo_main\<lparr>mn_PROFILE := ''cpu.prof''\<rparr>) \<noteq> [] \<and>
      mn_Create (demo_main\<lparr>mn_PROFILE := ''cpu.prof''\<rparr>) (mn_PROFILE (demo_main\<lparr>mn_PROFILE := ''cpu.prof''\<rparr>)) = None"
    by (simp add: demo_main_def)
  from main_run_releases [OF run] run show ?thesis unfolding if_P [OF profile] by auto
qed

end
