(* ===== verification/Spec2Isabelle.thy ===== *)
theory Spec2Isabelle
  imports
    Tf Events_Parser Timestamps Rcon Fetcher Config Bd Cache Tfapi_Types Tfapi_Client Meta Events_Router Store Blackbox
    Server_State Server_Run Console Manager Network Ui_Data Ui_Players Ui_Servers Ui_Panels Ui_Config Ui_Root Ui_View
    Ui_Tabs App
begin

text \<open>
  A verification library for tf-tui, a terminal client that watches Team Fortress 2 servers. Paths below are
  relative to src/internal.

  \<^bold>\<open>The program.\<close> A log source (tf/console) hands the lines of the game's log to the event router
  (tf/events/router.go), which parses each line (tf/events/parser.go) and puts the event into the buffered
  channels registered for its server and type. A server state (state/server.go) listens to the events of one
  server and asks the server over rcon (tf/rcon) once per tick; a tick also searches the bot detector lists
  (bd). The match recorder (state/blackbox.go) listens to the same events and writes to the database (store).
  The manager (state/manager.go) owns the server states and the source. The application (cmd/tf-tui/app.go)
  sends snapshots of all states and every log event to the interface (ui), whose root model passes each
  message on to all the other models. Profiles (meta) are downloaded through the generated API client (tfapi)
  and kept in the file cache (cache); config reads and writes the settings; network looks up countries and
  maps ports.

  \<^bold>\<open>The theories.\<close>
  \<^item> \<open>Prelude\<close>: errors, results, panics, shared list lemmas and the locale \<open>step_invariant\<close>. \<open>Go_Strings\<close>,
    \<open>Go_Strconv\<close>, \<open>Go_Path\<close>, \<open>Go_Url\<close>, \<open>Go_Regexp\<close> and \<open>Go_Slices\<close>: what the program uses of Go's standard library,
    with the lemmas on splitting, number formats, escaping, matching and stable sorting the components share. \<open>Steamid\<close>: the
    interface of the steamid package.
  \<^item> \<open>Tf\<close> (tf/tf.go), \<open>Events_Parser\<close> and \<open>Timestamps\<close> (tf/events/parser.go), \<open>Events_Router\<close>
    (tf/events/router.go), \<open>Rcon\<close> and \<open>Fetcher\<close> (tf/rcon), \<open>Console\<close> (tf/console): data of the game, its texts
    and its connections.
  \<^item> \<open>Config\<close> (config), \<open>Bd\<close> (bd), \<open>Cache\<close> (cache), \<open>Tfapi\<close>, \<open>Tfapi_Types\<close> and \<open>Tfapi_Client\<close> (tfapi),
    \<open>Meta\<close> (meta), \<open>Store\<close> (store), \<open>Network\<close> (network): settings and outside services. \<open>Tfapi\<close> has the types the
    program's own code uses, \<open>Tfapi_Types\<close> the other types of the API, and \<open>Tfapi_Client\<close> the client with the request,
    the call and the response parser of each of its 23 operations.
  \<^item> \<open>Blackbox\<close>, \<open>Server_State\<close>, \<open>Server_Run\<close>, \<open>Manager\<close> (state): what the program knows. \<open>Server_State\<close> has
    one function per operation; \<open>Server_Run\<close> has the loop of \<open>start\<close> as a step relation.
  \<^item> \<open>Ui_Data\<close>, \<open>Ui_Players\<close>, \<open>Ui_Servers\<close>, \<open>Ui_Panels\<close>, \<open>Ui_Config\<close>, \<open>Ui_Root\<close> (ui): the models of the
    interface, each a record with an \<open>Update\<close> from a message to the new model and the messages it asks for. \<open>Ui_View\<close>
    has their views over the record \<open>view_lib\<close> of the terminal library. \<open>Ui_Tabs\<close> shows that drawing cannot panic and
    how the highlighted tab and the shown panel are related.
  \<^item> \<open>App\<close> (cmd/tf-tui): the goroutines of the application and the startup in main.go.

  A struct is a record with the fields of the source under a two-letter prefix, an enumeration a datatype or,
  where the code calculates with it, an integer; a method is a function that takes its receiver last and
  returns it changed. Names are those of the source, with a prefix where several types have a method of the
  same name (\<open>bb_Start\<close>, \<open>sv_Snapshot\<close>, \<open>player_Update\<close>).

  \<^bold>\<open>Conventions.\<close>
  \<^item> A Go string is its sequence of bytes. \<open>int\<close> values are integers; bounds are written out where a number is
    parsed or wraps (bit sizes in \<open>Go_Strconv\<close>, the 16 bits of a port, the 64 bits of the count of packets, the
    saturation of \<open>time.Since\<close>). Times are nanoseconds since 1970.
  \<^item> An error is the list of the sentinels joined in it, since the code only asks \<open>errors.Is\<close>. Calls that fail
    return \<open>Inl\<close>; a panic is \<open>Panic\<close> of the type \<open>outcome\<close>.
  \<^item> A package that is not part of the repository is a record of functions that every definition using it takes
    as an argument (\<open>steamid_pkg\<close>, \<open>viper_lib\<close>, \<open>rcon_lib\<close>, \<open>http_lib\<close>, \<open>api_lib\<close>, \<open>db_lib\<close>, \<open>geo_lib\<close>, \<open>input_lib\<close>, \<open>view_lib\<close>
    and others), on a
    world \<open>'w\<close> where its answers depend on what happened before. What a theorem needs of such a package is a
    named predicate, such as \<open>steamid_laws\<close>, and its witness instantiates the package.
  \<^item> A loop over a channel or a ticker is a fold over the list of its turns, so every theorem about it is about
    all sequences of turns. Concurrent parts are interleaved: \<open>server_step\<close> for the two goroutines of a tick,
    \<open>app_do\<close> for the goroutines of the application, and the order of arrival as an argument of \<open>Update\<close> in \<open>Bd\<close>.
  \<^item> The loop that reads the packets of a large answer may wait forever. It is a \<open>partial_function\<close> in which not
    returning is \<open>None\<close>, and that it returns is proved. All other functions are total and no fuel is used.

  \<^bold>\<open>Interfaces.\<close> The locale \<open>cache\<close> states what a client of the cache relies on at one moment, and \<open>aging_cache\<close>
  extends it by the lookups of a later moment; the file cache interprets both, the second for every moment within a
  week. \<open>profile_cache\<close> is an \<open>aging_cache\<close> with the keys of profiles, and the profile lemmas of \<open>Meta\<close> are proved
  inside it.
  \<open>receiver\<close> is the interface between a log source and the router. \<open>player_table\<close> gives the laws of looking up
  after inserting for the players of a server state. \<open>comparison\<close> is a comparison function that is a total
  preorder, interpreted for keys in both directions and for the columns of the player table. \<open>step_invariant\<close>
  carries an invariant from the steps of a relation to its runs; it is interpreted for the server states, for
  the views of the interface that cannot be left, for the chat panel without rows, for the fields of the form, which the
  view indexes, and for the tabs when messages arrive in order.

  \<^bold>\<open>What is shown.\<close>
  \<^item> Texts: lines of kills, dumps of the game, console variables and timestamps are read back as what they were
    printed from, for all values the formats allow; an event has data of the type it announces; numbers
    that match the status pattern always convert; the dump parser panics, on any text, exactly for entries whose 32-bit
    index is past its arrays.
  \<^item> Connections: large answers are complete up to the first short packet; registration either finds its address
    in the list of the server or fails with its error; in server mode players keep the order of their user ids.
  \<^item> Lists, cache and settings: a search after a download finds exactly the matches in whatever order the lists
    arrive; what is stored is read back for a week, and profiles that were fetched are for a week exactly what a
    later call returns, without the API; every failure of the cache is a miss. Settings go through the document the
    loader writes: a new start reads what was saved, but for the secrets of the user lists. The request of an operation of the API goes to its path below the
    base URL, and its query decodes to the parameters it was built from; for profiles the whole call is followed from
    the client of the program start to the answer.
  \<^item> State: ids stay different under every interleaving, each operation changes what it should and nothing
    else, expiry keeps exactly the recent players, and the recorder counts the kills of the match.
  \<^item> Composition: a datagram with a server's secret becomes one event at the two channels of that server and
    nowhere else; log events reach the interface in the order of their lines; a tick shows the players of the
    states in the tables; the start of the program releases what it acquired in reverse order on every path, except
    the profile file, which it never closes.
  \<^item> Interface: sorting by the fields behind the columns, selection, the server table, and the machine of views that the
    keys implement. Drawing the screen indexes players, columns and form fields (\<open>index_at\<close>, which panics out of range)
    and never panics in a state the interface reaches. The highlighted tab is the shown one whenever messages arrive in the order they were sent.
  \<^item> Faults of the code are theorems about what it does: a chat line panics the interface, four keys lead to a
    view that cannot be left, a tick can lose an answer, a batch with a known player adds no new one, a
    datagram can panic the listener, client mode with an address hears nothing, the console sends no command,
    the form writes the settings of the program's start with its three values, an answer of the API without JSON panics, two tab
    messages that are delivered in the other order leave another tab highlighted than the one that is shown, and the
    profile file stays open.

  \<^bold>\<open>Not modelled.\<close>
  \<^item> The terminal library: what a style, a table or a widget looks like on the screen. A style is its name in
    ui/styles/styles.go, so the colours and borders of that file and the settings of the list widgets in
    ui/model/plugin_list.go have no counterpart, nor have scroll positions. \<open>Update\<close> functions that keep rendered rows
    take the rendering as a parameter, and \<open>safeString\<close> is one.
  \<^item> Of the generated API client the interfaces \<open>ClientInterface\<close> and \<open>ClientWithResponsesInterface\<close>, which only list
    the operations. The runtime package, which writes parameters as text, is a parameter with the law \<open>style_laws\<close>.
  \<^item> The command line library with its version texts, what the profiler writes, and the log handler in main.go.
  \<^item> The \<open>Init\<close> methods of the interface, which ask for a blinking cursor, a window title and the RED team, and code
    nothing calls: \<open>addressValidator\<close> of ui/text_input.go and \<open>Placeholder\<close> of ui/chat.go.
  \<^item> Logging calls, which have no effect on the state, and the mutexes, whose critical sections are the steps.
\<close>

end
